(* ===== verification/Prelude.thy ===== *)
theory Prelude
  imports
    Main
    "HOL-Library.Word"
    "HOL-Library.Char_ord"
    "HOL-Library.List_Lexorder"
    "HOL-Library.Sublist"
    "HOL-Library.Multiset"
begin

text \<open>
  Shared vocabulary of the development. It holds the machine integer types of the
  source, Rust's \<open>Result\<close> as a sum type with the \<open>?\<close> operator, the list idioms the
  components share (\<open>windows(2)\<close>, stable sorting by an identity), Rust's saturating
  and checked arithmetic, and the generic lemmas about them. The components put
  their rewrite rules into the collections declared here.
\<close>

named_theorems kernel_defs \<open>definitions of the transition kernel that proofs unfold together\<close>
named_theorems accessor_simps \<open>equations of the state accessors\<close>

section \<open>Machine integers and byte strings\<close>

type_synonym u8 = "8 word"
type_synonym u32 = "32 word"
type_synonym u64 = "64 word"
type_synonym u128 = "128 word"
type_synonym bytes = "u8 list"

text \<open>Rust's \<open>str::as_bytes\<close>: a \<^typ>\<open>string\<close> is the list of its UTF-8 bytes.\<close>

definition as_bytes :: "string \<Rightarrow> bytes" where
  "as_bytes s = map of_char s"

lemma of_char_u8_inject [simp]: "(of_char c :: u8) = of_char d \<longleftrightarrow> c = d"
proof
  assume "(of_char c :: u8) = of_char d"
  then have "unat (of_nat (of_char c) :: u8) = unat (of_nat (of_char d) :: u8)"
    by (simp add: of_nat_of_char)
  then show "c = d"
    by (simp add: unat_of_nat)
qed simp

lemma as_bytes_inject [simp]: "as_bytes s = as_bytes t \<longleftrightarrow> s = t"
  by (auto simp: as_bytes_def inj_map_eq_map inj_def)

lemma length_as_bytes [simp]: "length (as_bytes s) = length s"
  by (simp add: as_bytes_def)

text \<open>Rust's \<open>saturating_add\<close> and \<open>checked_sub\<close> on unsigned integers.\<close>

definition saturating_add :: "'w::len word \<Rightarrow> 'w word \<Rightarrow> 'w word" where
  "saturating_add a b = (if unat a + unat b < 2 ^ LENGTH('w) then a + b else - 1)"

definition checked_sub :: "'w::len word \<Rightarrow> 'w word \<Rightarrow> 'w word option" where
  "checked_sub a b = (if b \<le> a then Some (a - b) else None)"

lemma saturating_add_one:
  assumes "a < b"
  shows "saturating_add a 1 = a + 1" and "a < a + 1" and "a + 1 \<le> b"
proof -
  have lt: "unat a < unat b" using assms by (simp add: word_less_nat_alt)
  have bound: "unat a + 1 < 2 ^ LENGTH('a)"
    using lt unsigned_less [of b, where ?'a = nat] by linarith
  then show "saturating_add a 1 = a + 1"
    by (simp add: saturating_add_def)
  have "unat (a + 1) = unat a + 1"
    using bound by (simp add: unat_word_ariths)
  then show "a < a + 1" and "a + 1 \<le> b"
    using lt by (simp_all add: word_less_nat_alt word_le_nat_alt)
qed

lemma unat_saturating_add_one:
  assumes "a < b"
  shows "unat (saturating_add a 1) = unat a + 1"
proof -
  have "unat a < unat b" using assms by (simp add: word_less_nat_alt)
  then have "unat a + 1 < 2 ^ LENGTH('a)"
    using unsigned_less [of b, where ?'a = nat] by linarith
  then show ?thesis
    by (simp add: saturating_add_def unat_word_ariths)
qed

lemma saturating_add_one_neq: "a < b \<Longrightarrow> saturating_add a 1 \<noteq> a"
  using unat_saturating_add_one [of a b] by auto

lemma saturating_add_ge: "a \<le> saturating_add a (b :: 'w::len word)"
  by (auto simp: saturating_add_def word_le_nat_alt [of a "a + b"] unat_word_ariths)

lemma checked_sub_eq_Some:
  "checked_sub a b = Some c \<longleftrightarrow> b \<le> a \<and> c = a - b"
  by (auto simp: checked_sub_def)

section \<open>Results\<close>

text \<open>
  \<open>Result<T, E>\<close> is the sum \<open>'e + 'a\<close>. \<open>try_then\<close> is the \<open>?\<close> operator: it passes
  an error on and otherwise continues with the value.
\<close>

abbreviation Ok :: "'a \<Rightarrow> 'e + 'a" where
  "Ok \<equiv> Inr"

abbreviation Err :: "'e \<Rightarrow> 'e + 'a" where
  "Err \<equiv> Inl"

definition try_then :: "'e + 'a \<Rightarrow> ('a \<Rightarrow> 'e + 'b) \<Rightarrow> 'e + 'b" where
  "try_then r f = (case r of Inl e \<Rightarrow> Inl e | Inr a \<Rightarrow> f a)"

definition map_err :: "('e \<Rightarrow> 'f) \<Rightarrow> 'e + 'a \<Rightarrow> 'f + 'a" where
  "map_err f r = (case r of Inl e \<Rightarrow> Inl (f e) | Inr a \<Rightarrow> Inr a)"

definition is_ok :: "'e + 'a \<Rightarrow> bool" where
  "is_ok r = (case r of Inl _ \<Rightarrow> False | Inr _ \<Rightarrow> True)"

definition ok_or :: "'a option \<Rightarrow> 'e \<Rightarrow> 'e + 'a" where
  "ok_or v e = (case v of None \<Rightarrow> Inl e | Some a \<Rightarrow> Inr a)"

lemma try_then_simps [simp]:
  "try_then (Inl e) f = Inl e"
  "try_then (Inr a) f = f a"
  by (simp_all add: try_then_def)

lemma try_then_eq_Ok [simp]:
  "try_then r f = Inr b \<longleftrightarrow> (\<exists>a. r = Inr a \<and> f a = Inr b)"
  by (cases r) auto

lemma try_then_eq_Err:
  "try_then r f = Inl e \<longleftrightarrow> r = Inl e \<or> (\<exists>a. r = Inr a \<and> f a = Inl e)"
  by (cases r) auto

lemma map_err_simps [simp]:
  "map_err f (Inl e) = Inl (f e)"
  "map_err f (Inr a) = Inr a"
  by (simp_all add: map_err_def)

lemma map_err_eq_Ok [simp]: "map_err f r = Inr a \<longleftrightarrow> r = Inr a"
  by (cases r) auto

lemma is_ok_simps [simp]: "\<not> is_ok (Inl e)" "is_ok (Inr a)"
  by (simp_all add: is_ok_def)

lemma is_ok_iff: "is_ok r \<longleftrightarrow> (\<exists>a. r = Inr a)"
  by (cases r) auto

lemma ok_or_eq_Ok [simp]: "ok_or v e = Inr a \<longleftrightarrow> v = Some a"
  by (cases v) (auto simp: ok_or_def)

lemma ok_or_simps [simp]: "ok_or None e = Inl e" "ok_or (Some a) e = Inr a"
  by (simp_all add: ok_or_def)

text \<open>An early return \<open>if c { return Err(e) }\<close> in front of a successful result.\<close>

lemma if_Err_eq_Ok [simp]:
  "(if c then Inl e else r) = Inr a \<longleftrightarrow> \<not> c \<and> r = Inr a"
  "(if c then r else Inl e) = Inr a \<longleftrightarrow> c \<and> r = Inr a"
  by auto

text \<open>\<open>let Some(a) = v else { return Err(e) }\<close>\<close>

lemma option_case_eq_Ok:
  "(case v of None \<Rightarrow> Inl e | Some a \<Rightarrow> f a) = Inr b \<longleftrightarrow> (\<exists>a. v = Some a \<and> f a = Inr b)"
  by (cases v) auto

lemma unit_eq_Ok: "(r :: 'e + unit) = Inr u \<longleftrightarrow> is_ok r"
  by (cases r) auto

section \<open>List idioms\<close>

text \<open>\<open>xs.windows(2).any(|pair| p(pair[0], pair[1]))\<close>\<close>

fun windows_any :: "('a \<Rightarrow> 'a \<Rightarrow> bool) \<Rightarrow> 'a list \<Rightarrow> bool" where
  "windows_any p (x # y # ys) = (p x y \<or> windows_any p (y # ys))"
| "windows_any p _ = False"

text \<open>\<open>xs.windows(2).all(|pair| p(pair[0], pair[1]))\<close>\<close>

definition windows_all :: "('a \<Rightarrow> 'a \<Rightarrow> bool) \<Rightarrow> 'a list \<Rightarrow> bool" where
  "windows_all p xs = (\<not> windows_any (\<lambda>x y. \<not> p x y) xs)"

lemma windows_any_eq_sorted:
  assumes "sorted (map f xs)"
  shows "windows_any (\<lambda>x y. f x = f y) xs \<longleftrightarrow> \<not> distinct (map f xs)"
  using assms
proof (induction "\<lambda>x y. f x = f y" xs rule: windows_any.induct)
  case (1 x y ys)
  then show ?case by (auto simp: order.antisym)
qed auto

lemma windows_all_less:
  "windows_all (<) xs \<longleftrightarrow> sorted_wrt (<) (xs :: 'a::linorder list)"
proof (induction "\<lambda>x y. \<not> ((x::'a) < y)" xs rule: windows_any.induct)
  case (1 x y ys)
  then show ?case
    by (auto simp: windows_all_def intro: order.strict_trans)
qed (simp_all add: windows_all_def)

lemma windows_any_ge:
  "windows_any (\<ge>) xs \<longleftrightarrow> \<not> sorted_wrt (<) (xs :: 'a::linorder list)"
  using windows_all_less [of xs] by (auto simp: windows_all_def not_less)

lemma append_eq_same_length:
  assumes "xs @ us = ys @ vs" and "length xs = length ys"
  shows "xs = ys" and "us = vs"
  using assms by simp_all

text \<open>Collecting a list into a \<open>BTreeSet\<close> keeps its length exactly when it has no duplicate.\<close>

lemma card_set_eq_length: "card (set xs) = length xs \<longleftrightarrow> distinct xs"
  by (metis card_distinct distinct_card)

text \<open>Stable sorting by an injective identity depends only on the multiset of elements.\<close>

lemma filter_same_identity:
  assumes "distinct (map f xs)" and "k \<in> set xs"
  shows "filter (\<lambda>x. f k = f x) xs = [k]"
  using assms
proof (induction xs)
  case (Cons x xs)
  then show ?case
    by (cases "k = x") (auto simp: filter_empty_conv intro: rev_image_eqI)
qed simp

lemma sort_key_cong_distinct:
  assumes "mset xs = mset ys" and "distinct (map f xs)"
  shows "sort_key f xs = sort_key f ys"
proof (rule properties_for_sort_key)
  show "mset (sort_key f ys) = mset xs" using assms(1) by simp
  show "sorted (map f (sort_key f ys))" by simp
  fix k assume k: "k \<in> set (sort_key f ys)"
  have "mset (map f (sort_key f ys)) = mset (map f xs)"
    using assms(1) by simp
  then have "distinct (map f (sort_key f ys))"
    using assms(2) by (metis mset_eq_imp_distinct_iff)
  moreover have "k \<in> set xs"
    using k assms(1) by (metis mset_eq_setD set_sort)
  ultimately show "filter (\<lambda>x. f k = f x) (sort_key f ys) = filter (\<lambda>x. f k = f x) xs"
    using filter_same_identity k assms(2) by metis
qed

lemma sort_key_sorted_id: "sorted (map f xs) \<Longrightarrow> sort_key f xs = xs"
  by (rule properties_for_sort_key) auto

section \<open>Loops\<close>

text \<open>A \<open>for\<close> loop whose body may return early with an error.\<close>

fun try_fold :: "('b \<Rightarrow> 'a \<Rightarrow> 'e + 'b) \<Rightarrow> 'b \<Rightarrow> 'a list \<Rightarrow> 'e + 'b" where
  "try_fold f b [] = Ok b"
| "try_fold f b (x # xs) = try_then (f b x) (\<lambda>b'. try_fold f b' xs)"

fun try_map :: "('a \<Rightarrow> 'e + 'b) \<Rightarrow> 'a list \<Rightarrow> 'e + 'b list" where
  "try_map f [] = Ok []"
| "try_map f (x # xs) = try_then (f x) (\<lambda>y. try_then (try_map f xs) (\<lambda>ys. Ok (y # ys)))"

lemma try_fold_append:
  "try_fold f b (xs @ ys) = try_then (try_fold f b xs) (\<lambda>b'. try_fold f b' ys)"
proof (induction xs arbitrary: b)
  case (Cons x xs)
  then show ?case by (cases "f b x") auto
qed simp

lemma try_map_snoc:
  "try_map f (xs @ [x]) = Ok zs \<longleftrightarrow> (\<exists>ys y. try_map f xs = Ok ys \<and> f x = Ok y \<and> zs = ys @ [y])"
  by (induction xs arbitrary: zs) (auto simp: Cons_eq_append_conv)

lemma try_map_length: "try_map f xs = Ok ys \<Longrightarrow> length ys = length xs"
  by (induction xs arbitrary: ys) auto

lemma try_fold_unit_Ok:
  "try_fold (\<lambda>_. f) () xs = Ok () \<longleftrightarrow> (\<forall>x \<in> set xs. f x = Ok ())"
  by (induction xs) auto

end
