(* ===== verification/Content_Digest.thy ===== *)
theory Content_Digest
  imports Prelude
begin

text \<open>
  The algorithm-qualified SHA-256 digests and the strict canonical JSON documents of
  \<open>crates/ag-primitives/src/digest.rs\<close>. SHA-256 itself, the \<open>hex\<close> crate, the JSON
  parser and the RFC 8785 printer are third-party code: they are the fields of the
  library records below, and the laws the lemmas need of them are the predicates
  \<open>sha256_law\<close>, \<open>hex_law\<close> and \<open>jcs_law\<close>.
\<close>

section \<open>Digests\<close>

datatype Digest = Digest (as_str: string)

text \<open>\<open>#[derive(Ord)]\<close> on \<open>Digest(String)\<close>: the byte order of the texts.\<close>

instantiation Digest :: linorder
begin

definition less_eq_Digest :: "Digest \<Rightarrow> Digest \<Rightarrow> bool" where
  "less_eq_Digest a b = (as_str a \<le> as_str b)"

definition less_Digest :: "Digest \<Rightarrow> Digest \<Rightarrow> bool" where
  "less_Digest a b = (as_str a < as_str b)"

instance
  by standard
    (auto simp: less_eq_Digest_def less_Digest_def intro: Digest.expand)

end

text \<open>What the source uses of the crates \<open>sha2\<close> and \<open>hex\<close>.\<close>

record digest_lib =
  sha256 :: "bytes \<Rightarrow> bytes"
  hex_encode :: "bytes \<Rightarrow> string"
  hex_decode_32 :: "string \<Rightarrow> bytes option"

definition SHA256_PREFIX :: string where
  "SHA256_PREFIX = ''sha256:''"

definition SHA256_HEX_LENGTH :: nat where
  "SHA256_HEX_LENGTH = 64"

definition SHA256_TEXT_LENGTH :: nat where
  "SHA256_TEXT_LENGTH = length SHA256_PREFIX + SHA256_HEX_LENGTH"

definition hash_bytes :: "'l digest_lib_scheme \<Rightarrow> bytes \<Rightarrow> Digest" where
  "hash_bytes L b = Digest (SHA256_PREFIX @ hex_encode L (sha256 L b))"

text \<open>Rust's \<open>u128::to_be_bytes\<close>.\<close>

definition u128_to_be_bytes :: "u128 \<Rightarrow> bytes" where
  "u128_to_be_bytes w = rev (map (\<lambda>i. ucast (drop_bit (8 * i) w)) [0..<16])"

definition hash_domain_preimage :: "string \<Rightarrow> bytes \<Rightarrow> bytes" where
  "hash_domain_preimage domain payload =
     as_bytes (''ag-ng'' @ [CHR 0x00] @ ''digest'' @ [CHR 0x00] @ ''v1'' @ [CHR 0x00])
     @ u128_to_be_bytes (word_of_nat (length domain))
     @ as_bytes domain
     @ u128_to_be_bytes (word_of_nat (length payload))
     @ payload"

definition hash_domain :: "'l digest_lib_scheme \<Rightarrow> string \<Rightarrow> bytes \<Rightarrow> Digest" where
  "hash_domain L domain payload =
     Digest (SHA256_PREFIX @ hex_encode L (sha256 L (hash_domain_preimage domain payload)))"

datatype DigestParseError =
    Length nat
  | Algorithm
  | Hex nat string
  | InternalHexInvariant

definition is_lower_hex :: "char \<Rightarrow> bool" where
  "is_lower_hex c = (CHR ''0'' \<le> c \<and> c \<le> CHR ''9'' \<or> CHR ''a'' \<le> c \<and> c \<le> CHR ''f'')"

text \<open>
  \<open>encoded.char_indices().find(..)\<close>: the offset of the first rejected character and that character, as the
  bytes of its UTF-8 encoding, whose number the first byte tells.
\<close>

definition utf8_width :: "char \<Rightarrow> nat" where
  "utf8_width c = (if c < CHR 0x80 then 1 else if c < CHR 0xE0 then 2 else if c < CHR 0xF0 then 3 else 4)"

fun find_non_hex :: "nat \<Rightarrow> string \<Rightarrow> (nat \<times> string) option" where
  "find_non_hex i [] = None"
| "find_non_hex i (c # cs) =
     (if is_lower_hex c then find_non_hex (Suc i) cs else Some (i, take (utf8_width c) (c # cs)))"

definition digest_from_str :: "'l digest_lib_scheme \<Rightarrow> string \<Rightarrow> DigestParseError + Digest" where
  "digest_from_str L value =
     (if length value \<noteq> SHA256_TEXT_LENGTH then Err (Length (length value))
      else if \<not> prefix SHA256_PREFIX value then Err Algorithm
      else (let encoded = drop (length SHA256_PREFIX) value in
        case find_non_hex 0 encoded of
          Some (index, character) \<Rightarrow> Err (Hex index character)
        | None \<Rightarrow>
            (case hex_decode_32 L encoded of
               None \<Rightarrow> Err InternalHexInvariant
             | Some raw \<Rightarrow> Ok (Digest value))))"

text \<open>\<open>raw_bytes\<close> panics where the decoder refuses; \<^const>\<open>None\<close> is that panic.\<close>

definition raw_bytes :: "'l digest_lib_scheme \<Rightarrow> Digest \<Rightarrow> bytes option" where
  "raw_bytes L d = hex_decode_32 L (drop (length SHA256_PREFIX) (as_str d))"

subsection \<open>Documented behaviour of the libraries\<close>

definition sha256_law :: "'l digest_lib_scheme \<Rightarrow> bool" where
  "sha256_law L = (\<forall>b. length (sha256 L b) = 32)"

definition hex_law :: "'l digest_lib_scheme \<Rightarrow> bool" where
  "hex_law L =
     ((\<forall>b. length b = 32 \<longrightarrow>
         length (hex_encode L b) = 64 \<and> list_all is_lower_hex (hex_encode L b)
         \<and> hex_decode_32 L (hex_encode L b) = Some b)
      \<and> (\<forall>s. length s = 64 \<and> list_all is_lower_hex s \<longrightarrow> hex_decode_32 L s \<noteq> None))"

text \<open>A length that a Rust slice can have (\<open>usize\<close> on the 64-bit target).\<close>

definition usize_length :: "'a list \<Rightarrow> bool" where
  "usize_length xs = (length xs < 2 ^ 64)"

text \<open>No collision of SHA-256 between two given inputs.\<close>

definition no_collision :: "'l digest_lib_scheme \<Rightarrow> bytes \<Rightarrow> bytes \<Rightarrow> bool" where
  "no_collision L x y = (sha256 L x = sha256 L y \<longrightarrow> x = y)"

subsection \<open>The framing interface\<close>

text \<open>
  Every component that hashes under a domain relies on one contract: the framed
  bytes determine the domain and the payload. The lemmas about digests are proved
  once for any framing that keeps the contract.
\<close>

locale domain_framing =
  fixes frame :: "string \<Rightarrow> bytes \<Rightarrow> bytes"
    and framable :: "string \<Rightarrow> bytes \<Rightarrow> bool"
  assumes frame_inject:
    "framable d p \<Longrightarrow> framable d' p' \<Longrightarrow> frame d p = frame d' p' \<Longrightarrow> d = d' \<and> p = p'"
begin

lemma framed_hash_inject:
  assumes "framable d p" and "framable d' p'"
    and "inj_on h {frame d p, frame d' p'}" and "h (frame d p) = h (frame d' p')"
  shows "d = d' \<and> p = p'"
  using assms(3,4) by (intro frame_inject [OF assms(1,2)]) (auto dest: inj_onD)

lemma domains_separate:
  assumes "framable d p" and "framable d' p'" and "d \<noteq> d'"
    and "inj_on h {frame d p, frame d' p'}"
  shows "h (frame d p) \<noteq> h (frame d' p')"
  using framed_hash_inject [OF assms(1,2,4)] assms(3) by blast

end

subsection \<open>Lemmas\<close>

lemma length_u128_to_be_bytes [simp]: "length (u128_to_be_bytes w) = 16"
  by (simp add: u128_to_be_bytes_def)

lemma u128_to_be_bytes_inject [simp]:
  "u128_to_be_bytes v = u128_to_be_bytes w \<longleftrightarrow> v = w"
proof
  assume "u128_to_be_bytes v = u128_to_be_bytes w"
  then have chunk: "(ucast (drop_bit (8 * i) v) :: u8) = ucast (drop_bit (8 * i) w)"
    if "i < 16" for i
    using that by (simp add: u128_to_be_bytes_def)
  show "v = w"
  proof (rule bit_word_eqI)
    fix n assume n: "n < LENGTH(128)"
    have "bit (ucast (drop_bit (8 * (n div 8)) v) :: u8) (n mod 8)
        = bit (ucast (drop_bit (8 * (n div 8)) w) :: u8) (n mod 8)"
      using chunk [of "n div 8"] n by simp
    then show "bit v n = bit w n"
      by (simp add: bit_simps)
  qed
qed simp

lemma usize_length_u128:
  assumes "usize_length xs" and "usize_length ys"
    and "(word_of_nat (length xs) :: u128) = word_of_nat (length ys)"
  shows "length xs = length ys"
proof -
  have "unat (word_of_nat (length xs) :: u128) = unat (word_of_nat (length ys) :: u128)"
    using assms(3) by simp
  moreover have "length xs < 2 ^ 128" "length ys < 2 ^ 128"
    using assms(1,2) by (simp_all add: usize_length_def)
  ultimately show ?thesis
    by (simp add: unat_of_nat)
qed

lemma hash_domain_preimage_inject:
  assumes "usize_length d" "usize_length p" "usize_length d'" "usize_length p'"
    and eq: "hash_domain_preimage d p = hash_domain_preimage d' p'"
  shows "d = d' \<and> p = p'"
proof -
  have frame: "u128_to_be_bytes (word_of_nat (length d)) @ as_bytes d
        @ u128_to_be_bytes (word_of_nat (length p)) @ p
      = u128_to_be_bytes (word_of_nat (length d')) @ as_bytes d'
        @ u128_to_be_bytes (word_of_nat (length p')) @ p'"
    using eq unfolding hash_domain_preimage_def by (simp only: same_append_eq)
  have "u128_to_be_bytes (word_of_nat (length d)) = u128_to_be_bytes (word_of_nat (length d'))"
    using append_eq_same_length(1) [OF frame] by simp
  then have len: "length d = length d'"
    using usize_length_u128 [OF assms(1,3)] by simp
  have rest: "as_bytes d @ u128_to_be_bytes (word_of_nat (length p)) @ p
      = as_bytes d' @ u128_to_be_bytes (word_of_nat (length p')) @ p'"
    using append_eq_same_length(2) [OF frame] by simp
  have "as_bytes d = as_bytes d'"
    using append_eq_same_length(1) [OF rest] len by simp
  moreover have tail: "u128_to_be_bytes (word_of_nat (length p)) @ p
      = u128_to_be_bytes (word_of_nat (length p')) @ p'"
    using append_eq_same_length(2) [OF rest] len by simp
  ultimately show ?thesis
    using append_eq_same_length(2) [OF tail] by simp
qed

interpretation ag_frame: domain_framing hash_domain_preimage
    "\<lambda>d p. usize_length d \<and> usize_length p"
  by unfold_locales (blast dest: hash_domain_preimage_inject)

lemma hex_law_decode:
  "hex_law L \<Longrightarrow> length b = 32 \<Longrightarrow> hex_decode_32 L (hex_encode L b) = Some b"
  unfolding hex_law_def by blast

lemma hex_law_encode:
  "hex_law L \<Longrightarrow> length b = 32 \<Longrightarrow>
     length (hex_encode L b) = 64 \<and> list_all is_lower_hex (hex_encode L b)"
  unfolding hex_law_def by blast

lemma hex_law_total:
  "hex_law L \<Longrightarrow> length s = 64 \<Longrightarrow> list_all is_lower_hex s \<Longrightarrow> hex_decode_32 L s \<noteq> None"
  unfolding hex_law_def by blast

lemma sha256_law_length: "sha256_law L \<Longrightarrow> length (sha256 L b) = 32"
  by (simp add: sha256_law_def)

lemma hex_encode_inject:
  assumes "sha256_law L" and "hex_law L"
    and "hex_encode L (sha256 L x) = hex_encode L (sha256 L y)"
  shows "sha256 L x = sha256 L y"
  by (metis assms hex_law_decode option.inject sha256_law_length)

lemma find_non_hex_None: "find_non_hex i s = None \<longleftrightarrow> list_all is_lower_hex s"
  by (induction s arbitrary: i) auto

text \<open>The accepted texts are exactly the prefix followed by 64 lower-case hexadecimal digits.\<close>

definition canonical_digest_text :: "string \<Rightarrow> bool" where
  "canonical_digest_text s =
     (\<exists>h. s = SHA256_PREFIX @ h \<and> length h = 64 \<and> list_all is_lower_hex h)"

lemma digest_from_str_accepts:
  assumes "hex_law L"
  shows "digest_from_str L s = Ok d \<longleftrightarrow> canonical_digest_text s \<and> d = Digest s"
proof
  assume "digest_from_str L s = Ok d"
  then show "canonical_digest_text s \<and> d = Digest s"
    by (auto simp: digest_from_str_def canonical_digest_text_def Let_def SHA256_TEXT_LENGTH_def
        SHA256_HEX_LENGTH_def find_non_hex_None prefix_def split: option.splits)
next
  assume *: "canonical_digest_text s \<and> d = Digest s"
  then obtain h where h: "s = SHA256_PREFIX @ h" "length h = 64" "list_all is_lower_hex h"
    by (auto simp: canonical_digest_text_def)
  moreover have "find_non_hex 0 h = None"
    using h(3) by (simp add: find_non_hex_None)
  moreover have "hex_decode_32 L h \<noteq> None"
    using hex_law_total [OF assms h(2,3)] .
  ultimately show "digest_from_str L s = Ok d"
    using * by (auto simp: digest_from_str_def Let_def SHA256_TEXT_LENGTH_def
        SHA256_HEX_LENGTH_def split: option.splits)
qed

lemma hash_text_canonical:
  assumes "sha256_law L" and "hex_law L"
  shows "canonical_digest_text (as_str (hash_bytes L b))"
    and "canonical_digest_text (as_str (hash_domain L d p))"
  using hex_law_encode [OF assms(2) sha256_law_length [OF assms(1)]]
  by (simp_all add: canonical_digest_text_def hash_bytes_def hash_domain_def)

lemma hash_domain_collision_free:
  assumes "sha256_law L" and "hex_law L"
    and "usize_length d" "usize_length p" "usize_length d'" "usize_length p'"
    and "no_collision L (hash_domain_preimage d p) (hash_domain_preimage d' p')"
    and "hash_domain L d p = hash_domain L d' p'"
  shows "d = d' \<and> p = p'"
proof -
  have "sha256 L (hash_domain_preimage d p) = sha256 L (hash_domain_preimage d' p')"
    using assms(8) hex_encode_inject [OF assms(1,2)] by (simp add: hash_domain_def)
  then have "inj_on (sha256 L) {hash_domain_preimage d p, hash_domain_preimage d' p'}"
    and "sha256 L (hash_domain_preimage d p) = sha256 L (hash_domain_preimage d' p')"
    using assms(7) by (auto simp: no_collision_def inj_on_def)
  then show ?thesis
    using ag_frame.framed_hash_inject assms(3-6) by blast
qed

section \<open>Strict JSON documents\<close>

text \<open>
  What \<open>serde_json\<close>'s \<open>deserialize_any\<close> reports to a visitor: objects as the list of
  their entries in document order, duplicates included, and floating-point numbers.
\<close>

datatype json_event =
    EvUnit
  | EvBool bool
  | EvI64 u64
  | EvU64 u64
  | EvF64
  | EvStr string
  | EvSeq "json_event list"
  | EvMap "(string \<times> json_event) list"

text \<open>
  \<open>serde_json::Value\<close> as the visitor builds it. \<open>serde_json::Map\<close> is a \<open>BTreeMap\<close> (the
  feature \<open>preserve_order\<close> is off): the list of its entries by ascending key.
\<close>

datatype json_value =
    Null
  | Bool bool
  | Number int
  | String string
  | Array "json_value list"
  | Object "(string \<times> json_value) list"

fun btree_insert :: "'k::linorder \<Rightarrow> 'v \<Rightarrow> ('k \<times> 'v) list \<Rightarrow> ('k \<times> 'v) list" where
  "btree_insert k v [] = [(k, v)]"
| "btree_insert k v ((k', v') # kvs) =
     (if k < k' then (k, v) # (k', v') # kvs
      else if k = k' then (k, v) # kvs
      else (k', v') # btree_insert k v kvs)"

text \<open>A \<open>BTreeMap\<close> collected from its entries.\<close>

definition btree_collect :: "('k::linorder \<times> 'v) list \<Rightarrow> ('k \<times> 'v) list" where
  "btree_collect rows = fold (\<lambda>(k, v). btree_insert k v) rows []"

datatype strict_error =
    FloatForbidden
  | DuplicateKey string

text \<open>
  The visitor \<open>StrictValueVisitor\<close>. \<open>strict_map\<close> carries the set of the keys seen and
  the map built so far; a key is checked before its value is read.
\<close>

fun strict_value :: "json_event \<Rightarrow> strict_error + json_value"
  and strict_seq :: "json_event list \<Rightarrow> strict_error + json_value list"
  and strict_map :: "string set \<Rightarrow> (string \<times> json_value) list \<Rightarrow> (string \<times> json_event) list
    \<Rightarrow> strict_error + (string \<times> json_value) list"
where
  "strict_value EvUnit = Ok Null"
| "strict_value (EvBool b) = Ok (Bool b)"
| "strict_value (EvI64 w) = Ok (Number (sint w))"
| "strict_value (EvU64 w) = Ok (Number (uint w))"
| "strict_value EvF64 = Err FloatForbidden"
| "strict_value (EvStr s) = Ok (String s)"
| "strict_value (EvSeq es) = try_then (strict_seq es) (\<lambda>values. Ok (Array values))"
| "strict_value (EvMap kvs) = try_then (strict_map {} [] kvs) (\<lambda>values. Ok (Object values))"
| "strict_seq [] = Ok []"
| "strict_seq (e # es) =
     try_then (strict_value e) (\<lambda>v. try_then (strict_seq es) (\<lambda>vs. Ok (v # vs)))"
| "strict_map keys values [] = Ok values"
| "strict_map keys values ((k, e) # kvs) =
     (if k \<in> keys then Err (DuplicateKey k)
      else try_then (strict_value e) (\<lambda>v.
        strict_map (insert k keys) (btree_insert k v values) kvs))"

text \<open>
  What the source uses of \<open>serde_json\<close>'s parser (the events of the whole input, or a
  syntax error, trailing data included) and of \<open>serde_jcs\<close> on a \<open>Value\<close>.
\<close>

record jcs_lib = digest_lib +
  json_parse :: "bytes \<Rightarrow> json_event option"
  jcs_to_vec :: "json_value \<Rightarrow> bytes option"

datatype JcsError = Parse | Serialization | Deserialization | NotCanonical

definition parse_strict_value :: "'l jcs_lib_scheme \<Rightarrow> bytes \<Rightarrow> JcsError + json_value" where
  "parse_strict_value L input =
     (case json_parse L input of
        None \<Rightarrow> Err Parse
      | Some ev \<Rightarrow> map_err (\<lambda>_. Parse) (strict_value ev))"

text \<open>
  A \<open>JcsDocument\<close> is its canonical bytes. The second argument of \<open>jcs_canonicalize\<close> is
  \<open>serde_jcs::to_vec\<close> at the type of the value.
\<close>

definition jcs_canonicalize ::
  "'l jcs_lib_scheme \<Rightarrow> ('v \<Rightarrow> bytes option) \<Rightarrow> 'v \<Rightarrow> JcsError + bytes" where
  "jcs_canonicalize L to_vec v =
     try_then (ok_or (to_vec v) Serialization) (\<lambda>encoded.
     try_then (parse_strict_value L encoded) (\<lambda>strict.
     ok_or (jcs_to_vec L strict) Serialization))"

definition jcs_parse :: "'l jcs_lib_scheme \<Rightarrow> bytes \<Rightarrow> JcsError + bytes" where
  "jcs_parse L input =
     try_then (parse_strict_value L input) (\<lambda>v. ok_or (jcs_to_vec L v) Serialization)"

definition from_canonical_bytes :: "'l jcs_lib_scheme \<Rightarrow> bytes \<Rightarrow> JcsError + bytes" where
  "from_canonical_bytes L input =
     try_then (jcs_parse L input) (\<lambda>document.
       if document \<noteq> input then Err NotCanonical else Ok document)"

definition jcs_digest :: "'l jcs_lib_scheme \<Rightarrow> bytes \<Rightarrow> Digest" where
  "jcs_digest L document = hash_bytes L document"

definition from_serializable ::
  "'l jcs_lib_scheme \<Rightarrow> ('v \<Rightarrow> bytes option) \<Rightarrow> 'v \<Rightarrow> JcsError + Digest" where
  "from_serializable L to_vec v =
     try_then (jcs_canonicalize L to_vec v) (\<lambda>document. Ok (jcs_digest L document))"

subsection \<open>Strict values\<close>

text \<open>A reference predicate: no float anywhere and no object with a repeated key.\<close>

fun strict_json :: "json_event \<Rightarrow> bool" where
  "strict_json EvF64 = False"
| "strict_json (EvSeq es) = (\<forall>e \<in> set es. strict_json e)"
| "strict_json (EvMap kvs) = (distinct (map fst kvs) \<and> (\<forall>kv \<in> set kvs. strict_json (snd kv)))"
| "strict_json _ = True"

text \<open>
  The values the map type can hold (keys strictly ascending), with the integers that
  RFC 8785 represents exactly.
\<close>

fun wf_value :: "json_value \<Rightarrow> bool" where
  "wf_value (Array vs) = (\<forall>v \<in> set vs. wf_value v)"
| "wf_value (Object kvs) = (sorted_wrt (<) (map fst kvs) \<and> (\<forall>kv \<in> set kvs. wf_value (snd kv)))"
| "wf_value _ = True"

fun exact_integers :: "json_value \<Rightarrow> bool" where
  "exact_integers (Number i) = (- (2 ^ 53) < i \<and> i < 2 ^ 53)"
| "exact_integers (Array vs) = (\<forall>v \<in> set vs. exact_integers v)"
| "exact_integers (Object kvs) = (\<forall>kv \<in> set kvs. exact_integers (snd kv))"
| "exact_integers _ = True"

text \<open>
  The events of a text that writes a value: each scalar as itself, an integer by its sign, an array in its order and
  an object with each of its members once, in whatever order the text lists them. RFC 8785 orders members by
  UTF-16 code units, the map by bytes.
\<close>

inductive writes :: "json_event \<Rightarrow> json_value \<Rightarrow> bool" where
  writes_null: "writes EvUnit Null"
| writes_bool: "writes (EvBool b) (Bool b)"
| writes_natural: "writes (EvU64 w) (Number (uint w))"
| writes_negative: "sint w < 0 \<Longrightarrow> writes (EvI64 w) (Number (sint w))"
| writes_string: "writes (EvStr s) (String s)"
| writes_array: "list_all2 writes es vs \<Longrightarrow> writes (EvSeq es) (Array vs)"
| writes_object: "map fst kes = map fst kvs \<Longrightarrow> list_all2 writes (map snd kes) (map snd kvs)
    \<Longrightarrow> mset kvs = mset members \<Longrightarrow> writes (EvMap kes) (Object members)"

text \<open>
  RFC 8785 on what the strict parser can produce: the text printed for a value with exactly representable
  integers is accepted by the JSON parser and writes that value.
\<close>

definition jcs_law :: "'l jcs_lib_scheme \<Rightarrow> bool" where
  "jcs_law L = (\<forall>x v d. parse_strict_value L x = Ok v \<and> exact_integers v \<and> jcs_to_vec L v = Some d \<longrightarrow>
     (\<exists>ev. json_parse L d = Some ev \<and> writes ev v))"

lemma set_keys_btree_insert [simp]:
  "fst ` set (btree_insert k v kvs) = insert k (fst ` set kvs)"
  by (induction k v kvs rule: btree_insert.induct) (simp_all add: insert_commute)

lemma set_btree_insert_new:
  "k \<notin> fst ` set kvs \<Longrightarrow> set (btree_insert k v kvs) = insert (k, v) (set kvs)"
  by (induction k v kvs rule: btree_insert.induct) auto

lemma map_of_btree_insert: "map_of (btree_insert k v kvs) = (map_of kvs)(k \<mapsto> v)"
  by (induction k v kvs rule: btree_insert.induct) (auto simp: fun_upd_twist fun_eq_iff)

lemma sorted_btree_insert:
  "sorted_wrt (<) (map fst kvs) \<Longrightarrow> sorted_wrt (<) (map fst (btree_insert k v kvs))"
proof (induction k v kvs rule: btree_insert.induct)
  case (2 k v k' v' kvs)
  have "\<forall>x \<in> fst ` set (btree_insert k v kvs). k' < x" if "k' < k"
    using 2 that by auto
  with 2 show ?case
    by (auto simp del: set_keys_btree_insert)
qed simp

lemma set_btree_insert: "set (btree_insert k v kvs) \<subseteq> insert (k, v) (set kvs)"
  by (induction k v kvs rule: btree_insert.induct) (auto split: if_splits)

lemma strict_visitor_accepts:
  "is_ok (strict_value ev) \<longleftrightarrow> strict_json ev"
  "is_ok (strict_seq es) \<longleftrightarrow> (\<forall>e \<in> set es. strict_json e)"
  "is_ok (strict_map keys values kvs) \<longleftrightarrow>
     distinct (map fst kvs) \<and> set (map fst kvs) \<inter> keys = {}
     \<and> (\<forall>kv \<in> set kvs. strict_json (snd kv))"
proof (induction ev and es and keys "values" kvs rule: strict_value_strict_seq_strict_map.induct)
  case (12 keys "values" k e kvs)
  then show ?case by (cases "strict_value e") auto
qed (auto simp: is_ok_iff)

lemma strict_visitor_wf:
  "strict_value ev = Ok v \<Longrightarrow> wf_value v"
  "strict_seq es = Ok vs \<Longrightarrow> \<forall>v \<in> set vs. wf_value v"
  "strict_map keys values kvs = Ok m \<Longrightarrow>
     sorted_wrt (<) (map fst values) \<and> (\<forall>kv \<in> set values. wf_value (snd kv)) \<Longrightarrow>
     sorted_wrt (<) (map fst m) \<and> (\<forall>kv \<in> set m. wf_value (snd kv))"
proof (induction ev and es and keys "values" kvs arbitrary: v and vs and m
    rule: strict_value_strict_seq_strict_map.induct)
  case (12 keys "values" k e kvs)
  then show ?case
    using set_btree_insert by (fastforce simp: sorted_btree_insert)
qed auto

lemma strict_map_members:
  assumes "map fst kes = map fst kvs" and "list_all2 (\<lambda>e v. strict_value e = Ok v) (map snd kes) (map snd kvs)"
    and "distinct (map fst kvs)" and "fst ` set kvs \<inter> keys = {}"
  shows "strict_map keys m kes = Ok (fold (\<lambda>(k, v). btree_insert k v) kvs m)"
  using assms
proof (induction kes arbitrary: kvs keys m)
  case (Cons ke kes)
  then show ?case by (cases ke; cases kvs) auto
qed simp

lemma btree_collect_snoc: "btree_collect (rows @ [(k, v)]) = btree_insert k v (btree_collect rows)"
  by (simp add: btree_collect_def)

lemma keys_btree_collect [simp]: "fst ` set (btree_collect rows) = fst ` set rows"
proof (induction rows rule: rev_induct)
  case (snoc r rows)
  then show ?case by (cases r) (simp add: btree_collect_snoc)
qed (simp add: btree_collect_def)

lemma sorted_btree_collect: "sorted_wrt (<) (map fst (btree_collect rows))"
proof (induction rows rule: rev_induct)
  case (snoc r rows)
  then show ?case by (cases r) (simp add: btree_collect_snoc sorted_btree_insert)
qed (simp add: btree_collect_def)

lemma set_btree_collect: "distinct (map fst rows) \<Longrightarrow> set (btree_collect rows) = set rows"
proof (induction rows rule: rev_induct)
  case (snoc r rows)
  then show ?case by (cases r) (simp add: btree_collect_snoc set_btree_insert_new)
qed (simp add: btree_collect_def)

text \<open>A map does not depend on the order in which its entries were inserted.\<close>

lemma btree_collect_mset:
  assumes "mset xs = mset ys" and "distinct (map fst xs)"
  shows "btree_collect xs = btree_collect ys"
proof -
  have d: "distinct (map fst ys)"
    using assms by (metis mset_eq_imp_distinct_iff mset_map)
  have "set (btree_collect xs) = set (btree_collect ys)"
    using set_btree_collect assms d mset_eq_setD by metis
  moreover have "inj_on fst (set (btree_collect xs) \<union> set (btree_collect ys))"
    using assms(2) d calculation set_btree_collect [OF d] distinct_map [of fst ys] by simp
  ultimately show ?thesis
    using sorted_btree_collect [of xs] sorted_btree_collect [of ys]
    by (intro map_sorted_distinct_set_unique [of fst]) (simp_all add: strict_sorted_iff)
qed

lemma btree_collect_sorted:
  assumes "sorted_wrt (<) (map fst m)"
  shows "btree_collect m = m"
proof -
  have "distinct (map fst m)" using assms by (simp add: strict_sorted_iff)
  then have "set (btree_collect m) = set m" "inj_on fst (set m)"
    by (simp_all add: set_btree_collect distinct_map)
  then show ?thesis
    using assms sorted_btree_collect [of m]
    by (intro map_sorted_distinct_set_unique [of fst]) (simp_all add: strict_sorted_iff)
qed

text \<open>The visitor rebuilds a value from any text that writes it.\<close>

lemma writes_visited: "writes ev v \<Longrightarrow> wf_value v \<Longrightarrow> strict_value ev = Ok v"
proof (induction rule: writes.induct)
  case (writes_array es vs)
  from writes_array have "strict_seq es = Ok vs"
    by (induction rule: list_all2_induct) auto
  then show ?case by simp
next
  case (writes_object kes kvs members)
  have sorted: "sorted_wrt (<) (map fst members)" and wf: "\<forall>kv \<in> set kvs. wf_value (snd kv)"
    using writes_object.prems mset_eq_setD [OF writes_object.hyps(2)] by simp_all
  then have dist: "distinct (map fst kvs)"
    using mset_eq_imp_distinct_iff mset_map writes_object.hyps(2) by (metis strict_sorted_iff)
  have "list_all2 (\<lambda>e v. strict_value e = Ok v) (map snd kes) (map snd kvs)"
    by (rule list.rel_mono_strong [OF writes_object.IH]) (use wf in auto)
  then have "strict_map {} [] kes = Ok (btree_collect kvs)"
    unfolding btree_collect_def by (intro strict_map_members writes_object.hyps(1)) (simp_all add: dist)
  then show ?case
    using btree_collect_mset [OF writes_object.hyps(2) dist] btree_collect_sorted [OF sorted] by simp
qed simp_all

lemma jcs_reparse:
  assumes "jcs_law L" and "parse_strict_value L x = Ok v" and "exact_integers v"
    and "jcs_to_vec L v = Some d"
  shows "parse_strict_value L d = Ok v"
proof -
  have "wf_value v"
    using assms(2) strict_visitor_wf(1) by (auto simp: parse_strict_value_def split: option.splits)
  moreover obtain ev where "json_parse L d = Some ev" "writes ev v"
    using assms unfolding jcs_law_def by blast
  ultimately show ?thesis
    by (simp add: parse_strict_value_def writes_visited)
qed

section \<open>A concrete library\<close>

text \<open>
  An instance of the library records that keeps the laws: real hexadecimal coding, the
  last 32 bytes (reversed and padded) in place of SHA-256, and a parser and printer for a handful of
  documents. It shows that the laws can hold together.
\<close>

definition hex_digit :: "nat \<Rightarrow> char" where
  "hex_digit n = char_of (if n < 10 then 48 + n else 87 + n)"

definition hex_value :: "char \<Rightarrow> nat" where
  "hex_value c = (if of_char c < (58 :: nat) then of_char c - 48 else of_char c - 87)"

fun demo_hex_encode :: "bytes \<Rightarrow> string" where
  "demo_hex_encode [] = []"
| "demo_hex_encode (b # bs) =
     hex_digit (unat b div 16) # hex_digit (unat b mod 16) # demo_hex_encode bs"

fun demo_hex_pairs :: "string \<Rightarrow> bytes" where
  "demo_hex_pairs (c # d # cs) = word_of_nat (16 * hex_value c + hex_value d) # demo_hex_pairs cs"
| "demo_hex_pairs _ = []"

definition demo_hex_decode :: "string \<Rightarrow> bytes option" where
  "demo_hex_decode s =
     (if length s = 64 \<and> list_all is_lower_hex s then Some (demo_hex_pairs s) else None)"

definition demo_sha256 :: "bytes \<Rightarrow> bytes" where
  "demo_sha256 b = take 32 (rev b @ replicate 32 0)"

definition demo_json_parse :: "bytes \<Rightarrow> json_event option" where
  "demo_json_parse b =
     map_of [(as_bytes ''null'', EvUnit),
             (as_bytes ''1.5'', EvF64),
             (as_bytes ''{a:1,b:null}'', EvMap [(''a'', EvU64 1), (''b'', EvUnit)]),
             (as_bytes ''{b:null, a:1}'', EvMap [(''b'', EvUnit), (''a'', EvU64 1)]),
             (as_bytes ''{a:1,a:1}'', EvMap [(''a'', EvU64 1), (''a'', EvU64 1)])] b"

fun demo_jcs_to_vec :: "json_value \<Rightarrow> bytes option" where
  "demo_jcs_to_vec Null = Some (as_bytes ''null'')"
| "demo_jcs_to_vec (Object kvs) =
     (if kvs = [(''a'', Number 1), (''b'', Null)] then Some (as_bytes ''{a:1,b:null}'') else None)"
| "demo_jcs_to_vec _ = None"

definition demo_jcs_lib :: jcs_lib where
  "demo_jcs_lib = \<lparr>sha256 = demo_sha256, hex_encode = demo_hex_encode,
     hex_decode_32 = demo_hex_decode, json_parse = demo_json_parse, jcs_to_vec = demo_jcs_to_vec\<rparr>"

lemma hex_digit_value:
  assumes "n < 16"
  shows "hex_value (hex_digit n) = n" and "is_lower_hex (hex_digit n)"
  using assms
  by (auto simp: hex_value_def hex_digit_def is_lower_hex_def less_eq_char_def)

lemma demo_hex_roundtrip:
  "demo_hex_pairs (demo_hex_encode b) = b"
  "length (demo_hex_encode b) = 2 * length b"
  "list_all is_lower_hex (demo_hex_encode b)"
proof (induction b)
  case (Cons w b)
  have bound: "unat w div 16 < 16" "unat w mod 16 < 16"
    using unsigned_less [of w, where ?'a = nat] by (simp_all add: less_mult_imp_div_less)
  { case 1 then show ?case
      using bound Cons by (simp add: hex_digit_value mult.commute)
  next case 2 then show ?case using Cons by simp
  next case 3 then show ?case using bound Cons by (simp add: hex_digit_value) }
qed simp_all

lemma demo_laws:
  "sha256_law demo_jcs_lib" "hex_law demo_jcs_lib"
  by (auto simp: sha256_law_def hex_law_def demo_jcs_lib_def demo_sha256_def demo_hex_decode_def
      demo_hex_roundtrip)

lemma demo_jcs_law: "jcs_law demo_jcs_lib"
  unfolding jcs_law_def
proof (intro allI impI)
  fix x v d
  assume "parse_strict_value demo_jcs_lib x = Ok v \<and> exact_integers v \<and> jcs_to_vec demo_jcs_lib v = Some d"
  then have v: "demo_jcs_to_vec v = Some d"
    by (simp add: demo_jcs_lib_def)
  have one: "writes (EvU64 1) (Number 1)"
    using writes_natural [of 1] by simp
  show "\<exists>ev. json_parse demo_jcs_lib d = Some ev \<and> writes ev v"
    using v one
    by (cases v rule: demo_jcs_to_vec.cases)
      (auto simp: demo_jcs_lib_def demo_json_parse_def as_bytes_def writes_null intro!: writes_object split: if_splits)
qed

section \<open>Properties\<close>

text \<open>C37. The digest parser accepts exactly the canonical texts and keeps them unchanged;
  what the two hash functions produce parses back to itself and \<open>raw_bytes\<close> of it does not
  panic but returns the 32 bytes of the hash.\<close>

theorem digest_text_roundtrip:
  assumes "sha256_law L" and "hex_law L"
  shows "(digest_from_str L s = Ok d) = (canonical_digest_text s \<and> d = Digest s)
    \<and> digest_from_str L (as_str (hash_bytes L b)) = Ok (hash_bytes L b)
    \<and> digest_from_str L (as_str (hash_domain L domain b)) = Ok (hash_domain L domain b)
    \<and> raw_bytes L (hash_bytes L b) = Some (sha256 L b)
    \<and> raw_bytes L (hash_domain L domain b) = Some (sha256 L (hash_domain_preimage domain b))"
  using digest_from_str_accepts [OF assms(2)] hash_text_canonical [OF assms]
    hex_law_decode [OF assms(2) sha256_law_length [OF assms(1)]]
  by (simp add: raw_bytes_def hash_bytes_def hash_domain_def)

theorem digest_text_roundtrip_witness:
  "digest_from_str demo_jcs_lib (as_str (hash_bytes demo_jcs_lib [1, 2])) = Ok (hash_bytes demo_jcs_lib [1, 2])
   \<and> raw_bytes demo_jcs_lib (hash_bytes demo_jcs_lib [1, 2]) = Some (demo_sha256 [1, 2])
   \<and> \<not> canonical_digest_text ''sha256:00''"
  using digest_text_roundtrip [OF demo_laws, of "''sha256:00''" "Digest ''sha256:00''" "[1, 2]"]
  by (simp add: digest_from_str_def SHA256_TEXT_LENGTH_def SHA256_PREFIX_def SHA256_HEX_LENGTH_def)
    (simp add: demo_jcs_lib_def)

text \<open>C38. A domain-separated digest binds both its domain and its payload: where SHA-256 does
  not collide on the two framed inputs, equal digests come from equal domains and payloads.\<close>

theorem hash_domain_binds:
  assumes "sha256_law L" and "hex_law L"
    and "usize_length d" "usize_length p" "usize_length d'" "usize_length p'"
    and "no_collision L (hash_domain_preimage d p) (hash_domain_preimage d' p')"
  shows "(hash_domain L d p = hash_domain L d' p') = (d = d' \<and> p = p')"
  using hash_domain_collision_free [OF assms] by blast

theorem hash_domain_binds_witness:
  "hash_domain demo_jcs_lib ''a'' [1] \<noteq> hash_domain demo_jcs_lib ''ab'' [1]"
proof -
  have "no_collision demo_jcs_lib (hash_domain_preimage ''a'' [1]) (hash_domain_preimage ''ab'' [1])"
    by code_simp
  then show ?thesis
    using hash_domain_binds [OF demo_laws, of "''a''" "[1]" "''ab''" "[1]"]
    by (simp add: usize_length_def)
qed

text \<open>C39. The strict parser accepts exactly the documents without a float and without a
  repeated object key at any depth, and every other input is a parse error.\<close>

theorem strict_parse_exact:
  "parse_strict_value L x =
     (case json_parse L x of
        None \<Rightarrow> Err Parse
      | Some ev \<Rightarrow> if strict_json ev then Ok (projr (strict_value ev)) else Err Parse)"
proof (cases "json_parse L x")
  case (Some ev)
  then show ?thesis
    using strict_visitor_accepts(1) [of ev]
    by (cases "strict_value ev") (auto simp: parse_strict_value_def)
qed (simp add: parse_strict_value_def)

text \<open>C40. Canonical form of strict documents with integers below 2^53 in magnitude: the canonical form of an
  accepted input is accepted by \<open>from_canonical_bytes\<close> unchanged and denotes the same value, any other
  text of the value is refused as not canonical, and two inputs have the same canonical form exactly when
  they denote the same value.\<close>

theorem jcs_canonical_form:
  assumes "jcs_law L"
    and "parse_strict_value L x = Ok v" "exact_integers v" "jcs_parse L x = Ok d"
    and "parse_strict_value L y = Ok w" "exact_integers w" "jcs_parse L y = Ok e"
  shows "from_canonical_bytes L d = Ok d \<and> parse_strict_value L d = Ok v
    \<and> from_canonical_bytes L x = (if x = d then Ok d else Err NotCanonical)
    \<and> (d = e \<longleftrightarrow> v = w)"
proof -
  have printed: "jcs_to_vec L v = Some d" "jcs_to_vec L w = Some e"
    using assms by (auto simp: jcs_parse_def)
  have reparsed: "parse_strict_value L d = Ok v" "parse_strict_value L e = Ok w"
    using jcs_reparse assms(1-3,5,6) printed by blast+
  have "from_canonical_bytes L d = Ok d"
    using printed(1) reparsed(1) by (simp add: from_canonical_bytes_def jcs_parse_def)
  moreover have "from_canonical_bytes L x = (if x = d then Ok d else Err NotCanonical)"
    using assms(4) by (auto simp: from_canonical_bytes_def)
  moreover have "d = e \<longleftrightarrow> v = w"
    using printed reparsed by auto
  ultimately show ?thesis using reparsed(1) by blast
qed

theorem jcs_canonical_form_witness:
  "from_canonical_bytes demo_jcs_lib (as_bytes ''{a:1,b:null}'') = Ok (as_bytes ''{a:1,b:null}'')
   \<and> from_canonical_bytes demo_jcs_lib (as_bytes ''{b:null, a:1}'') = Err NotCanonical"
proof -
  have p: "jcs_parse demo_jcs_lib (as_bytes ''{b:null, a:1}'') = Ok (as_bytes ''{a:1,b:null}'')"
      "jcs_parse demo_jcs_lib (as_bytes ''null'') = Ok (as_bytes ''null'')"
    by code_simp+
  have v: "parse_strict_value demo_jcs_lib (as_bytes ''{b:null, a:1}'')
        = Ok (Object [(''a'', Number 1), (''b'', Null)])"
      "parse_strict_value demo_jcs_lib (as_bytes ''null'') = Ok Null"
    by code_simp+
  show ?thesis
    using jcs_canonical_form [OF demo_jcs_law v(1) _ p(1) v(2) _ p(2)] by (simp add: as_bytes_def)
qed

end
