(* ===== verification/Campaign_Identity.thy ===== *)
theory Campaign_Identity
  imports Content_Digest
begin

text \<open>
  Campaign identity and the bounded labels of the campaign crate:
  \<open>crates/ag-campaign/src/identity.rs\<close> and \<open>crates/ag-campaign/src/transcript.rs\<close>.
\<close>

datatype CampaignId = CampaignId Digest

primrec campaign_as_digest :: "CampaignId \<Rightarrow> Digest" where
  "campaign_as_digest (CampaignId d) = d"

datatype CampaignLabelError =
    Empty string
  | TooLong string nat
  | ControlCharacter string

definition MAX_LABEL_BYTES :: nat where
  "MAX_LABEL_BYTES = 128"

text \<open>Rust's \<open>u8::is_ascii_control\<close>.\<close>

definition is_ascii_control :: "char \<Rightarrow> bool" where
  "is_ascii_control c = (of_char c < (32 :: nat) \<or> of_char c = (127 :: nat))"

definition validate_label :: "string \<Rightarrow> string \<Rightarrow> CampaignLabelError + unit" where
  "validate_label kind value =
     (if value = [] then Err (Empty kind)
      else if MAX_LABEL_BYTES < length value then Err (TooLong kind (length value))
      else if list_ex is_ascii_control value then Err (ControlCharacter kind)
      else Ok ())"

lemma validate_label_ok:
  "validate_label kind s = Ok u \<longleftrightarrow>
     s \<noteq> [] \<and> length s \<le> MAX_LABEL_BYTES \<and> (\<forall>c \<in> set s. \<not> is_ascii_control c)"
  by (auto simp: validate_label_def list_ex_iff)

end
