(* ===== verification/Governed_Types.thy ===== *)
theory Governed_Types
  imports Campaign_Identity
begin

text \<open>
  The data of the governed-loop kernel, \<open>crates/ag-campaign/src/governed.rs\<close>: one
  datatype per exact digest reference, one record per struct and one datatype per enum,
  in the order of the source. Struct fields carry a short prefix of their struct.
  Transparent newtypes around one struct are that struct.
\<close>

section \<open>Exact references\<close>

text \<open>The macro \<open>exact_digest_ref!\<close>: distinct types around one digest.\<close>

datatype ProgramBasisRefV1 = ProgramBasisRefV1 Digest
datatype ObservationRefV1 = ObservationRefV1 Digest
datatype ObservationCurrentnessRefV1 = ObservationCurrentnessRefV1 Digest
datatype PreconditionBasisRefV1 = PreconditionBasisRefV1 (precondition_digest: Digest)
datatype ProposalRefV1 = ProposalRefV1 Digest
datatype StandingResolutionRefV1 = StandingResolutionRefV1 Digest
datatype StandingCurrentnessRefV1 = StandingCurrentnessRefV1 Digest
datatype MandateRefV1 = MandateRefV1 Digest
datatype AdmissionDecisionRefV1 = AdmissionDecisionRefV1 Digest
datatype AgAuthorizationRefV1 = AgAuthorizationRefV1 (authorization_digest: Digest)
datatype AgSpendRefV1 = AgSpendRefV1 (spend_digest: Digest)
datatype AgIssuanceRefV1 = AgIssuanceRefV1 Digest
datatype DocketExecutionStandingRefV1 = DocketExecutionStandingRefV1 (execution_standing_digest: Digest)
datatype DocketAttemptRefV1 = DocketAttemptRefV1 (attempt_digest: Digest)
datatype ExecutorAttemptMarkerRefV1 = ExecutorAttemptMarkerRefV1 (marker_digest: Digest)
datatype SettlementRefV1 = SettlementRefV1 Digest
datatype ReceiptRefV1 = ReceiptRefV1 Digest
datatype ReconciliationRefV1 = ReconciliationRefV1 Digest
datatype ResidualIdV1 = ResidualIdV1 (residual_digest: Digest)
datatype ResidualAuthorityRefV1 = ResidualAuthorityRefV1 Digest
datatype HaltReasonRefV1 = HaltReasonRefV1 Digest
datatype TerminalWitnessRefV1 = TerminalWitnessRefV1 Digest
datatype HumanDecisionIdV1 = HumanDecisionIdV1 Digest
datatype HumanPrincipalRefV1 = HumanPrincipalRefV1 Digest
datatype HumanNonceRefV1 = HumanNonceRefV1 Digest
datatype HumanVerificationRefV1 = HumanVerificationRefV1 Digest
datatype GovernedInterventionRequestIdV1 = GovernedInterventionRequestIdV1 Digest
datatype GovernedInterventionNonceRefV1 = GovernedInterventionNonceRefV1 Digest
datatype GovernedInterventionVerificationRefV1 = GovernedInterventionVerificationRefV1 Digest

text \<open>The derived order of the references that the kernel sorts.\<close>

instantiation ResidualIdV1 :: linorder
begin

definition less_eq_ResidualIdV1 :: "ResidualIdV1 \<Rightarrow> ResidualIdV1 \<Rightarrow> bool" where
  "less_eq_ResidualIdV1 a b = (residual_digest a \<le> residual_digest b)"

definition less_ResidualIdV1 :: "ResidualIdV1 \<Rightarrow> ResidualIdV1 \<Rightarrow> bool" where
  "less_ResidualIdV1 a b = (residual_digest a < residual_digest b)"

instance
  by standard
    (auto simp: less_eq_ResidualIdV1_def less_ResidualIdV1_def intro: ResidualIdV1.expand)

end

text \<open>\<open>OccurrenceId(Uuid)\<close>\<close>

datatype OccurrenceId = OccurrenceId u128

section \<open>Keys, program counter, budget\<close>

record OccurrenceKeyV1 =
  key_campaign :: CampaignId
  key_occurrence :: OccurrenceId

datatype ProgramCounterV1 =
    PC_ObservationRequired
  | PC_ProposalRecorded
  | PC_StandingRequired
  | PC_AdmissiblePendingAuthorization
  | PC_AuthorizationConsumed
  | PC_Dispatched
  | PC_ReconciliationRequired
  | PC_SettledObservationRequired
  | PC_Halted
  | PC_Completed

record LoopBudgetV1 =
  retry_limit :: u32
  retries_used :: u32
  probe_limit :: u32
  probes_used :: u32
  escalation_limit :: u32
  escalations_used :: u32

section \<open>Residuals, findings, proposals\<close>

record ResidualObligationV1 =
  res_residual :: ResidualIdV1
  res_owner :: Digest
  res_subject :: Digest
  res_statement :: Digest

datatype ResidualSetV1 = ResidualSetV1 (residual_slice: "ResidualObligationV1 list")

record ExactResidualDischargeV1 =
  dis_campaign :: CampaignId
  dis_occurrence :: OccurrenceId
  dis_program :: ProgramBasisRefV1
  dis_authority :: ResidualAuthorityRefV1
  dis_disposition :: HumanDecisionIdV1
  dis_before :: "ResidualIdV1 list"
  dis_authorized :: "ResidualIdV1 list"
  dis_closed :: "ResidualIdV1 list"
  dis_after :: "ResidualIdV1 list"

datatype CanonicalFindingSetV1 = CanonicalFindingSetV1 (finding_slice: "Digest list")

record C1RejectedReviewBasisV1 =
  rev_review_receipt :: Digest
  rev_review_session :: Digest
  rev_reviewer :: Digest
  rev_history :: Digest
  rev_findings :: CanonicalFindingSetV1

type_synonym C1RepairCitationV1 = C1RejectedReviewBasisV1

record ExactWorkProposalV1 =
  prop_schema :: string
  prop_campaign :: CampaignId
  prop_subject :: Digest
  prop_scope :: Digest
  prop_work_schema :: string
  prop_work :: Digest
  prop_repair :: "C1RepairCitationV1 option"

section \<open>Observation, standing and admission records\<close>

datatype ObservationStatusV1 =
    Obs_Current | Obs_Stale | Obs_Superseded | Obs_Contradictory | Obs_Absent

text \<open>The wire mirror of the Nightshift decision basis; \<open>BTreeSet<String>\<close> is a set.\<close>

record DecisionBasisRuleV1 =
  rule_id :: string
  rule_version :: string
  rule_digest :: string

record DecisionBasisV1 =
  basis_schema :: string
  basis_rule :: DecisionBasisRuleV1
  basis_atoms :: "string set"

record TypedOpaqueObservationBasisV1 =
  typed_schema :: string
  typed_basis_type :: string
  typed_basis_identity :: Digest

record ObservationResolutionV2 =
  or2_schema :: string
  or2_key :: OccurrenceKeyV1
  or2_observation :: ObservationRefV1
  or2_currentness :: ObservationCurrentnessRefV1
  or2_normalized_preconditions :: PreconditionBasisRefV1
  or2_basis :: DecisionBasisV1
  or2_resolver_id :: string
  or2_subject :: Digest
  or2_status :: ObservationStatusV1
  or2_resolved_at_unix_ms :: u64
  or2_fresh_until_unix_ms :: u64

datatype TypedObservationStatusV1 =
    Typed_Current | Typed_Stale | Typed_Superseded | Typed_Contradictory | Typed_Absent
  | Typed_Unsupported | Typed_Refused

record ObservationResolutionV3 =
  or3_schema :: string
  or3_key :: OccurrenceKeyV1
  or3_observation :: ObservationRefV1
  or3_currentness :: ObservationCurrentnessRefV1
  or3_normalized_preconditions :: PreconditionBasisRefV1
  or3_basis :: TypedOpaqueObservationBasisV1
  or3_resolver_id :: string
  or3_subject :: Digest
  or3_status :: TypedObservationStatusV1
  or3_resolved_at_unix_ms :: u64
  or3_fresh_until_unix_ms :: u64

datatype VersionedObservationResolutionV1 =
    NightshiftV2 ObservationResolutionV2
  | TypedV3 ObservationResolutionV3

record ObservationResolutionRequestV1 =
  oreq_key :: OccurrenceKeyV1
  oreq_observation :: ObservationRefV1
  oreq_subject :: Digest
  oreq_now_unix_ms :: u64

datatype StandingStatusV1 =
    Standing_Current | Standing_Absent | Standing_Revoked | Standing_Superseded | Standing_Expired

record CurrentStandingResolutionV2 =
  st_schema :: string
  st_resolution :: StandingResolutionRefV1
  st_currentness :: StandingCurrentnessRefV1
  st_mandate :: MandateRefV1
  st_key :: OccurrenceKeyV1
  st_observation :: ObservationRefV1
  st_proposal :: ProposalRefV1
  st_subject :: Digest
  st_scope :: Digest
  st_resolver_id :: string
  st_status :: StandingStatusV1
  st_resolved_at_unix_ms :: u64
  st_expires_at_unix_ms :: u64

record StandingResolutionRequestV1 =
  sreq_key :: OccurrenceKeyV1
  sreq_observation :: ObservationRefV1
  sreq_proposal :: ProposalRefV1
  sreq_subject :: Digest
  sreq_scope :: Digest
  sreq_now_unix_ms :: u64

datatype AdmissionDispositionV1 = Admitted | Adm_Refused | Adm_Contradiction

record AdmissionDecisionV1 =
  ad_decision :: AdmissionDecisionRefV1
  ad_key :: OccurrenceKeyV1
  ad_observation :: ObservationRefV1
  ad_proposal :: ProposalRefV1
  ad_standing_resolution :: StandingResolutionRefV1
  ad_disposition :: AdmissionDispositionV1
  ad_policy_basis :: Digest

record AdmissibilityRequestV1 =
  areq_proposal :: ExactWorkProposalV1
  areq_observation :: VersionedObservationResolutionV1
  areq_standing :: CurrentStandingResolutionV2
  areq_controlling_rejected_review :: "C1RejectedReviewBasisV1 option"

datatype ExternalBoundaryErrorV1 =
    Ext_Refused string "Digest option"
  | Ext_Unavailable string

section \<open>Occurrence states\<close>

datatype ContinuationClassV1 = Retry | Successor

record PriorOccurrenceBasisV1 =
  pri_key :: OccurrenceKeyV1
  pri_proposal :: "ProposalRefV1 option"
  pri_normalized_preconditions :: "PreconditionBasisRefV1 option"
  pri_state_digest :: Digest

datatype OccurrenceLinkV1 =
    LinkInitial
  | RetryOf OccurrenceKeyV1
  | SuccessorOf OccurrenceKeyV1

record OccurrenceMetaV1 =
  meta_key :: OccurrenceKeyV1
  meta_program :: ProgramBasisRefV1
  meta_expected_work :: Digest
  meta_residuals :: ResidualSetV1
  meta_budget :: LoopBudgetV1
  meta_used_human_decisions :: "HumanDecisionIdV1 list"

record ObservationRequiredV1 =
  obr_meta :: OccurrenceMetaV1
  obr_prior :: "PriorOccurrenceBasisV1 option"

record ProposalBasisV1 =
  pb_meta :: OccurrenceMetaV1
  pb_observation :: VersionedObservationResolutionV1
  pb_proposal :: ExactWorkProposalV1
  pb_proposal_ref :: ProposalRefV1
  pb_link :: OccurrenceLinkV1

record AdmissibleBasisV1 =
  ab_proposal :: ProposalBasisV1
  ab_standing :: CurrentStandingResolutionV2
  ab_decision :: AdmissionDecisionV1

record AgAuthorizationSpendV1 =
  sp_authorization :: AgAuthorizationRefV1
  sp_spend :: AgSpendRefV1
  sp_key :: OccurrenceKeyV1
  sp_observation :: ObservationRefV1
  sp_proposal :: ProposalRefV1
  sp_standing_resolution :: StandingResolutionRefV1
  sp_admission_decision :: AdmissionDecisionRefV1
  sp_consumed_at_unix_ms :: u64

record AgIssuanceV1 =
  iss_schema :: string
  iss_issuance :: AgIssuanceRefV1
  iss_key :: OccurrenceKeyV1
  iss_program :: ProgramBasisRefV1
  iss_proposal :: ProposalRefV1
  iss_work_schema :: string
  iss_work :: Digest
  iss_subject :: Digest
  iss_scope :: Digest
  iss_observation :: ObservationRefV1
  iss_standing_resolution :: StandingResolutionRefV1
  iss_mandate :: MandateRefV1
  iss_spend :: AgSpendRefV1

record AuthorizationConsumedV1 =
  ac_admitted :: AdmissibleBasisV1
  ac_spend :: AgAuthorizationSpendV1
  ac_issuance :: AgIssuanceV1

record DocketCustodyV1 =
  cu_schema :: string
  cu_issuance :: AgIssuanceRefV1
  cu_ag_spend :: AgSpendRefV1
  cu_execution_standing :: DocketExecutionStandingRefV1
  cu_standing_currentness :: StandingCurrentnessRefV1
  cu_attempt :: DocketAttemptRefV1
  cu_executor_marker :: ExecutorAttemptMarkerRefV1
  cu_accepted_at_unix_ms :: u64

record DispatchBasisV1 =
  di_authorized :: AuthorizationConsumedV1
  di_custody :: DocketCustodyV1

datatype KnownOutcomeV1 = Success | Failure

record DocketSettlementV1 =
  se_schema :: string
  se_settlement :: SettlementRefV1
  se_issuance :: AgIssuanceRefV1
  se_attempt :: DocketAttemptRefV1
  se_executor_marker :: ExecutorAttemptMarkerRefV1
  se_receipt :: ReceiptRefV1
  se_outcome :: KnownOutcomeV1
  se_settled_at_unix_ms :: u64

record IndeterminateOutcomeV1 =
  ind_issuance :: AgIssuanceRefV1
  ind_attempt :: DocketAttemptRefV1
  ind_reconciliation :: ReconciliationRefV1
  ind_evidence :: Digest

record ReconciliationRequiredV1 =
  rr_dispatch :: DispatchBasisV1
  rr_indeterminate :: IndeterminateOutcomeV1

record SettledObservationRequiredV1 =
  sor_dispatch :: DispatchBasisV1
  sor_settlement :: DocketSettlementV1

record AuthorityHistoryV1 =
  hist_ag_spend :: "AgSpendRefV1 option"
  hist_docket_attempt :: "DocketAttemptRefV1 option"
  hist_settlement :: "SettlementRefV1 option"
  hist_receipt :: "ReceiptRefV1 option"

record HaltedV1 =
  ha_meta :: OccurrenceMetaV1
  ha_source :: ProgramCounterV1
  ha_reason :: HaltReasonRefV1
  ha_prior :: PriorOccurrenceBasisV1
  ha_unresolved_attempt :: "DocketAttemptRefV1 option"
  ha_history :: AuthorityHistoryV1

record CompletedV1 =
  co_meta :: OccurrenceMetaV1
  co_terminal_observation :: VersionedObservationResolutionV1
  co_terminal_witness :: TerminalWitnessRefV1
  co_history :: AuthorityHistoryV1

datatype OccurrenceStateV1 =
    ObservationRequired ObservationRequiredV1
  | ProposalRecorded ProposalBasisV1
  | StandingRequired ProposalBasisV1
  | AdmissiblePendingAuthorization AdmissibleBasisV1
  | AuthorizationConsumed AuthorizationConsumedV1
  | Dispatched DispatchBasisV1
  | ReconciliationRequired ReconciliationRequiredV1
  | SettledObservationRequired SettledObservationRequiredV1
  | Halted HaltedV1
  | Completed CompletedV1

record OccurrenceSnapshotV1 =
  snap_prior_state_digest :: Digest
  snap_state_digest :: Digest
  snap_state :: OccurrenceStateV1

section \<open>Errors, recovery, custody reports\<close>

datatype RecoveryRequirementV1 =
    FreshObservation | FreshObservationAndStanding | CurrentStandingAndReadmission
  | ReconcileIssuance | ReconcileAttemptRequirement | ExternalDisposition | NoRecovery

datatype KernelErrorV1 =
    IllegalTransition ProgramCounterV1 string
  | ForeignSchema string
  | Label CampaignLabelError
  | OccurrenceMismatch
  | BindingMismatch string
  | ObservationNotCurrent
  | ObservationContradiction
  | StandingAbsent
  | StandingNotCurrent
  | Inadmissible
  | AlteredFindingSet
  | RetryPreconditionsChanged
  | RetryProposalChanged
  | SuccessorProposalReused
  | OccurrenceReused
  | BudgetExhausted string
  | InvalidBudget
  | DuplicateResidual
  | DuplicateFinding
  | ResidualAccounting
  | ResidualsOpen
  | UnresolvedAttempt
  | HumanDisposition string
  | Intervention string
  | StateDigestMismatch
  | StateInvariant string
  | External ExternalBoundaryErrorV1

datatype DocketIssuanceReconciliationV1 =
    NotAccepted
  | Accepted DocketCustodyV1
  | Settled DocketCustodyV1 DocketSettlementV1
  | Indeterminate DocketCustodyV1 IndeterminateOutcomeV1

section \<open>Human dispositions and interventions\<close>

datatype HumanDispositionKindV1 =
    ReturnToObservation
  | ReplaceProgram ProgramBasisRefV1
  | ExactResidualDisposition ExactResidualDischargeV1
  | Terminate ObservationRefV1 Digest TerminalWitnessRefV1

record HumanDispositionV1 =
  hd_schema :: string
  hd_campaign :: CampaignId
  hd_occurrence :: OccurrenceId
  hd_halted_state_digest :: Digest
  hd_disposition :: HumanDispositionKindV1
  hd_decision :: HumanDecisionIdV1
  hd_principal :: HumanPrincipalRefV1
  hd_mandate :: MandateRefV1
  hd_nonce :: HumanNonceRefV1
  hd_expires_at_unix_ms :: u64

record HumanAuthorityScopeV1 =
  scope_principal :: HumanPrincipalRefV1
  scope_mandate :: MandateRefV1

datatype GovernedInterventionClassV1 =
    ReconcileAttempt AgIssuanceRefV1 DocketAttemptRefV1 "Digest list"
  | RequestProbe Digest "Digest list"
  | OpenSuccessor OccurrenceId Digest
  | HaltContinuation HaltReasonRefV1

record GovernedInterventionRequestV1 =
  gi_schema :: string
  gi_request :: GovernedInterventionRequestIdV1
  gi_principal :: HumanPrincipalRefV1
  gi_mandate :: MandateRefV1
  gi_nonce :: GovernedInterventionNonceRefV1
  gi_campaign :: CampaignId
  gi_occurrence :: OccurrenceId
  gi_target_state_digest :: Digest
  gi_intervention :: GovernedInterventionClassV1
  gi_created_at_unix_ms :: u64
  gi_expires_at_unix_ms :: u64

record GovernedInterventionVerificationRequestV1 =
  gvr_request :: GovernedInterventionRequestV1
  gvr_expected_scope :: HumanAuthorityScopeV1
  gvr_now_unix_ms :: u64

record VerifiedGovernedInterventionV1 =
  vgi_request :: GovernedInterventionRequestV1
  vgi_verification :: GovernedInterventionVerificationRefV1

datatype GovernedInterventionEffectV1 =
    Reconcile VerifiedGovernedInterventionV1
  | Transition OccurrenceSnapshotV1 VerifiedGovernedInterventionV1

record HumanDispositionVerificationRequestV1 =
  hvr_artifact :: HumanDispositionV1
  hvr_expected_scope :: HumanAuthorityScopeV1
  hvr_now_unix_ms :: u64

datatype HumanDispositionEffectV1 =
    Updated OccurrenceSnapshotV1 HumanVerificationRefV1
  | OpenedOccurrence OccurrenceSnapshotV1 OccurrenceSnapshotV1 HumanVerificationRefV1

datatype ProposalClassV1 = ClassInitial | ClassRetry | ClassSuccessor

end
