(* ===== verification/Governed_Canonical.thy ===== *)
theory Governed_Canonical
  imports Governed_Types
begin

text \<open>
  Canonical sets of the kernel: open residuals, C1 findings, and the exact discharge of
  residuals (\<open>ResidualSetV1\<close>, \<open>CanonicalFindingSetV1\<close>, \<open>sorted_unique_ids\<close> and
  \<open>apply_exact_discharge\<close> of \<open>crates/ag-campaign/src/governed.rs\<close>), and the budget checks.
\<close>

section \<open>Operations\<close>

definition ResidualSetV1_new :: "ResidualObligationV1 list \<Rightarrow> KernelErrorV1 + ResidualSetV1" where
  "ResidualSetV1_new residuals =
     (let residuals = sort_key res_residual residuals in
      if windows_any (\<lambda>x y. res_residual x = res_residual y) residuals
      then Err DuplicateResidual
      else Ok (ResidualSetV1 residuals))"

definition residuals_empty :: "ResidualSetV1 \<Rightarrow> bool" where
  "residuals_empty rs = (residual_slice rs = [])"

definition residual_ids :: "ResidualSetV1 \<Rightarrow> ResidualIdV1 set" where
  "residual_ids rs = set (map res_residual (residual_slice rs))"

definition CanonicalFindingSetV1_new :: "Digest list \<Rightarrow> KernelErrorV1 + CanonicalFindingSetV1" where
  "CanonicalFindingSetV1_new findings =
     (let findings = sort findings in
      if windows_any (\<lambda>x y. x = y) findings
      then Err DuplicateFinding
      else Ok (CanonicalFindingSetV1 findings))"

text \<open>\<open>sorted_unique_ids\<close>: collect into a \<open>BTreeSet\<close>, refuse if anything was dropped.\<close>

definition sorted_unique_ids :: "ResidualIdV1 list \<Rightarrow> ResidualIdV1 set option" where
  "sorted_unique_ids ids = (if card (set ids) = length ids then Some (set ids) else None)"

definition apply_exact_discharge ::
  "HaltedV1 \<Rightarrow> ExactResidualDischargeV1 \<Rightarrow> HumanDecisionIdV1 \<Rightarrow> KernelErrorV1 + ResidualSetV1" where
  "apply_exact_discharge halted discharge decision =
     (if dis_campaign discharge \<noteq> key_campaign (meta_key (ha_meta halted))
         \<or> dis_occurrence discharge \<noteq> key_occurrence (meta_key (ha_meta halted))
         \<or> dis_program discharge \<noteq> meta_program (ha_meta halted)
         \<or> dis_disposition discharge \<noteq> decision
      then Err ResidualAccounting
      else
        try_then (ok_or (sorted_unique_ids (dis_before discharge)) ResidualAccounting) (\<lambda>before.
        try_then (ok_or (sorted_unique_ids (dis_authorized discharge)) ResidualAccounting) (\<lambda>authorized.
        try_then (ok_or (sorted_unique_ids (dis_closed discharge)) ResidualAccounting) (\<lambda>closed.
        try_then (ok_or (sorted_unique_ids (dis_after discharge)) ResidualAccounting) (\<lambda>after.
          if before \<noteq> residual_ids (meta_residuals (ha_meta halted))
             \<or> authorized \<noteq> closed
             \<or> closed \<inter> after \<noteq> {}
             \<or> before \<noteq> closed \<union> after
          then Err ResidualAccounting
          else ResidualSetV1_new
                 (filter (\<lambda>residual. res_residual residual \<in> after)
                    (residual_slice (meta_residuals (ha_meta halted)))))))))"

definition retry_available :: "LoopBudgetV1 \<Rightarrow> bool" where
  "retry_available b = (retries_used b < retry_limit b)"

definition probe_available :: "LoopBudgetV1 \<Rightarrow> bool" where
  "probe_available b = (probes_used b < probe_limit b)"

definition escalation_available :: "LoopBudgetV1 \<Rightarrow> bool" where
  "escalation_available b = (escalations_used b < escalation_limit b)"

definition budget_validate :: "LoopBudgetV1 \<Rightarrow> KernelErrorV1 + unit" where
  "budget_validate b =
     (if retry_limit b < retries_used b \<or> probe_limit b < probes_used b
         \<or> escalation_limit b < escalations_used b
      then Err InvalidBudget else Ok ())"

section \<open>The canonical-constructor interface\<close>

text \<open>
  What the clients of a canonical set rely on: the constructor sorts by an identity and
  refuses exactly the inputs that repeat one.
\<close>

locale canonical_constructor =
  fixes ident :: "'a \<Rightarrow> 'k::linorder"
    and wrap :: "'a list \<Rightarrow> 's"
    and construct :: "'a list \<Rightarrow> 'e + 's"
    and duplicate :: 'e
  assumes wrap_inject: "wrap xs = wrap ys \<Longrightarrow> xs = ys"
    and accepts: "distinct (map ident xs) \<Longrightarrow> construct xs = Inr (wrap (sort_key ident xs))"
    and rejects: "\<not> distinct (map ident xs) \<Longrightarrow> construct xs = Inl duplicate"
begin

lemma construct_ok_iff:
  "construct xs = Inr s \<longleftrightarrow> distinct (map ident xs) \<and> s = wrap (sort_key ident xs)"
  using accepts rejects by (cases "distinct (map ident xs)") auto

lemma construct_canonical:
  assumes "construct xs = Inr (wrap ys)"
  shows "sorted_wrt (<) (map ident ys)" and "mset ys = mset xs"
proof -
  have d: "distinct (map ident xs)" and ys: "ys = sort_key ident xs"
    using assms construct_ok_iff wrap_inject by blast+
  have "mset (map ident ys) = mset (map ident xs)"
    using ys by simp
  then have "distinct (map ident ys)"
    using d by (metis mset_eq_imp_distinct_iff)
  then show "sorted_wrt (<) (map ident ys)"
    using ys by (simp add: strict_sorted_iff)
  show "mset ys = mset xs" using ys by simp
qed

lemma canonical_fixed:
  "sorted_wrt (<) (map ident xs) \<longleftrightarrow> construct xs = Inr (wrap xs)"
  using construct_canonical(1) [of xs xs] accepts [of xs] sort_key_sorted_id [of ident xs]
  by (auto simp: strict_sorted_iff)

lemma construct_permute:
  assumes "mset xs = mset ys"
  shows "construct xs = construct ys"
proof (cases "distinct (map ident xs)")
  case True
  have "distinct (map ident ys)"
    using True assms by (metis mset_eq_imp_distinct_iff mset_map)
  then show ?thesis
    using True assms accepts sort_key_cong_distinct [of xs ys ident] by simp
next
  case False
  have "\<not> distinct (map ident ys)"
    using False assms by (metis mset_eq_imp_distinct_iff mset_map)
  then show ?thesis
    using False rejects by simp
qed

lemma construct_exact:
  "construct xs = Inr (wrap ys) \<longleftrightarrow> sorted_wrt (<) (map ident ys) \<and> mset ys = mset xs"
  using construct_canonical [of xs ys] construct_permute [of xs ys] canonical_fixed [of ys] by auto

lemma canonical_filter:
  assumes "construct xs = Inr (wrap xs)"
  shows "construct (filter P xs) = Inr (wrap (filter P xs))"
  using assms unfolding canonical_fixed [symmetric]
  by (simp add: sorted_wrt_map sorted_wrt_filter)

end

lemma ResidualSetV1_new_cases:
  "ResidualSetV1_new xs =
     (if distinct (map res_residual xs) then Ok (ResidualSetV1 (sort_key res_residual xs))
      else Err DuplicateResidual)"
proof -
  have "mset (map res_residual (sort_key res_residual xs)) = mset (map res_residual xs)"
    by simp
  then have "distinct (map res_residual (sort_key res_residual xs)) \<longleftrightarrow> distinct (map res_residual xs)"
    by (rule mset_eq_imp_distinct_iff)
  then show ?thesis
    by (simp add: ResidualSetV1_new_def windows_any_eq_sorted)
qed

lemma CanonicalFindingSetV1_new_cases:
  "CanonicalFindingSetV1_new xs =
     (if distinct xs then Ok (CanonicalFindingSetV1 (sort xs)) else Err DuplicateFinding)"
  using windows_any_eq_sorted [of "\<lambda>d. d" "sort xs"]
  by (simp add: CanonicalFindingSetV1_new_def)

interpretation residual_sets:
  canonical_constructor res_residual ResidualSetV1 ResidualSetV1_new DuplicateResidual
  by unfold_locales (auto simp: ResidualSetV1_new_cases)

interpretation finding_sets:
  canonical_constructor "\<lambda>d. d" CanonicalFindingSetV1 CanonicalFindingSetV1_new DuplicateFinding
  by unfold_locales (auto simp: CanonicalFindingSetV1_new_cases)

section \<open>Exact discharge\<close>

lemma sorted_unique_ids_eq_Some:
  "sorted_unique_ids ids = Some A \<longleftrightarrow> distinct ids \<and> A = set ids"
  by (auto simp: sorted_unique_ids_def card_set_eq_length)

text \<open>A residual set in canonical form: what its constructor produces.\<close>

definition canonical_residuals :: "ResidualSetV1 \<Rightarrow> bool" where
  "canonical_residuals rs = (ResidualSetV1_new (residual_slice rs) = Ok rs)"

lemma canonical_residuals_iff:
  "canonical_residuals rs \<longleftrightarrow> sorted_wrt (<) (map res_residual (residual_slice rs))"
  by (cases rs) (simp add: canonical_residuals_def residual_sets.canonical_fixed)

lemma ResidualSetV1_new_canonical:
  assumes "ResidualSetV1_new xs = Ok rs"
  shows "canonical_residuals rs" and "set (residual_slice rs) = set xs"
  using assms residual_sets.construct_canonical [of xs "residual_slice rs"]
  by (auto simp: canonical_residuals_iff dest: mset_eq_setD)

lemma apply_exact_discharge_ok:
  assumes "apply_exact_discharge halted d decision = Ok rs"
  shows "dis_disposition d = decision"
    and "set (dis_authorized d) = set (dis_closed d)"
    and "set (dis_closed d) \<subseteq> residual_ids (meta_residuals (ha_meta halted))"
    and "set (residual_slice rs) = {r \<in> set (residual_slice (meta_residuals (ha_meta halted))).
           res_residual r \<notin> set (dis_closed d)}"
    and "residual_ids rs = residual_ids (meta_residuals (ha_meta halted)) - set (dis_closed d)"
    and "canonical_residuals rs"
proof -
  let ?open = "meta_residuals (ha_meta halted)"
  from assms have ids: "set (dis_before d) = residual_ids ?open"
      "set (dis_authorized d) = set (dis_closed d)"
      "set (dis_closed d) \<inter> set (dis_after d) = {}"
      "residual_ids ?open = set (dis_closed d) \<union> set (dis_after d)"
    and rs: "ResidualSetV1_new (filter (\<lambda>r. res_residual r \<in> set (dis_after d)) (residual_slice ?open)) = Ok rs"
    by (auto simp: apply_exact_discharge_def sorted_unique_ids_eq_Some)
  show "dis_disposition d = decision"
    using assms by (simp add: apply_exact_discharge_def)
  show "set (dis_authorized d) = set (dis_closed d)" by (fact ids(2))
  show "set (dis_closed d) \<subseteq> residual_ids ?open" using ids(4) by blast
  have after: "set (residual_slice rs) = {r \<in> set (residual_slice ?open). res_residual r \<in> set (dis_after d)}"
    using ResidualSetV1_new_canonical(2) [OF rs] by auto
  also have "\<dots> = {r \<in> set (residual_slice ?open). res_residual r \<notin> set (dis_closed d)}"
    using ids(3,4) by (auto simp: residual_ids_def)
  finally show eq: "set (residual_slice rs) =
      {r \<in> set (residual_slice ?open). res_residual r \<notin> set (dis_closed d)}" .
  show "residual_ids rs = residual_ids ?open - set (dis_closed d)"
    using eq by (auto simp: residual_ids_def)
  show "canonical_residuals rs" by (rule ResidualSetV1_new_canonical(1) [OF rs])
qed

lemma apply_exact_discharge_iff:
  assumes "canonical_residuals (meta_residuals (ha_meta halted))"
  shows "apply_exact_discharge halted d decision = Ok rs \<longleftrightarrow>
     dis_campaign d = key_campaign (meta_key (ha_meta halted))
     \<and> dis_occurrence d = key_occurrence (meta_key (ha_meta halted))
     \<and> dis_program d = meta_program (ha_meta halted) \<and> dis_disposition d = decision
     \<and> distinct (dis_before d) \<and> distinct (dis_authorized d) \<and> distinct (dis_closed d) \<and> distinct (dis_after d)
     \<and> set (dis_before d) = residual_ids (meta_residuals (ha_meta halted))
     \<and> set (dis_authorized d) = set (dis_closed d) \<and> set (dis_closed d) \<inter> set (dis_after d) = {}
     \<and> set (dis_before d) = set (dis_closed d) \<union> set (dis_after d)
     \<and> rs = ResidualSetV1 (filter (\<lambda>r. res_residual r \<notin> set (dis_closed d))
          (residual_slice (meta_residuals (ha_meta halted))))"
proof -
  let ?open = "residual_slice (meta_residuals (ha_meta halted))"
  have "ResidualSetV1_new ?open = Ok (ResidualSetV1 ?open)"
    using assms by (cases "meta_residuals (ha_meta halted)") (simp add: canonical_residuals_def)
  then have keep: "ResidualSetV1_new (filter P ?open) = Ok (ResidualSetV1 (filter P ?open))" for P
    by (rule residual_sets.canonical_filter)
  have same: "filter (\<lambda>r. res_residual r \<in> after) ?open = filter (\<lambda>r. res_residual r \<notin> closed) ?open"
    if "residual_ids (meta_residuals (ha_meta halted)) = closed \<union> after" "closed \<inter> after = {}" for closed after
    using that by (intro filter_cong) (auto simp: residual_ids_def)
  show ?thesis
    by (auto simp: apply_exact_discharge_def sorted_unique_ids_eq_Some keep same)
qed

lemma budget_validate_ok:
  "budget_validate b = Ok u \<longleftrightarrow>
     retries_used b \<le> retry_limit b \<and> probes_used b \<le> probe_limit b
     \<and> escalations_used b \<le> escalation_limit b"
  by (auto simp: budget_validate_def not_less)

section \<open>Properties\<close>

text \<open>C27. The residual and the finding constructor accept exactly the inputs without a repeated
  identity; the result is the one strictly sorted permutation of the input, and every other
  input is the duplicate error.\<close>

theorem canonical_sets_are_exact:
  "((ResidualSetV1_new xs = Ok rs) = (sorted_wrt (<) (map res_residual (residual_slice rs)) \<and> mset (residual_slice rs) = mset xs))
   \<and> ((ResidualSetV1_new xs = Err DuplicateResidual) = (\<not> distinct (map res_residual xs)))
   \<and> ((CanonicalFindingSetV1_new ds = Ok fs) = (sorted_wrt (<) (finding_slice fs) \<and> mset (finding_slice fs) = mset ds))
   \<and> ((CanonicalFindingSetV1_new ds = Err DuplicateFinding) = (\<not> distinct ds))"
proof -
  have "(ResidualSetV1_new xs = Ok rs) = (sorted_wrt (<) (map res_residual (residual_slice rs)) \<and> mset (residual_slice rs) = mset xs)"
    using residual_sets.construct_exact [of xs "residual_slice rs"] by simp
  moreover have "(CanonicalFindingSetV1_new ds = Ok fs) = (sorted_wrt (<) (finding_slice fs) \<and> mset (finding_slice fs) = mset ds)"
    using finding_sets.construct_exact [of ds "finding_slice fs"] by simp
  ultimately show ?thesis
    by (auto simp: ResidualSetV1_new_cases CanonicalFindingSetV1_new_cases split: if_splits)
qed

end
