(* ===== verification/Governed_Digests.thy ===== *)
theory Governed_Digests
  imports Governed_Canonical
begin

text \<open>
  The content-derived identities of the governed-loop kernel
  (\<open>crates/ag-campaign/src/governed.rs\<close>): schema and domain constants, \<open>digest_value\<close>, the
  proposal, authorization, spend, attempt, issuance and state digests, and the content-bound
  intervention request. Serialization by the derived \<open>Serialize\<close> instances and
  \<open>serde_jcs\<close> is a field of the library record.
\<close>

section \<open>Constants\<close>

definition EXACT_WORK_PROPOSAL_SCHEMA_V1 :: string where
  "EXACT_WORK_PROPOSAL_SCHEMA_V1 = ''ag.governed-loop.exact-work-proposal/v1''"

definition OBSERVATION_RESOLUTION_SCHEMA_V2 :: string where
  "OBSERVATION_RESOLUTION_SCHEMA_V2 = ''ag.governed-loop.observation-resolution/v2''"

definition OBSERVATION_RESOLUTION_SCHEMA_V3 :: string where
  "OBSERVATION_RESOLUTION_SCHEMA_V3 = ''ag.governed-loop.observation-resolution/v3''"

definition TYPED_OBSERVATION_BASIS_SCHEMA_V1 :: string where
  "TYPED_OBSERVATION_BASIS_SCHEMA_V1 = ''ag.governed-loop.typed-observation-basis/v1''"

definition STANDING_RESOLUTION_SCHEMA_V2 :: string where
  "STANDING_RESOLUTION_SCHEMA_V2 = ''ag.governed-loop.standing-resolution/v2''"

definition AG_ISSUANCE_SCHEMA_V1 :: string where
  "AG_ISSUANCE_SCHEMA_V1 = ''ag.governed-loop.issuance/v1''"

definition DOCKET_CUSTODY_SCHEMA_V1 :: string where
  "DOCKET_CUSTODY_SCHEMA_V1 = ''ag.governed-loop.docket-custody/v1''"

definition DOCKET_SETTLEMENT_SCHEMA_V1 :: string where
  "DOCKET_SETTLEMENT_SCHEMA_V1 = ''ag.governed-loop.docket-settlement/v1''"

definition HUMAN_DISPOSITION_SCHEMA_V1 :: string where
  "HUMAN_DISPOSITION_SCHEMA_V1 = ''ag.governed-loop.human-disposition/v1''"

definition GOVERNED_INTERVENTION_SCHEMA_V1 :: string where
  "GOVERNED_INTERVENTION_SCHEMA_V1 = ''ag.governed-loop.intervention-request/v1''"

definition STATE_DIGEST_DOMAIN_V1 :: string where
  "STATE_DIGEST_DOMAIN_V1 = ''ag.governed-loop.state/v1''"

definition GENESIS_DIGEST_DOMAIN_V1 :: string where
  "GENESIS_DIGEST_DOMAIN_V1 = ''ag.governed-loop.genesis/v1''"

definition PROPOSAL_DIGEST_DOMAIN_V1 :: string where
  "PROPOSAL_DIGEST_DOMAIN_V1 = ''ag.governed-loop.proposal/v1''"

definition AG_AUTHORIZATION_DIGEST_DOMAIN_V1 :: string where
  "AG_AUTHORIZATION_DIGEST_DOMAIN_V1 = ''ag.governed-loop.authorization/v1''"

definition AG_SPEND_DIGEST_DOMAIN_V1 :: string where
  "AG_SPEND_DIGEST_DOMAIN_V1 = ''ag.governed-loop.spend/v1''"

definition AG_ISSUANCE_DIGEST_DOMAIN_V1 :: string where
  "AG_ISSUANCE_DIGEST_DOMAIN_V1 = ''ag.governed-loop.issuance/v1''"

definition GOVERNED_INTERVENTION_DIGEST_DOMAIN_V1 :: string where
  "GOVERNED_INTERVENTION_DIGEST_DOMAIN_V1 = ''ag.governed-loop.intervention-request/v1''"

section \<open>Digest inputs\<close>

text \<open>The body of an issuance, hashed into its identity.\<close>

record IssuanceBody =
  body_key :: OccurrenceKeyV1
  body_program :: ProgramBasisRefV1
  body_proposal :: ProposalRefV1
  body_work_schema :: string
  body_work :: Digest
  body_subject :: Digest
  body_scope :: Digest
  body_observation :: ObservationRefV1
  body_standing_resolution :: StandingResolutionRefV1
  body_mandate :: MandateRefV1
  body_spend :: AgSpendRefV1

record GovernedInterventionDigestInputV1 =
  gid_schema :: string
  gid_principal :: HumanPrincipalRefV1
  gid_mandate :: MandateRefV1
  gid_nonce :: GovernedInterventionNonceRefV1
  gid_campaign :: CampaignId
  gid_occurrence :: OccurrenceId
  gid_target_state_digest :: Digest
  gid_intervention :: GovernedInterventionClassV1
  gid_created_at_unix_ms :: u64
  gid_expires_at_unix_ms :: u64

text \<open>
  Every value the kernel passes to \<open>digest_value\<close>: the state input, the genesis tuple, a
  proposal, the authorization basis, an authorization, an issuance reference, an issuance
  body, the recovery tuple, an intervention input and a typed observation basis.
\<close>

datatype digest_input =
    StateInput Digest OccurrenceStateV1
  | GenesisInput OccurrenceKeyV1 ProgramBasisRefV1 Digest
  | ProposalInput ExactWorkProposalV1
  | AuthorizationInput OccurrenceKeyV1 ObservationRefV1 ProposalRefV1 StandingResolutionRefV1
  | SpendInput AgAuthorizationRefV1
  | AttemptInput AgIssuanceRefV1
  | IssuanceInput IssuanceBody
  | RecoveryInput Digest DocketAttemptRefV1
  | InterventionInput GovernedInterventionDigestInputV1
  | TypedBasisInput TypedOpaqueObservationBasisV1

record governed_lib = jcs_lib +
  input_to_vec :: "digest_input \<Rightarrow> bytes option"
  basis_to_vec :: "DecisionBasisV1 \<Rightarrow> bytes option"

text \<open>
  \<open>digest_value\<close> panics where canonicalization fails; the value is left unspecified there.
\<close>

definition digest_value :: "'l governed_lib_scheme \<Rightarrow> string \<Rightarrow> digest_input \<Rightarrow> Digest" where
  "digest_value H domain value =
     (case jcs_canonicalize H (input_to_vec H) value of
        Inl _ \<Rightarrow> undefined
      | Inr document \<Rightarrow> hash_domain H domain document)"

text \<open>The documented reason of that \<open>expect\<close>: every digest input serializes as strict JCS.\<close>

definition input_serializes :: "'l governed_lib_scheme \<Rightarrow> bool" where
  "input_serializes H = (\<forall>i. is_ok (jcs_canonicalize H (input_to_vec H) i))"

definition input_bytes :: "'l governed_lib_scheme \<Rightarrow> digest_input \<Rightarrow> bytes" where
  "input_bytes H i = projr (jcs_canonicalize H (input_to_vec H) i)"

lemma digest_value_hash:
  "input_serializes H \<Longrightarrow> digest_value H domain i = hash_domain H domain (input_bytes H i)"
  by (auto simp: input_serializes_def digest_value_def input_bytes_def is_ok_def split: sum.splits)

section \<open>Derived identities\<close>

definition proposal_reference :: "'l governed_lib_scheme \<Rightarrow> ExactWorkProposalV1 \<Rightarrow> ProposalRefV1" where
  "proposal_reference H p = ProposalRefV1 (digest_value H PROPOSAL_DIGEST_DOMAIN_V1 (ProposalInput p))"

definition authorization_for_basis ::
  "'l governed_lib_scheme \<Rightarrow> OccurrenceKeyV1 \<Rightarrow> ObservationRefV1 \<Rightarrow> ProposalRefV1
     \<Rightarrow> StandingResolutionRefV1 \<Rightarrow> AgAuthorizationRefV1" where
  "authorization_for_basis H key observation proposal standing =
     AgAuthorizationRefV1 (digest_value H AG_AUTHORIZATION_DIGEST_DOMAIN_V1
       (AuthorizationInput key observation proposal standing))"

definition spend_for_authorization ::
  "'l governed_lib_scheme \<Rightarrow> AgAuthorizationRefV1 \<Rightarrow> AgSpendRefV1" where
  "spend_for_authorization H authorization =
     AgSpendRefV1 (digest_value H AG_SPEND_DIGEST_DOMAIN_V1 (SpendInput authorization))"

definition attempt_for_issuance ::
  "'l governed_lib_scheme \<Rightarrow> AgIssuanceRefV1 \<Rightarrow> DocketAttemptRefV1" where
  "attempt_for_issuance H issuance =
     DocketAttemptRefV1 (digest_value H ''ag.governed-loop.docket-attempt/v1'' (AttemptInput issuance))"

definition state_digest :: "'l governed_lib_scheme \<Rightarrow> Digest \<Rightarrow> OccurrenceStateV1 \<Rightarrow> Digest" where
  "state_digest H prior state = digest_value H STATE_DIGEST_DOMAIN_V1 (StateInput prior state)"

text \<open>\<open>VersionedObservationResolutionV1::observation\<close>, used by the issuance body.\<close>

fun obs_observation :: "VersionedObservationResolutionV1 \<Rightarrow> ObservationRefV1" where
  "obs_observation (NightshiftV2 v) = or2_observation v"
| "obs_observation (TypedV3 v) = or3_observation v"

definition issuance_body :: "AdmissibleBasisV1 \<Rightarrow> AgSpendRefV1 \<Rightarrow> IssuanceBody" where
  "issuance_body admitted spend = \<lparr>
     body_key = meta_key (pb_meta (ab_proposal admitted)),
     body_program = meta_program (pb_meta (ab_proposal admitted)),
     body_proposal = pb_proposal_ref (ab_proposal admitted),
     body_work_schema = prop_work_schema (pb_proposal (ab_proposal admitted)),
     body_work = prop_work (pb_proposal (ab_proposal admitted)),
     body_subject = prop_subject (pb_proposal (ab_proposal admitted)),
     body_scope = prop_scope (pb_proposal (ab_proposal admitted)),
     body_observation = obs_observation (pb_observation (ab_proposal admitted)),
     body_standing_resolution = st_resolution (ab_standing admitted),
     body_mandate = st_mandate (ab_standing admitted),
     body_spend = spend\<rparr>"

definition build_issuance ::
  "'l governed_lib_scheme \<Rightarrow> AdmissibleBasisV1 \<Rightarrow> AgSpendRefV1 \<Rightarrow> AgIssuanceV1" where
  "build_issuance H admitted spend =
     (let basis = issuance_body admitted spend;
          issuance = AgIssuanceRefV1 (digest_value H AG_ISSUANCE_DIGEST_DOMAIN_V1 (IssuanceInput basis))
      in \<lparr>iss_schema = AG_ISSUANCE_SCHEMA_V1,
          iss_issuance = issuance,
          iss_key = body_key basis,
          iss_program = body_program basis,
          iss_proposal = body_proposal basis,
          iss_work_schema = body_work_schema basis,
          iss_work = body_work basis,
          iss_subject = body_subject basis,
          iss_scope = body_scope basis,
          iss_observation = body_observation basis,
          iss_standing_resolution = body_standing_resolution basis,
          iss_mandate = body_mandate basis,
          iss_spend = body_spend basis\<rparr>)"

section \<open>Content-bound intervention requests\<close>

definition derived_request_id ::
  "'l governed_lib_scheme \<Rightarrow> GovernedInterventionRequestV1 \<Rightarrow> GovernedInterventionRequestIdV1" where
  "derived_request_id H r =
     GovernedInterventionRequestIdV1 (digest_value H GOVERNED_INTERVENTION_DIGEST_DOMAIN_V1
       (InterventionInput \<lparr>
          gid_schema = gi_schema r,
          gid_principal = gi_principal r,
          gid_mandate = gi_mandate r,
          gid_nonce = gi_nonce r,
          gid_campaign = gi_campaign r,
          gid_occurrence = gi_occurrence r,
          gid_target_state_digest = gi_target_state_digest r,
          gid_intervention = gi_intervention r,
          gid_created_at_unix_ms = gi_created_at_unix_ms r,
          gid_expires_at_unix_ms = gi_expires_at_unix_ms r\<rparr>))"

fun intervention_evidence :: "GovernedInterventionClassV1 \<Rightarrow> Digest list option" where
  "intervention_evidence (ReconcileAttempt _ _ evidence) = Some evidence"
| "intervention_evidence (RequestProbe _ evidence) = Some evidence"
| "intervention_evidence (OpenSuccessor _ _) = None"
| "intervention_evidence (HaltContinuation _) = None"

definition intervention_validate_integrity ::
  "'l governed_lib_scheme \<Rightarrow> GovernedInterventionRequestV1 \<Rightarrow> KernelErrorV1 + unit" where
  "intervention_validate_integrity H r =
     (if gi_schema r \<noteq> GOVERNED_INTERVENTION_SCHEMA_V1 then Err (ForeignSchema ''governed intervention'')
      else if gi_request r \<noteq> derived_request_id H r then Err (Intervention ''request digest mismatch'')
      else if gi_created_at_unix_ms r \<ge> gi_expires_at_unix_ms r then Err (Intervention ''invalid request window'')
      else case intervention_evidence (gi_intervention r) of
          None \<Rightarrow> Ok ()
        | Some evidence \<Rightarrow>
            if length evidence > 64 \<or> windows_any (\<ge>) evidence
            then Err (Intervention ''evidence must be bounded, sorted, and unique'')
            else Ok ())"

text \<open>\<open>GovernedInterventionRequestV1::new\<close>: a placeholder identity, then the derived one.\<close>

definition intervention_new ::
  "'l governed_lib_scheme \<Rightarrow> HumanPrincipalRefV1 \<Rightarrow> MandateRefV1 \<Rightarrow> GovernedInterventionNonceRefV1
     \<Rightarrow> CampaignId \<Rightarrow> OccurrenceId \<Rightarrow> Digest \<Rightarrow> GovernedInterventionClassV1 \<Rightarrow> u64 \<Rightarrow> u64
     \<Rightarrow> KernelErrorV1 + GovernedInterventionRequestV1" where
  "intervention_new H requester mandate nonce campaign occurrence target intervention created expires =
     (let pending = \<lparr>
            gi_schema = GOVERNED_INTERVENTION_SCHEMA_V1,
            gi_request = GovernedInterventionRequestIdV1 (hash_bytes H (as_bytes ''pending'')),
            gi_principal = requester,
            gi_mandate = mandate,
            gi_nonce = nonce,
            gi_campaign = campaign,
            gi_occurrence = occurrence,
            gi_target_state_digest = target,
            gi_intervention = intervention,
            gi_created_at_unix_ms = created,
            gi_expires_at_unix_ms = expires\<rparr>;
          value = pending\<lparr>gi_request := derived_request_id H pending\<rparr>
      in try_then (intervention_validate_integrity H value) (\<lambda>_. Ok value))"

end
