(* ===== verification/Governed_Observation.thy ===== *)
theory Governed_Observation
  imports Governed_Digests
begin

text \<open>
  Observation bases, the versioned observation record and the three consequence-time
  resolutions of \<open>crates/ag-campaign/src/governed.rs\<close>: \<open>resolve_observation\<close>,
  \<open>resolve_standing\<close> and \<open>resolve_admissibility\<close>. The external resolvers are parameters:
  each operation calls each of them at most once, so a resolver is a function from the
  request to its answer.
\<close>

type_synonym observation_resolver =
  "ObservationResolutionRequestV1 \<Rightarrow> ExternalBoundaryErrorV1 + VersionedObservationResolutionV1"
type_synonym standing_resolver =
  "StandingResolutionRequestV1 \<Rightarrow> ExternalBoundaryErrorV1 + CurrentStandingResolutionV2"
type_synonym admissibility_decider =
  "AdmissibilityRequestV1 \<Rightarrow> ExternalBoundaryErrorV1 + AdmissionDecisionV1"

section \<open>Decision bases\<close>

definition DECISION_BASIS_SCHEMA_V1 :: string where
  "DECISION_BASIS_SCHEMA_V1 = ''nightshift.decision-basis.v1''"

definition DECISION_BASIS_RULE_ID_V1 :: string where
  "DECISION_BASIS_RULE_ID_V1 = ''nightshift.posture-normalization''"

definition DECISION_BASIS_RULE_VERSION_V1 :: string where
  "DECISION_BASIS_RULE_VERSION_V1 = ''1''"

definition DECISION_BASIS_DIGEST_DOMAIN_V1 :: bytes where
  "DECISION_BASIS_DIGEST_DOMAIN_V1 = as_bytes (''nightshift.decision-basis.v1'' @ [CHR 0x00])"

definition DECISION_BASIS_ATOM_VOCABULARY_V1 :: "string list" where
  "DECISION_BASIS_ATOM_VOCABULARY_V1 =
     [''condition.clean'', ''condition.condition_present'', ''condition.unresolved'',
      ''delivery.qualified'', ''delivery.partial_delivery'', ''delivery.failed'',
      ''delivery.not_configured'', ''delivery.not_required'']"

text \<open>The error texts of the two bases.\<close>

datatype basis_error =
    UnsupportedTypedSchema string
  | TypedLabel CampaignLabelError
  | ReservedNightshiftType
  | AtomsNotStrictlySorted
  | UnsupportedBasisSchema string
  | UnknownRuleIdentity
  | UnsupportedRuleVersion
  | RuleDigestNotCanonical DigestParseError
  | RuleDigestMismatch
  | AtomCardinality
  | UnknownAtom string
  | Canonicalization JcsError

definition decision_basis_rule_digest_v1 :: "'l governed_lib_scheme \<Rightarrow> Digest" where
  "decision_basis_rule_digest_v1 H =
     hash_bytes H (as_bytes (DECISION_BASIS_RULE_ID_V1 @ ''.v'' @ DECISION_BASIS_RULE_VERSION_V1))"

definition basis_validate :: "'l governed_lib_scheme \<Rightarrow> DecisionBasisV1 \<Rightarrow> basis_error + unit" where
  "basis_validate H b =
     (if basis_schema b \<noteq> DECISION_BASIS_SCHEMA_V1 then Err (UnsupportedBasisSchema (basis_schema b))
      else if rule_id (basis_rule b) \<noteq> DECISION_BASIS_RULE_ID_V1 then Err UnknownRuleIdentity
      else if rule_version (basis_rule b) \<noteq> DECISION_BASIS_RULE_VERSION_V1 then Err UnsupportedRuleVersion
      else try_then (map_err RuleDigestNotCanonical (digest_from_str H (rule_digest (basis_rule b)))) (\<lambda>digest.
        if digest \<noteq> decision_basis_rule_digest_v1 H then Err RuleDigestMismatch
        else if card (basis_atoms b) \<noteq> 2 then Err AtomCardinality
        else
          (let conditions = card (Set.filter (prefix ''condition.'') (basis_atoms b));
               deliveries = card (Set.filter (prefix ''delivery.'') (basis_atoms b))
           in if conditions \<noteq> 1 \<or> deliveries \<noteq> 1 then Err AtomCardinality
              else case find (\<lambda>atom. atom \<notin> set DECISION_BASIS_ATOM_VOCABULARY_V1)
                       (sorted_list_of_set (basis_atoms b)) of
                  Some atom \<Rightarrow> Err (UnknownAtom atom)
                | None \<Rightarrow> Ok ())))"

text \<open>\<open>TryFrom<RawDecisionBasisV1>\<close>: the wire list must be strictly ascending.\<close>

definition basis_try_from ::
  "'l governed_lib_scheme \<Rightarrow> string \<Rightarrow> DecisionBasisRuleV1 \<Rightarrow> string list \<Rightarrow> basis_error + DecisionBasisV1" where
  "basis_try_from H schema rule atoms =
     (if \<not> windows_all (<) atoms then Err AtomsNotStrictlySorted
      else (let basis = \<lparr>basis_schema = schema, basis_rule = rule, basis_atoms = set atoms\<rparr>
            in try_then (basis_validate H basis) (\<lambda>_. Ok basis)))"

definition basis_canonical_bytes ::
  "'l governed_lib_scheme \<Rightarrow> DecisionBasisV1 \<Rightarrow> basis_error + bytes" where
  "basis_canonical_bytes H b = map_err Canonicalization (jcs_canonicalize H (basis_to_vec H) b)"

definition decision_basis_digest ::
  "'l governed_lib_scheme \<Rightarrow> DecisionBasisV1 \<Rightarrow> basis_error + Digest" where
  "decision_basis_digest H b =
     try_then (basis_canonical_bytes H b) (\<lambda>canonical.
       Ok (hash_bytes H (DECISION_BASIS_DIGEST_DOMAIN_V1 @ canonical)))"

section \<open>Typed opaque bases\<close>

definition typed_validate :: "TypedOpaqueObservationBasisV1 \<Rightarrow> basis_error + unit" where
  "typed_validate b =
     (if typed_schema b \<noteq> TYPED_OBSERVATION_BASIS_SCHEMA_V1
      then Err (UnsupportedTypedSchema (typed_schema b))
      else try_then (map_err TypedLabel (validate_label ''typed observation-basis type'' (typed_basis_type b)))
        (\<lambda>_. if typed_basis_type b = DECISION_BASIS_SCHEMA_V1 then Err ReservedNightshiftType else Ok ()))"

definition typed_new :: "string \<Rightarrow> Digest \<Rightarrow> basis_error + TypedOpaqueObservationBasisV1" where
  "typed_new basis_type basis_identity =
     (let basis = \<lparr>typed_schema = TYPED_OBSERVATION_BASIS_SCHEMA_V1,
                   typed_basis_type = basis_type, typed_basis_identity = basis_identity\<rparr>
      in try_then (typed_validate basis) (\<lambda>_. Ok basis))"

definition binding_digest ::
  "'l governed_lib_scheme \<Rightarrow> TypedOpaqueObservationBasisV1 \<Rightarrow> basis_error + Digest" where
  "binding_digest H b =
     try_then (typed_validate b) (\<lambda>_. Ok (digest_value H TYPED_OBSERVATION_BASIS_SCHEMA_V1 (TypedBasisInput b)))"

section \<open>The versioned record\<close>

fun validate_basis :: "'l governed_lib_scheme \<Rightarrow> VersionedObservationResolutionV1 \<Rightarrow> basis_error + unit" where
  "validate_basis H (NightshiftV2 v) = basis_validate H (or2_basis v)"
| "validate_basis H (TypedV3 v) = typed_validate (or3_basis v)"

fun basis_binding_digest ::
  "'l governed_lib_scheme \<Rightarrow> VersionedObservationResolutionV1 \<Rightarrow> basis_error + Digest" where
  "basis_binding_digest H (NightshiftV2 v) = decision_basis_digest H (or2_basis v)"
| "basis_binding_digest H (TypedV3 v) = binding_digest H (or3_basis v)"

fun nightshift_basis :: "VersionedObservationResolutionV1 \<Rightarrow> DecisionBasisV1 option" where
  "nightshift_basis (NightshiftV2 v) = Some (or2_basis v)"
| "nightshift_basis (TypedV3 v) = None"

fun invalid_schema_label :: "VersionedObservationResolutionV1 \<Rightarrow> string" where
  "invalid_schema_label (NightshiftV2 v) = ''decision basis''"
| "invalid_schema_label (TypedV3 v) = ''typed observation basis''"

fun obs_schema :: "VersionedObservationResolutionV1 \<Rightarrow> string" where
  "obs_schema (NightshiftV2 v) = or2_schema v"
| "obs_schema (TypedV3 v) = or3_schema v"

fun obs_key :: "VersionedObservationResolutionV1 \<Rightarrow> OccurrenceKeyV1" where
  "obs_key (NightshiftV2 v) = or2_key v"
| "obs_key (TypedV3 v) = or3_key v"

fun obs_currentness :: "VersionedObservationResolutionV1 \<Rightarrow> ObservationCurrentnessRefV1" where
  "obs_currentness (NightshiftV2 v) = or2_currentness v"
| "obs_currentness (TypedV3 v) = or3_currentness v"

fun obs_normalized_preconditions :: "VersionedObservationResolutionV1 \<Rightarrow> PreconditionBasisRefV1" where
  "obs_normalized_preconditions (NightshiftV2 v) = or2_normalized_preconditions v"
| "obs_normalized_preconditions (TypedV3 v) = or3_normalized_preconditions v"

fun obs_resolver_id :: "VersionedObservationResolutionV1 \<Rightarrow> string" where
  "obs_resolver_id (NightshiftV2 v) = or2_resolver_id v"
| "obs_resolver_id (TypedV3 v) = or3_resolver_id v"

fun typed_basis :: "VersionedObservationResolutionV1 \<Rightarrow> TypedOpaqueObservationBasisV1 option" where
  "typed_basis (NightshiftV2 v) = None"
| "typed_basis (TypedV3 v) = Some (or3_basis v)"

fun obs_subject :: "VersionedObservationResolutionV1 \<Rightarrow> Digest" where
  "obs_subject (NightshiftV2 v) = or2_subject v"
| "obs_subject (TypedV3 v) = or3_subject v"

fun obs_resolved_at_unix_ms :: "VersionedObservationResolutionV1 \<Rightarrow> u64" where
  "obs_resolved_at_unix_ms (NightshiftV2 v) = or2_resolved_at_unix_ms v"
| "obs_resolved_at_unix_ms (TypedV3 v) = or3_resolved_at_unix_ms v"

fun obs_fresh_until_unix_ms :: "VersionedObservationResolutionV1 \<Rightarrow> u64" where
  "obs_fresh_until_unix_ms (NightshiftV2 v) = or2_fresh_until_unix_ms v"
| "obs_fresh_until_unix_ms (TypedV3 v) = or3_fresh_until_unix_ms v"

fun status_label :: "VersionedObservationResolutionV1 \<Rightarrow> string" where
  "status_label (NightshiftV2 v) =
     (case or2_status v of
        Obs_Current \<Rightarrow> ''Current'' | Obs_Stale \<Rightarrow> ''Stale'' | Obs_Superseded \<Rightarrow> ''Superseded''
      | Obs_Contradictory \<Rightarrow> ''Contradictory'' | Obs_Absent \<Rightarrow> ''Absent'')"
| "status_label (TypedV3 v) =
     (case or3_status v of
        Typed_Current \<Rightarrow> ''Current'' | Typed_Stale \<Rightarrow> ''Stale'' | Typed_Superseded \<Rightarrow> ''Superseded''
      | Typed_Contradictory \<Rightarrow> ''Contradictory'' | Typed_Absent \<Rightarrow> ''Absent''
      | Typed_Unsupported \<Rightarrow> ''Unsupported'' | Typed_Refused \<Rightarrow> ''Refused'')"

fun is_current :: "VersionedObservationResolutionV1 \<Rightarrow> bool" where
  "is_current (NightshiftV2 v) = (or2_status v = Obs_Current)"
| "is_current (TypedV3 v) = (or3_status v = Typed_Current)"

fun is_contradictory :: "VersionedObservationResolutionV1 \<Rightarrow> bool" where
  "is_contradictory (NightshiftV2 v) = (or2_status v = Obs_Contradictory)"
| "is_contradictory (TypedV3 v) = (or3_status v = Typed_Contradictory)"

text \<open>The two \<open>matches!\<close> guards on the outer schema.\<close>

fun known_schema :: "VersionedObservationResolutionV1 \<Rightarrow> bool" where
  "known_schema (NightshiftV2 v) = (or2_schema v = OBSERVATION_RESOLUTION_SCHEMA_V2)"
| "known_schema (TypedV3 v) = (or3_schema v = OBSERVATION_RESOLUTION_SCHEMA_V3)"

definition validate_observation_resolution_integrity ::
  "'l governed_lib_scheme \<Rightarrow> VersionedObservationResolutionV1 \<Rightarrow> KernelErrorV1 + unit" where
  "validate_observation_resolution_integrity H observation =
     (if \<not> known_schema observation then Err (ForeignSchema ''observation resolution'')
      else
        try_then (map_err (\<lambda>_. ForeignSchema (invalid_schema_label observation))
          (validate_basis H observation)) (\<lambda>_.
        try_then (map_err (\<lambda>_. ForeignSchema (invalid_schema_label observation))
          (basis_binding_digest H observation)) (\<lambda>expected.
        if precondition_digest (obs_normalized_preconditions observation) \<noteq> expected
        then Err (StateInvariant ''observation precondition basis'')
        else if obs_resolver_id observation = []
             \<or> obs_resolved_at_unix_ms observation \<ge> obs_fresh_until_unix_ms observation
        then Err (StateInvariant ''observation resolution'')
        else Ok ())))"

section \<open>Consequence-time resolution\<close>

definition resolve_observation ::
  "'l governed_lib_scheme \<Rightarrow> observation_resolver \<Rightarrow> OccurrenceKeyV1 \<Rightarrow> ObservationRefV1 \<Rightarrow> Digest
     \<Rightarrow> string \<Rightarrow> u64 \<Rightarrow> KernelErrorV1 + VersionedObservationResolutionV1" where
  "resolve_observation H resolver key observation subject expected_resolver_id now =
     try_then (map_err External (resolver \<lparr>oreq_key = key, oreq_observation = observation,
       oreq_subject = subject, oreq_now_unix_ms = now\<rparr>)) (\<lambda>resolved.
     if \<not> known_schema resolved then Err (ForeignSchema ''observation resolution'')
     else if expected_resolver_id = [] \<or> obs_resolver_id resolved \<noteq> expected_resolver_id
     then Err (BindingMismatch ''observation resolver identity'')
     else if obs_key resolved \<noteq> key then Err OccurrenceMismatch
     else if obs_observation resolved \<noteq> observation then Err (BindingMismatch ''observation'')
     else if obs_subject resolved \<noteq> subject then Err (BindingMismatch ''observation subject'')
     else if \<not> is_ok (validate_basis H resolved)
     then Err (ForeignSchema (invalid_schema_label resolved))
     else try_then (map_err (\<lambda>_. ForeignSchema (invalid_schema_label resolved))
            (basis_binding_digest H resolved)) (\<lambda>basis_digest.
       if precondition_digest (obs_normalized_preconditions resolved) \<noteq> basis_digest
       then Err (BindingMismatch ''precondition basis'')
       else if obs_resolved_at_unix_ms resolved > now \<or> now \<ge> obs_fresh_until_unix_ms resolved
       then Err ObservationNotCurrent
       else if is_current resolved then Ok resolved
       else if is_contradictory resolved then Err ObservationContradiction
       else Err ObservationNotCurrent))"

definition resolve_standing ::
  "standing_resolver \<Rightarrow> ProposalBasisV1 \<Rightarrow> VersionedObservationResolutionV1 \<Rightarrow> string \<Rightarrow> u64 \<Rightarrow> u64
     \<Rightarrow> KernelErrorV1 + CurrentStandingResolutionV2" where
  "resolve_standing resolver basis observation expected_resolver_id max_standing_ttl_ms now =
     try_then (map_err External (resolver \<lparr>sreq_key = meta_key (pb_meta basis),
       sreq_observation = obs_observation observation,
       sreq_proposal = pb_proposal_ref basis,
       sreq_subject = prop_subject (pb_proposal basis),
       sreq_scope = prop_scope (pb_proposal basis),
       sreq_now_unix_ms = now\<rparr>)) (\<lambda>resolved.
     if st_schema resolved \<noteq> STANDING_RESOLUTION_SCHEMA_V2 then Err (ForeignSchema ''standing resolution'')
     else if expected_resolver_id = [] \<or> st_resolver_id resolved \<noteq> expected_resolver_id
     then Err (BindingMismatch ''standing resolver identity'')
     else if st_key resolved \<noteq> meta_key (pb_meta basis) then Err OccurrenceMismatch
     else if st_observation resolved \<noteq> obs_observation observation
     then Err (BindingMismatch ''standing observation'')
     else if st_proposal resolved \<noteq> pb_proposal_ref basis then Err (BindingMismatch ''standing proposal'')
     else if st_subject resolved \<noteq> prop_subject (pb_proposal basis)
     then Err (BindingMismatch ''standing subject'')
     else if st_scope resolved \<noteq> prop_scope (pb_proposal basis) then Err (BindingMismatch ''standing scope'')
     else case checked_sub (st_expires_at_unix_ms resolved) (st_resolved_at_unix_ms resolved) of
         None \<Rightarrow> Err StandingNotCurrent
       | Some window_ms \<Rightarrow>
           if window_ms > max_standing_ttl_ms then Err StandingNotCurrent
           else if st_resolved_at_unix_ms resolved > now \<or> now \<ge> st_expires_at_unix_ms resolved
           then Err StandingNotCurrent
           else case st_status resolved of
               Standing_Current \<Rightarrow> Ok resolved
             | Standing_Absent \<Rightarrow> Err StandingAbsent
             | Standing_Revoked \<Rightarrow> Err StandingNotCurrent
             | Standing_Superseded \<Rightarrow> Err StandingNotCurrent
             | Standing_Expired \<Rightarrow> Err StandingNotCurrent)"

definition validate_exact_c1_repair ::
  "C1RepairCitationV1 \<Rightarrow> C1RejectedReviewBasisV1 \<Rightarrow> KernelErrorV1 + unit" where
  "validate_exact_c1_repair citation controlling =
     (if citation \<noteq> controlling then Err AlteredFindingSet else Ok ())"

definition check_repair ::
  "C1RepairCitationV1 option \<Rightarrow> C1RejectedReviewBasisV1 option \<Rightarrow> KernelErrorV1 + unit" where
  "check_repair repair controlling =
     (case (repair, controlling) of
        (Some citation, Some controlling) \<Rightarrow> validate_exact_c1_repair citation controlling
      | (Some _, None) \<Rightarrow> Err AlteredFindingSet
      | (None, _) \<Rightarrow> Ok ())"

definition resolve_admissibility ::
  "'l governed_lib_scheme \<Rightarrow> ProposalBasisV1 \<Rightarrow> observation_resolver \<Rightarrow> standing_resolver
     \<Rightarrow> admissibility_decider \<Rightarrow> C1RejectedReviewBasisV1 option \<Rightarrow> string \<Rightarrow> string \<Rightarrow> u64 \<Rightarrow> u64
     \<Rightarrow> KernelErrorV1 + (VersionedObservationResolutionV1 \<times> CurrentStandingResolutionV2 \<times> AdmissionDecisionV1)"
where
  "resolve_admissibility H basis observation_resolver standing_resolver decider
       controlling expected_observation_resolver expected_standing_resolver max_standing_ttl_ms now =
     try_then (resolve_observation H observation_resolver (meta_key (pb_meta basis))
       (obs_observation (pb_observation basis)) (prop_subject (pb_proposal basis))
       expected_observation_resolver now) (\<lambda>observation.
     if obs_normalized_preconditions observation \<noteq> obs_normalized_preconditions (pb_observation basis)
     then Err ObservationNotCurrent
     else try_then (resolve_standing standing_resolver basis observation
            expected_standing_resolver max_standing_ttl_ms now) (\<lambda>standing.
       try_then (check_repair (prop_repair (pb_proposal basis)) controlling) (\<lambda>_.
       try_then (map_err External (decider \<lparr>areq_proposal = pb_proposal basis,
         areq_observation = observation, areq_standing = standing,
         areq_controlling_rejected_review = controlling\<rparr>)) (\<lambda>decision.
       if ad_key decision \<noteq> meta_key (pb_meta basis)
          \<or> ad_observation decision \<noteq> obs_observation observation
          \<or> ad_proposal decision \<noteq> pb_proposal_ref basis
          \<or> ad_standing_resolution decision \<noteq> st_resolution standing
       then Err (BindingMismatch ''admission decision'')
       else case ad_disposition decision of
           Admitted \<Rightarrow> Ok (observation, standing, decision)
         | Adm_Refused \<Rightarrow> Err Inadmissible
         | Adm_Contradiction \<Rightarrow> Err ObservationContradiction))))"

section \<open>Lemmas\<close>

text \<open>What a resolution must be to be accepted at a time \<open>now\<close>.\<close>

definition fresh_observation ::
  "'l governed_lib_scheme \<Rightarrow> OccurrenceKeyV1 \<Rightarrow> ObservationRefV1 \<Rightarrow> Digest \<Rightarrow> string \<Rightarrow> u64
     \<Rightarrow> VersionedObservationResolutionV1 \<Rightarrow> bool" where
  "fresh_observation H key observation subject resolver_id now r \<longleftrightarrow>
     known_schema r \<and> resolver_id \<noteq> [] \<and> obs_resolver_id r = resolver_id
     \<and> obs_key r = key \<and> obs_observation r = observation \<and> obs_subject r = subject
     \<and> is_ok (validate_basis H r)
     \<and> basis_binding_digest H r = Ok (precondition_digest (obs_normalized_preconditions r))
     \<and> obs_resolved_at_unix_ms r \<le> now \<and> now < obs_fresh_until_unix_ms r \<and> is_current r"

definition live_standing ::
  "ProposalBasisV1 \<Rightarrow> VersionedObservationResolutionV1 \<Rightarrow> string \<Rightarrow> u64 \<Rightarrow> u64
     \<Rightarrow> CurrentStandingResolutionV2 \<Rightarrow> bool" where
  "live_standing basis observation resolver_id ttl now r \<longleftrightarrow>
     st_schema r = STANDING_RESOLUTION_SCHEMA_V2 \<and> resolver_id \<noteq> [] \<and> st_resolver_id r = resolver_id
     \<and> st_key r = meta_key (pb_meta basis) \<and> st_observation r = obs_observation observation
     \<and> st_proposal r = pb_proposal_ref basis \<and> st_subject r = prop_subject (pb_proposal basis)
     \<and> st_scope r = prop_scope (pb_proposal basis)
     \<and> st_resolved_at_unix_ms r \<le> now \<and> now < st_expires_at_unix_ms r
     \<and> st_expires_at_unix_ms r - st_resolved_at_unix_ms r \<le> ttl
     \<and> st_status r = Standing_Current"

lemma resolve_observation_ok:
  "resolve_observation H resolver key observation subject resolver_id now = Ok r \<longleftrightarrow>
     resolver \<lparr>oreq_key = key, oreq_observation = observation, oreq_subject = subject,
       oreq_now_unix_ms = now\<rparr> = Ok r
     \<and> fresh_observation H key observation subject resolver_id now r"
  unfolding resolve_observation_def fresh_observation_def
  by (auto simp: not_less not_le)

lemma resolve_standing_ok:
  "resolve_standing resolver basis observation resolver_id ttl now = Ok r \<longleftrightarrow>
     resolver \<lparr>sreq_key = meta_key (pb_meta basis), sreq_observation = obs_observation observation,
       sreq_proposal = pb_proposal_ref basis, sreq_subject = prop_subject (pb_proposal basis),
       sreq_scope = prop_scope (pb_proposal basis), sreq_now_unix_ms = now\<rparr> = Ok r
     \<and> live_standing basis observation resolver_id ttl now r"
proof -
  have current: "(case s of Standing_Current \<Rightarrow> Ok x | Standing_Absent \<Rightarrow> Err StandingAbsent
      | Standing_Revoked \<Rightarrow> Err StandingNotCurrent | Standing_Superseded \<Rightarrow> Err StandingNotCurrent
      | Standing_Expired \<Rightarrow> Err StandingNotCurrent) = Ok y \<longleftrightarrow> s = Standing_Current \<and> x = y"
    for s and x y :: CurrentStandingResolutionV2
    by (cases s) simp_all
  show ?thesis
    unfolding resolve_standing_def live_standing_def
    by (auto simp: not_less not_le checked_sub_eq_Some option_case_eq_Ok current)
qed

lemma check_repair_ok:
  "check_repair repair controlling = Ok u \<longleftrightarrow> repair = None \<or> repair = controlling"
  by (auto simp: check_repair_def validate_exact_c1_repair_def split: option.splits)

lemma resolve_admissibility_ok:
  "resolve_admissibility H basis obs_resolver standing_resolver decider controlling
       obs_id standing_id ttl now = Ok (observation, standing, decision) \<longleftrightarrow>
     resolve_observation H obs_resolver (meta_key (pb_meta basis)) (obs_observation (pb_observation basis))
       (prop_subject (pb_proposal basis)) obs_id now = Ok observation
     \<and> obs_normalized_preconditions observation = obs_normalized_preconditions (pb_observation basis)
     \<and> resolve_standing standing_resolver basis observation standing_id ttl now = Ok standing
     \<and> (prop_repair (pb_proposal basis) = None \<or> prop_repair (pb_proposal basis) = controlling)
     \<and> decider \<lparr>areq_proposal = pb_proposal basis, areq_observation = observation,
         areq_standing = standing, areq_controlling_rejected_review = controlling\<rparr> = Ok decision
     \<and> ad_key decision = meta_key (pb_meta basis)
     \<and> ad_observation decision = obs_observation observation
     \<and> ad_proposal decision = pb_proposal_ref basis
     \<and> ad_standing_resolution decision = st_resolution standing
     \<and> ad_disposition decision = Admitted"
proof -
  have admitted: "(case d of Admitted \<Rightarrow> Ok x | Adm_Refused \<Rightarrow> Err Inadmissible
      | Adm_Contradiction \<Rightarrow> Err ObservationContradiction) = Ok y \<longleftrightarrow> d = Admitted \<and> x = y"
    for d and x y :: "VersionedObservationResolutionV1 \<times> CurrentStandingResolutionV2 \<times> AdmissionDecisionV1"
    by (cases d) simp_all
  show ?thesis
    unfolding resolve_admissibility_def by (auto simp: check_repair_ok admitted)
qed

lemma fresh_observation_integrity:
  assumes "fresh_observation H key observation subject resolver_id now r"
  shows "validate_observation_resolution_integrity H r = Ok ()"
proof -
  have "obs_resolved_at_unix_ms r < obs_fresh_until_unix_ms r"
    using assms by (auto simp: fresh_observation_def intro: order.strict_trans1)
  then show ?thesis
    using assms
    by (auto simp: fresh_observation_def validate_observation_resolution_integrity_def is_ok_iff not_le)
qed

text \<open>
  The binding digest of a basis is a hash of bytes that start differently for the two
  versions, so where SHA-256 does not collide the pinned digest tells the versions apart.
\<close>

fun basis_preimage :: "'l governed_lib_scheme \<Rightarrow> VersionedObservationResolutionV1 \<Rightarrow> bytes" where
  "basis_preimage H (NightshiftV2 v) =
     DECISION_BASIS_DIGEST_DOMAIN_V1 @ projr (basis_canonical_bytes H (or2_basis v))"
| "basis_preimage H (TypedV3 v) =
     hash_domain_preimage TYPED_OBSERVATION_BASIS_SCHEMA_V1 (input_bytes H (TypedBasisInput (or3_basis v)))"

lemma basis_binding_digest_hash:
  assumes "input_serializes H" and "basis_binding_digest H r = Ok d"
  shows "d = Digest (SHA256_PREFIX @ hex_encode H (sha256 H (basis_preimage H r)))"
  using assms
  by (cases r)
    (auto simp: decision_basis_digest_def binding_digest_def digest_value_hash hash_bytes_def hash_domain_def)

lemma basis_preimage_versions:
  "basis_preimage H (NightshiftV2 v) \<noteq> basis_preimage H (TypedV3 w)"
  by (simp add: DECISION_BASIS_DIGEST_DOMAIN_V1_def hash_domain_preimage_def as_bytes_def)

lemma same_preconditions_same_schema:
  assumes "sha256_law H" "hex_law H" "input_serializes H"
    and "no_collision H (basis_preimage H r) (basis_preimage H r')"
    and "known_schema r" "known_schema r'"
    and "basis_binding_digest H r = Ok d" "basis_binding_digest H r' = Ok d"
  shows "obs_schema r = obs_schema r'"
proof -
  have "hex_encode H (sha256 H (basis_preimage H r)) = hex_encode H (sha256 H (basis_preimage H r'))"
    using basis_binding_digest_hash [OF assms(3,7)] basis_binding_digest_hash [OF assms(3,8)] by simp
  then have "basis_preimage H r = basis_preimage H r'"
    using hex_encode_inject [OF assms(1,2)] assms(4) by (simp add: no_collision_def)
  then show ?thesis
    using assms(5,6) basis_preimage_versions [of H] by (cases r; cases r') (auto dest: sym)
qed

section \<open>The closed vocabulary\<close>

lemma one_of_each:
  assumes "C \<inter> D = {}"
  shows "card A = 2 \<and> card (A \<inter> C) = 1 \<and> card (A \<inter> D) = 1 \<longleftrightarrow> (\<exists>c d. A = {c, d} \<and> c \<in> C \<and> d \<in> D)"
proof
  assume card: "card A = 2 \<and> card (A \<inter> C) = 1 \<and> card (A \<inter> D) = 1"
  then obtain c d where cd: "A \<inter> C = {c}" "A \<inter> D = {d}" by (auto simp: card_1_singleton_iff)
  then have "{c, d} \<subseteq> A" "c \<noteq> d" "c \<in> C" "d \<in> D" using assms by auto
  moreover have "finite A" using card by (auto intro: card_ge_0_finite)
  ultimately have "A = {c, d}" using card card_subset_eq [of A "{c, d}"] by auto
  with \<open>c \<in> C\<close> \<open>d \<in> D\<close> show "\<exists>c d. A = {c, d} \<and> c \<in> C \<and> d \<in> D" by blast
next
  assume "\<exists>c d. A = {c, d} \<and> c \<in> C \<and> d \<in> D"
  then obtain c d where A: "A = {c, d}" "c \<in> C" "d \<in> D" by blast
  then have cd: "c \<noteq> d" "A \<inter> C = {c}" "A \<inter> D = {d}" using assms by auto
  show "card A = 2 \<and> card (A \<inter> C) = 1 \<and> card (A \<inter> D) = 1"
    unfolding cd(2,3) using A(1) cd(1) by simp
qed

lemma basis_atoms_exact:
  "card A = 2 \<and> card (Set.filter (prefix ''condition.'') A) = 1 \<and> card (Set.filter (prefix ''delivery.'') A) = 1
     \<and> find (\<lambda>atom. atom \<notin> set DECISION_BASIS_ATOM_VOCABULARY_V1) (sorted_list_of_set A) = None \<longleftrightarrow>
   (\<exists>condition delivery. A = {condition, delivery}
      \<and> condition \<in> set (take 3 DECISION_BASIS_ATOM_VOCABULARY_V1)
      \<and> delivery \<in> set (drop 3 DECISION_BASIS_ATOM_VOCABULARY_V1))" (is "?L \<longleftrightarrow> ?R")
proof -
  let ?C = "Collect (prefix ''condition.'')" and ?D = "Collect (prefix ''delivery.'')"
  have vocab: "atom \<in> set DECISION_BASIS_ATOM_VOCABULARY_V1 \<and> atom \<in> ?C \<longleftrightarrow>
      atom \<in> set (take 3 DECISION_BASIS_ATOM_VOCABULARY_V1)"
      "atom \<in> set DECISION_BASIS_ATOM_VOCABULARY_V1 \<and> atom \<in> ?D \<longleftrightarrow>
      atom \<in> set (drop 3 DECISION_BASIS_ATOM_VOCABULARY_V1)" for atom
  proof -
    have "list_all (prefix ''condition.'') (take 3 DECISION_BASIS_ATOM_VOCABULARY_V1)"
        "list_all (\<lambda>x. \<not> prefix ''condition.'' x) (drop 3 DECISION_BASIS_ATOM_VOCABULARY_V1)"
        "list_all (prefix ''delivery.'') (drop 3 DECISION_BASIS_ATOM_VOCABULARY_V1)"
        "list_all (\<lambda>x. \<not> prefix ''delivery.'' x) (take 3 DECISION_BASIS_ATOM_VOCABULARY_V1)"
      by code_simp+
    moreover have "set DECISION_BASIS_ATOM_VOCABULARY_V1
        = set (take 3 DECISION_BASIS_ATOM_VOCABULARY_V1) \<union> set (drop 3 DECISION_BASIS_ATOM_VOCABULARY_V1)"
      by (metis append_take_drop_id set_append)
    ultimately show "atom \<in> set DECISION_BASIS_ATOM_VOCABULARY_V1 \<and> atom \<in> ?C \<longleftrightarrow>
        atom \<in> set (take 3 DECISION_BASIS_ATOM_VOCABULARY_V1)"
      "atom \<in> set DECISION_BASIS_ATOM_VOCABULARY_V1 \<and> atom \<in> ?D \<longleftrightarrow>
        atom \<in> set (drop 3 DECISION_BASIS_ATOM_VOCABULARY_V1)"
      by (auto simp: list_all_iff)
  qed
  have disj: "?C \<inter> ?D = {}" by (auto simp: prefix_def)
  have filt: "Set.filter (prefix ''condition.'') A = A \<inter> ?C" "Set.filter (prefix ''delivery.'') A = A \<inter> ?D"
    by auto
  have known: "find (\<lambda>atom. atom \<notin> set DECISION_BASIS_ATOM_VOCABULARY_V1) (sorted_list_of_set A) = None \<longleftrightarrow>
      A \<subseteq> set DECISION_BASIS_ATOM_VOCABULARY_V1" if "finite A"
    using that by (auto simp: find_None_iff)
  have "?L \<longleftrightarrow> (\<exists>c d. A = {c, d} \<and> c \<in> ?C \<and> d \<in> ?D)
      \<and> find (\<lambda>atom. atom \<notin> set DECISION_BASIS_ATOM_VOCABULARY_V1) (sorted_list_of_set A) = None"
    unfolding filt using one_of_each [OF disj, of A] by blast
  also have "\<dots> \<longleftrightarrow> (\<exists>c d. A = {c, d} \<and> c \<in> ?C \<and> d \<in> ?D) \<and> A \<subseteq> set DECISION_BASIS_ATOM_VOCABULARY_V1"
    using known by (metis finite.emptyI finite_insert)
  also have "\<dots> \<longleftrightarrow> ?R"
    unfolding vocab [symmetric] by auto
  finally show ?thesis .
qed

lemma basis_validate_ok:
  assumes "hex_law H"
  shows "basis_validate H b = Ok () \<longleftrightarrow>
     basis_schema b = DECISION_BASIS_SCHEMA_V1 \<and> rule_id (basis_rule b) = DECISION_BASIS_RULE_ID_V1
     \<and> rule_version (basis_rule b) = DECISION_BASIS_RULE_VERSION_V1
     \<and> canonical_digest_text (rule_digest (basis_rule b))
     \<and> Digest (rule_digest (basis_rule b)) = decision_basis_rule_digest_v1 H
     \<and> (\<exists>condition delivery. basis_atoms b = {condition, delivery}
          \<and> condition \<in> set (take 3 DECISION_BASIS_ATOM_VOCABULARY_V1)
          \<and> delivery \<in> set (drop 3 DECISION_BASIS_ATOM_VOCABULARY_V1))"
proof -
  have found: "(case a of None \<Rightarrow> Ok () | Some atom \<Rightarrow> Err (UnknownAtom atom)) = Ok () \<longleftrightarrow> a = None" for a
    by (cases a) simp_all
  show ?thesis
    unfolding basis_atoms_exact [symmetric]
    by (simp add: basis_validate_def Let_def digest_from_str_accepts [OF assms] found cong: conj_cong)
qed

end
