(* ===== verification/Governed_State.thy ===== *)
theory Governed_State
  imports Governed_Observation
begin

text \<open>
  The occurrence state and its structural invariants: the accessors of
  \<open>OccurrenceStateV1\<close> and \<open>OccurrenceSnapshotV1\<close>, the record validators and
  \<open>validate_integrity\<close> of \<open>crates/ag-campaign/src/governed.rs\<close>.
\<close>

section \<open>Accessors\<close>

fun program_counter :: "OccurrenceStateV1 \<Rightarrow> ProgramCounterV1" where
  "program_counter (ObservationRequired _) = PC_ObservationRequired"
| "program_counter (ProposalRecorded _) = PC_ProposalRecorded"
| "program_counter (StandingRequired _) = PC_StandingRequired"
| "program_counter (AdmissiblePendingAuthorization _) = PC_AdmissiblePendingAuthorization"
| "program_counter (AuthorizationConsumed _) = PC_AuthorizationConsumed"
| "program_counter (Dispatched _) = PC_Dispatched"
| "program_counter (ReconciliationRequired _) = PC_ReconciliationRequired"
| "program_counter (SettledObservationRequired _) = PC_SettledObservationRequired"
| "program_counter (Halted _) = PC_Halted"
| "program_counter (Completed _) = PC_Completed"

abbreviation dispatch_proposal :: "DispatchBasisV1 \<Rightarrow> ProposalBasisV1" where
  "dispatch_proposal d \<equiv> ab_proposal (ac_admitted (di_authorized d))"

fun meta :: "OccurrenceStateV1 \<Rightarrow> OccurrenceMetaV1" where
  "meta (ObservationRequired v) = obr_meta v"
| "meta (ProposalRecorded v) = pb_meta v"
| "meta (StandingRequired v) = pb_meta v"
| "meta (AdmissiblePendingAuthorization v) = pb_meta (ab_proposal v)"
| "meta (AuthorizationConsumed v) = pb_meta (ab_proposal (ac_admitted v))"
| "meta (Dispatched v) = pb_meta (dispatch_proposal v)"
| "meta (ReconciliationRequired v) = pb_meta (dispatch_proposal (rr_dispatch v))"
| "meta (SettledObservationRequired v) = pb_meta (dispatch_proposal (sor_dispatch v))"
| "meta (Halted v) = ha_meta v"
| "meta (Completed v) = co_meta v"

text \<open>\<open>meta_mut\<close>: the state with its shared coordinates updated in place.\<close>

definition update_admitted_meta ::
  "(OccurrenceMetaV1 \<Rightarrow> OccurrenceMetaV1) \<Rightarrow> AdmissibleBasisV1 \<Rightarrow> AdmissibleBasisV1" where
  "update_admitted_meta f = ab_proposal_update (pb_meta_update f)"

definition update_dispatch_meta ::
  "(OccurrenceMetaV1 \<Rightarrow> OccurrenceMetaV1) \<Rightarrow> DispatchBasisV1 \<Rightarrow> DispatchBasisV1" where
  "update_dispatch_meta f = di_authorized_update (ac_admitted_update (update_admitted_meta f))"

fun meta_mut :: "(OccurrenceMetaV1 \<Rightarrow> OccurrenceMetaV1) \<Rightarrow> OccurrenceStateV1 \<Rightarrow> OccurrenceStateV1" where
  "meta_mut f (ObservationRequired v) = ObservationRequired (obr_meta_update f v)"
| "meta_mut f (ProposalRecorded v) = ProposalRecorded (pb_meta_update f v)"
| "meta_mut f (StandingRequired v) = StandingRequired (pb_meta_update f v)"
| "meta_mut f (AdmissiblePendingAuthorization v) =
     AdmissiblePendingAuthorization (update_admitted_meta f v)"
| "meta_mut f (AuthorizationConsumed v) =
     AuthorizationConsumed (ac_admitted_update (update_admitted_meta f) v)"
| "meta_mut f (Dispatched v) = Dispatched (update_dispatch_meta f v)"
| "meta_mut f (ReconciliationRequired v) =
     ReconciliationRequired (rr_dispatch_update (update_dispatch_meta f) v)"
| "meta_mut f (SettledObservationRequired v) =
     SettledObservationRequired (sor_dispatch_update (update_dispatch_meta f) v)"
| "meta_mut f (Halted v) = Halted (ha_meta_update f v)"
| "meta_mut f (Completed v) = Completed (co_meta_update f v)"

definition empty_history :: AuthorityHistoryV1 where
  "empty_history = \<lparr>hist_ag_spend = None, hist_docket_attempt = None,
     hist_settlement = None, hist_receipt = None\<rparr>"

fun authority_history :: "OccurrenceStateV1 \<Rightarrow> AuthorityHistoryV1" where
  "authority_history (AuthorizationConsumed v) =
     empty_history\<lparr>hist_ag_spend := Some (sp_spend (ac_spend v))\<rparr>"
| "authority_history (Dispatched v) =
     empty_history\<lparr>hist_ag_spend := Some (sp_spend (ac_spend (di_authorized v))),
       hist_docket_attempt := Some (cu_attempt (di_custody v))\<rparr>"
| "authority_history (ReconciliationRequired v) =
     empty_history\<lparr>hist_ag_spend := Some (sp_spend (ac_spend (di_authorized (rr_dispatch v)))),
       hist_docket_attempt := Some (cu_attempt (di_custody (rr_dispatch v)))\<rparr>"
| "authority_history (SettledObservationRequired v) =
     \<lparr>hist_ag_spend = Some (sp_spend (ac_spend (di_authorized (sor_dispatch v)))),
      hist_docket_attempt = Some (cu_attempt (di_custody (sor_dispatch v))),
      hist_settlement = Some (se_settlement (sor_settlement v)),
      hist_receipt = Some (se_receipt (sor_settlement v))\<rparr>"
| "authority_history (Halted v) = ha_history v"
| "authority_history (Completed v) = co_history v"
| "authority_history _ = empty_history"

fun proposal_basis :: "OccurrenceStateV1 \<Rightarrow> ProposalBasisV1 option" where
  "proposal_basis (ProposalRecorded v) = Some v"
| "proposal_basis (StandingRequired v) = Some v"
| "proposal_basis (AdmissiblePendingAuthorization v) = Some (ab_proposal v)"
| "proposal_basis (AuthorizationConsumed v) = Some (ab_proposal (ac_admitted v))"
| "proposal_basis (Dispatched v) = Some (dispatch_proposal v)"
| "proposal_basis (ReconciliationRequired v) = Some (dispatch_proposal (rr_dispatch v))"
| "proposal_basis (SettledObservationRequired v) = Some (dispatch_proposal (sor_dispatch v))"
| "proposal_basis _ = None"

abbreviation snap_key :: "OccurrenceSnapshotV1 \<Rightarrow> OccurrenceKeyV1" where
  "snap_key s \<equiv> meta_key (meta (snap_state s))"

abbreviation snap_pc :: "OccurrenceSnapshotV1 \<Rightarrow> ProgramCounterV1" where
  "snap_pc s \<equiv> program_counter (snap_state s)"

fun state_ag_spend :: "OccurrenceStateV1 \<Rightarrow> AgAuthorizationSpendV1 option" where
  "state_ag_spend (AuthorizationConsumed v) = Some (ac_spend v)"
| "state_ag_spend (Dispatched v) = Some (ac_spend (di_authorized v))"
| "state_ag_spend (ReconciliationRequired v) = Some (ac_spend (di_authorized (rr_dispatch v)))"
| "state_ag_spend (SettledObservationRequired v) = Some (ac_spend (di_authorized (sor_dispatch v)))"
| "state_ag_spend _ = None"

fun state_issuance :: "OccurrenceStateV1 \<Rightarrow> AgIssuanceV1 option" where
  "state_issuance (AuthorizationConsumed v) = Some (ac_issuance v)"
| "state_issuance (Dispatched v) = Some (ac_issuance (di_authorized v))"
| "state_issuance (ReconciliationRequired v) = Some (ac_issuance (di_authorized (rr_dispatch v)))"
| "state_issuance (SettledObservationRequired v) = Some (ac_issuance (di_authorized (sor_dispatch v)))"
| "state_issuance _ = None"

fun state_docket_custody :: "OccurrenceStateV1 \<Rightarrow> DocketCustodyV1 option" where
  "state_docket_custody (Dispatched v) = Some (di_custody v)"
| "state_docket_custody (ReconciliationRequired v) = Some (di_custody (rr_dispatch v))"
| "state_docket_custody (SettledObservationRequired v) = Some (di_custody (sor_dispatch v))"
| "state_docket_custody _ = None"

fun state_settlement :: "OccurrenceStateV1 \<Rightarrow> DocketSettlementV1 option" where
  "state_settlement (SettledObservationRequired v) = Some (sor_settlement v)"
| "state_settlement _ = None"

fun state_admission_decision :: "OccurrenceStateV1 \<Rightarrow> AdmissionDecisionV1 option" where
  "state_admission_decision (AdmissiblePendingAuthorization v) = Some (ab_decision v)"
| "state_admission_decision (AuthorizationConsumed v) = Some (ab_decision (ac_admitted v))"
| "state_admission_decision (Dispatched v) = Some (ab_decision (ac_admitted (di_authorized v)))"
| "state_admission_decision (ReconciliationRequired v) =
     Some (ab_decision (ac_admitted (di_authorized (rr_dispatch v))))"
| "state_admission_decision (SettledObservationRequired v) =
     Some (ab_decision (ac_admitted (di_authorized (sor_dispatch v))))"
| "state_admission_decision _ = None"

fun state_standing_resolution :: "OccurrenceStateV1 \<Rightarrow> CurrentStandingResolutionV2 option" where
  "state_standing_resolution (AdmissiblePendingAuthorization v) = Some (ab_standing v)"
| "state_standing_resolution (AuthorizationConsumed v) = Some (ab_standing (ac_admitted v))"
| "state_standing_resolution (Dispatched v) = Some (ab_standing (ac_admitted (di_authorized v)))"
| "state_standing_resolution (ReconciliationRequired v) =
     Some (ab_standing (ac_admitted (di_authorized (rr_dispatch v))))"
| "state_standing_resolution (SettledObservationRequired v) =
     Some (ab_standing (ac_admitted (di_authorized (sor_dispatch v))))"
| "state_standing_resolution _ = None"

fun state_indeterminate :: "OccurrenceStateV1 \<Rightarrow> IndeterminateOutcomeV1 option" where
  "state_indeterminate (ReconciliationRequired v) = Some (rr_indeterminate v)"
| "state_indeterminate _ = None"

fun state_prior_occurrence :: "OccurrenceStateV1 \<Rightarrow> PriorOccurrenceBasisV1 option" where
  "state_prior_occurrence (ObservationRequired v) = obr_prior v"
| "state_prior_occurrence _ = None"

section \<open>Validators\<close>

definition proposal_validate :: "ExactWorkProposalV1 \<Rightarrow> KernelErrorV1 + unit" where
  "proposal_validate p =
     (if prop_schema p \<noteq> EXACT_WORK_PROPOSAL_SCHEMA_V1 then Err (ForeignSchema ''exact-work proposal'')
      else map_err Label (validate_label ''exact-work schema'' (prop_work_schema p)))"

definition proposal_new ::
  "CampaignId \<Rightarrow> Digest \<Rightarrow> Digest \<Rightarrow> string \<Rightarrow> Digest \<Rightarrow> C1RepairCitationV1 option
     \<Rightarrow> KernelErrorV1 + ExactWorkProposalV1" where
  "proposal_new campaign subject scope work_schema work repair =
     try_then (map_err Label (validate_label ''exact-work schema'' work_schema)) (\<lambda>_.
     let proposal = \<lparr>prop_schema = EXACT_WORK_PROPOSAL_SCHEMA_V1, prop_campaign = campaign,
           prop_subject = subject, prop_scope = scope, prop_work_schema = work_schema,
           prop_work = work, prop_repair = repair\<rparr>
     in try_then (proposal_validate proposal) (\<lambda>_. Ok proposal))"

definition validate_admissible_basis :: "AdmissibleBasisV1 \<Rightarrow> KernelErrorV1 + unit" where
  "validate_admissible_basis v =
     (if st_schema (ab_standing v) \<noteq> STANDING_RESOLUTION_SCHEMA_V2
         \<or> st_key (ab_standing v) \<noteq> meta_key (pb_meta (ab_proposal v))
         \<or> st_observation (ab_standing v) \<noteq> obs_observation (pb_observation (ab_proposal v))
         \<or> st_proposal (ab_standing v) \<noteq> pb_proposal_ref (ab_proposal v)
         \<or> st_subject (ab_standing v) \<noteq> prop_subject (pb_proposal (ab_proposal v))
         \<or> st_scope (ab_standing v) \<noteq> prop_scope (pb_proposal (ab_proposal v))
         \<or> st_status (ab_standing v) \<noteq> Standing_Current
         \<or> ad_key (ab_decision v) \<noteq> meta_key (pb_meta (ab_proposal v))
         \<or> ad_observation (ab_decision v) \<noteq> obs_observation (pb_observation (ab_proposal v))
         \<or> ad_proposal (ab_decision v) \<noteq> pb_proposal_ref (ab_proposal v)
         \<or> ad_standing_resolution (ab_decision v) \<noteq> st_resolution (ab_standing v)
         \<or> ad_disposition (ab_decision v) \<noteq> Admitted
      then Err (StateInvariant ''admissible basis'')
      else Ok ())"

definition validate_authorized ::
  "'l governed_lib_scheme \<Rightarrow> AuthorizationConsumedV1 \<Rightarrow> KernelErrorV1 + unit" where
  "validate_authorized H v =
     try_then (validate_admissible_basis (ac_admitted v)) (\<lambda>_.
     let proposal = ab_proposal (ac_admitted v);
         expected_authorization = authorization_for_basis H (meta_key (pb_meta proposal))
           (obs_observation (pb_observation proposal)) (pb_proposal_ref proposal)
           (st_resolution (ab_standing (ac_admitted v)))
     in if sp_authorization (ac_spend v) \<noteq> expected_authorization
           \<or> sp_spend (ac_spend v) \<noteq> spend_for_authorization H expected_authorization
           \<or> sp_key (ac_spend v) \<noteq> meta_key (pb_meta proposal)
           \<or> sp_observation (ac_spend v) \<noteq> obs_observation (pb_observation proposal)
           \<or> sp_proposal (ac_spend v) \<noteq> pb_proposal_ref proposal
           \<or> sp_standing_resolution (ac_spend v) \<noteq> st_resolution (ab_standing (ac_admitted v))
           \<or> sp_admission_decision (ac_spend v) \<noteq> ad_decision (ab_decision (ac_admitted v))
        then Err (StateInvariant ''AG authorization spend'')
        else if ac_issuance v \<noteq> build_issuance H (ac_admitted v) (sp_spend (ac_spend v))
        then Err (StateInvariant ''AG issuance'')
        else Ok ())"

definition validate_custody ::
  "'l governed_lib_scheme \<Rightarrow> DocketCustodyV1 \<Rightarrow> AuthorizationConsumedV1 \<Rightarrow> KernelErrorV1 + unit" where
  "validate_custody H custody authorized =
     (let spend = spend_digest (sp_spend (ac_spend authorized));
          authorization = authorization_digest (sp_authorization (ac_spend authorized));
          standing = execution_standing_digest (cu_execution_standing custody);
          marker = marker_digest (cu_executor_marker custody)
      in if cu_schema custody \<noteq> DOCKET_CUSTODY_SCHEMA_V1 then Err (ForeignSchema ''Docket custody'')
         else if cu_issuance custody \<noteq> iss_issuance (ac_issuance authorized)
         then Err (BindingMismatch ''custody issuance'')
         else if cu_ag_spend custody \<noteq> sp_spend (ac_spend authorized)
         then Err (BindingMismatch ''custody AG spend'')
         else if standing = spend \<or> standing = authorization
         then Err (BindingMismatch ''Docket standing substituted an AG instrument'')
         else if cu_attempt custody \<noteq> attempt_for_issuance H (cu_issuance custody)
         then Err (BindingMismatch ''canonical Docket attempt'')
         else if marker = standing \<or> marker = spend \<or> marker = authorization
              \<or> marker = attempt_digest (cu_attempt custody)
         then Err (BindingMismatch ''executor marker substituted an authority/attempt instrument'')
         else Ok ())"

definition validate_settlement :: "DocketSettlementV1 \<Rightarrow> DispatchBasisV1 \<Rightarrow> KernelErrorV1 + unit" where
  "validate_settlement settlement dispatch =
     (if se_schema settlement \<noteq> DOCKET_SETTLEMENT_SCHEMA_V1 then Err (ForeignSchema ''Docket settlement'')
      else if se_issuance settlement \<noteq> iss_issuance (ac_issuance (di_authorized dispatch))
      then Err (BindingMismatch ''settlement issuance'')
      else if se_attempt settlement \<noteq> cu_attempt (di_custody dispatch)
      then Err (BindingMismatch ''settlement attempt'')
      else if se_executor_marker settlement \<noteq> cu_executor_marker (di_custody dispatch)
      then Err (BindingMismatch ''settlement executor marker'')
      else Ok ())"

definition validate_indeterminate :: "IndeterminateOutcomeV1 \<Rightarrow> DispatchBasisV1 \<Rightarrow> KernelErrorV1 + unit" where
  "validate_indeterminate indeterminate dispatch =
     (if ind_issuance indeterminate \<noteq> iss_issuance (ac_issuance (di_authorized dispatch))
      then Err (BindingMismatch ''indeterminate issuance'')
      else if ind_attempt indeterminate \<noteq> cu_attempt (di_custody dispatch)
      then Err (BindingMismatch ''indeterminate attempt'')
      else Ok ())"

fun validate_link :: "OccurrenceKeyV1 \<Rightarrow> OccurrenceLinkV1 \<Rightarrow> bool" where
  "validate_link key LinkInitial = True"
| "validate_link key (RetryOf prior) = (prior \<noteq> key \<and> key_campaign prior = key_campaign key)"
| "validate_link key (SuccessorOf prior) = (prior \<noteq> key \<and> key_campaign prior = key_campaign key)"

text \<open>The block \<open>if let Some(basis) = state.proposal_basis()\<close> of \<open>validate_state\<close>.\<close>

definition validate_proposal_basis ::
  "'l governed_lib_scheme \<Rightarrow> OccurrenceMetaV1 \<Rightarrow> ProposalBasisV1 \<Rightarrow> KernelErrorV1 + unit" where
  "validate_proposal_basis H m basis =
     try_then (proposal_validate (pb_proposal basis)) (\<lambda>_.
     try_then (validate_observation_resolution_integrity H (pb_observation basis)) (\<lambda>_.
     if prop_campaign (pb_proposal basis) \<noteq> key_campaign (meta_key m)
        \<or> obs_key (pb_observation basis) \<noteq> meta_key m
        \<or> pb_proposal_ref basis \<noteq> proposal_reference H (pb_proposal basis)
        \<or> obs_subject (pb_observation basis) \<noteq> prop_subject (pb_proposal basis)
        \<or> \<not> is_current (pb_observation basis)
     then Err (StateInvariant ''proposal basis'')
     else if \<not> validate_link (meta_key m) (pb_link basis)
     then Err (StateInvariant ''occurrence link'')
     else Ok ()))"

fun validate_variant :: "'l governed_lib_scheme \<Rightarrow> OccurrenceStateV1 \<Rightarrow> KernelErrorV1 + unit" where
  "validate_variant H (ObservationRequired v) =
     (case obr_prior v of
        None \<Rightarrow> Ok ()
      | Some prior \<Rightarrow>
          if pri_key prior = meta_key (obr_meta v)
             \<or> key_campaign (pri_key prior) \<noteq> key_campaign (meta_key (obr_meta v))
          then Err (StateInvariant ''continuation prior'') else Ok ())"
| "validate_variant H (AdmissiblePendingAuthorization v) = validate_admissible_basis v"
| "validate_variant H (AuthorizationConsumed v) = validate_authorized H v"
| "validate_variant H (Dispatched v) =
     try_then (validate_authorized H (di_authorized v)) (\<lambda>_.
       validate_custody H (di_custody v) (di_authorized v))"
| "validate_variant H (ReconciliationRequired v) =
     try_then (validate_authorized H (di_authorized (rr_dispatch v))) (\<lambda>_.
     try_then (validate_custody H (di_custody (rr_dispatch v)) (di_authorized (rr_dispatch v))) (\<lambda>_.
       validate_indeterminate (rr_indeterminate v) (rr_dispatch v)))"
| "validate_variant H (SettledObservationRequired v) =
     try_then (validate_authorized H (di_authorized (sor_dispatch v))) (\<lambda>_.
     try_then (validate_custody H (di_custody (sor_dispatch v)) (di_authorized (sor_dispatch v))) (\<lambda>_.
       validate_settlement (sor_settlement v) (sor_dispatch v)))"
| "validate_variant H (Halted v) =
     (if pri_key (ha_prior v) \<noteq> meta_key (ha_meta v) then Err (StateInvariant ''halted prior key'')
      else if (ha_unresolved_attempt v \<noteq> None) \<noteq> (ha_source v = PC_ReconciliationRequired)
      then Err (StateInvariant ''halted unresolved attempt'') else Ok ())"
| "validate_variant H (Completed v) =
     (if \<not> residuals_empty (meta_residuals (co_meta v))
         \<or> obs_key (co_terminal_observation v) \<noteq> meta_key (co_meta v)
         \<or> \<not> is_current (co_terminal_observation v)
      then Err (StateInvariant ''completion clearance'') else Ok ())"
| "validate_variant H (ProposalRecorded v) = Ok ()"
| "validate_variant H (StandingRequired v) = Ok ()"

definition validate_state :: "'l governed_lib_scheme \<Rightarrow> OccurrenceStateV1 \<Rightarrow> KernelErrorV1 + unit" where
  "validate_state H state =
     (let m = meta state; used = set (meta_used_human_decisions m) in
      if card used \<noteq> length (meta_used_human_decisions m)
      then Err (StateInvariant ''duplicate consumed human decision'')
      else try_then (case proposal_basis state of
               None \<Rightarrow> Ok ()
             | Some basis \<Rightarrow> validate_proposal_basis H m basis) (\<lambda>_.
           validate_variant H state))"

text \<open>The \<open>if let\<close> chain of \<open>validate_integrity\<close> on a continuation's predecessor digest.\<close>

fun prior_digest_mismatch :: "Digest \<Rightarrow> OccurrenceStateV1 \<Rightarrow> bool" where
  "prior_digest_mismatch digest (ObservationRequired pending) =
     (case obr_prior pending of
        None \<Rightarrow> False | Some prior \<Rightarrow> pri_state_digest prior \<noteq> digest)"
| "prior_digest_mismatch digest _ = False"

definition validate_integrity ::
  "'l governed_lib_scheme \<Rightarrow> OccurrenceSnapshotV1 \<Rightarrow> KernelErrorV1 + unit" where
  "validate_integrity H s =
     try_then (budget_validate (meta_budget (meta (snap_state s)))) (\<lambda>_.
     try_then (ResidualSetV1_new (residual_slice (meta_residuals (meta (snap_state s))))) (\<lambda>_.
     let expected = state_digest H (snap_prior_state_digest s) (snap_state s) in
     if expected \<noteq> snap_state_digest s then Err StateDigestMismatch
     else if prior_digest_mismatch (snap_prior_state_digest s) (snap_state s)
     then Err (StateInvariant ''continuation predecessor digest'')
     else validate_state H (snap_state s)))"

definition successor_snapshot ::
  "'l governed_lib_scheme \<Rightarrow> OccurrenceSnapshotV1 \<Rightarrow> OccurrenceStateV1 \<Rightarrow> OccurrenceSnapshotV1" where
  "successor_snapshot H prior state =
     \<lparr>snap_prior_state_digest = snap_state_digest prior,
      snap_state_digest = state_digest H (snap_state_digest prior) state,
      snap_state = state\<rparr>"

section \<open>Lemmas\<close>

lemma meta_mut_accessors [simp, accessor_simps]:
  "meta (meta_mut f s) = f (meta s)"
  "program_counter (meta_mut f s) = program_counter s"
  "authority_history (meta_mut f s) = authority_history s"
  "state_ag_spend (meta_mut f s) = state_ag_spend s"
  by (cases s; simp add: update_admitted_meta_def update_dispatch_meta_def)+

lemma meta_mut_compose [simp, accessor_simps]:
  "meta_mut f (meta_mut g s) = meta_mut (\<lambda>m. f (g m)) s"
  by (cases s) (simp_all add: update_admitted_meta_def update_dispatch_meta_def o_def)

lemma meta_mut_same [simp, accessor_simps]: "meta_mut (\<lambda>_. meta s) s = s"
  by (cases s) (simp_all add: update_admitted_meta_def update_dispatch_meta_def)

lemma successor_snapshot_simps [simp, accessor_simps]:
  "snap_prior_state_digest (successor_snapshot H prior state) = snap_state_digest prior"
  "snap_state (successor_snapshot H prior state) = state"
  "snap_state_digest (successor_snapshot H prior state) = state_digest H (snap_state_digest prior) state"
  by (simp_all add: successor_snapshot_def)

abbreviation intact :: "'l governed_lib_scheme \<Rightarrow> OccurrenceSnapshotV1 \<Rightarrow> bool" where
  "intact H s \<equiv> validate_integrity H s = Ok ()"

lemma intact_iff:
  "intact H s \<longleftrightarrow>
     budget_validate (meta_budget (meta (snap_state s))) = Ok ()
     \<and> distinct (map res_residual (residual_slice (meta_residuals (meta (snap_state s)))))
     \<and> snap_state_digest s = state_digest H (snap_prior_state_digest s) (snap_state s)
     \<and> \<not> prior_digest_mismatch (snap_prior_state_digest s) (snap_state s)
     \<and> validate_state H (snap_state s) = Ok ()"
  by (auto simp: validate_integrity_def Let_def ResidualSetV1_new_cases)

lemma validate_state_ok:
  "validate_state H st = Ok () \<longleftrightarrow>
     distinct (meta_used_human_decisions (meta st))
     \<and> (\<forall>basis. proposal_basis st = Some basis \<longrightarrow> validate_proposal_basis H (meta st) basis = Ok ())
     \<and> validate_variant H st = Ok ()"
  by (cases "proposal_basis st") (auto simp: validate_state_def Let_def card_set_eq_length)

lemma proposal_basis_meta: "proposal_basis st = Some basis \<Longrightarrow> pb_meta basis = meta st"
  by (cases st) auto

lemma validate_proposal_basis_ok:
  "validate_proposal_basis H m basis = Ok () \<longleftrightarrow>
     proposal_validate (pb_proposal basis) = Ok ()
     \<and> validate_observation_resolution_integrity H (pb_observation basis) = Ok ()
     \<and> prop_campaign (pb_proposal basis) = key_campaign (meta_key m)
     \<and> obs_key (pb_observation basis) = meta_key m
     \<and> pb_proposal_ref basis = proposal_reference H (pb_proposal basis)
     \<and> obs_subject (pb_observation basis) = prop_subject (pb_proposal basis)
     \<and> is_current (pb_observation basis)
     \<and> validate_link (meta_key m) (pb_link basis)"
  by (auto simp: validate_proposal_basis_def)

lemma validate_admissible_basis_ok:
  "validate_admissible_basis v = Ok () \<longleftrightarrow>
     st_schema (ab_standing v) = STANDING_RESOLUTION_SCHEMA_V2
     \<and> st_key (ab_standing v) = meta_key (pb_meta (ab_proposal v))
     \<and> st_observation (ab_standing v) = obs_observation (pb_observation (ab_proposal v))
     \<and> st_proposal (ab_standing v) = pb_proposal_ref (ab_proposal v)
     \<and> st_subject (ab_standing v) = prop_subject (pb_proposal (ab_proposal v))
     \<and> st_scope (ab_standing v) = prop_scope (pb_proposal (ab_proposal v))
     \<and> st_status (ab_standing v) = Standing_Current
     \<and> ad_key (ab_decision v) = meta_key (pb_meta (ab_proposal v))
     \<and> ad_observation (ab_decision v) = obs_observation (pb_observation (ab_proposal v))
     \<and> ad_proposal (ab_decision v) = pb_proposal_ref (ab_proposal v)
     \<and> ad_standing_resolution (ab_decision v) = st_resolution (ab_standing v)
     \<and> ad_disposition (ab_decision v) = Admitted"
  by (auto simp: validate_admissible_basis_def)

lemma validate_authorized_ok:
  "validate_authorized H v = Ok () \<longleftrightarrow>
     validate_admissible_basis (ac_admitted v) = Ok ()
     \<and> sp_authorization (ac_spend v) =
         authorization_for_basis H (meta_key (pb_meta (ab_proposal (ac_admitted v))))
           (obs_observation (pb_observation (ab_proposal (ac_admitted v))))
           (pb_proposal_ref (ab_proposal (ac_admitted v)))
           (st_resolution (ab_standing (ac_admitted v)))
     \<and> sp_spend (ac_spend v) = spend_for_authorization H (sp_authorization (ac_spend v))
     \<and> sp_key (ac_spend v) = meta_key (pb_meta (ab_proposal (ac_admitted v)))
     \<and> sp_observation (ac_spend v) = obs_observation (pb_observation (ab_proposal (ac_admitted v)))
     \<and> sp_proposal (ac_spend v) = pb_proposal_ref (ab_proposal (ac_admitted v))
     \<and> sp_standing_resolution (ac_spend v) = st_resolution (ab_standing (ac_admitted v))
     \<and> sp_admission_decision (ac_spend v) = ad_decision (ab_decision (ac_admitted v))
     \<and> ac_issuance v = build_issuance H (ac_admitted v) (sp_spend (ac_spend v))"
  by (auto simp: validate_authorized_def Let_def)

lemma validate_custody_ok:
  "validate_custody H custody authorized = Ok () \<longleftrightarrow>
     cu_schema custody = DOCKET_CUSTODY_SCHEMA_V1
     \<and> cu_issuance custody = iss_issuance (ac_issuance authorized)
     \<and> cu_ag_spend custody = sp_spend (ac_spend authorized)
     \<and> cu_attempt custody = attempt_for_issuance H (cu_issuance custody)
     \<and> execution_standing_digest (cu_execution_standing custody) \<noteq> spend_digest (sp_spend (ac_spend authorized))
     \<and> execution_standing_digest (cu_execution_standing custody)
         \<noteq> authorization_digest (sp_authorization (ac_spend authorized))
     \<and> marker_digest (cu_executor_marker custody)
         \<notin> {execution_standing_digest (cu_execution_standing custody),
             spend_digest (sp_spend (ac_spend authorized)),
             authorization_digest (sp_authorization (ac_spend authorized)),
             attempt_digest (cu_attempt custody)}"
  by (auto simp: validate_custody_def Let_def)

lemma validate_settlement_ok:
  "validate_settlement settlement dispatch = Ok () \<longleftrightarrow>
     se_schema settlement = DOCKET_SETTLEMENT_SCHEMA_V1
     \<and> se_issuance settlement = iss_issuance (ac_issuance (di_authorized dispatch))
     \<and> se_attempt settlement = cu_attempt (di_custody dispatch)
     \<and> se_executor_marker settlement = cu_executor_marker (di_custody dispatch)"
  by (auto simp: validate_settlement_def)

lemma validate_indeterminate_ok:
  "validate_indeterminate indeterminate dispatch = Ok () \<longleftrightarrow>
     ind_issuance indeterminate = iss_issuance (ac_issuance (di_authorized dispatch))
     \<and> ind_attempt indeterminate = cu_attempt (di_custody dispatch)"
  by (auto simp: validate_indeterminate_def)

end
