(* ===== verification/Governed_Kernel.thy ===== *)
theory Governed_Kernel
  imports Governed_State
begin

text \<open>
  The operations of \<open>GovernedLoopKernelV1\<close> in \<open>crates/ag-campaign/src/governed.rs\<close>, in the
  order of the source. Every operation returns the successor snapshot or a kernel error.
\<close>

section \<open>Opening and recovery\<close>

definition illegal :: "OccurrenceSnapshotV1 \<Rightarrow> string \<Rightarrow> KernelErrorV1" where
  "illegal current operation = IllegalTransition (snap_pc current) operation"

text \<open>The common ending \<open>let next = successor_snapshot(..); next.validate_integrity()?; Ok(next)\<close>.\<close>

definition seal ::
  "'l governed_lib_scheme \<Rightarrow> OccurrenceSnapshotV1 \<Rightarrow> OccurrenceStateV1 \<Rightarrow> KernelErrorV1 + OccurrenceSnapshotV1" where
  "seal H current state =
     (let next = successor_snapshot H current state in
      try_then (validate_integrity H next) (\<lambda>_. Ok next))"

definition create_initial ::
  "'l governed_lib_scheme \<Rightarrow> CampaignId \<Rightarrow> OccurrenceId \<Rightarrow> ProgramBasisRefV1 \<Rightarrow> Digest
     \<Rightarrow> ResidualSetV1 \<Rightarrow> LoopBudgetV1 \<Rightarrow> KernelErrorV1 + OccurrenceSnapshotV1" where
  "create_initial H campaign occurrence program expected_work residuals budget =
     try_then (budget_validate budget) (\<lambda>_.
     let key = \<lparr>key_campaign = campaign, key_occurrence = occurrence\<rparr>;
         prior_state_digest = digest_value H GENESIS_DIGEST_DOMAIN_V1 (GenesisInput key program expected_work);
         state = ObservationRequired \<lparr>
           obr_meta = \<lparr>meta_key = key, meta_program = program, meta_expected_work = expected_work,
             meta_residuals = residuals, meta_budget = budget, meta_used_human_decisions = []\<rparr>,
           obr_prior = None\<rparr>;
         snapshot = \<lparr>snap_prior_state_digest = prior_state_digest,
           snap_state_digest = state_digest H prior_state_digest state, snap_state = state\<rparr>
     in try_then (validate_integrity H snapshot) (\<lambda>_. Ok snapshot))"

definition recovery_requirement :: "OccurrenceSnapshotV1 \<Rightarrow> RecoveryRequirementV1" where
  "recovery_requirement s =
     (case snap_pc s of
        PC_ObservationRequired \<Rightarrow> FreshObservation
      | PC_SettledObservationRequired \<Rightarrow> FreshObservation
      | PC_ProposalRecorded \<Rightarrow> FreshObservationAndStanding
      | PC_StandingRequired \<Rightarrow> FreshObservationAndStanding
      | PC_AdmissiblePendingAuthorization \<Rightarrow> CurrentStandingAndReadmission
      | PC_AuthorizationConsumed \<Rightarrow> ReconcileIssuance
      | PC_Dispatched \<Rightarrow> ReconcileAttemptRequirement
      | PC_ReconciliationRequired \<Rightarrow> ReconcileAttemptRequirement
      | PC_Halted \<Rightarrow> ExternalDisposition
      | PC_Completed \<Rightarrow> NoRecovery)"

section \<open>From observation to authorization\<close>

text \<open>The \<open>match (&pending.prior, class)\<close> of \<open>record_proposal\<close>.\<close>

definition classify_proposal ::
  "'l governed_lib_scheme \<Rightarrow> ObservationRequiredV1 \<Rightarrow> ExactWorkProposalV1 \<Rightarrow> ProposalClassV1
     \<Rightarrow> VersionedObservationResolutionV1 \<Rightarrow> KernelErrorV1 + (OccurrenceLinkV1 \<times> OccurrenceMetaV1)" where
  "classify_proposal H pending proposal class resolved =
     (case (obr_prior pending, class) of
        (None, ClassInitial) \<Rightarrow> Ok (LinkInitial, obr_meta pending)
      | (None, _) \<Rightarrow> Err (BindingMismatch ''initial proposal class'')
      | (Some _, ClassInitial) \<Rightarrow> Err (BindingMismatch ''continuation proposal class'')
      | (Some prior, ClassRetry) \<Rightarrow>
          if meta_key (obr_meta pending) = pri_key prior then Err OccurrenceReused
          else if \<not> retry_available (meta_budget (obr_meta pending)) then Err (BudgetExhausted ''retry'')
          else if pri_proposal prior \<noteq> Some (proposal_reference H proposal) then Err RetryProposalChanged
          else if pri_normalized_preconditions prior \<noteq> Some (obs_normalized_preconditions resolved)
          then Err RetryPreconditionsChanged
          else Ok (RetryOf (pri_key prior),
                 meta_budget_update (retries_used_update (\<lambda>n. saturating_add n 1)) (obr_meta pending))
      | (Some prior, ClassSuccessor) \<Rightarrow>
          if meta_key (obr_meta pending) = pri_key prior then Err OccurrenceReused
          else if pri_proposal prior = Some (proposal_reference H proposal) then Err SuccessorProposalReused
          else Ok (SuccessorOf (pri_key prior), obr_meta pending))"

definition record_proposal ::
  "'l governed_lib_scheme \<Rightarrow> OccurrenceSnapshotV1 \<Rightarrow> ObservationRefV1 \<Rightarrow> ExactWorkProposalV1 \<Rightarrow> ProposalClassV1
     \<Rightarrow> observation_resolver \<Rightarrow> string \<Rightarrow> u64 \<Rightarrow> KernelErrorV1 + OccurrenceSnapshotV1" where
  "record_proposal H current observation proposal class resolver expected_observation_resolver now =
     try_then (validate_integrity H current) (\<lambda>_.
     case snap_state current of
       ObservationRequired pending \<Rightarrow>
         try_then (proposal_validate proposal) (\<lambda>_.
         if prop_campaign proposal \<noteq> key_campaign (meta_key (obr_meta pending)) then Err OccurrenceMismatch
         else if prop_work proposal \<noteq> meta_expected_work (obr_meta pending)
         then Err (BindingMismatch ''prepared exact work'')
         else
           try_then (resolve_observation H resolver (meta_key (obr_meta pending)) observation
             (prop_subject proposal) expected_observation_resolver now) (\<lambda>resolved.
           try_then (classify_proposal H pending proposal class resolved) (\<lambda>(link, next_meta).
           seal H current (ProposalRecorded \<lparr>
             pb_meta = next_meta\<lparr>meta_residuals := meta_residuals (obr_meta pending)\<rparr>,
             pb_observation = resolved,
             pb_proposal = proposal,
             pb_proposal_ref = proposal_reference H proposal,
             pb_link = link\<rparr>))))
     | _ \<Rightarrow> Err (illegal current ''record_proposal''))"

definition require_standing ::
  "'l governed_lib_scheme \<Rightarrow> OccurrenceSnapshotV1 \<Rightarrow> KernelErrorV1 + OccurrenceSnapshotV1" where
  "require_standing H current =
     try_then (validate_integrity H current) (\<lambda>_.
     case snap_state current of
       ProposalRecorded proposal \<Rightarrow> seal H current (StandingRequired proposal)
     | _ \<Rightarrow> Err (illegal current ''require_standing''))"

definition record_admissible ::
  "'l governed_lib_scheme \<Rightarrow> OccurrenceSnapshotV1 \<Rightarrow> observation_resolver \<Rightarrow> standing_resolver
     \<Rightarrow> admissibility_decider \<Rightarrow> C1RejectedReviewBasisV1 option \<Rightarrow> string \<Rightarrow> string \<Rightarrow> u64 \<Rightarrow> u64
     \<Rightarrow> KernelErrorV1 + OccurrenceSnapshotV1" where
  "record_admissible H current observation_resolver standing_resolver decider controlling
       expected_observation_resolver expected_standing_resolver max_standing_ttl_ms now =
     try_then (validate_integrity H current) (\<lambda>_.
     case snap_state current of
       StandingRequired required \<Rightarrow>
         try_then (resolve_admissibility H required observation_resolver standing_resolver decider controlling
           expected_observation_resolver expected_standing_resolver max_standing_ttl_ms now)
         (\<lambda>(observation, standing, decision).
         seal H current (AdmissiblePendingAuthorization \<lparr>
           ab_proposal = required\<lparr>pb_observation := observation\<rparr>,
           ab_standing = standing,
           ab_decision = decision\<rparr>))
     | _ \<Rightarrow> Err (illegal current ''record_admissible''))"

text \<open>The spend that \<open>consume_authorization\<close> derives from an admitted basis.\<close>

definition build_spend ::
  "'l governed_lib_scheme \<Rightarrow> AdmissibleBasisV1 \<Rightarrow> u64 \<Rightarrow> AgAuthorizationSpendV1" where
  "build_spend H admitted now =
     (let authorization = authorization_for_basis H (meta_key (pb_meta (ab_proposal admitted)))
            (obs_observation (pb_observation (ab_proposal admitted)))
            (pb_proposal_ref (ab_proposal admitted)) (st_resolution (ab_standing admitted))
      in \<lparr>sp_authorization = authorization,
          sp_spend = spend_for_authorization H authorization,
          sp_key = meta_key (pb_meta (ab_proposal admitted)),
          sp_observation = obs_observation (pb_observation (ab_proposal admitted)),
          sp_proposal = pb_proposal_ref (ab_proposal admitted),
          sp_standing_resolution = st_resolution (ab_standing admitted),
          sp_admission_decision = ad_decision (ab_decision admitted),
          sp_consumed_at_unix_ms = now\<rparr>)"

definition consume_authorization ::
  "'l governed_lib_scheme \<Rightarrow> OccurrenceSnapshotV1 \<Rightarrow> observation_resolver \<Rightarrow> standing_resolver
     \<Rightarrow> admissibility_decider \<Rightarrow> C1RejectedReviewBasisV1 option \<Rightarrow> string \<Rightarrow> string \<Rightarrow> u64 \<Rightarrow> u64
     \<Rightarrow> KernelErrorV1 + OccurrenceSnapshotV1" where
  "consume_authorization H current observation_resolver standing_resolver decider controlling
       expected_observation_resolver expected_standing_resolver max_standing_ttl_ms now =
     try_then (validate_integrity H current) (\<lambda>_.
     case snap_state current of
       AdmissiblePendingAuthorization pending \<Rightarrow>
         try_then (resolve_admissibility H (ab_proposal pending) observation_resolver standing_resolver
           decider controlling expected_observation_resolver expected_standing_resolver
           max_standing_ttl_ms now) (\<lambda>(observation, standing, decision).
         let admitted = \<lparr>ab_proposal = (ab_proposal pending)\<lparr>pb_observation := observation\<rparr>,
               ab_standing = standing, ab_decision = decision\<rparr>;
             spend = build_spend H admitted now
         in seal H current (AuthorizationConsumed \<lparr>
              ac_admitted = admitted,
              ac_spend = spend,
              ac_issuance = build_issuance H admitted (sp_spend spend)\<rparr>))
     | _ \<Rightarrow> Err (illegal current ''consume_authorization''))"

section \<open>Custody, settlement, reconciliation\<close>

definition accept_docket_custody ::
  "'l governed_lib_scheme \<Rightarrow> OccurrenceSnapshotV1 \<Rightarrow> DocketCustodyV1 \<Rightarrow> KernelErrorV1 + OccurrenceSnapshotV1" where
  "accept_docket_custody H current custody =
     try_then (validate_integrity H current) (\<lambda>_.
     case snap_state current of
       AuthorizationConsumed authorized \<Rightarrow>
         try_then (validate_custody H custody authorized) (\<lambda>_.
         seal H current (Dispatched \<lparr>di_authorized = authorized, di_custody = custody\<rparr>))
     | _ \<Rightarrow> Err (illegal current ''accept_docket_custody''))"

definition record_settlement ::
  "'l governed_lib_scheme \<Rightarrow> OccurrenceSnapshotV1 \<Rightarrow> DocketSettlementV1 \<Rightarrow> KernelErrorV1 + OccurrenceSnapshotV1" where
  "record_settlement H current settlement =
     try_then (validate_integrity H current) (\<lambda>_.
     case snap_state current of
       Dispatched dispatched \<Rightarrow>
         try_then (validate_settlement settlement dispatched) (\<lambda>_.
         seal H current (SettledObservationRequired
           \<lparr>sor_dispatch = dispatched, sor_settlement = settlement\<rparr>))
     | _ \<Rightarrow> Err (illegal current ''record_settlement''))"

definition require_reconciliation ::
  "'l governed_lib_scheme \<Rightarrow> OccurrenceSnapshotV1 \<Rightarrow> IndeterminateOutcomeV1 \<Rightarrow> KernelErrorV1 + OccurrenceSnapshotV1" where
  "require_reconciliation H current indeterminate =
     try_then (validate_integrity H current) (\<lambda>_.
     case snap_state current of
       Dispatched dispatched \<Rightarrow>
         try_then (validate_indeterminate indeterminate dispatched) (\<lambda>_.
         seal H current (ReconciliationRequired
           \<lparr>rr_dispatch = dispatched, rr_indeterminate = indeterminate\<rparr>))
     | _ \<Rightarrow> Err (illegal current ''require_reconciliation''))"

definition recover_dispatched ::
  "'l governed_lib_scheme \<Rightarrow> OccurrenceSnapshotV1 \<Rightarrow> KernelErrorV1 + OccurrenceSnapshotV1" where
  "recover_dispatched H current =
     (case snap_state current of
        Dispatched dispatched \<Rightarrow>
          (let attempt = cu_attempt (di_custody dispatched);
               indeterminate = \<lparr>
                 ind_issuance = iss_issuance (ac_issuance (di_authorized dispatched)),
                 ind_attempt = attempt,
                 ind_reconciliation = ReconciliationRefV1 (digest_value H
                   ''ag.governed-loop.recovery-reconciliation/v1''
                   (RecoveryInput (snap_state_digest current) attempt)),
                 ind_evidence = digest_value H ''ag.governed-loop.recovery-ambiguity/v1''
                   (RecoveryInput (snap_state_digest current) attempt)\<rparr>
           in require_reconciliation H current indeterminate)
      | _ \<Rightarrow> Err (illegal current ''recover_dispatched''))"

definition record_reconciled_settlement ::
  "'l governed_lib_scheme \<Rightarrow> OccurrenceSnapshotV1 \<Rightarrow> DocketSettlementV1 \<Rightarrow> KernelErrorV1 + OccurrenceSnapshotV1" where
  "record_reconciled_settlement H current settlement =
     try_then (validate_integrity H current) (\<lambda>_.
     case snap_state current of
       ReconciliationRequired reconciling \<Rightarrow>
         try_then (validate_settlement settlement (rr_dispatch reconciling)) (\<lambda>_.
         seal H current (SettledObservationRequired
           \<lparr>sor_dispatch = rr_dispatch reconciling, sor_settlement = settlement\<rparr>))
     | _ \<Rightarrow> Err (illegal current ''record_reconciled_settlement''))"

section \<open>Continuation, probes, halts, completion\<close>

definition open_continuation ::
  "'l governed_lib_scheme \<Rightarrow> OccurrenceSnapshotV1 \<Rightarrow> OccurrenceId \<Rightarrow> Digest \<Rightarrow> KernelErrorV1 + OccurrenceSnapshotV1" where
  "open_continuation H current occurrence expected_work =
     try_then (validate_integrity H current) (\<lambda>_.
     case snap_state current of
       SettledObservationRequired settled \<Rightarrow>
         (let proposal = dispatch_proposal (sor_dispatch settled);
              old_meta = pb_meta proposal
          in if occurrence = key_occurrence (meta_key old_meta) then Err OccurrenceReused
             else seal H current (ObservationRequired \<lparr>
               obr_meta = \<lparr>
                 meta_key = \<lparr>key_campaign = key_campaign (meta_key old_meta), key_occurrence = occurrence\<rparr>,
                 meta_program = meta_program old_meta,
                 meta_expected_work = expected_work,
                 meta_residuals = meta_residuals old_meta,
                 meta_budget = meta_budget old_meta,
                 meta_used_human_decisions = meta_used_human_decisions old_meta\<rparr>,
               obr_prior = Some \<lparr>
                 pri_key = meta_key old_meta,
                 pri_proposal = Some (pb_proposal_ref proposal),
                 pri_normalized_preconditions = Some (obs_normalized_preconditions (pb_observation proposal)),
                 pri_state_digest = snap_state_digest current\<rparr>\<rparr>))
     | _ \<Rightarrow> Err (illegal current ''open_continuation''))"

definition bump_probe :: "OccurrenceStateV1 \<Rightarrow> OccurrenceStateV1" where
  "bump_probe = meta_mut (meta_budget_update (probes_used_update (\<lambda>n. saturating_add n 1)))"

definition note_probe ::
  "'l governed_lib_scheme \<Rightarrow> OccurrenceSnapshotV1 \<Rightarrow> KernelErrorV1 + OccurrenceSnapshotV1" where
  "note_probe H current =
     try_then (validate_integrity H current) (\<lambda>_.
     if snap_pc current \<noteq> PC_SettledObservationRequired \<and> snap_pc current \<noteq> PC_ObservationRequired
     then Err (illegal current ''note_probe'')
     else if \<not> probe_available (meta_budget (meta (snap_state current))) then Err (BudgetExhausted ''probe'')
     else seal H current (bump_probe (snap_state current)))"

definition is_safe_halt_source :: "ProgramCounterV1 \<Rightarrow> bool" where
  "is_safe_halt_source source =
     (source \<in> {PC_ObservationRequired, PC_ProposalRecorded, PC_StandingRequired,
        PC_AdmissiblePendingAuthorization, PC_ReconciliationRequired, PC_SettledObservationRequired})"

definition current_prior_basis :: "OccurrenceSnapshotV1 \<Rightarrow> PriorOccurrenceBasisV1" where
  "current_prior_basis current = \<lparr>
     pri_key = snap_key current,
     pri_proposal = map_option pb_proposal_ref (proposal_basis (snap_state current)),
     pri_normalized_preconditions =
       map_option (\<lambda>basis. obs_normalized_preconditions (pb_observation basis))
         (proposal_basis (snap_state current)),
     pri_state_digest = snap_state_digest current\<rparr>"

text \<open>The \<open>match current.state()\<close> that keeps an unreconciled attempt.\<close>

fun unresolved_attempt :: "OccurrenceStateV1 \<Rightarrow> DocketAttemptRefV1 option" where
  "unresolved_attempt (ReconciliationRequired v) = Some (cu_attempt (di_custody (rr_dispatch v)))"
| "unresolved_attempt _ = None"

definition halt ::
  "'l governed_lib_scheme \<Rightarrow> OccurrenceSnapshotV1 \<Rightarrow> HaltReasonRefV1 \<Rightarrow> KernelErrorV1 + OccurrenceSnapshotV1" where
  "halt H current reason =
     try_then (validate_integrity H current) (\<lambda>_.
     let source = snap_pc current in
     if \<not> is_safe_halt_source source then Err (illegal current ''halt'')
     else seal H current (Halted \<lparr>
       ha_meta = meta (snap_state current),
       ha_source = source,
       ha_reason = reason,
       ha_prior = current_prior_basis current,
       ha_unresolved_attempt = unresolved_attempt (snap_state current),
       ha_history = authority_history (snap_state current)\<rparr>))"

definition escalate ::
  "'l governed_lib_scheme \<Rightarrow> OccurrenceSnapshotV1 \<Rightarrow> HaltReasonRefV1 \<Rightarrow> KernelErrorV1 + OccurrenceSnapshotV1" where
  "escalate H current reason =
     try_then (validate_integrity H current) (\<lambda>_.
     if \<not> escalation_available (meta_budget (meta (snap_state current)))
     then Err (BudgetExhausted ''escalation'')
     else (let source = snap_pc current in
       if \<not> is_safe_halt_source source then Err (illegal current ''escalate'')
       else seal H current (Halted \<lparr>
         ha_meta = meta_budget_update (escalations_used_update (\<lambda>n. saturating_add n 1))
           (meta (snap_state current)),
         ha_source = source,
         ha_reason = reason,
         ha_prior = current_prior_basis current,
         ha_unresolved_attempt = unresolved_attempt (snap_state current),
         ha_history = authority_history (snap_state current)\<rparr>)))"

definition complete_from_observation ::
  "'l governed_lib_scheme \<Rightarrow> OccurrenceSnapshotV1 \<Rightarrow> ObservationRefV1 \<Rightarrow> Digest \<Rightarrow> TerminalWitnessRefV1
     \<Rightarrow> observation_resolver \<Rightarrow> string \<Rightarrow> u64 \<Rightarrow> KernelErrorV1 + OccurrenceSnapshotV1" where
  "complete_from_observation H current observation subject terminal_witness resolver
       expected_observation_resolver now =
     try_then (validate_integrity H current) (\<lambda>_.
     case snap_state current of
       ObservationRequired pending \<Rightarrow>
         if \<not> residuals_empty (meta_residuals (obr_meta pending)) then Err ResidualsOpen
         else try_then (resolve_observation H resolver (meta_key (obr_meta pending)) observation subject
                expected_observation_resolver now) (\<lambda>terminal.
           seal H current (Completed \<lparr>
             co_meta = obr_meta pending,
             co_terminal_observation = terminal,
             co_terminal_witness = terminal_witness,
             co_history = authority_history (snap_state current)\<rparr>))
     | _ \<Rightarrow> Err (illegal current ''complete_from_observation''))"

section \<open>Governed interventions\<close>

type_synonym intervention_verifier =
  "GovernedInterventionVerificationRequestV1 \<Rightarrow> ExternalBoundaryErrorV1 + GovernedInterventionVerificationRefV1"
type_synonym disposition_verifier =
  "HumanDispositionVerificationRequestV1 \<Rightarrow> ExternalBoundaryErrorV1 + HumanVerificationRefV1"

definition verify_governed_intervention ::
  "'l governed_lib_scheme \<Rightarrow> GovernedInterventionRequestV1 \<Rightarrow> HumanAuthorityScopeV1
     \<Rightarrow> intervention_verifier \<Rightarrow> u64 \<Rightarrow> KernelErrorV1 + VerifiedGovernedInterventionV1" where
  "verify_governed_intervention H request expected_scope verifier now =
     try_then (intervention_validate_integrity H request) (\<lambda>_.
     if gi_principal request \<noteq> scope_principal expected_scope then Err (Intervention ''wrong principal'')
     else if gi_mandate request \<noteq> scope_mandate expected_scope then Err (Intervention ''wrong mandate'')
     else if now \<ge> gi_expires_at_unix_ms request then Err (Intervention ''expired'')
     else try_then (map_err External (verifier \<lparr>gvr_request = request,
            gvr_expected_scope = expected_scope, gvr_now_unix_ms = now\<rparr>)) (\<lambda>verification.
       Ok \<lparr>vgi_request = request, vgi_verification = verification\<rparr>))"

definition apply_verified_governed_intervention ::
  "'l governed_lib_scheme \<Rightarrow> OccurrenceSnapshotV1 \<Rightarrow> VerifiedGovernedInterventionV1
     \<Rightarrow> KernelErrorV1 + GovernedInterventionEffectV1" where
  "apply_verified_governed_intervention H current verified =
     try_then (validate_integrity H current) (\<lambda>_.
     let request = vgi_request verified;
         transition = (\<lambda>r. try_then r (\<lambda>successor. Ok (Transition successor verified)))
     in if gi_campaign request \<noteq> key_campaign (snap_key current) then Err (Intervention ''wrong campaign'')
        else if gi_occurrence request \<noteq> key_occurrence (snap_key current)
        then Err (Intervention ''wrong occurrence'')
        else if gi_target_state_digest request \<noteq> snap_state_digest current
        then Err (Intervention ''stale target state'')
        else case gi_intervention request of
            ReconcileAttempt issuance attempt _ \<Rightarrow>
              (case snap_state current of
                 ReconciliationRequired state \<Rightarrow>
                   if issuance \<noteq> iss_issuance (ac_issuance (di_authorized (rr_dispatch state)))
                   then Err (Intervention ''wrong issuance'')
                   else if attempt \<noteq> cu_attempt (di_custody (rr_dispatch state))
                   then Err (Intervention ''wrong attempt'')
                   else Ok (Reconcile verified)
               | _ \<Rightarrow> Err (Intervention ''reconciliation is not required''))
          | RequestProbe _ _ \<Rightarrow> transition (note_probe H current)
          | OpenSuccessor successor_occurrence exact_work \<Rightarrow>
              transition (open_continuation H current successor_occurrence exact_work)
          | HaltContinuation reason \<Rightarrow> transition (halt H current reason))"

section \<open>Human dispositions\<close>

definition validate_human_artifact ::
  "OccurrenceSnapshotV1 \<Rightarrow> HaltedV1 \<Rightarrow> HumanDispositionV1 \<Rightarrow> HumanAuthorityScopeV1 \<Rightarrow> u64
     \<Rightarrow> KernelErrorV1 + unit" where
  "validate_human_artifact current halted artifact expected_scope now =
     (if hd_schema artifact \<noteq> HUMAN_DISPOSITION_SCHEMA_V1 then Err (ForeignSchema ''human disposition'')
      else if hd_campaign artifact \<noteq> key_campaign (meta_key (ha_meta halted))
      then Err (HumanDisposition ''wrong campaign'')
      else if hd_occurrence artifact \<noteq> key_occurrence (meta_key (ha_meta halted))
      then Err (HumanDisposition ''wrong occurrence'')
      else if hd_halted_state_digest artifact \<noteq> snap_state_digest current
      then Err (HumanDisposition ''wrong halted-state digest'')
      else if now \<ge> hd_expires_at_unix_ms artifact then Err (HumanDisposition ''expired'')
      else if hd_principal artifact \<noteq> scope_principal expected_scope
      then Err (HumanDisposition ''wrong principal'')
      else if hd_mandate artifact \<noteq> scope_mandate expected_scope then Err (HumanDisposition ''wrong mandate'')
      else if hd_decision artifact \<in> set (meta_used_human_decisions (ha_meta halted))
      then Err (HumanDisposition ''replayed decision'')
      else Ok ())"

definition consume_decision :: "HumanDecisionIdV1 \<Rightarrow> OccurrenceMetaV1 \<Rightarrow> OccurrenceMetaV1" where
  "consume_decision decision = meta_used_human_decisions_update (\<lambda>used. used @ [decision])"

text \<open>The state of the occurrence that a human disposition opens.\<close>

definition reopened_state ::
  "HaltedV1 \<Rightarrow> Digest \<Rightarrow> OccurrenceId \<Rightarrow> ProgramBasisRefV1 \<Rightarrow> OccurrenceStateV1" where
  "reopened_state halted digest occurrence program = ObservationRequired \<lparr>
     obr_meta = \<lparr>
       meta_key = \<lparr>key_campaign = key_campaign (meta_key (ha_meta halted)), key_occurrence = occurrence\<rparr>,
       meta_program = program,
       meta_expected_work = meta_expected_work (ha_meta halted),
       meta_residuals = meta_residuals (ha_meta halted),
       meta_budget = meta_budget (ha_meta halted),
       meta_used_human_decisions = meta_used_human_decisions (ha_meta halted)\<rparr>,
     obr_prior = Some \<lparr>pri_key = meta_key (ha_meta halted), pri_proposal = pri_proposal (ha_prior halted),
       pri_normalized_preconditions = pri_normalized_preconditions (ha_prior halted),
       pri_state_digest = digest\<rparr>\<rparr>"

definition open_from_halt ::
  "'l governed_lib_scheme \<Rightarrow> OccurrenceSnapshotV1 \<Rightarrow> HaltedV1 \<Rightarrow> HumanDispositionV1 \<Rightarrow> OccurrenceId
     \<Rightarrow> ProgramBasisRefV1 \<Rightarrow> HumanVerificationRefV1 \<Rightarrow> KernelErrorV1 + HumanDispositionEffectV1" where
  "open_from_halt H current halted artifact occurrence program verification =
     (if occurrence = key_occurrence (meta_key (ha_meta halted)) then Err OccurrenceReused
      else
        let consumed_halt = ha_meta_update (consume_decision (hd_decision artifact)) halted;
            halted_snapshot = successor_snapshot H current (Halted consumed_halt)
        in try_then (validate_integrity H halted_snapshot) (\<lambda>_.
           let state = reopened_state consumed_halt (snap_state_digest halted_snapshot) occurrence program;
               successor = successor_snapshot H halted_snapshot state
           in try_then (validate_integrity H successor) (\<lambda>_.
              Ok (OpenedOccurrence halted_snapshot successor verification))))"

definition apply_human_disposition ::
  "'l governed_lib_scheme \<Rightarrow> OccurrenceSnapshotV1 \<Rightarrow> HumanDispositionV1 \<Rightarrow> HumanAuthorityScopeV1
     \<Rightarrow> OccurrenceId option \<Rightarrow> observation_resolver \<Rightarrow> string \<Rightarrow> disposition_verifier \<Rightarrow> u64
     \<Rightarrow> KernelErrorV1 + HumanDispositionEffectV1" where
  "apply_human_disposition H current artifact expected_scope new_occurrence observation_resolver
       expected_observation_resolver verifier now =
     try_then (validate_integrity H current) (\<lambda>_.
     case snap_state current of
       Halted halted \<Rightarrow>
         try_then (validate_human_artifact current halted artifact expected_scope now) (\<lambda>_.
         try_then (map_err External (verifier \<lparr>hvr_artifact = artifact,
           hvr_expected_scope = expected_scope, hvr_now_unix_ms = now\<rparr>)) (\<lambda>verification.
         case hd_disposition artifact of
           ReturnToObservation \<Rightarrow>
             if ha_unresolved_attempt halted \<noteq> None then Err UnresolvedAttempt
             else try_then (ok_or new_occurrence (HumanDisposition ''new occurrence is required''))
               (\<lambda>occurrence. open_from_halt H current halted artifact occurrence
                  (meta_program (ha_meta halted)) verification)
         | ReplaceProgram program \<Rightarrow>
             if ha_unresolved_attempt halted \<noteq> None then Err UnresolvedAttempt
             else if program = meta_program (ha_meta halted)
             then Err (HumanDisposition ''replacement program must differ'')
             else try_then (ok_or new_occurrence (HumanDisposition ''new occurrence is required''))
               (\<lambda>occurrence. open_from_halt H current halted artifact occurrence program verification)
         | ExactResidualDisposition discharge \<Rightarrow>
             if new_occurrence \<noteq> None then Err (HumanDisposition ''residual disposition remains halted'')
             else try_then (apply_exact_discharge halted discharge (hd_decision artifact)) (\<lambda>after.
               try_then (seal H current (Halted (halted\<lparr>ha_meta :=
                   consume_decision (hd_decision artifact) ((ha_meta halted)\<lparr>meta_residuals := after\<rparr>)\<rparr>)))
                 (\<lambda>next. Ok (Updated next verification)))
         | Terminate observation subject terminal_witness \<Rightarrow>
             if new_occurrence \<noteq> None then Err (HumanDisposition ''termination does not open an occurrence'')
             else if ha_unresolved_attempt halted \<noteq> None then Err UnresolvedAttempt
             else if \<not> residuals_empty (meta_residuals (ha_meta halted)) then Err ResidualsOpen
             else try_then (resolve_observation H observation_resolver (meta_key (ha_meta halted))
                    observation subject expected_observation_resolver now) (\<lambda>terminal.
               try_then (seal H current (Completed \<lparr>
                   co_meta = consume_decision (hd_decision artifact) (ha_meta halted),
                   co_terminal_observation = terminal,
                   co_terminal_witness = terminal_witness,
                   co_history = ha_history halted\<rparr>))
                 (\<lambda>next. Ok (Updated next verification)))))
     | _ \<Rightarrow> Err (illegal current ''apply_human_disposition''))"

section \<open>What a successful operation did\<close>

lemma seal_ok: "seal H c st = Ok n \<longleftrightarrow> n = successor_snapshot H c st \<and> intact H n"
  by (auto simp: seal_def Let_def)

lemma create_initial_ok:
  assumes "create_initial H campaign occurrence program work residuals budget = Ok n"
  shows "intact H n"
    and "snap_state n = ObservationRequired \<lparr>
      obr_meta = \<lparr>meta_key = \<lparr>key_campaign = campaign, key_occurrence = occurrence\<rparr>,
        meta_program = program, meta_expected_work = work, meta_residuals = residuals,
        meta_budget = budget, meta_used_human_decisions = []\<rparr>,
      obr_prior = None\<rparr>"
  using assms by (auto simp: create_initial_def Let_def)

lemma classify_proposal_ok:
  "classify_proposal H pending proposal class resolved = Ok (link, m) \<longleftrightarrow>
     (obr_prior pending = None \<and> class = ClassInitial \<and> link = LinkInitial \<and> m = obr_meta pending)
     \<or> (\<exists>prior. obr_prior pending = Some prior \<and> class = ClassRetry
          \<and> meta_key (obr_meta pending) \<noteq> pri_key prior
          \<and> retry_available (meta_budget (obr_meta pending))
          \<and> pri_proposal prior = Some (proposal_reference H proposal)
          \<and> pri_normalized_preconditions prior = Some (obs_normalized_preconditions resolved)
          \<and> link = RetryOf (pri_key prior)
          \<and> m = meta_budget_update (retries_used_update (\<lambda>n. saturating_add n 1)) (obr_meta pending))
     \<or> (\<exists>prior. obr_prior pending = Some prior \<and> class = ClassSuccessor
          \<and> meta_key (obr_meta pending) \<noteq> pri_key prior
          \<and> pri_proposal prior \<noteq> Some (proposal_reference H proposal)
          \<and> link = SuccessorOf (pri_key prior) \<and> m = obr_meta pending)"
  by (cases "obr_prior pending"; cases "class") (auto simp: classify_proposal_def)

lemma record_proposal_ok:
  "record_proposal H c observation proposal class resolver resolver_id now = Ok n \<longleftrightarrow>
     intact H c \<and> (\<exists>pending resolved link m.
       snap_state c = ObservationRequired pending
       \<and> proposal_validate proposal = Ok ()
       \<and> prop_campaign proposal = key_campaign (meta_key (obr_meta pending))
       \<and> prop_work proposal = meta_expected_work (obr_meta pending)
       \<and> resolve_observation H resolver (meta_key (obr_meta pending)) observation
            (prop_subject proposal) resolver_id now = Ok resolved
       \<and> classify_proposal H pending proposal class resolved = Ok (link, m)
       \<and> seal H c (ProposalRecorded \<lparr>pb_meta = m\<lparr>meta_residuals := meta_residuals (obr_meta pending)\<rparr>,
            pb_observation = resolved, pb_proposal = proposal,
            pb_proposal_ref = proposal_reference H proposal, pb_link = link\<rparr>) = Ok n)"
  unfolding record_proposal_def
  by (cases "snap_state c") (auto split: prod.splits)

lemma require_standing_ok:
  "require_standing H c = Ok n \<longleftrightarrow>
     intact H c \<and> (\<exists>p. snap_state c = ProposalRecorded p \<and> seal H c (StandingRequired p) = Ok n)"
  unfolding require_standing_def by (cases "snap_state c") auto

lemma record_admissible_ok:
  "record_admissible H c obs_resolver standing_resolver decider controlling obs_id standing_id ttl now = Ok n \<longleftrightarrow>
     intact H c \<and> (\<exists>required observation standing decision.
       snap_state c = StandingRequired required
       \<and> resolve_admissibility H required obs_resolver standing_resolver decider controlling
            obs_id standing_id ttl now = Ok (observation, standing, decision)
       \<and> seal H c (AdmissiblePendingAuthorization \<lparr>ab_proposal = required\<lparr>pb_observation := observation\<rparr>,
            ab_standing = standing, ab_decision = decision\<rparr>) = Ok n)"
  unfolding record_admissible_def by (cases "snap_state c") auto

lemma consume_authorization_ok:
  "consume_authorization H c obs_resolver standing_resolver decider controlling obs_id standing_id ttl now = Ok n \<longleftrightarrow>
     intact H c \<and> (\<exists>pending observation standing decision admitted.
       snap_state c = AdmissiblePendingAuthorization pending
       \<and> resolve_admissibility H (ab_proposal pending) obs_resolver standing_resolver decider controlling
            obs_id standing_id ttl now = Ok (observation, standing, decision)
       \<and> admitted = \<lparr>ab_proposal = (ab_proposal pending)\<lparr>pb_observation := observation\<rparr>,
            ab_standing = standing, ab_decision = decision\<rparr>
       \<and> seal H c (AuthorizationConsumed \<lparr>ac_admitted = admitted, ac_spend = build_spend H admitted now,
            ac_issuance = build_issuance H admitted (sp_spend (build_spend H admitted now))\<rparr>) = Ok n)"
  unfolding consume_authorization_def by (cases "snap_state c") (auto simp: Let_def)

lemma accept_docket_custody_ok:
  "accept_docket_custody H c custody = Ok n \<longleftrightarrow>
     intact H c \<and> (\<exists>authorized. snap_state c = AuthorizationConsumed authorized
       \<and> validate_custody H custody authorized = Ok ()
       \<and> seal H c (Dispatched \<lparr>di_authorized = authorized, di_custody = custody\<rparr>) = Ok n)"
  unfolding accept_docket_custody_def by (cases "snap_state c") auto

lemma record_settlement_ok:
  "record_settlement H c settlement = Ok n \<longleftrightarrow>
     intact H c \<and> (\<exists>d. snap_state c = Dispatched d \<and> validate_settlement settlement d = Ok ()
       \<and> seal H c (SettledObservationRequired \<lparr>sor_dispatch = d, sor_settlement = settlement\<rparr>) = Ok n)"
  unfolding record_settlement_def by (cases "snap_state c") auto

lemma require_reconciliation_ok:
  "require_reconciliation H c indeterminate = Ok n \<longleftrightarrow>
     intact H c \<and> (\<exists>d. snap_state c = Dispatched d \<and> validate_indeterminate indeterminate d = Ok ()
       \<and> seal H c (ReconciliationRequired \<lparr>rr_dispatch = d, rr_indeterminate = indeterminate\<rparr>) = Ok n)"
  unfolding require_reconciliation_def by (cases "snap_state c") auto

lemma recover_dispatched_ok:
  assumes "recover_dispatched H c = Ok n"
  obtains indeterminate where "require_reconciliation H c indeterminate = Ok n"
  using assms unfolding recover_dispatched_def by (cases "snap_state c") (auto simp: Let_def)

lemma record_reconciled_settlement_ok:
  "record_reconciled_settlement H c settlement = Ok n \<longleftrightarrow>
     intact H c \<and> (\<exists>r. snap_state c = ReconciliationRequired r
       \<and> validate_settlement settlement (rr_dispatch r) = Ok ()
       \<and> seal H c (SettledObservationRequired
            \<lparr>sor_dispatch = rr_dispatch r, sor_settlement = settlement\<rparr>) = Ok n)"
  unfolding record_reconciled_settlement_def by (cases "snap_state c") auto

lemma note_probe_ok:
  "note_probe H c = Ok n \<longleftrightarrow>
     intact H c \<and> snap_pc c \<in> {PC_SettledObservationRequired, PC_ObservationRequired}
     \<and> probe_available (meta_budget (meta (snap_state c)))
     \<and> seal H c (bump_probe (snap_state c)) = Ok n"
  unfolding note_probe_def by auto

lemma halt_ok:
  "halt H c reason = Ok n \<longleftrightarrow>
     intact H c \<and> is_safe_halt_source (snap_pc c)
     \<and> seal H c (Halted \<lparr>ha_meta = meta (snap_state c), ha_source = snap_pc c, ha_reason = reason,
          ha_prior = current_prior_basis c, ha_unresolved_attempt = unresolved_attempt (snap_state c),
          ha_history = authority_history (snap_state c)\<rparr>) = Ok n"
  unfolding halt_def by (auto simp: Let_def)

lemma escalate_ok:
  "escalate H c reason = Ok n \<longleftrightarrow>
     intact H c \<and> is_safe_halt_source (snap_pc c)
     \<and> escalation_available (meta_budget (meta (snap_state c)))
     \<and> seal H c (Halted \<lparr>
          ha_meta = meta_budget_update (escalations_used_update (\<lambda>n. saturating_add n 1)) (meta (snap_state c)),
          ha_source = snap_pc c, ha_reason = reason,
          ha_prior = current_prior_basis c, ha_unresolved_attempt = unresolved_attempt (snap_state c),
          ha_history = authority_history (snap_state c)\<rparr>) = Ok n"
  unfolding escalate_def by (auto simp: Let_def)

lemma complete_from_observation_ok:
  "complete_from_observation H c observation subject terminal_witness resolver resolver_id now = Ok n \<longleftrightarrow>
     intact H c \<and> (\<exists>pending terminal. snap_state c = ObservationRequired pending
       \<and> residuals_empty (meta_residuals (obr_meta pending))
       \<and> resolve_observation H resolver (meta_key (obr_meta pending)) observation subject resolver_id now
          = Ok terminal
       \<and> seal H c (Completed \<lparr>co_meta = obr_meta pending, co_terminal_observation = terminal,
            co_terminal_witness = terminal_witness, co_history = authority_history (snap_state c)\<rparr>) = Ok n)"
  unfolding complete_from_observation_def by (cases "snap_state c") auto

lemma open_continuation_ok:
  "open_continuation H c occurrence work = Ok n \<longleftrightarrow>
     intact H c \<and> (\<exists>settled. snap_state c = SettledObservationRequired settled
       \<and> occurrence \<noteq> key_occurrence (snap_key c)
       \<and> seal H c (ObservationRequired \<lparr>
            obr_meta = \<lparr>meta_key = \<lparr>key_campaign = key_campaign (snap_key c), key_occurrence = occurrence\<rparr>,
              meta_program = meta_program (meta (snap_state c)), meta_expected_work = work,
              meta_residuals = meta_residuals (meta (snap_state c)),
              meta_budget = meta_budget (meta (snap_state c)),
              meta_used_human_decisions = meta_used_human_decisions (meta (snap_state c))\<rparr>,
            obr_prior = Some \<lparr>pri_key = snap_key c,
              pri_proposal = Some (pb_proposal_ref (dispatch_proposal (sor_dispatch settled))),
              pri_normalized_preconditions =
                Some (obs_normalized_preconditions (pb_observation (dispatch_proposal (sor_dispatch settled)))),
              pri_state_digest = snap_state_digest c\<rparr>\<rparr>) = Ok n)"
  unfolding open_continuation_def by (cases "snap_state c") (auto simp: Let_def)

lemma apply_verified_governed_intervention_ok:
  assumes "apply_verified_governed_intervention H c verified = Ok effect"
  obtains
    (reconcile) r evidence where "intact H c" "snap_state c = ReconciliationRequired r"
      "gi_intervention (vgi_request verified) = ReconcileAttempt
         (iss_issuance (ac_issuance (di_authorized (rr_dispatch r)))) (cu_attempt (di_custody (rr_dispatch r))) evidence"
      "effect = Reconcile verified"
  | (probe) work evidence n where "gi_intervention (vgi_request verified) = RequestProbe work evidence"
      "note_probe H c = Ok n" "effect = Transition n verified"
  | (successor) occurrence work n where "gi_intervention (vgi_request verified) = OpenSuccessor occurrence work"
      "open_continuation H c occurrence work = Ok n" "effect = Transition n verified"
  | (halting) reason n where "gi_intervention (vgi_request verified) = HaltContinuation reason"
      "halt H c reason = Ok n" "effect = Transition n verified"
proof (cases "gi_intervention (vgi_request verified)")
  case (ReconcileAttempt issuance attempt evidence)
  with assms reconcile show ?thesis
    unfolding apply_verified_governed_intervention_def
    by (cases "snap_state c") (auto simp: Let_def split: if_splits)
next
  case (RequestProbe work evidence)
  with assms probe show ?thesis
    unfolding apply_verified_governed_intervention_def by (auto simp: Let_def split: if_splits)
next
  case (OpenSuccessor occurrence work)
  with assms successor show ?thesis
    unfolding apply_verified_governed_intervention_def by (auto simp: Let_def split: if_splits)
next
  case (HaltContinuation reason)
  with assms halting show ?thesis
    unfolding apply_verified_governed_intervention_def by (auto simp: Let_def split: if_splits)
qed

lemma apply_verified_governed_intervention_target:
  assumes "apply_verified_governed_intervention H c verified = Ok effect"
  shows "gi_campaign (vgi_request verified) = key_campaign (snap_key c)"
    and "gi_occurrence (vgi_request verified) = key_occurrence (snap_key c)"
    and "gi_target_state_digest (vgi_request verified) = snap_state_digest c"
  using assms unfolding apply_verified_governed_intervention_def by (auto simp: Let_def split: if_splits)

lemma validate_human_artifact_ok:
  "validate_human_artifact c halted artifact expected_scope now = Ok () \<longleftrightarrow>
     hd_schema artifact = HUMAN_DISPOSITION_SCHEMA_V1
     \<and> hd_campaign artifact = key_campaign (meta_key (ha_meta halted))
     \<and> hd_occurrence artifact = key_occurrence (meta_key (ha_meta halted))
     \<and> hd_halted_state_digest artifact = snap_state_digest c
     \<and> now < hd_expires_at_unix_ms artifact
     \<and> hd_principal artifact = scope_principal expected_scope
     \<and> hd_mandate artifact = scope_mandate expected_scope
     \<and> hd_decision artifact \<notin> set (meta_used_human_decisions (ha_meta halted))"
  by (auto simp: validate_human_artifact_def not_le)

lemma open_from_halt_ok:
  "open_from_halt H c halted artifact occurrence program verification = Ok effect \<longleftrightarrow>
     occurrence \<noteq> key_occurrence (meta_key (ha_meta halted))
     \<and> (\<exists>h n. seal H c (Halted (ha_meta_update (consume_decision (hd_decision artifact)) halted)) = Ok h
       \<and> seal H h (reopened_state (ha_meta_update (consume_decision (hd_decision artifact)) halted)
            (snap_state_digest h) occurrence program) = Ok n
       \<and> effect = OpenedOccurrence h n verification)"
  by (auto simp: open_from_halt_def Let_def seal_ok)

lemma apply_human_disposition_ok:
  assumes "apply_human_disposition H c artifact expected_scope new_occurrence resolver resolver_id verifier now = Ok effect"
  obtains halted verification where "intact H c" "snap_state c = Halted halted"
    "validate_human_artifact c halted artifact expected_scope now = Ok ()"
    "verifier \<lparr>hvr_artifact = artifact, hvr_expected_scope = expected_scope, hvr_now_unix_ms = now\<rparr> = Ok verification"
    "(\<exists>occurrence program. ha_unresolved_attempt halted = None
        \<and> (hd_disposition artifact = ReturnToObservation \<and> program = meta_program (ha_meta halted)
           \<or> hd_disposition artifact = ReplaceProgram program \<and> program \<noteq> meta_program (ha_meta halted))
        \<and> open_from_halt H c halted artifact occurrence program verification = Ok effect)
     \<or> (\<exists>discharge after n. hd_disposition artifact = ExactResidualDisposition discharge
        \<and> apply_exact_discharge halted discharge (hd_decision artifact) = Ok after
        \<and> seal H c (Halted (halted\<lparr>ha_meta :=
             consume_decision (hd_decision artifact) ((ha_meta halted)\<lparr>meta_residuals := after\<rparr>)\<rparr>)) = Ok n
        \<and> effect = Updated n verification)
     \<or> (\<exists>observation subject terminal_witness terminal n.
          hd_disposition artifact = Terminate observation subject terminal_witness
        \<and> ha_unresolved_attempt halted = None \<and> residuals_empty (meta_residuals (ha_meta halted))
        \<and> resolve_observation H resolver (meta_key (ha_meta halted)) observation subject resolver_id now = Ok terminal
        \<and> seal H c (Completed \<lparr>co_meta = consume_decision (hd_decision artifact) (ha_meta halted),
             co_terminal_observation = terminal, co_terminal_witness = terminal_witness,
             co_history = ha_history halted\<rparr>) = Ok n
        \<and> effect = Updated n verification)"
proof -
  obtain halted where "intact H c" and st: "snap_state c = Halted halted"
    using assms unfolding apply_human_disposition_def by (cases "snap_state c") auto
  with that [of halted] show ?thesis
    using assms unfolding apply_human_disposition_def
    by (cases "hd_disposition artifact") (auto split: if_splits)
qed

end
