(* ===== verification/Governed_Successor.thy ===== *)
theory Governed_Successor
  imports Governed_Kernel
begin

text \<open>
  The persistence membrane of the kernel: \<open>validate_successor\<close> and its helpers in
  \<open>crates/ag-campaign/src/governed.rs\<close>, the same law as an inductive relation, the proof that
  the two agree, and the proof that every kernel operation produces an accepted successor.
\<close>

section \<open>The executable membrane\<close>

definition validate_recorded_proposal ::
  "ObservationRequiredV1 \<Rightarrow> ProposalBasisV1 \<Rightarrow> KernelErrorV1 + unit" where
  "validate_recorded_proposal from to =
     (let before = obr_meta from; after = pb_meta to in
      if meta_key before \<noteq> meta_key after
         \<or> meta_program before \<noteq> meta_program after
         \<or> meta_residuals before \<noteq> meta_residuals after
         \<or> meta_used_human_decisions before \<noteq> meta_used_human_decisions after
      then Err (StateInvariant ''proposal transition metadata'')
      else case (obr_prior from, pb_link to) of
          (None, LinkInitial) \<Rightarrow>
            if meta_budget before = meta_budget after then Ok ()
            else Err (StateInvariant ''proposal continuation classification'')
        | (Some prior, RetryOf linked) \<Rightarrow>
            if linked = pri_key prior
               \<and> pri_key prior \<noteq> meta_key before
               \<and> pri_proposal prior = Some (pb_proposal_ref to)
               \<and> pri_normalized_preconditions prior = Some (obs_normalized_preconditions (pb_observation to))
               \<and> retries_used (meta_budget after) = saturating_add (retries_used (meta_budget before)) 1
               \<and> retry_limit (meta_budget after) = retry_limit (meta_budget before)
               \<and> probe_limit (meta_budget after) = probe_limit (meta_budget before)
               \<and> probes_used (meta_budget after) = probes_used (meta_budget before)
               \<and> escalation_limit (meta_budget after) = escalation_limit (meta_budget before)
               \<and> escalations_used (meta_budget after) = escalations_used (meta_budget before)
            then Ok () else Err (StateInvariant ''proposal continuation classification'')
        | (Some prior, SuccessorOf linked) \<Rightarrow>
            if linked = pri_key prior
               \<and> pri_key prior \<noteq> meta_key before
               \<and> pri_proposal prior \<noteq> Some (pb_proposal_ref to)
               \<and> meta_budget before = meta_budget after
            then Ok () else Err (StateInvariant ''proposal continuation classification'')
        | _ \<Rightarrow> Err (StateInvariant ''proposal continuation classification''))"

definition same_proposal_basis :: "ProposalBasisV1 \<Rightarrow> ProposalBasisV1 \<Rightarrow> bool" where
  "same_proposal_basis left right =
     (pb_meta left = pb_meta right
      \<and> pb_proposal left = pb_proposal right
      \<and> pb_proposal_ref left = pb_proposal_ref right
      \<and> pb_link left = pb_link right
      \<and> obs_schema (pb_observation left) = obs_schema (pb_observation right)
      \<and> obs_key (pb_observation left) = obs_key (pb_observation right)
      \<and> obs_observation (pb_observation left) = obs_observation (pb_observation right)
      \<and> obs_normalized_preconditions (pb_observation left)
          = obs_normalized_preconditions (pb_observation right)
      \<and> obs_subject (pb_observation left) = obs_subject (pb_observation right)
      \<and> is_current (pb_observation right))"

definition validate_continuation ::
  "OccurrenceSnapshotV1 \<Rightarrow> ProposalRefV1 option \<Rightarrow> PreconditionBasisRefV1 option \<Rightarrow> ObservationRequiredV1
     \<Rightarrow> bool \<Rightarrow> KernelErrorV1 + unit" where
  "validate_continuation source expected_proposal expected_preconditions target allow_program_replacement =
     (let source_meta = meta (snap_state source); target_meta = obr_meta target in
      try_then (ok_or (obr_prior target) (StateInvariant ''missing continuation prior'')) (\<lambda>prior.
      if meta_key target_meta = meta_key source_meta
         \<or> key_campaign (meta_key target_meta) \<noteq> key_campaign (meta_key source_meta)
         \<or> pri_key prior \<noteq> meta_key source_meta
         \<or> pri_state_digest prior \<noteq> snap_state_digest source
         \<or> pri_proposal prior \<noteq> expected_proposal
         \<or> pri_normalized_preconditions prior \<noteq> expected_preconditions
         \<or> meta_residuals target_meta \<noteq> meta_residuals source_meta
         \<or> meta_budget target_meta \<noteq> meta_budget source_meta
         \<or> meta_used_human_decisions target_meta \<noteq> meta_used_human_decisions source_meta
         \<or> (\<not> allow_program_replacement \<and> meta_program target_meta \<noteq> meta_program source_meta)
      then Err (StateInvariant ''continuation linkage'')
      else Ok ()))"

definition budget_same_or_one_escalation :: "LoopBudgetV1 \<Rightarrow> LoopBudgetV1 \<Rightarrow> bool" where
  "budget_same_or_one_escalation left right =
     (retry_limit left = retry_limit right
      \<and> retries_used left = retries_used right
      \<and> probe_limit left = probe_limit right
      \<and> probes_used left = probes_used right
      \<and> escalation_limit left = escalation_limit right
      \<and> (escalations_used left = escalations_used right
         \<or> saturating_add (escalations_used left) 1 = escalations_used right))"

definition validate_halt_successor :: "OccurrenceStateV1 \<Rightarrow> HaltedV1 \<Rightarrow> KernelErrorV1 + unit" where
  "validate_halt_successor from to =
     (let from_meta = meta from; expected_unresolved = unresolved_attempt from in
      if ha_source to \<noteq> program_counter from
         \<or> meta_key (ha_meta to) \<noteq> meta_key from_meta
         \<or> meta_program (ha_meta to) \<noteq> meta_program from_meta
         \<or> meta_residuals (ha_meta to) \<noteq> meta_residuals from_meta
         \<or> meta_used_human_decisions (ha_meta to) \<noteq> meta_used_human_decisions from_meta
         \<or> \<not> budget_same_or_one_escalation (meta_budget from_meta) (meta_budget (ha_meta to))
         \<or> pri_key (ha_prior to) \<noteq> meta_key from_meta
         \<or> ha_unresolved_attempt to \<noteq> expected_unresolved
         \<or> ha_history to \<noteq> authority_history from
      then Err (StateInvariant ''halt transition'')
      else Ok ())"

definition exactly_one_appended :: "'a list \<Rightarrow> 'a list \<Rightarrow> bool" where
  "exactly_one_appended before after = (length after = length before + 1 \<and> prefix before after)"

definition validate_human_halt_update :: "HaltedV1 \<Rightarrow> HaltedV1 \<Rightarrow> KernelErrorV1 + unit" where
  "validate_human_halt_update from to =
     (let retained_exact = list_all (\<lambda>item. list_ex (\<lambda>prior. prior = item)
            (residual_slice (meta_residuals (ha_meta from)))) (residual_slice (meta_residuals (ha_meta to)))
      in if ha_source from \<noteq> ha_source to
            \<or> ha_reason from \<noteq> ha_reason to
            \<or> ha_prior from \<noteq> ha_prior to
            \<or> ha_unresolved_attempt from \<noteq> ha_unresolved_attempt to
            \<or> ha_history from \<noteq> ha_history to
            \<or> meta_key (ha_meta from) \<noteq> meta_key (ha_meta to)
            \<or> meta_program (ha_meta from) \<noteq> meta_program (ha_meta to)
            \<or> meta_budget (ha_meta from) \<noteq> meta_budget (ha_meta to)
            \<or> \<not> exactly_one_appended (meta_used_human_decisions (ha_meta from))
                 (meta_used_human_decisions (ha_meta to))
            \<or> \<not> retained_exact
         then Err (StateInvariant ''human halt update'')
         else Ok ())"

definition validate_human_completion :: "HaltedV1 \<Rightarrow> CompletedV1 \<Rightarrow> KernelErrorV1 + unit" where
  "validate_human_completion from to =
     (if ha_unresolved_attempt from \<noteq> None
         \<or> \<not> residuals_empty (meta_residuals (ha_meta from))
         \<or> \<not> residuals_empty (meta_residuals (co_meta to))
         \<or> meta_key (ha_meta from) \<noteq> meta_key (co_meta to)
         \<or> meta_program (ha_meta from) \<noteq> meta_program (co_meta to)
         \<or> meta_budget (ha_meta from) \<noteq> meta_budget (co_meta to)
         \<or> \<not> exactly_one_appended (meta_used_human_decisions (ha_meta from))
              (meta_used_human_decisions (co_meta to))
         \<or> ha_history from \<noteq> co_history to
      then Err (StateInvariant ''human completion'')
      else Ok ())"

definition validate_probe_successor :: "OccurrenceStateV1 \<Rightarrow> OccurrenceStateV1 \<Rightarrow> bool" where
  "validate_probe_successor from to =
     (let before = meta from; after = meta to in
      if meta_key before \<noteq> meta_key after
         \<or> meta_program before \<noteq> meta_program after
         \<or> meta_residuals before \<noteq> meta_residuals after
         \<or> meta_used_human_decisions before \<noteq> meta_used_human_decisions after
         \<or> retry_limit (meta_budget before) \<noteq> retry_limit (meta_budget after)
         \<or> retries_used (meta_budget before) \<noteq> retries_used (meta_budget after)
         \<or> probe_limit (meta_budget before) \<noteq> probe_limit (meta_budget after)
         \<or> saturating_add (probes_used (meta_budget before)) 1 \<noteq> probes_used (meta_budget after)
         \<or> escalation_limit (meta_budget before) \<noteq> escalation_limit (meta_budget after)
         \<or> escalations_used (meta_budget before) \<noteq> escalations_used (meta_budget after)
      then False
      else meta_mut (\<lambda>_. before) to = from)"

text \<open>
  The \<open>match (source.state(), target.state())\<close>, grouped by the target's constructor. A pair
  whose guard fails, and every other pair, reaches the probe arm.
\<close>

definition probe_arm :: "OccurrenceSnapshotV1 \<Rightarrow> OccurrenceSnapshotV1 \<Rightarrow> KernelErrorV1 + unit" where
  "probe_arm source target =
     (if snap_key source = snap_key target \<and> snap_pc source = snap_pc target
         \<and> validate_probe_successor (snap_state source) (snap_state target)
      then Ok ()
      else Err (IllegalTransition (snap_pc source) ''persist decoded successor''))"

definition match_arms ::
  "'l governed_lib_scheme \<Rightarrow> OccurrenceSnapshotV1 \<Rightarrow> OccurrenceSnapshotV1 \<Rightarrow> KernelErrorV1 + unit" where
  "match_arms H source target =
     (let same_key = (snap_key source = snap_key target); fall = probe_arm source target in
      case snap_state target of
        ProposalRecorded to \<Rightarrow>
          (case snap_state source of
             ObservationRequired from \<Rightarrow> if same_key then validate_recorded_proposal from to else fall
           | _ \<Rightarrow> fall)
      | StandingRequired to \<Rightarrow>
          (case snap_state source of
             ProposalRecorded from \<Rightarrow> if same_key \<and> from = to then Ok () else fall
           | _ \<Rightarrow> fall)
      | AdmissiblePendingAuthorization to \<Rightarrow>
          (case snap_state source of
             StandingRequired from \<Rightarrow>
               if same_key \<and> same_proposal_basis from (ab_proposal to)
               then validate_admissible_basis to else fall
           | _ \<Rightarrow> fall)
      | AuthorizationConsumed to \<Rightarrow>
          (case snap_state source of
             AdmissiblePendingAuthorization from \<Rightarrow>
               if same_key \<and> same_proposal_basis (ab_proposal from) (ab_proposal (ac_admitted to))
               then validate_authorized H to else fall
           | _ \<Rightarrow> fall)
      | Dispatched to \<Rightarrow>
          (case snap_state source of
             AuthorizationConsumed from \<Rightarrow>
               if same_key \<and> from = di_authorized to then validate_custody H (di_custody to) from else fall
           | _ \<Rightarrow> fall)
      | SettledObservationRequired to \<Rightarrow>
          (case snap_state source of
             Dispatched from \<Rightarrow>
               if same_key \<and> from = sor_dispatch to
               then validate_settlement (sor_settlement to) (sor_dispatch to) else fall
           | ReconciliationRequired from \<Rightarrow>
               if same_key \<and> rr_dispatch from = sor_dispatch to
               then validate_settlement (sor_settlement to) (sor_dispatch to) else fall
           | _ \<Rightarrow> fall)
      | ReconciliationRequired to \<Rightarrow>
          (case snap_state source of
             Dispatched from \<Rightarrow>
               if same_key \<and> from = rr_dispatch to
               then validate_indeterminate (rr_indeterminate to) (rr_dispatch to) else fall
           | _ \<Rightarrow> fall)
      | ObservationRequired to \<Rightarrow>
          (case snap_state source of
             SettledObservationRequired from \<Rightarrow>
               if \<not> same_key
               then validate_continuation source
                      (Some (pb_proposal_ref (dispatch_proposal (sor_dispatch from))))
                      (Some (obs_normalized_preconditions
                         (pb_observation (dispatch_proposal (sor_dispatch from))))) to False
               else fall
           | Halted from \<Rightarrow>
               if \<not> same_key \<and> ha_unresolved_attempt from = None
               then validate_continuation source (pri_proposal (ha_prior from))
                      (pri_normalized_preconditions (ha_prior from)) to True
               else fall
           | _ \<Rightarrow> fall)
      | Halted to \<Rightarrow>
          if same_key \<and> is_safe_halt_source (snap_pc source)
          then validate_halt_successor (snap_state source) to
          else (case snap_state source of
             Halted from \<Rightarrow> if same_key then validate_human_halt_update from to else fall
           | _ \<Rightarrow> fall)
      | Completed to \<Rightarrow>
          (case snap_state source of
             Halted from \<Rightarrow> if same_key then validate_human_completion from to else fall
           | ObservationRequired from \<Rightarrow>
               if same_key \<and> obr_meta from = co_meta to \<and> residuals_empty (meta_residuals (co_meta to))
               then Ok () else fall
           | _ \<Rightarrow> fall))"

definition validate_successor ::
  "'l governed_lib_scheme \<Rightarrow> OccurrenceSnapshotV1 \<Rightarrow> OccurrenceSnapshotV1 \<Rightarrow> KernelErrorV1 + unit" where
  "validate_successor H source target =
     try_then (validate_integrity H source) (\<lambda>_.
     try_then (validate_integrity H target) (\<lambda>_.
     if snap_prior_state_digest target \<noteq> snap_state_digest source then Err StateDigestMismatch
     else match_arms H source target))"

section \<open>The membrane as a relation\<close>

inductive legal_move :: "'l governed_lib_scheme \<Rightarrow> OccurrenceSnapshotV1 \<Rightarrow> OccurrenceSnapshotV1 \<Rightarrow> bool"
  for H source target where
  propose: "snap_state source = ObservationRequired from \<Longrightarrow> snap_state target = ProposalRecorded to
    \<Longrightarrow> snap_key source = snap_key target \<Longrightarrow> validate_recorded_proposal from to = Ok ()
    \<Longrightarrow> legal_move H source target"
| stand: "snap_state source = ProposalRecorded basis \<Longrightarrow> snap_state target = StandingRequired basis
    \<Longrightarrow> legal_move H source target"
| admit: "snap_state source = StandingRequired from \<Longrightarrow> snap_state target = AdmissiblePendingAuthorization to
    \<Longrightarrow> same_proposal_basis from (ab_proposal to) \<Longrightarrow> validate_admissible_basis to = Ok ()
    \<Longrightarrow> legal_move H source target"
| spend: "snap_state source = AdmissiblePendingAuthorization from \<Longrightarrow> snap_state target = AuthorizationConsumed to
    \<Longrightarrow> same_proposal_basis (ab_proposal from) (ab_proposal (ac_admitted to)) \<Longrightarrow> validate_authorized H to = Ok ()
    \<Longrightarrow> legal_move H source target"
| dispatch: "snap_state source = AuthorizationConsumed from \<Longrightarrow> snap_state target = Dispatched to
    \<Longrightarrow> di_authorized to = from \<Longrightarrow> validate_custody H (di_custody to) from = Ok ()
    \<Longrightarrow> legal_move H source target"
| settle: "snap_state source = Dispatched from \<Longrightarrow> snap_state target = SettledObservationRequired to
    \<Longrightarrow> sor_dispatch to = from \<Longrightarrow> validate_settlement (sor_settlement to) (sor_dispatch to) = Ok ()
    \<Longrightarrow> legal_move H source target"
| ambiguous: "snap_state source = Dispatched from \<Longrightarrow> snap_state target = ReconciliationRequired to
    \<Longrightarrow> rr_dispatch to = from \<Longrightarrow> validate_indeterminate (rr_indeterminate to) (rr_dispatch to) = Ok ()
    \<Longrightarrow> legal_move H source target"
| reconcile: "snap_state source = ReconciliationRequired from
    \<Longrightarrow> snap_state target = SettledObservationRequired to \<Longrightarrow> rr_dispatch from = sor_dispatch to
    \<Longrightarrow> validate_settlement (sor_settlement to) (sor_dispatch to) = Ok ()
    \<Longrightarrow> legal_move H source target"
| continue: "snap_state source = SettledObservationRequired from \<Longrightarrow> snap_state target = ObservationRequired to
    \<Longrightarrow> validate_continuation source (Some (pb_proposal_ref (dispatch_proposal (sor_dispatch from))))
          (Some (obs_normalized_preconditions (pb_observation (dispatch_proposal (sor_dispatch from))))) to False = Ok ()
    \<Longrightarrow> legal_move H source target"
| stop: "snap_state target = Halted to \<Longrightarrow> is_safe_halt_source (snap_pc source)
    \<Longrightarrow> validate_halt_successor (snap_state source) to = Ok ()
    \<Longrightarrow> legal_move H source target"
| halt_update: "snap_state source = Halted from \<Longrightarrow> snap_state target = Halted to
    \<Longrightarrow> validate_human_halt_update from to = Ok ()
    \<Longrightarrow> legal_move H source target"
| reopen: "snap_state source = Halted from \<Longrightarrow> snap_state target = ObservationRequired to
    \<Longrightarrow> ha_unresolved_attempt from = None
    \<Longrightarrow> validate_continuation source (pri_proposal (ha_prior from))
          (pri_normalized_preconditions (ha_prior from)) to True = Ok ()
    \<Longrightarrow> legal_move H source target"
| human_complete: "snap_state source = Halted from \<Longrightarrow> snap_state target = Completed to
    \<Longrightarrow> validate_human_completion from to = Ok ()
    \<Longrightarrow> legal_move H source target"
| complete: "snap_state source = ObservationRequired from \<Longrightarrow> snap_state target = Completed to
    \<Longrightarrow> obr_meta from = co_meta to \<Longrightarrow> residuals_empty (meta_residuals (co_meta to))
    \<Longrightarrow> legal_move H source target"
| probe: "snap_pc source = snap_pc target \<Longrightarrow> snap_pc source \<noteq> PC_Halted
    \<Longrightarrow> validate_probe_successor (snap_state source) (snap_state target)
    \<Longrightarrow> legal_move H source target"

section \<open>What the validators guarantee\<close>

lemma validate_recorded_proposal_ok:
  "validate_recorded_proposal from to = Ok () \<longleftrightarrow>
     meta_key (obr_meta from) = meta_key (pb_meta to)
     \<and> meta_program (obr_meta from) = meta_program (pb_meta to)
     \<and> meta_residuals (obr_meta from) = meta_residuals (pb_meta to)
     \<and> meta_used_human_decisions (obr_meta from) = meta_used_human_decisions (pb_meta to)
     \<and> (obr_prior from = None \<and> pb_link to = LinkInitial \<and> meta_budget (obr_meta from) = meta_budget (pb_meta to)
        \<or> (\<exists>prior. obr_prior from = Some prior \<and> pb_link to = RetryOf (pri_key prior)
            \<and> pri_key prior \<noteq> meta_key (obr_meta from)
            \<and> pri_proposal prior = Some (pb_proposal_ref to)
            \<and> pri_normalized_preconditions prior = Some (obs_normalized_preconditions (pb_observation to))
            \<and> meta_budget (pb_meta to)
                = retries_used_update (\<lambda>n. saturating_add n 1) (meta_budget (obr_meta from)))
        \<or> (\<exists>prior. obr_prior from = Some prior \<and> pb_link to = SuccessorOf (pri_key prior)
            \<and> pri_key prior \<noteq> meta_key (obr_meta from)
            \<and> pri_proposal prior \<noteq> Some (pb_proposal_ref to)
            \<and> meta_budget (obr_meta from) = meta_budget (pb_meta to)))"
  by (cases "obr_prior from"; cases "pb_link to"; cases "meta_budget (obr_meta from)";
      cases "meta_budget (pb_meta to)")
    (auto simp: validate_recorded_proposal_def Let_def)

lemma validate_continuation_ok:
  "validate_continuation source proposal preconditions target replace = Ok () \<longleftrightarrow>
     (\<exists>prior. obr_prior target = Some prior
       \<and> meta_key (obr_meta target) \<noteq> snap_key source
       \<and> key_campaign (meta_key (obr_meta target)) = key_campaign (snap_key source)
       \<and> prior = \<lparr>pri_key = snap_key source, pri_proposal = proposal,
            pri_normalized_preconditions = preconditions, pri_state_digest = snap_state_digest source\<rparr>
       \<and> meta_residuals (obr_meta target) = meta_residuals (meta (snap_state source))
       \<and> meta_budget (obr_meta target) = meta_budget (meta (snap_state source))
       \<and> meta_used_human_decisions (obr_meta target) = meta_used_human_decisions (meta (snap_state source))
       \<and> (\<not> replace \<longrightarrow> meta_program (obr_meta target) = meta_program (meta (snap_state source))))"
  by (auto simp: validate_continuation_def Let_def)

lemma validate_halt_successor_ok:
  "validate_halt_successor from to = Ok () \<longleftrightarrow>
     ha_source to = program_counter from
     \<and> meta_key (ha_meta to) = meta_key (meta from)
     \<and> meta_program (ha_meta to) = meta_program (meta from)
     \<and> meta_residuals (ha_meta to) = meta_residuals (meta from)
     \<and> meta_used_human_decisions (ha_meta to) = meta_used_human_decisions (meta from)
     \<and> budget_same_or_one_escalation (meta_budget (meta from)) (meta_budget (ha_meta to))
     \<and> pri_key (ha_prior to) = meta_key (meta from)
     \<and> ha_unresolved_attempt to = unresolved_attempt from
     \<and> ha_history to = authority_history from"
  by (auto simp: validate_halt_successor_def Let_def)

lemma exactly_one_appended_iff: "exactly_one_appended xs ys \<longleftrightarrow> (\<exists>y. ys = xs @ [y])"
  by (auto simp: exactly_one_appended_def prefix_def) (metis length_0_conv length_Suc_conv)

lemma validate_human_halt_update_ok:
  "validate_human_halt_update from to = Ok () \<longleftrightarrow>
     ha_source to = ha_source from \<and> ha_reason to = ha_reason from \<and> ha_prior to = ha_prior from
     \<and> ha_unresolved_attempt to = ha_unresolved_attempt from \<and> ha_history to = ha_history from
     \<and> meta_key (ha_meta to) = meta_key (ha_meta from)
     \<and> meta_program (ha_meta to) = meta_program (ha_meta from)
     \<and> meta_budget (ha_meta to) = meta_budget (ha_meta from)
     \<and> (\<exists>d. meta_used_human_decisions (ha_meta to) = meta_used_human_decisions (ha_meta from) @ [d])
     \<and> set (residual_slice (meta_residuals (ha_meta to)))
         \<subseteq> set (residual_slice (meta_residuals (ha_meta from)))"
  by (auto simp: validate_human_halt_update_def Let_def exactly_one_appended_iff list_all_iff list_ex_iff)

lemma validate_human_completion_ok:
  "validate_human_completion from to = Ok () \<longleftrightarrow>
     ha_unresolved_attempt from = None
     \<and> residuals_empty (meta_residuals (ha_meta from)) \<and> residuals_empty (meta_residuals (co_meta to))
     \<and> meta_key (co_meta to) = meta_key (ha_meta from)
     \<and> meta_program (co_meta to) = meta_program (ha_meta from)
     \<and> meta_budget (co_meta to) = meta_budget (ha_meta from)
     \<and> (\<exists>d. meta_used_human_decisions (co_meta to) = meta_used_human_decisions (ha_meta from) @ [d])
     \<and> co_history to = ha_history from"
  by (auto simp: validate_human_completion_def exactly_one_appended_iff)

text \<open>A probe successor differs from its source in the shared coordinates only, and there in the
  probe counter and, unchecked, in the expected work.\<close>

lemma validate_probe_successor_ok:
  "validate_probe_successor from to \<longleftrightarrow>
     (\<exists>work. to = meta_mut (\<lambda>_. (meta from)\<lparr>meta_expected_work := work,
        meta_budget := probes_used_update (\<lambda>n. saturating_add n 1) (meta_budget (meta from))\<rparr>) from)"
  (is "?probe \<longleftrightarrow> (\<exists>work. to = ?bumped work)")
proof
  assume probe: ?probe
  have meta_to: "meta to = (meta from)\<lparr>meta_expected_work := meta_expected_work (meta to),
      meta_budget := probes_used_update (\<lambda>n. saturating_add n 1) (meta_budget (meta from))\<rparr>"
    using probe
    by (cases "meta from"; cases "meta to"; cases "meta_budget (meta from)"; cases "meta_budget (meta to)")
      (auto simp: validate_probe_successor_def Let_def split: if_splits)
  have "meta_mut (\<lambda>_. meta from) to = from"
    using probe by (auto simp: validate_probe_successor_def Let_def split: if_splits)
  then have "meta_mut (\<lambda>_. meta to) (meta_mut (\<lambda>_. meta from) to) = meta_mut (\<lambda>_. meta to) from"
    by simp
  then have "to = meta_mut (\<lambda>_. meta to) from"
    by simp
  then show "\<exists>work. to = ?bumped work"
    using meta_to by metis
next
  assume "\<exists>work. to = ?bumped work"
  then obtain work where to: "to = ?bumped work" ..
  have "meta_mut (\<lambda>_. meta from) (?bumped work) = from" by simp
  then show ?probe
    unfolding to validate_probe_successor_def by (simp add: Let_def)
qed

lemmas validator_facts =
  validate_recorded_proposal_ok validate_continuation_ok validate_halt_successor_ok
  validate_human_halt_update_ok validate_human_completion_ok validate_probe_successor_ok

section \<open>The membrane implements the relation\<close>

lemma probe_same_key:
  "validate_probe_successor from to \<Longrightarrow> meta_key (meta from) = meta_key (meta to)"
  by (auto simp: validate_probe_successor_ok)

lemma probe_arm_ok:
  "probe_arm source target = Ok () \<longleftrightarrow>
     snap_pc source = snap_pc target \<and> validate_probe_successor (snap_state source) (snap_state target)"
  by (auto simp: probe_arm_def probe_same_key)

lemma match_arms_sound:
  assumes "match_arms H source target = Ok ()"
  shows "legal_move H source target"
proof -
  note [simp] = match_arms_def Let_def probe_arm_ok is_safe_halt_source_def
  show ?thesis
  proof (cases "snap_state target")
    case (ObservationRequired to)
    with assms show ?thesis
      by (cases "snap_state source") (auto split: if_splits intro: legal_move.continue legal_move.reopen legal_move.probe)
  next
    case (ProposalRecorded to)
    with assms show ?thesis
      by (cases "snap_state source") (auto split: if_splits intro: legal_move.propose legal_move.probe)
  next
    case (StandingRequired to)
    with assms show ?thesis
      by (cases "snap_state source") (auto split: if_splits intro: legal_move.stand legal_move.probe)
  next
    case (AdmissiblePendingAuthorization to)
    with assms show ?thesis
      by (cases "snap_state source") (auto split: if_splits intro: legal_move.admit legal_move.probe)
  next
    case (AuthorizationConsumed to)
    with assms show ?thesis
      by (cases "snap_state source") (auto split: if_splits intro: legal_move.spend legal_move.probe)
  next
    case (Dispatched to)
    with assms show ?thesis
      by (cases "snap_state source") (auto split: if_splits intro: legal_move.dispatch legal_move.probe)
  next
    case (ReconciliationRequired to)
    with assms show ?thesis
      by (cases "snap_state source") (auto split: if_splits intro: legal_move.ambiguous legal_move.probe)
  next
    case (SettledObservationRequired to)
    with assms show ?thesis
      by (cases "snap_state source") (auto split: if_splits intro: legal_move.settle legal_move.reconcile legal_move.probe)
  next
    case (Halted to)
    with assms show ?thesis
      by (cases "snap_state source") (auto split: if_splits intro: legal_move.stop legal_move.halt_update dest: probe_same_key)
  next
    case (Completed to)
    with assms show ?thesis
      by (cases "snap_state source") (auto split: if_splits intro: legal_move.complete legal_move.human_complete legal_move.probe)
  qed
qed

lemma match_arms_complete:
  assumes "legal_move H source target"
  shows "match_arms H source target = Ok ()"
  using assms
proof cases
  case (stop to)
  then show ?thesis by (simp add: match_arms_def validate_halt_successor_ok)
next
  case probe
  have "probe_arm source target = Ok ()"
    using probe by (simp add: probe_arm_ok)
  moreover have "snap_key source = snap_key target"
    using probe(3) by (rule probe_same_key)
  ultimately show ?thesis
    using probe(1,2)
    by (cases "snap_state target"; cases "snap_state source") (simp_all add: match_arms_def)
qed (auto simp: match_arms_def same_proposal_basis_def is_safe_halt_source_def validate_continuation_ok
    validate_human_halt_update_ok validate_human_completion_ok)

lemma validate_successor_iff:
  "validate_successor H source target = Ok () \<longleftrightarrow>
     intact H source \<and> intact H target
     \<and> snap_prior_state_digest target = snap_state_digest source
     \<and> legal_move H source target"
  using match_arms_sound match_arms_complete by (auto simp: validate_successor_def)

end
