(* ===== verification/Governed_Run.thy ===== *)
theory Governed_Run
  imports Governed_Successor
begin

text \<open>
  Steps and runs of the kernel. A step is one successful call of an operation of
  \<open>GovernedLoopKernelV1\<close>; the membrane \<open>validate_successor\<close> accepts the result of every step.
\<close>

section \<open>Kernel steps\<close>

text \<open>The accessor \<open>OccurrenceSnapshotV1::observation\<close>.\<close>

definition state_observation :: "OccurrenceStateV1 \<Rightarrow> VersionedObservationResolutionV1 option" where
  "state_observation st = map_option pb_observation (proposal_basis st)"

inductive kernel_step :: "'l governed_lib_scheme \<Rightarrow> OccurrenceSnapshotV1 \<Rightarrow> OccurrenceSnapshotV1 \<Rightarrow> bool"
  for H where
  step_record_proposal:
    "record_proposal H c observation proposal cls resolver resolver_id now = Ok n \<Longrightarrow> kernel_step H c n"
| step_require_standing: "require_standing H c = Ok n \<Longrightarrow> kernel_step H c n"
| step_record_admissible:
    "record_admissible H c obs_resolver standing_resolver decider controlling obs_id standing_id ttl now = Ok n
     \<Longrightarrow> kernel_step H c n"
| step_consume_authorization:
    "consume_authorization H c obs_resolver standing_resolver decider controlling obs_id standing_id ttl now = Ok n
     \<Longrightarrow> kernel_step H c n"
| step_accept_docket_custody: "accept_docket_custody H c custody = Ok n \<Longrightarrow> kernel_step H c n"
| step_record_settlement: "record_settlement H c settlement = Ok n \<Longrightarrow> kernel_step H c n"
| step_require_reconciliation: "require_reconciliation H c indeterminate = Ok n \<Longrightarrow> kernel_step H c n"
| step_recover_dispatched: "recover_dispatched H c = Ok n \<Longrightarrow> kernel_step H c n"
| step_record_reconciled_settlement: "record_reconciled_settlement H c settlement = Ok n \<Longrightarrow> kernel_step H c n"
| step_open_continuation: "open_continuation H c occurrence work = Ok n \<Longrightarrow> kernel_step H c n"
| step_note_probe: "note_probe H c = Ok n \<Longrightarrow> kernel_step H c n"
| step_halt: "halt H c reason = Ok n \<Longrightarrow> kernel_step H c n"
| step_escalate: "escalate H c reason = Ok n \<Longrightarrow> kernel_step H c n"
| step_complete:
    "complete_from_observation H c observation subject terminal_witness resolver resolver_id now = Ok n
     \<Longrightarrow> kernel_step H c n"
| step_intervention:
    "apply_verified_governed_intervention H c verified = Ok (Transition n verified') \<Longrightarrow> kernel_step H c n"
| step_disposition:
    "apply_human_disposition H c artifact authority new_occurrence resolver resolver_id verifier now
       = Ok (Updated n verification) \<Longrightarrow> kernel_step H c n"
| step_decision_consumed:
    "apply_human_disposition H c artifact authority new_occurrence resolver resolver_id verifier now
       = Ok (OpenedOccurrence h n verification) \<Longrightarrow> kernel_step H c h"
| step_occurrence_opened:
    "apply_human_disposition H c artifact authority new_occurrence resolver resolver_id verifier now
       = Ok (OpenedOccurrence h n verification) \<Longrightarrow> kernel_step H h n"

text \<open>No collision of the two observation bases a step compares by their digests.\<close>

definition bases_distinct ::
  "'l governed_lib_scheme \<Rightarrow> OccurrenceSnapshotV1 \<Rightarrow> OccurrenceSnapshotV1 \<Rightarrow> bool" where
  "bases_distinct H c n =
     (case (state_observation (snap_state c), state_observation (snap_state n)) of
        (Some r, Some r') \<Rightarrow> no_collision H (basis_preimage H r) (basis_preimage H r')
      | _ \<Rightarrow> True)"

section \<open>Every operation stays inside the membrane\<close>

lemma seal_step:
  assumes "seal H c st = Ok n" and "intact H c" and "legal_move H c (successor_snapshot H c st)"
  shows "validate_successor H c n = Ok ()"
  using assms by (auto simp: seal_ok validate_successor_iff)

lemma record_proposal_membrane:
  assumes "record_proposal H c observation proposal cls resolver resolver_id now = Ok n"
  shows "validate_successor H c n = Ok ()"
proof -
  obtain pending resolved link m where c: "intact H c" "snap_state c = ObservationRequired pending"
    and cl: "classify_proposal H pending proposal cls resolved = Ok (link, m)"
    and n: "seal H c (ProposalRecorded \<lparr>pb_meta = m\<lparr>meta_residuals := meta_residuals (obr_meta pending)\<rparr>,
        pb_observation = resolved, pb_proposal = proposal,
        pb_proposal_ref = proposal_reference H proposal, pb_link = link\<rparr>) = Ok n"
    using assms unfolding record_proposal_ok by blast
  have "legal_move H c (successor_snapshot H c (ProposalRecorded
      \<lparr>pb_meta = m\<lparr>meta_residuals := meta_residuals (obr_meta pending)\<rparr>,
        pb_observation = resolved, pb_proposal = proposal,
        pb_proposal_ref = proposal_reference H proposal, pb_link = link\<rparr>))"
    using c(2) cl
    by (intro legal_move.propose) (auto simp: classify_proposal_ok validate_recorded_proposal_ok)
  with n c(1) show ?thesis by (rule seal_step)
qed

lemma admissibility_same_basis:
  assumes "sha256_law H" "hex_law H" "input_serializes H"
    and "no_collision H (basis_preimage H (pb_observation basis)) (basis_preimage H observation)"
    and "validate_proposal_basis H (pb_meta basis) basis = Ok ()"
    and "resolve_admissibility H basis obs_resolver standing_resolver decider controlling
       obs_id standing_id ttl now = Ok (observation, standing, decision)"
  shows "same_proposal_basis basis (basis\<lparr>pb_observation := observation\<rparr>)"
    and "validate_admissible_basis \<lparr>ab_proposal = basis\<lparr>pb_observation := observation\<rparr>,
       ab_standing = standing, ab_decision = decision\<rparr> = Ok ()"
proof -
  let ?old = "pb_observation basis"
  have res: "fresh_observation H (meta_key (pb_meta basis)) (obs_observation ?old)
      (prop_subject (pb_proposal basis)) obs_id now observation"
    and pre: "obs_normalized_preconditions observation = obs_normalized_preconditions ?old"
    and standing: "live_standing basis observation standing_id ttl now standing"
    using assms(6) by (auto simp: resolve_admissibility_ok resolve_observation_ok resolve_standing_ok)
  have old: "known_schema ?old"
    "basis_binding_digest H ?old = Ok (precondition_digest (obs_normalized_preconditions ?old))"
    "obs_key ?old = meta_key (pb_meta basis)" "obs_subject ?old = prop_subject (pb_proposal basis)"
    using assms(5) by (auto simp: validate_proposal_basis_ok validate_observation_resolution_integrity_def)
  have "obs_schema ?old = obs_schema observation"
    using same_preconditions_same_schema [OF assms(1-4) old(1) _ old(2)] res pre
    by (simp add: fresh_observation_def)
  then show "same_proposal_basis basis (basis\<lparr>pb_observation := observation\<rparr>)"
    using old res pre by (simp add: same_proposal_basis_def fresh_observation_def)
  show "validate_admissible_basis \<lparr>ab_proposal = basis\<lparr>pb_observation := observation\<rparr>,
      ab_standing = standing, ab_decision = decision\<rparr> = Ok ()"
    using assms(6) standing
    by (auto simp: resolve_admissibility_ok validate_admissible_basis_ok live_standing_def)
qed

lemma intact_proposal_basis:
  assumes "intact H c" and "proposal_basis (snap_state c) = Some basis"
  shows "validate_proposal_basis H (pb_meta basis) basis = Ok ()"
  using assms proposal_basis_meta [OF assms(2)] by (simp add: intact_iff validate_state_ok)

lemma record_admissible_membrane:
  assumes "sha256_law H" "hex_law H" "input_serializes H"
    and "record_admissible H c obs_resolver standing_resolver decider controlling obs_id standing_id ttl now = Ok n"
    and "bases_distinct H c n"
  shows "validate_successor H c n = Ok ()"
proof -
  obtain required observation standing decision where c: "intact H c" "snap_state c = StandingRequired required"
    and res: "resolve_admissibility H required obs_resolver standing_resolver decider controlling
        obs_id standing_id ttl now = Ok (observation, standing, decision)"
    and n: "seal H c (AdmissiblePendingAuthorization \<lparr>ab_proposal = required\<lparr>pb_observation := observation\<rparr>,
        ab_standing = standing, ab_decision = decision\<rparr>) = Ok n"
    using assms(4) unfolding record_admissible_ok by blast
  have "no_collision H (basis_preimage H (pb_observation required)) (basis_preimage H observation)"
    using assms(5) c(2) n by (simp add: bases_distinct_def state_observation_def seal_ok)
  note basis = admissibility_same_basis [OF assms(1-3) this _ res]
  have "legal_move H c (successor_snapshot H c (AdmissiblePendingAuthorization
      \<lparr>ab_proposal = required\<lparr>pb_observation := observation\<rparr>, ab_standing = standing, ab_decision = decision\<rparr>))"
    using c basis intact_proposal_basis [OF c(1), of required] by (intro legal_move.admit) auto
  with n c(1) show ?thesis by (rule seal_step)
qed

lemma build_spend_valid:
  assumes "validate_admissible_basis admitted = Ok ()"
  shows "validate_authorized H \<lparr>ac_admitted = admitted, ac_spend = build_spend H admitted now,
    ac_issuance = build_issuance H admitted (sp_spend (build_spend H admitted now))\<rparr> = Ok ()"
  using assms by (simp add: validate_authorized_ok build_spend_def Let_def)

lemma consume_authorization_membrane:
  assumes "sha256_law H" "hex_law H" "input_serializes H"
    and "consume_authorization H c obs_resolver standing_resolver decider controlling obs_id standing_id ttl now = Ok n"
    and "bases_distinct H c n"
  shows "validate_successor H c n = Ok ()"
proof -
  obtain pending observation standing decision admitted
    where c: "intact H c" "snap_state c = AdmissiblePendingAuthorization pending"
    and res: "resolve_admissibility H (ab_proposal pending) obs_resolver standing_resolver decider controlling
        obs_id standing_id ttl now = Ok (observation, standing, decision)"
    and adm: "admitted = \<lparr>ab_proposal = (ab_proposal pending)\<lparr>pb_observation := observation\<rparr>,
        ab_standing = standing, ab_decision = decision\<rparr>"
    and n: "seal H c (AuthorizationConsumed \<lparr>ac_admitted = admitted, ac_spend = build_spend H admitted now,
        ac_issuance = build_issuance H admitted (sp_spend (build_spend H admitted now))\<rparr>) = Ok n"
    using assms(4) unfolding consume_authorization_ok by blast
  have "no_collision H (basis_preimage H (pb_observation (ab_proposal pending))) (basis_preimage H observation)"
    using assms(5) c(2) n adm by (simp add: bases_distinct_def state_observation_def seal_ok)
  note basis = admissibility_same_basis [OF assms(1-3) this _ res]
  have valid: "validate_proposal_basis H (pb_meta (ab_proposal pending)) (ab_proposal pending) = Ok ()"
    using intact_proposal_basis [OF c(1), of "ab_proposal pending"] c(2) by simp
  have "legal_move H c (successor_snapshot H c (AuthorizationConsumed \<lparr>ac_admitted = admitted,
      ac_spend = build_spend H admitted now,
      ac_issuance = build_issuance H admitted (sp_spend (build_spend H admitted now))\<rparr>))"
    using c(2) basis(1) [OF valid] build_spend_valid [OF basis(2) [OF valid]] unfolding adm
    by (intro legal_move.spend) auto
  with n c(1) show ?thesis by (rule seal_step)
qed

lemma custody_membrane:
  "require_standing H c = Ok n \<Longrightarrow> validate_successor H c n = Ok ()"
  "accept_docket_custody H c custody = Ok n \<Longrightarrow> validate_successor H c n = Ok ()"
  "record_settlement H c settlement = Ok n \<Longrightarrow> validate_successor H c n = Ok ()"
  "require_reconciliation H c indeterminate = Ok n \<Longrightarrow> validate_successor H c n = Ok ()"
  "record_reconciled_settlement H c settlement = Ok n \<Longrightarrow> validate_successor H c n = Ok ()"
  by (auto simp: require_standing_ok accept_docket_custody_ok record_settlement_ok
      require_reconciliation_ok record_reconciled_settlement_ok
      intro!: seal_step intro: legal_move.intros)

lemma recover_dispatched_membrane:
  "recover_dispatched H c = Ok n \<Longrightarrow> validate_successor H c n = Ok ()"
  by (erule recover_dispatched_ok) (rule custody_membrane(4))

lemma occurrence_key_eq [simp]:
  "\<lparr>key_campaign = a, key_occurrence = b\<rparr> = k \<longleftrightarrow> a = key_campaign k \<and> b = key_occurrence k"
  by (cases k) auto

lemma open_continuation_membrane:
  "open_continuation H c occurrence work = Ok n \<Longrightarrow> validate_successor H c n = Ok ()"
  by (auto simp: open_continuation_ok validate_continuation_ok intro!: seal_step legal_move.continue)

lemma note_probe_membrane:
  assumes "note_probe H c = Ok n"
  shows "validate_successor H c n = Ok ()"
proof -
  have c: "intact H c" "snap_pc c \<in> {PC_SettledObservationRequired, PC_ObservationRequired}"
    and n: "seal H c (bump_probe (snap_state c)) = Ok n"
    using assms by (auto simp: note_probe_ok)
  have "validate_probe_successor (snap_state c) (bump_probe (snap_state c))"
    by (auto simp: validate_probe_successor_def bump_probe_def Let_def)
  then have "legal_move H c (successor_snapshot H c (bump_probe (snap_state c)))"
    using c(2) by (intro legal_move.probe) (auto simp: bump_probe_def)
  with n c(1) show ?thesis by (rule seal_step)
qed

lemma halt_membrane:
  "halt H c reason = Ok n \<Longrightarrow> validate_successor H c n = Ok ()"
  "escalate H c reason = Ok n \<Longrightarrow> validate_successor H c n = Ok ()"
  by (auto simp: halt_ok escalate_ok validate_halt_successor_ok current_prior_basis_def
      budget_same_or_one_escalation_def intro!: seal_step legal_move.stop)

lemma complete_membrane:
  "complete_from_observation H c observation subject terminal_witness resolver resolver_id now = Ok n
   \<Longrightarrow> validate_successor H c n = Ok ()"
  by (auto simp: complete_from_observation_ok intro!: seal_step legal_move.complete)

lemma intervention_membrane:
  assumes "apply_verified_governed_intervention H c verified = Ok (Transition n verified')"
  shows "validate_successor H c n = Ok ()"
  using assms
  by (auto elim!: apply_verified_governed_intervention_ok
      intro: note_probe_membrane open_continuation_membrane halt_membrane)

lemma consume_decision_simps [simp]:
  "meta_key (consume_decision d m) = meta_key m"
  "meta_program (consume_decision d m) = meta_program m"
  "meta_expected_work (consume_decision d m) = meta_expected_work m"
  "meta_residuals (consume_decision d m) = meta_residuals m"
  "meta_budget (consume_decision d m) = meta_budget m"
  "meta_used_human_decisions (consume_decision d m) = meta_used_human_decisions m @ [d]"
  by (simp_all add: consume_decision_def)

lemma open_from_halt_membrane:
  assumes "intact H c" and "snap_state c = Halted halted" and "ha_unresolved_attempt halted = None"
    and "open_from_halt H c halted artifact occurrence program verification = Ok effect"
  obtains h n where "effect = OpenedOccurrence h n verification"
    "validate_successor H c h = Ok ()" "validate_successor H h n = Ok ()"
    "snap_state h = Halted (ha_meta_update (consume_decision (hd_decision artifact)) halted)"
    "snap_state n = reopened_state (ha_meta_update (consume_decision (hd_decision artifact)) halted)
       (snap_state_digest h) occurrence program"
    "occurrence \<noteq> key_occurrence (meta_key (ha_meta halted))"
proof -
  let ?halted = "ha_meta_update (consume_decision (hd_decision artifact)) halted"
  obtain h n where occ: "occurrence \<noteq> key_occurrence (meta_key (ha_meta halted))"
    and h: "seal H c (Halted ?halted) = Ok h"
    and n: "seal H h (reopened_state ?halted (snap_state_digest h) occurrence program) = Ok n"
    and e: "effect = OpenedOccurrence h n verification"
    using assms(4) unfolding open_from_halt_ok by blast
  have hs: "intact H h" "snap_state h = Halted ?halted"
    using h by (auto simp: seal_ok)
  have "legal_move H c (successor_snapshot H c (Halted ?halted))"
    using assms(2) by (intro legal_move.halt_update) (auto simp: validate_human_halt_update_ok)
  then have "validate_successor H c h = Ok ()"
    using h assms(1) by (intro seal_step)
  moreover have "legal_move H h (successor_snapshot H h (reopened_state ?halted (snap_state_digest h) occurrence program))"
    using hs(2) occ assms(3)
    by (intro legal_move.reopen [OF hs(2)]) (auto simp: reopened_state_def validate_continuation_ok)
  then have "validate_successor H h n = Ok ()"
    using n hs(1) by (intro seal_step)
  moreover have "snap_state n = reopened_state ?halted (snap_state_digest h) occurrence program"
    using n by (auto simp: seal_ok)
  ultimately show thesis
    using that e hs(2) occ by blast
qed

lemma disposition_opened_membrane:
  assumes "apply_human_disposition H c artifact authority new_occurrence resolver resolver_id verifier now
       = Ok (OpenedOccurrence h n verification)"
  shows "validate_successor H c h = Ok ()" and "validate_successor H h n = Ok ()"
proof -
  obtain halted v occurrence program where "intact H c" "snap_state c = Halted halted"
    "ha_unresolved_attempt halted = None"
    "open_from_halt H c halted artifact occurrence program v = Ok (OpenedOccurrence h n verification)"
    using assms by (elim apply_human_disposition_ok) blast
  then show "validate_successor H c h = Ok ()" and "validate_successor H h n = Ok ()"
    by (auto elim!: open_from_halt_membrane)
qed

lemma disposition_updated_membrane:
  assumes "apply_human_disposition H c artifact authority new_occurrence resolver resolver_id verifier now
       = Ok (Updated n verification)"
  shows "validate_successor H c n = Ok ()"
  using assms
proof (cases rule: apply_human_disposition_ok)
  case (1 halted v)
  from 1(5) show ?thesis
  proof (elim disjE exE conjE)
    fix discharge after m
    assume d: "apply_exact_discharge halted discharge (hd_decision artifact) = Ok after"
      and m: "seal H c (Halted (halted\<lparr>ha_meta := consume_decision (hd_decision artifact)
           ((ha_meta halted)\<lparr>meta_residuals := after\<rparr>)\<rparr>)) = Ok m"
      and e: "Updated n verification = Updated m v"
    have "legal_move H c (successor_snapshot H c (Halted (halted\<lparr>ha_meta :=
        consume_decision (hd_decision artifact) ((ha_meta halted)\<lparr>meta_residuals := after\<rparr>)\<rparr>)))"
      using 1(2) apply_exact_discharge_ok(4) [OF d]
      by (intro legal_move.halt_update) (auto simp: validate_human_halt_update_ok)
    with m 1(1) e show ?thesis using seal_step by simp
  next
    fix observation subject terminal_witness terminal m
    assume "ha_unresolved_attempt halted = None" "residuals_empty (meta_residuals (ha_meta halted))"
      and m: "seal H c (Completed \<lparr>co_meta = consume_decision (hd_decision artifact) (ha_meta halted),
           co_terminal_observation = terminal, co_terminal_witness = terminal_witness,
           co_history = ha_history halted\<rparr>) = Ok m"
      and e: "Updated n verification = Updated m v"
    then have "legal_move H c (successor_snapshot H c (Completed
        \<lparr>co_meta = consume_decision (hd_decision artifact) (ha_meta halted),
         co_terminal_observation = terminal, co_terminal_witness = terminal_witness,
         co_history = ha_history halted\<rparr>))"
      using 1(2) by (intro legal_move.human_complete) (auto simp: validate_human_completion_ok)
    with m 1(1) e show ?thesis using seal_step by simp
  qed (simp_all add: open_from_halt_ok)
qed

lemma kernel_step_accepted:
  assumes "sha256_law H" "hex_law H" "input_serializes H"
    and "kernel_step H c n" and "bases_distinct H c n"
  shows "validate_successor H c n = Ok ()"
  using assms(4)
  by cases
    (use assms in \<open>blast intro: record_proposal_membrane record_admissible_membrane
      consume_authorization_membrane custody_membrane recover_dispatched_membrane
      open_continuation_membrane note_probe_membrane halt_membrane complete_membrane
      intervention_membrane disposition_updated_membrane disposition_opened_membrane\<close>)+

end
