(* ===== verification/Transition_Law.thy ===== *)
theory Transition_Law
  imports Prelude
begin

text \<open>
  Contracts of a transition system and their consequences for runs, proved once: a preorder
  every step respects, a bounded counter, and an inductive invariant. The kernel's step
  relation and its membrane are instances.
\<close>

section \<open>Runs as lists\<close>

fun is_run :: "('s \<Rightarrow> 's \<Rightarrow> bool) \<Rightarrow> 's list \<Rightarrow> bool" where
  "is_run step (s # t # run) = (step s t \<and> is_run step (t # run))"
| "is_run step _ = True"

fun count_steps :: "('s \<Rightarrow> 's \<Rightarrow> bool) \<Rightarrow> 's list \<Rightarrow> nat" where
  "count_steps tick (s # t # run) = (if tick s t then 1 else 0) + count_steps tick (t # run)"
| "count_steps tick _ = 0"

lemma is_run_rtranclp:
  assumes "is_run step (s # run)" and "t \<in> set (s # run)"
  shows "step\<^sup>*\<^sup>* s t"
  using assms
proof (induction run arbitrary: s)
  case (Cons u run)
  then show ?case by (auto intro: converse_rtranclp_into_rtranclp)
qed simp

lemma is_run_mono:
  assumes "is_run step run" and "\<And>s t. step s t \<Longrightarrow> step' s t"
  shows "is_run step' run"
  using assms by (induction step run rule: is_run.induct) auto

section \<open>A preorder that every step respects\<close>

locale monotone_law =
  fixes step :: "'s \<Rightarrow> 's \<Rightarrow> bool"
    and le :: "'s \<Rightarrow> 's \<Rightarrow> bool"
  assumes le_refl: "le s s"
    and le_trans: "le s t \<Longrightarrow> le t u \<Longrightarrow> le s u"
    and step_le: "step s t \<Longrightarrow> le s t"
begin

lemma steps_le: "step\<^sup>*\<^sup>* s t \<Longrightarrow> le s t"
  by (induction rule: rtranclp_induct) (auto intro: le_refl le_trans step_le)

lemma run_le: "is_run step (s # run) \<Longrightarrow> t \<in> set (s # run) \<Longrightarrow> le s t"
  using is_run_rtranclp steps_le by metis

end

section \<open>A counter that a limit bounds\<close>

locale bounded_counter =
  fixes step :: "'s \<Rightarrow> 's \<Rightarrow> bool"
    and tick :: "'s \<Rightarrow> 's \<Rightarrow> bool"
    and used :: "'s \<Rightarrow> nat"
    and limit :: "'s \<Rightarrow> nat"
  assumes step_limit: "step s t \<Longrightarrow> limit t = limit s"
    and step_used: "step s t \<Longrightarrow> used t = used s + (if tick s t then 1 else 0)"
    and step_bounded: "step s t \<Longrightarrow> used t \<le> limit t"
begin

lemma run_count:
  assumes "is_run step (s # run)" and "run \<noteq> []"
  shows "used s + count_steps tick (s # run) \<le> limit s"
  using assms
proof (induction run arbitrary: s)
  case (Cons t run)
  then have st: "step s t" by simp
  show ?case
  proof (cases run)
    case Nil
    then show ?thesis using step_limit [OF st] step_used [OF st] step_bounded [OF st] by simp
  next
    case (Cons u rest)
    then have "used t + count_steps tick (t # run) \<le> limit t"
      using Cons.IH [of t] Cons.prems by simp
    then show ?thesis using step_limit [OF st] step_used [OF st] by simp
  qed
qed simp

lemma run_total: "is_run step (s # run) \<Longrightarrow> used (last (s # run)) = used s + count_steps tick (s # run)"
proof (induction run arbitrary: s)
  case (Cons t run)
  then have "step s t" and "used (last (t # run)) = used t + count_steps tick (t # run)" by simp_all
  then show ?case using step_used [of s t] by simp
qed simp

end

section \<open>An inductive invariant\<close>

inductive reach :: "('s \<Rightarrow> bool) \<Rightarrow> ('s \<Rightarrow> 's \<Rightarrow> bool) \<Rightarrow> 's \<Rightarrow> bool" for init step where
  reach_init: "init s \<Longrightarrow> reach init step s"
| reach_step: "reach init step s \<Longrightarrow> step s t \<Longrightarrow> reach init step t"

locale invariant_law =
  fixes init :: "'s \<Rightarrow> bool"
    and step :: "'s \<Rightarrow> 's \<Rightarrow> bool"
    and inv :: "'s \<Rightarrow> bool"
  assumes inv_init: "init s \<Longrightarrow> inv s"
    and inv_step: "inv s \<Longrightarrow> step s t \<Longrightarrow> inv t"
begin

lemma reach_inv: "reach init step s \<Longrightarrow> inv s"
  by (induction rule: reach.induct) (auto intro: inv_init inv_step)

lemma steps_inv: "step\<^sup>*\<^sup>* s t \<Longrightarrow> inv s \<Longrightarrow> inv t"
  by (induction rule: rtranclp_induct) (auto intro: inv_step)

end

end
