(* ===== verification/Governed_Laws.thy ===== *)
theory Governed_Laws
  imports Governed_Run Transition_Law
begin

text \<open>
  Laws of whole runs: what the membrane keeps along any chain of decoded snapshots, what the
  kernel's own steps keep, and the invariants of every snapshot that the kernel can reach.
\<close>

section \<open>Monotone facts along the membrane\<close>

abbreviation accepted :: "'l governed_lib_scheme \<Rightarrow> OccurrenceSnapshotV1 \<Rightarrow> OccurrenceSnapshotV1 \<Rightarrow> bool" where
  "accepted H s t \<equiv> validate_successor H s t = Ok ()"

definition budget_le :: "LoopBudgetV1 \<Rightarrow> LoopBudgetV1 \<Rightarrow> bool" where
  "budget_le a b \<longleftrightarrow>
     retry_limit b = retry_limit a \<and> probe_limit b = probe_limit a \<and> escalation_limit b = escalation_limit a
     \<and> retries_used a \<le> retries_used b \<and> probes_used a \<le> probes_used b
     \<and> escalations_used a \<le> escalations_used b"

definition ledger_le :: "OccurrenceSnapshotV1 \<Rightarrow> OccurrenceSnapshotV1 \<Rightarrow> bool" where
  "ledger_le s t \<longleftrightarrow>
     key_campaign (snap_key t) = key_campaign (snap_key s)
     \<and> budget_le (meta_budget (meta (snap_state s))) (meta_budget (meta (snap_state t)))
     \<and> set (residual_slice (meta_residuals (meta (snap_state t))))
         \<subseteq> set (residual_slice (meta_residuals (meta (snap_state s))))
     \<and> prefix (meta_used_human_decisions (meta (snap_state s)))
         (meta_used_human_decisions (meta (snap_state t)))"

lemma budget_le_refl [simp]: "budget_le b b"
  by (simp add: budget_le_def)

lemma budget_le_trans: "budget_le a b \<Longrightarrow> budget_le b c \<Longrightarrow> budget_le a c"
  by (auto simp: budget_le_def)

lemma budget_le_updates [simp]:
  "budget_le b (retries_used_update (\<lambda>n. saturating_add n 1) b)"
  "budget_le b (probes_used_update (\<lambda>n. saturating_add n 1) b)"
  "budget_le b (escalations_used_update (\<lambda>n. saturating_add n 1) b)"
  by (simp_all add: budget_le_def saturating_add_ge)

lemma budget_le_escalation: "budget_same_or_one_escalation a b \<Longrightarrow> budget_le a b"
  by (auto simp: budget_same_or_one_escalation_def budget_le_def saturating_add_ge)
    (metis saturating_add_ge)

lemma legal_move_ledger:
  assumes "legal_move H s t"
  shows "ledger_le s t"
  using assms
proof cases
  case (propose f t')
  then show ?thesis
    by (auto simp: ledger_le_def validate_recorded_proposal_ok)
next
  case (stop to)
  then show ?thesis
    by (auto simp: ledger_le_def validate_halt_successor_ok budget_le_escalation)
next
  case probe
  then show ?thesis
    by (auto simp: ledger_le_def validate_probe_successor_ok)
qed (auto simp: ledger_le_def same_proposal_basis_def validate_continuation_ok
    validate_human_halt_update_ok validate_human_completion_ok residuals_empty_def)

interpretation membrane_ledger: monotone_law "accepted H" ledger_le for H
proof
  show "ledger_le s s" for s by (simp add: ledger_le_def)
  show "ledger_le s t \<Longrightarrow> ledger_le t u \<Longrightarrow> ledger_le s u" for s t u
    by (auto simp: ledger_le_def intro: budget_le_trans prefix_order.trans)
  show "accepted H s t \<Longrightarrow> ledger_le s t" for s t
    by (auto simp: validate_successor_iff intro: legal_move_ledger)
qed

section \<open>Authority of one occurrence\<close>

definition opt_le :: "'a option \<Rightarrow> 'a option \<Rightarrow> bool" where
  "opt_le a b \<longleftrightarrow> a = None \<or> a = b"

definition history_le :: "AuthorityHistoryV1 \<Rightarrow> AuthorityHistoryV1 \<Rightarrow> bool" where
  "history_le a b \<longleftrightarrow>
     opt_le (hist_ag_spend a) (hist_ag_spend b) \<and> opt_le (hist_docket_attempt a) (hist_docket_attempt b)
     \<and> opt_le (hist_settlement a) (hist_settlement b) \<and> opt_le (hist_receipt a) (hist_receipt b)"

lemma history_le_refl [simp]: "history_le h h"
  by (simp add: history_le_def opt_le_def)

lemma history_le_empty [simp]: "history_le empty_history h"
  by (simp add: history_le_def opt_le_def empty_history_def)

lemma history_le_trans: "history_le a b \<Longrightarrow> history_le b c \<Longrightarrow> history_le a c"
  by (auto simp: history_le_def opt_le_def)

definition authority_le :: "OccurrenceSnapshotV1 \<Rightarrow> OccurrenceSnapshotV1 \<Rightarrow> bool" where
  "authority_le s t \<longleftrightarrow>
     meta_program (meta (snap_state t)) = meta_program (meta (snap_state s))
     \<and> history_le (authority_history (snap_state s)) (authority_history (snap_state t))"

lemma legal_move_authority:
  assumes "legal_move H s t" and "snap_key s = snap_key t"
  shows "authority_le s t"
  using assms(1)
proof cases
  case probe
  then show ?thesis by (auto simp: authority_le_def validate_probe_successor_ok)
qed (use assms(2) in \<open>auto simp: authority_le_def same_proposal_basis_def validator_facts
    history_le_def opt_le_def empty_history_def\<close>)

interpretation occurrence_authority:
  monotone_law "\<lambda>s t. accepted H s t \<and> snap_key s = snap_key t" authority_le for H
proof
  show "authority_le s s" for s by (simp add: authority_le_def)
  show "authority_le s t \<Longrightarrow> authority_le t u \<Longrightarrow> authority_le s u" for s t u
    by (auto simp: authority_le_def intro: history_le_trans)
  show "accepted H s t \<and> snap_key s = snap_key t \<Longrightarrow> authority_le s t" for s t
    by (auto simp: validate_successor_iff intro: legal_move_authority)
qed

section \<open>An unresolved attempt is never abandoned\<close>

definition halted_on ::
  "OccurrenceKeyV1 \<Rightarrow> DocketAttemptRefV1 \<Rightarrow> AuthorityHistoryV1 \<Rightarrow> OccurrenceSnapshotV1 \<Rightarrow> bool" where
  "halted_on key attempt history s = (\<exists>h. snap_state s = Halted h \<and> meta_key (ha_meta h) = key
     \<and> ha_unresolved_attempt h = Some attempt \<and> ha_history h = history)"

lemma legal_move_halted_on:
  assumes "legal_move H s t" and "halted_on key attempt history s"
  shows "halted_on key attempt history t"
  using assms(1)
  by (cases; use assms(2) in \<open>auto simp: halted_on_def is_safe_halt_source_def
    validate_human_halt_update_ok validate_human_completion_ok\<close>)

interpretation unresolved: invariant_law "halted_on key attempt history" "accepted H" "halted_on key attempt history"
    for key attempt history H
  by unfold_locales (auto simp: validate_successor_iff intro: legal_move_halted_on)

section \<open>Kernel steps\<close>

text \<open>
  A kernel step is a move of the membrane, or one of the two steps that resolve their
  observation again (whose membrane check compares schemas and so needs collision freedom).
\<close>

lemma kernel_step_move:
  assumes "kernel_step H c n"
  obtains (move) "accepted H c n"
  | (admit) required observation standing decision obs_resolver standing_resolver decider controlling
      obs_id standing_id ttl now
    where "intact H c" "intact H n" "snap_prior_state_digest n = snap_state_digest c"
      "snap_state c = StandingRequired required"
      "resolve_admissibility H required obs_resolver standing_resolver decider controlling
         obs_id standing_id ttl now = Ok (observation, standing, decision)"
      "snap_state n = AdmissiblePendingAuthorization \<lparr>ab_proposal = required\<lparr>pb_observation := observation\<rparr>,
         ab_standing = standing, ab_decision = decision\<rparr>"
  | (spend) pending observation standing decision obs_resolver standing_resolver decider controlling
      obs_id standing_id ttl now admitted
    where "intact H c" "intact H n" "snap_prior_state_digest n = snap_state_digest c"
      "snap_state c = AdmissiblePendingAuthorization pending"
      "resolve_admissibility H (ab_proposal pending) obs_resolver standing_resolver decider controlling
         obs_id standing_id ttl now = Ok (observation, standing, decision)"
      "admitted = \<lparr>ab_proposal = (ab_proposal pending)\<lparr>pb_observation := observation\<rparr>,
         ab_standing = standing, ab_decision = decision\<rparr>"
      "snap_state n = AuthorizationConsumed \<lparr>ac_admitted = admitted, ac_spend = build_spend H admitted now,
         ac_issuance = build_issuance H admitted (sp_spend (build_spend H admitted now))\<rparr>"
  using assms
proof cases
  case (step_record_admissible obs_resolver standing_resolver decider controlling obs_id standing_id ttl now)
  then show ?thesis
    by (auto simp: record_admissible_ok seal_ok intro: admit)
next
  case (step_consume_authorization obs_resolver standing_resolver decider controlling obs_id standing_id ttl now)
  then show ?thesis
    by (auto simp: consume_authorization_ok seal_ok intro: spend)
qed (blast intro: move record_proposal_membrane custody_membrane recover_dispatched_membrane
    open_continuation_membrane note_probe_membrane halt_membrane complete_membrane
    intervention_membrane disposition_updated_membrane disposition_opened_membrane)+

lemma kernel_step_intact:
  assumes "kernel_step H c n"
  shows "intact H c" and "intact H n" and "snap_prior_state_digest n = snap_state_digest c"
  using assms by (cases rule: kernel_step_move; simp add: validate_successor_iff)+

lemma kernel_step_ledger:
  assumes "kernel_step H c n"
  shows "ledger_le c n"
  using assms
proof (cases rule: kernel_step_move)
  case move
  then show ?thesis by (rule membrane_ledger.step_le)
qed (auto simp: ledger_le_def)

interpretation kernel_ledger: monotone_law "kernel_step H" ledger_le for H
  by unfold_locales
    (auto intro: membrane_ledger.le_refl membrane_ledger.le_trans kernel_step_ledger)

section \<open>Budgets\<close>

definition retry_tick :: "OccurrenceSnapshotV1 \<Rightarrow> OccurrenceSnapshotV1 \<Rightarrow> bool" where
  "retry_tick s t \<longleftrightarrow> snap_pc s = PC_ObservationRequired
     \<and> (\<exists>basis prior. snap_state t = ProposalRecorded basis \<and> pb_link basis = RetryOf prior)"

definition probe_tick :: "OccurrenceSnapshotV1 \<Rightarrow> OccurrenceSnapshotV1 \<Rightarrow> bool" where
  "probe_tick s t \<longleftrightarrow> snap_pc s = snap_pc t \<and> snap_pc s \<noteq> PC_Halted"

abbreviation snap_budget :: "OccurrenceSnapshotV1 \<Rightarrow> LoopBudgetV1" where
  "snap_budget s \<equiv> meta_budget (meta (snap_state s))"

lemma retry_tick_pc: "retry_tick s t \<Longrightarrow> snap_pc t = PC_ProposalRecorded"
  by (auto simp: retry_tick_def)

text \<open>The effect of one step on the budget: one counted use of what is available, or none.\<close>

definition budget_effect :: "OccurrenceSnapshotV1 \<Rightarrow> OccurrenceSnapshotV1 \<Rightarrow> bool" where
  "budget_effect c n \<longleftrightarrow>
     retry_tick c n \<and> \<not> probe_tick c n \<and> retry_available (snap_budget c)
       \<and> snap_budget n = retries_used_update (\<lambda>k. saturating_add k 1) (snap_budget c)
     \<or> probe_tick c n \<and> \<not> retry_tick c n \<and> probe_available (snap_budget c)
       \<and> snap_budget n = probes_used_update (\<lambda>k. saturating_add k 1) (snap_budget c)
     \<or> \<not> retry_tick c n \<and> \<not> probe_tick c n \<and> snap_pc c \<noteq> PC_Halted \<and> snap_pc n = PC_Halted
       \<and> escalation_available (snap_budget c)
       \<and> snap_budget n = escalations_used_update (\<lambda>k. saturating_add k 1) (snap_budget c)
     \<or> \<not> retry_tick c n \<and> \<not> probe_tick c n \<and> snap_budget n = snap_budget c"

lemma note_probe_budget: "note_probe H c = Ok n \<Longrightarrow> budget_effect c n"
  by (auto simp: budget_effect_def note_probe_ok bump_probe_def seal_ok probe_tick_def
      dest!: retry_tick_pc)

lemma record_proposal_budget:
  assumes "record_proposal H c observation proposal cls resolver resolver_id now = Ok n"
  shows "budget_effect c n"
proof -
  obtain pending resolved link m where c: "snap_state c = ObservationRequired pending"
    and cl: "classify_proposal H pending proposal cls resolved = Ok (link, m)"
    and n: "snap_state n = ProposalRecorded \<lparr>pb_meta = m\<lparr>meta_residuals := meta_residuals (obr_meta pending)\<rparr>,
        pb_observation = resolved, pb_proposal = proposal,
        pb_proposal_ref = proposal_reference H proposal, pb_link = link\<rparr>"
    using assms unfolding record_proposal_ok seal_ok by fastforce
  have tick: "retry_tick c n \<longleftrightarrow> (\<exists>prior. link = RetryOf prior)" "\<not> probe_tick c n"
    and budget: "snap_budget n = meta_budget m" "snap_budget c = meta_budget (obr_meta pending)"
    using c n by (simp_all add: retry_tick_def probe_tick_def)
  from cl show ?thesis
    unfolding classify_proposal_ok budget_effect_def tick(1) budget
    by (elim disjE exE conjE) (simp_all add: tick(2))
qed

lemma plain_budget:
  assumes "snap_pc n \<noteq> PC_ProposalRecorded" and "snap_pc c \<noteq> snap_pc n \<or> snap_pc c = PC_Halted"
    and "snap_budget n = snap_budget c"
  shows "budget_effect c n"
  using assms by (auto simp: budget_effect_def probe_tick_def dest: retry_tick_pc)

lemma escalate_budget: "escalate H c reason = Ok n \<Longrightarrow> budget_effect c n"
  by (auto simp: budget_effect_def escalate_ok seal_ok probe_tick_def retry_tick_def is_safe_halt_source_def)

lemma halt_budget: "halt H c reason = Ok n \<Longrightarrow> budget_effect c n"
  by (rule plain_budget) (auto simp: halt_ok seal_ok is_safe_halt_source_def)

lemma open_continuation_budget: "open_continuation H c occurrence work = Ok n \<Longrightarrow> budget_effect c n"
  by (rule plain_budget) (auto simp: open_continuation_ok seal_ok)

lemma kernel_step_budget:
  assumes "kernel_step H c n"
  shows "budget_effect c n"
  using assms
proof cases
  case (step_intervention verified verified')
  then show ?thesis
    by (auto elim!: apply_verified_governed_intervention_ok
        intro: note_probe_budget open_continuation_budget halt_budget)
next
  case (step_disposition artifact authority new_occurrence resolver resolver_id verifier now verification)
  then show ?thesis
    by (elim apply_human_disposition_ok, intro plain_budget) (auto simp: open_from_halt_ok seal_ok)
next
  case (step_decision_consumed artifact authority new_occurrence resolver resolver_id verifier now m verification)
  then show ?thesis
    by (elim apply_human_disposition_ok, intro plain_budget) (auto simp: open_from_halt_ok seal_ok)
next
  case (step_occurrence_opened m artifact authority new_occurrence resolver resolver_id verifier now verification)
  then show ?thesis
    by (elim apply_human_disposition_ok, intro plain_budget)
      (auto simp: open_from_halt_ok seal_ok reopened_state_def)
next
  case step_recover_dispatched
  then show ?thesis
    by (elim recover_dispatched_ok, intro plain_budget) (auto simp: require_reconciliation_ok seal_ok)
next
  case step_note_probe
  then show ?thesis by (rule note_probe_budget)
next
  case step_record_proposal
  then show ?thesis by (rule record_proposal_budget)
next
  case step_escalate
  then show ?thesis by (rule escalate_budget)
next
  case step_halt
  then show ?thesis by (rule halt_budget)
next
  case step_open_continuation
  then show ?thesis by (rule open_continuation_budget)
qed (rule plain_budget; auto simp: require_standing_ok record_admissible_ok consume_authorization_ok
    accept_docket_custody_ok record_settlement_ok require_reconciliation_ok
    record_reconciled_settlement_ok complete_from_observation_ok seal_ok)+

text \<open>The calls that use a budget: a proposal recorded as a retry, a probe, an escalation.\<close>

definition retry_call :: "'l governed_lib_scheme \<Rightarrow> OccurrenceSnapshotV1 \<Rightarrow> OccurrenceSnapshotV1 \<Rightarrow> bool" where
  "retry_call H c n \<longleftrightarrow> (\<exists>observation proposal resolver resolver_id now.
     record_proposal H c observation proposal ClassRetry resolver resolver_id now = Ok n)"

definition probe_call :: "'l governed_lib_scheme \<Rightarrow> OccurrenceSnapshotV1 \<Rightarrow> OccurrenceSnapshotV1 \<Rightarrow> bool" where
  "probe_call H c n \<longleftrightarrow> note_probe H c = Ok n"

definition escalation_call :: "'l governed_lib_scheme \<Rightarrow> OccurrenceSnapshotV1 \<Rightarrow> OccurrenceSnapshotV1 \<Rightarrow> bool" where
  "escalation_call H c n \<longleftrightarrow> (\<exists>reason. escalate H c reason = Ok n)"

lemma record_proposal_call:
  assumes "record_proposal H c observation proposal cls resolver resolver_id now = Ok n"
  shows "if cls = ClassRetry
     then retry_available (snap_budget c) \<and> snap_budget n = retries_used_update (\<lambda>k. saturating_add k 1) (snap_budget c)
     else snap_budget n = snap_budget c"
proof -
  obtain pending resolved link m where c: "snap_state c = ObservationRequired pending"
    and cl: "classify_proposal H pending proposal cls resolved = Ok (link, m)"
    and n: "snap_state n = ProposalRecorded \<lparr>pb_meta = m\<lparr>meta_residuals := meta_residuals (obr_meta pending)\<rparr>,
        pb_observation = resolved, pb_proposal = proposal,
        pb_proposal_ref = proposal_reference H proposal, pb_link = link\<rparr>"
    using assms unfolding record_proposal_ok seal_ok by fastforce
  from cl show ?thesis
    unfolding classify_proposal_ok by (elim disjE exE conjE) (simp_all add: c n)
qed

lemma call_budgets:
  shows "retry_call H c n \<Longrightarrow> retry_available (snap_budget c)
      \<and> snap_budget n = retries_used_update (\<lambda>k. saturating_add k 1) (snap_budget c)"
    and "probe_call H c n \<Longrightarrow> probe_available (snap_budget c)
      \<and> snap_budget n = probes_used_update (\<lambda>k. saturating_add k 1) (snap_budget c)"
    and "escalation_call H c n \<Longrightarrow> escalation_available (snap_budget c)
      \<and> snap_budget n = escalations_used_update (\<lambda>k. saturating_add k 1) (snap_budget c)"
  by (auto simp: retry_call_def probe_call_def escalation_call_def note_probe_ok bump_probe_def escalate_ok seal_ok
      dest!: record_proposal_call)

lemma unchanged_budget:
  shows "halt H c reason = Ok n \<Longrightarrow> snap_budget n = snap_budget c"
    and "open_continuation H c occurrence work = Ok n \<Longrightarrow> snap_budget n = snap_budget c"
  by (auto simp: halt_ok open_continuation_ok seal_ok)

lemma kernel_step_calls:
  assumes "kernel_step H c n"
  shows "snap_budget n = snap_budget c \<or> retry_call H c n \<or> probe_call H c n \<or> escalation_call H c n"
  using assms
proof cases
  case (step_record_proposal observation proposal cls resolver resolver_id now)
  then show ?thesis
    using record_proposal_call [OF step_record_proposal] by (cases "cls = ClassRetry") (auto simp: retry_call_def)
next
  case (step_intervention verified verified')
  then show ?thesis
    by (auto simp: probe_call_def dest: unchanged_budget elim!: apply_verified_governed_intervention_ok)
next
  case (step_disposition artifact authority new_occurrence resolver resolver_id verifier now verification)
  then show ?thesis
    by (elim apply_human_disposition_ok) (auto simp: open_from_halt_ok seal_ok)
next
  case (step_decision_consumed artifact authority new_occurrence resolver resolver_id verifier now m verification)
  then show ?thesis
    by (elim apply_human_disposition_ok) (auto simp: open_from_halt_ok seal_ok)
next
  case (step_occurrence_opened m artifact authority new_occurrence resolver resolver_id verifier now verification)
  then show ?thesis
    by (elim apply_human_disposition_ok) (auto simp: open_from_halt_ok seal_ok reopened_state_def)
next
  case step_recover_dispatched
  then show ?thesis
    by (elim recover_dispatched_ok) (auto simp: require_reconciliation_ok seal_ok)
qed (auto simp: require_standing_ok record_admissible_ok consume_authorization_ok
    accept_docket_custody_ok record_settlement_ok require_reconciliation_ok
    record_reconciled_settlement_ok complete_from_observation_ok seal_ok probe_call_def escalation_call_def
    dest: unchanged_budget)

text \<open>Every counter counts its calls: a call that uses one is the only kind of step that moves it.\<close>

lemma kernel_step_counters:
  assumes "kernel_step H c n"
  shows "unat (retries_used (snap_budget n)) = unat (retries_used (snap_budget c)) + (if retry_call H c n then 1 else 0)"
    and "unat (probes_used (snap_budget n)) = unat (probes_used (snap_budget c)) + (if probe_call H c n then 1 else 0)"
    and "unat (escalations_used (snap_budget n))
          = unat (escalations_used (snap_budget c)) + (if escalation_call H c n then 1 else 0)"
proof -
  note calls = call_budgets [of H c n, unfolded retry_available_def probe_available_def escalation_available_def]
  note bump = unat_saturating_add_one saturating_add_one_neq
  have step: "snap_budget n = snap_budget c \<or> retry_call H c n \<or> probe_call H c n \<or> escalation_call H c n"
    by (rule kernel_step_calls [OF assms])
  show "unat (retries_used (snap_budget n)) = unat (retries_used (snap_budget c)) + (if retry_call H c n then 1 else 0)"
    using step calls by (cases "retry_call H c n") (auto simp: bump)
  show "unat (probes_used (snap_budget n)) = unat (probes_used (snap_budget c)) + (if probe_call H c n then 1 else 0)"
    using step calls by (cases "probe_call H c n") (auto simp: bump)
  show "unat (escalations_used (snap_budget n))
      = unat (escalations_used (snap_budget c)) + (if escalation_call H c n then 1 else 0)"
    using step calls by (cases "escalation_call H c n") (auto simp: bump)
qed

lemma kernel_step_limits:
  assumes "kernel_step H c n"
  shows "retry_limit (snap_budget n) = retry_limit (snap_budget c)"
    and "probe_limit (snap_budget n) = probe_limit (snap_budget c)"
    and "escalation_limit (snap_budget n) = escalation_limit (snap_budget c)"
    and "unat (retries_used (snap_budget n)) \<le> unat (retry_limit (snap_budget n))"
    and "unat (probes_used (snap_budget n)) \<le> unat (probe_limit (snap_budget n))"
    and "unat (escalations_used (snap_budget n)) \<le> unat (escalation_limit (snap_budget n))"
  using kernel_step_ledger [OF assms] kernel_step_intact(2) [OF assms]
  by (auto simp: ledger_le_def budget_le_def intact_iff budget_validate_ok word_le_nat_alt)

interpretation retries: bounded_counter "kernel_step H" "retry_call H"
    "\<lambda>s. unat (retries_used (snap_budget s))" "\<lambda>s. unat (retry_limit (snap_budget s))" for H
  by unfold_locales
    (metis kernel_step_limits(1), erule kernel_step_counters(1), erule kernel_step_limits(4))

interpretation probes: bounded_counter "kernel_step H" "probe_call H"
    "\<lambda>s. unat (probes_used (snap_budget s))" "\<lambda>s. unat (probe_limit (snap_budget s))" for H
  by unfold_locales
    (metis kernel_step_limits(2), erule kernel_step_counters(2), erule kernel_step_limits(5))

interpretation escalations: bounded_counter "kernel_step H" "escalation_call H"
    "\<lambda>s. unat (escalations_used (snap_budget s))" "\<lambda>s. unat (escalation_limit (snap_budget s))" for H
  by unfold_locales
    (metis kernel_step_limits(3), erule kernel_step_counters(3), erule kernel_step_limits(6))

section \<open>The digest chain\<close>

definition linked_chain :: "'l governed_lib_scheme \<Rightarrow> OccurrenceSnapshotV1 list \<Rightarrow> bool" where
  "linked_chain H run \<longleftrightarrow> (\<forall>s \<in> set run. intact H s)
     \<and> is_run (\<lambda>s t. snap_prior_state_digest t = snap_state_digest s) run"

text \<open>The bytes SHA-256 reads for the digest of a snapshot, and the record they are the encoding of.\<close>

definition state_preimage :: "'l governed_lib_scheme \<Rightarrow> OccurrenceSnapshotV1 \<Rightarrow> bytes" where
  "state_preimage H s = hash_domain_preimage STATE_DIGEST_DOMAIN_V1
     (input_bytes H (StateInput (snap_prior_state_digest s) (snap_state s)))"

definition state_inputs :: "OccurrenceSnapshotV1 list \<Rightarrow> digest_input set" where
  "state_inputs ss = {StateInput (snap_prior_state_digest s) (snap_state s) | s. s \<in> set ss}"

lemma state_digest_inject:
  assumes "sha256_law H" and "hex_law H" and "input_serializes H"
    and "inj_on (sha256 H) (state_preimage H ` set ss)" and "inj_on (input_bytes H) (state_inputs ss)"
    and "x \<in> set ss" "y \<in> set ss" "intact H x" "intact H y" "snap_state_digest x = snap_state_digest y"
  shows "x = y"
proof -
  let ?in = "\<lambda>s. StateInput (snap_prior_state_digest s) (snap_state s)"
  have "hash_domain H STATE_DIGEST_DOMAIN_V1 (input_bytes H (?in x))
      = hash_domain H STATE_DIGEST_DOMAIN_V1 (input_bytes H (?in y))"
    using assms(8-10) by (simp add: intact_iff state_digest_def digest_value_hash [OF assms(3)])
  then have "sha256 H (state_preimage H x) = sha256 H (state_preimage H y)"
    using hex_encode_inject [OF assms(1,2)] by (simp add: hash_domain_def state_preimage_def)
  then have "state_preimage H x = state_preimage H y"
    using inj_onD [OF assms(4)] assms(6,7) by blast
  then have "input_bytes H (?in x) = input_bytes H (?in y)"
    by (simp add: state_preimage_def hash_domain_preimage_def)
  moreover have "?in x \<in> state_inputs ss" "?in y \<in> state_inputs ss"
    using assms(6,7) by (auto simp: state_inputs_def)
  ultimately have "?in x = ?in y"
    by (rule inj_onD [OF assms(5)])
  then show ?thesis using assms(10) by simp
qed

lemma is_run_snoc: "is_run step (xs @ [s, t]) \<longleftrightarrow> is_run step (xs @ [s]) \<and> step s t"
  by (induction step xs rule: is_run.induct) auto

lemma linked_chain_suffix:
  assumes "linked_chain H xs" and "linked_chain H ys"
    and "xs \<noteq> [] \<Longrightarrow> ys \<noteq> [] \<Longrightarrow> snap_state_digest (last xs) = snap_state_digest (last ys)"
    and "inj_on snap_state_digest (set xs \<union> set ys)"
  shows "suffix xs ys \<or> suffix ys xs"
  using assms
proof (induction xs arbitrary: ys rule: rev_induct)
  case (snoc x xs)
  show ?case
  proof (cases ys rule: rev_cases)
    case (snoc zs y)
    then have "snap_state_digest x = snap_state_digest y"
      using snoc.prems by simp
    then have same: "x = y"
      by (rule inj_onD [OF snoc.prems(4)]) (simp_all add: snoc)
    have "linked_chain H xs" "xs \<noteq> [] \<Longrightarrow> snap_prior_state_digest x = snap_state_digest (last xs)"
      using snoc.prems(1) by (cases xs rule: rev_cases; force simp: linked_chain_def is_run_snoc)+
    moreover have "linked_chain H zs" "zs \<noteq> [] \<Longrightarrow> snap_prior_state_digest y = snap_state_digest (last zs)"
      using snoc.prems(2) snoc by (cases zs rule: rev_cases; force simp: linked_chain_def is_run_snoc)+
    ultimately have "suffix xs zs \<or> suffix zs xs"
      using same snoc.prems(4) snoc by (intro snoc.IH) (auto intro: inj_on_subset)
    then show ?thesis using same snoc by auto
  qed simp
qed simp

lemma linked_chains_agree:
  assumes "sha256_law H" and "hex_law H" and "input_serializes H"
    and "linked_chain H xs" and "linked_chain H ys" and "xs \<noteq> []" and "ys \<noteq> []"
    and "snap_state_digest (last xs) = snap_state_digest (last ys)"
    and "inj_on (sha256 H) (state_preimage H ` set (xs @ ys))" and "inj_on (input_bytes H) (state_inputs (xs @ ys))"
  shows "suffix xs ys \<or> suffix ys xs"
proof -
  have "inj_on snap_state_digest (set (xs @ ys))"
    using assms(4,5) by (intro inj_onI state_digest_inject [OF assms(1-3,9,10)]) (auto simp: linked_chain_def)
  then show ?thesis using linked_chain_suffix [OF assms(4,5)] assms(8) by simp
qed

end
