(* ===== verification/Governed_Reach.thy ===== *)
theory Governed_Reach
  imports Governed_Laws
begin

text \<open>
  Snapshots that the kernel can reach from a newly created occurrence: the effect of every
  operation on the typed state, the invariants of reachable snapshots, and the refinement of
  an abstract authority ledger by the kernel.
\<close>

section \<open>The effect of a step on the state\<close>

definition halted_state :: "OccurrenceSnapshotV1 \<Rightarrow> OccurrenceMetaV1 \<Rightarrow> HaltReasonRefV1 \<Rightarrow> OccurrenceStateV1" where
  "halted_state c m reason = Halted \<lparr>ha_meta = m, ha_source = snap_pc c, ha_reason = reason,
     ha_prior = current_prior_basis c, ha_unresolved_attempt = unresolved_attempt (snap_state c),
     ha_history = authority_history (snap_state c)\<rparr>"

inductive kernel_effect :: "'l governed_lib_scheme \<Rightarrow> OccurrenceSnapshotV1 \<Rightarrow> OccurrenceStateV1 \<Rightarrow> bool"
  for H c where
  eff_propose: "snap_state c = ObservationRequired pending
    \<Longrightarrow> prop_work p = meta_expected_work (obr_meta pending)
    \<Longrightarrow> fresh_observation H (meta_key (obr_meta pending)) observation (prop_subject p) resolver_id now resolved
    \<Longrightarrow> classify_proposal H pending p cls resolved = Ok (link, m)
    \<Longrightarrow> kernel_effect H c (ProposalRecorded \<lparr>pb_meta = m\<lparr>meta_residuals := meta_residuals (obr_meta pending)\<rparr>,
          pb_observation = resolved, pb_proposal = p, pb_proposal_ref = proposal_reference H p, pb_link = link\<rparr>)"
| eff_stand: "snap_state c = ProposalRecorded basis \<Longrightarrow> kernel_effect H c (StandingRequired basis)"
| eff_admit: "snap_state c = StandingRequired basis
    \<Longrightarrow> kernel_effect H c (AdmissiblePendingAuthorization
          \<lparr>ab_proposal = basis\<lparr>pb_observation := observation\<rparr>, ab_standing = standing, ab_decision = decision\<rparr>)"
| eff_spend: "snap_state c = AdmissiblePendingAuthorization pending
    \<Longrightarrow> resolve_admissibility H (ab_proposal pending) obs_resolver standing_resolver decider controlling
          obs_id standing_id ttl now = Ok (observation, standing, decision)
    \<Longrightarrow> admitted = \<lparr>ab_proposal = (ab_proposal pending)\<lparr>pb_observation := observation\<rparr>,
          ab_standing = standing, ab_decision = decision\<rparr>
    \<Longrightarrow> kernel_effect H c (AuthorizationConsumed \<lparr>ac_admitted = admitted, ac_spend = build_spend H admitted now,
          ac_issuance = build_issuance H admitted (sp_spend (build_spend H admitted now))\<rparr>)"
| eff_dispatch: "snap_state c = AuthorizationConsumed authorized
    \<Longrightarrow> kernel_effect H c (Dispatched \<lparr>di_authorized = authorized, di_custody = custody\<rparr>)"
| eff_settle: "snap_state c = Dispatched d
    \<Longrightarrow> kernel_effect H c (SettledObservationRequired \<lparr>sor_dispatch = d, sor_settlement = settlement\<rparr>)"
| eff_ambiguous: "snap_state c = Dispatched d
    \<Longrightarrow> kernel_effect H c (ReconciliationRequired \<lparr>rr_dispatch = d, rr_indeterminate = indeterminate\<rparr>)"
| eff_reconcile: "snap_state c = ReconciliationRequired r
    \<Longrightarrow> kernel_effect H c (SettledObservationRequired \<lparr>sor_dispatch = rr_dispatch r, sor_settlement = settlement\<rparr>)"
| eff_continue: "snap_state c = SettledObservationRequired settled
    \<Longrightarrow> occurrence \<noteq> key_occurrence (snap_key c)
    \<Longrightarrow> m = (meta (snap_state c))\<lparr>meta_expected_work := work,
          meta_key := \<lparr>key_campaign = key_campaign (snap_key c), key_occurrence = occurrence\<rparr>\<rparr>
    \<Longrightarrow> kernel_effect H c (ObservationRequired \<lparr>obr_meta = m, obr_prior = Some prior\<rparr>)"
| eff_probe: "snap_pc c \<in> {PC_SettledObservationRequired, PC_ObservationRequired}
    \<Longrightarrow> kernel_effect H c (bump_probe (snap_state c))"
| eff_stop: "is_safe_halt_source (snap_pc c)
    \<Longrightarrow> m = meta (snap_state c)
        \<or> m = meta_budget_update (escalations_used_update (\<lambda>n. saturating_add n 1)) (meta (snap_state c))
    \<Longrightarrow> kernel_effect H c (halted_state c m reason)"
| eff_complete: "snap_state c = ObservationRequired pending
    \<Longrightarrow> residuals_empty (meta_residuals (obr_meta pending))
    \<Longrightarrow> fresh_observation H (meta_key (obr_meta pending)) observation subject resolver_id now terminal
    \<Longrightarrow> kernel_effect H c (Completed \<lparr>co_meta = obr_meta pending, co_terminal_observation = terminal,
          co_terminal_witness = terminal_witness, co_history = empty_history\<rparr>)"
| eff_discharge: "snap_state c = Halted halted \<Longrightarrow> d \<notin> set (meta_used_human_decisions (ha_meta halted))
    \<Longrightarrow> apply_exact_discharge halted discharge d = Ok after
    \<Longrightarrow> kernel_effect H c (Halted (halted\<lparr>ha_meta := consume_decision d ((ha_meta halted)\<lparr>meta_residuals := after\<rparr>)\<rparr>))"
| eff_consume: "snap_state c = Halted halted \<Longrightarrow> d \<notin> set (meta_used_human_decisions (ha_meta halted))
    \<Longrightarrow> ha_unresolved_attempt halted = None
    \<Longrightarrow> kernel_effect H c (Halted (ha_meta_update (consume_decision d) halted))"
| eff_reopen: "snap_state c = Halted halted \<Longrightarrow> ha_unresolved_attempt halted = None
    \<Longrightarrow> occurrence \<noteq> key_occurrence (snap_key c)
    \<Longrightarrow> kernel_effect H c (reopened_state halted (snap_state_digest c) occurrence program)"
| eff_human_complete: "snap_state c = Halted halted \<Longrightarrow> d \<notin> set (meta_used_human_decisions (ha_meta halted))
    \<Longrightarrow> ha_unresolved_attempt halted = None \<Longrightarrow> residuals_empty (meta_residuals (ha_meta halted))
    \<Longrightarrow> fresh_observation H (meta_key (ha_meta halted)) observation subject resolver_id now terminal
    \<Longrightarrow> kernel_effect H c (Completed \<lparr>co_meta = consume_decision d (ha_meta halted),
          co_terminal_observation = terminal, co_terminal_witness = terminal_witness, co_history = ha_history halted\<rparr>)"

lemma note_probe_effect: "note_probe H c = Ok n \<Longrightarrow> kernel_effect H c (snap_state n)"
  by (auto simp: note_probe_ok seal_ok intro: eff_probe)

lemma halt_effect: "halt H c reason = Ok n \<Longrightarrow> kernel_effect H c (snap_state n)"
  by (auto simp: halt_ok seal_ok simp flip: halted_state_def intro: eff_stop)

lemma open_continuation_effect:
  assumes "open_continuation H c occurrence work = Ok n"
  shows "kernel_effect H c (snap_state n)"
proof -
  obtain settled where c: "snap_state c = SettledObservationRequired settled" "occurrence \<noteq> key_occurrence (snap_key c)"
    using assms by (auto simp: open_continuation_ok)
  let ?m = "(meta (snap_state c))\<lparr>meta_expected_work := work,
      meta_key := \<lparr>key_campaign = key_campaign (snap_key c), key_occurrence = occurrence\<rparr>\<rparr>"
  have "\<exists>prior. snap_state n = ObservationRequired \<lparr>obr_meta = ?m, obr_prior = Some prior\<rparr>"
    using assms by (cases "meta (snap_state c)") (auto simp: open_continuation_ok seal_ok)
  then show ?thesis using eff_continue [OF c refl] by auto
qed

lemma intervention_effect:
  "apply_verified_governed_intervention H c verified = Ok (Transition n verified') \<Longrightarrow> kernel_effect H c (snap_state n)"
  by (auto elim!: apply_verified_governed_intervention_ok
      intro: note_probe_effect halt_effect open_continuation_effect)

lemma disposition_updated_effect:
  assumes "apply_human_disposition H c artifact authority new_occurrence resolver resolver_id verifier now
       = Ok (Updated n verification)"
  shows "kernel_effect H c (snap_state n)"
  using assms
proof (cases rule: apply_human_disposition_ok)
  case (1 halted v)
  have fresh: "hd_decision artifact \<notin> set (meta_used_human_decisions (ha_meta halted))"
    using 1(3) by (simp add: validate_human_artifact_ok)
  from 1(5) show ?thesis
    by (elim disjE exE conjE)
      (auto simp: open_from_halt_ok seal_ok resolve_observation_ok
        intro: eff_discharge [OF 1(2) fresh] eff_human_complete [OF 1(2) fresh])
qed

lemma disposition_opened_effect:
  assumes "apply_human_disposition H c artifact authority new_occurrence resolver resolver_id verifier now
       = Ok (OpenedOccurrence h n verification)"
  shows "kernel_effect H c (snap_state h)" and "kernel_effect H h (snap_state n)"
proof -
  obtain halted v occurrence program where c: "intact H c" "snap_state c = Halted halted"
    and art: "validate_human_artifact c halted artifact authority now = Ok ()"
    and un: "ha_unresolved_attempt halted = None"
    and op: "open_from_halt H c halted artifact occurrence program v = Ok (OpenedOccurrence h n verification)"
    using assms by (elim apply_human_disposition_ok) blast
  let ?halted = "ha_meta_update (consume_decision (hd_decision artifact)) halted"
  have h: "snap_state h = Halted ?halted"
    and n: "snap_state n = reopened_state ?halted (snap_state_digest h) occurrence program"
    and occ: "occurrence \<noteq> key_occurrence (meta_key (ha_meta halted))"
    using op by (auto elim!: open_from_halt_membrane [OF c un])
  show "kernel_effect H c (snap_state h)"
    using art unfolding h by (intro eff_consume [OF c(2) _ un]) (simp add: validate_human_artifact_ok)
  show "kernel_effect H h (snap_state n)"
    using h un occ unfolding n by (intro eff_reopen [OF h]) simp_all
qed

lemma record_proposal_effect:
  assumes "record_proposal H c observation p cls resolver resolver_id now = Ok n"
  shows "kernel_effect H c (snap_state n)"
  using assms unfolding record_proposal_ok seal_ok resolve_observation_ok
  by (elim conjE exE) (simp add: eff_propose)

lemma consume_authorization_effect:
  assumes "consume_authorization H c obs_resolver standing_resolver decider controlling obs_id standing_id ttl now = Ok n"
  shows "kernel_effect H c (snap_state n)"
  using assms unfolding consume_authorization_ok seal_ok
  by (elim conjE exE) (simp add: eff_spend)

lemma custody_effect:
  "require_standing H c = Ok n \<Longrightarrow> kernel_effect H c (snap_state n)"
  "record_admissible H c obs_resolver standing_resolver decider controlling obs_id standing_id ttl now = Ok n
   \<Longrightarrow> kernel_effect H c (snap_state n)"
  "accept_docket_custody H c custody = Ok n \<Longrightarrow> kernel_effect H c (snap_state n)"
  "record_settlement H c settlement = Ok n \<Longrightarrow> kernel_effect H c (snap_state n)"
  "require_reconciliation H c indeterminate = Ok n \<Longrightarrow> kernel_effect H c (snap_state n)"
  "record_reconciled_settlement H c settlement = Ok n \<Longrightarrow> kernel_effect H c (snap_state n)"
  by (auto simp: require_standing_ok record_admissible_ok accept_docket_custody_ok record_settlement_ok
      require_reconciliation_ok record_reconciled_settlement_ok seal_ok
      intro: eff_stand eff_admit eff_dispatch eff_settle eff_ambiguous eff_reconcile)

lemma recover_dispatched_effect: "recover_dispatched H c = Ok n \<Longrightarrow> kernel_effect H c (snap_state n)"
  by (erule recover_dispatched_ok) (rule custody_effect(5))

lemma escalate_effect: "escalate H c reason = Ok n \<Longrightarrow> kernel_effect H c (snap_state n)"
  by (auto simp: escalate_ok seal_ok simp flip: halted_state_def intro: eff_stop)

lemma complete_effect:
  "complete_from_observation H c observation subject terminal_witness resolver resolver_id now = Ok n
   \<Longrightarrow> kernel_effect H c (snap_state n)"
  by (auto simp: complete_from_observation_ok seal_ok resolve_observation_ok intro: eff_complete)

lemma kernel_step_effect: "kernel_step H c n \<Longrightarrow> kernel_effect H c (snap_state n)"
  by (induction rule: kernel_step.induct)
    (blast intro: record_proposal_effect consume_authorization_effect custody_effect
      recover_dispatched_effect open_continuation_effect note_probe_effect halt_effect escalate_effect
      complete_effect intervention_effect disposition_updated_effect disposition_opened_effect)+

lemma disposition_appends_decision:
  assumes "apply_human_disposition H c artifact scope occurrence resolver resolver_id verifier now = Ok effect"
    and "effect = Updated n v \<or> effect = OpenedOccurrence n m v"
  shows "hd_decision artifact \<notin> set (meta_used_human_decisions (meta (snap_state c)))
    \<and> meta_used_human_decisions (meta (snap_state n))
        = meta_used_human_decisions (meta (snap_state c)) @ [hd_decision artifact]"
  using assms(1)
proof (cases rule: apply_human_disposition_ok)
  case (1 halted verification)
  then have "hd_decision artifact \<notin> set (meta_used_human_decisions (meta (snap_state c)))"
    by (simp add: validate_human_artifact_ok)
  moreover from 1(5) have "meta_used_human_decisions (meta (snap_state n))
      = meta_used_human_decisions (meta (snap_state c)) @ [hd_decision artifact]"
    using 1(2) assms(2)
    by (elim disjE exE conjE) (auto simp: open_from_halt_ok seal_ok consume_decision_def)
  ultimately show ?thesis by blast
qed

lemma intervention_effects:
  assumes "apply_verified_governed_intervention H c verified = Ok effect"
  shows "effect = Reconcile verified \<and> snap_pc c = PC_ReconciliationRequired
    \<or> (\<exists>n. effect = Transition n verified
         \<and> (snap_key n = snap_key c \<and> authority_history (snap_state n) = authority_history (snap_state c)
            \<or> snap_key n \<noteq> snap_key c \<and> authority_history (snap_state n) = empty_history)
         \<and> snap_pc n \<in> {PC_ObservationRequired, PC_SettledObservationRequired, PC_Halted})"
  using assms
proof (cases rule: apply_verified_governed_intervention_ok)
  case (successor occurrence work n)
  then show ?thesis
    by (auto simp: open_continuation_ok seal_ok dest: arg_cong [where f = key_occurrence])
qed (auto simp: note_probe_ok halt_ok seal_ok bump_probe_def)

text \<open>No operation applies to a completed occurrence.\<close>

lemma completed_terminal: "kernel_effect H c st \<Longrightarrow> snap_pc c \<noteq> PC_Completed"
  by (induction rule: kernel_effect.induct) (auto simp: is_safe_halt_source_def)

section \<open>Reachable snapshots\<close>

definition kernel_init :: "'l governed_lib_scheme \<Rightarrow> OccurrenceSnapshotV1 \<Rightarrow> bool" where
  "kernel_init H s \<longleftrightarrow> (\<exists>campaign occurrence program work residuals budget.
     canonical_residuals residuals
     \<and> create_initial H campaign occurrence program work residuals budget = Ok s)"

abbreviation reachable :: "'l governed_lib_scheme \<Rightarrow> OccurrenceSnapshotV1 \<Rightarrow> bool" where
  "reachable H \<equiv> reach (kernel_init H) (kernel_step H)"

lemma kernel_init_state:
  assumes "kernel_init H s"
  obtains m where "snap_state s = ObservationRequired \<lparr>obr_meta = m, obr_prior = None\<rparr>"
    "canonical_residuals (meta_residuals m)" "meta_used_human_decisions m = []" "intact H s"
proof -
  obtain campaign occurrence program work residuals budget where "canonical_residuals residuals"
    and init: "create_initial H campaign occurrence program work residuals budget = Ok s"
    using assms by (auto simp: kernel_init_def)
  with create_initial_ok [OF init] show thesis using that by simp
qed

interpretation integrity: invariant_law "kernel_init H" "kernel_step H" "intact H" for H
  by unfold_locales (auto elim: kernel_init_state dest: kernel_step_intact)

subsection \<open>The exact work of an occurrence\<close>

definition work_bound :: "OccurrenceStateV1 \<Rightarrow> bool" where
  "work_bound st = (\<forall>basis. proposal_basis st = Some basis
     \<longrightarrow> prop_work (pb_proposal basis) = meta_expected_work (meta st))"

lemma work_bound_effect:
  assumes "kernel_effect H c st" and "work_bound (snap_state c)"
  shows "work_bound st"
  using assms(1)
proof cases
  case eff_propose
  then show ?thesis by (auto simp: work_bound_def classify_proposal_ok)
next
  case eff_probe
  then show ?thesis
    using assms(2)
    by (cases "snap_state c")
      (auto simp: work_bound_def bump_probe_def update_dispatch_meta_def update_admitted_meta_def)
qed (use assms(2) in \<open>auto simp: work_bound_def halted_state_def reopened_state_def\<close>)

interpretation exact_work: invariant_law "kernel_init H" "kernel_step H" "\<lambda>s. work_bound (snap_state s)" for H
  by unfold_locales
    (auto elim!: kernel_init_state simp: work_bound_def [of "ObservationRequired _"]
      dest: kernel_step_effect intro: work_bound_effect)

subsection \<open>Freshness at the moment of the spend\<close>

fun state_authorized :: "OccurrenceStateV1 \<Rightarrow> AuthorizationConsumedV1 option" where
  "state_authorized (AuthorizationConsumed v) = Some v"
| "state_authorized (Dispatched v) = Some (di_authorized v)"
| "state_authorized (ReconciliationRequired v) = Some (di_authorized (rr_dispatch v))"
| "state_authorized (SettledObservationRequired v) = Some (di_authorized (sor_dispatch v))"
| "state_authorized _ = None"

definition fresh_at_spend :: "AuthorizationConsumedV1 \<Rightarrow> bool" where
  "fresh_at_spend a \<longleftrightarrow>
     (let now = sp_consumed_at_unix_ms (ac_spend a); obs = pb_observation (ab_proposal (ac_admitted a));
          standing = ab_standing (ac_admitted a)
      in obs_resolved_at_unix_ms obs \<le> now \<and> now < obs_fresh_until_unix_ms obs \<and> is_current obs
       \<and> st_resolved_at_unix_ms standing \<le> now \<and> now < st_expires_at_unix_ms standing
       \<and> st_status standing = Standing_Current \<and> ad_disposition (ab_decision (ac_admitted a)) = Admitted)"

definition spend_fresh :: "OccurrenceStateV1 \<Rightarrow> bool" where
  "spend_fresh st = (\<forall>a. state_authorized st = Some a \<longrightarrow> fresh_at_spend a)"

lemma fresh_at_spend_meta [simp]:
  "fresh_at_spend (ac_admitted_update (update_admitted_meta f) a) = fresh_at_spend a"
  by (simp add: fresh_at_spend_def update_admitted_meta_def)

lemma state_authorized_meta_mut:
  "state_authorized (meta_mut f st) = map_option (ac_admitted_update (update_admitted_meta f)) (state_authorized st)"
  by (cases st) (simp_all add: update_dispatch_meta_def)

lemma spend_fresh_meta_mut [simp]: "spend_fresh (meta_mut f st) = spend_fresh st"
  by (auto simp: spend_fresh_def state_authorized_meta_mut)

lemma spend_fresh_effect:
  assumes "kernel_effect H c st" and "spend_fresh (snap_state c)"
  shows "spend_fresh st"
  using assms(1)
proof cases
  case eff_spend
  then show ?thesis
    by (auto simp: spend_fresh_def fresh_at_spend_def build_spend_def Let_def resolve_admissibility_ok
        resolve_observation_ok resolve_standing_ok fresh_observation_def live_standing_def)
next
  case eff_probe
  then show ?thesis using assms(2) by (simp add: bump_probe_def)
qed (use assms(2) in \<open>auto simp: spend_fresh_def halted_state_def reopened_state_def\<close>)

interpretation freshness: invariant_law "kernel_init H" "kernel_step H" "\<lambda>s. spend_fresh (snap_state s)" for H
  by unfold_locales
    (auto elim!: kernel_init_state simp: spend_fresh_def [of "ObservationRequired _"]
      dest: kernel_step_effect intro: spend_fresh_effect)

subsection \<open>Canonical residuals\<close>

lemma canonical_residuals_effect:
  assumes "kernel_effect H c st" and "canonical_residuals (meta_residuals (meta (snap_state c)))"
  shows "canonical_residuals (meta_residuals (meta st))"
  using assms(1)
proof cases
  case eff_propose
  then show ?thesis using assms(2) by auto
next
  case eff_discharge
  then show ?thesis by (simp add: apply_exact_discharge_ok(6))
qed (use assms(2) in \<open>auto simp: bump_probe_def halted_state_def reopened_state_def\<close>)

interpretation residual_form: invariant_law "kernel_init H" "kernel_step H"
    "\<lambda>s. canonical_residuals (meta_residuals (meta (snap_state s)))" for H
  by unfold_locales (auto elim!: kernel_init_state dest: kernel_step_effect intro: canonical_residuals_effect)

section \<open>The authority ledger\<close>

text \<open>
  The abstract machine: the current occurrence and the authority instruments recorded for it.
  It spends once, gives custody once, settles once; another occurrence opens, with an empty
  record, only where nothing was spent or the attempt is settled.
\<close>

record authority_ledger =
  al_key :: OccurrenceKeyV1
  al_history :: AuthorityHistoryV1

inductive ledger_step :: "authority_ledger \<Rightarrow> authority_ledger \<Rightarrow> bool" where
  ledger_stay: "ledger_step a a"
| ledger_spend: "ledger_step \<lparr>al_key = k, al_history = empty_history\<rparr>
    \<lparr>al_key = k, al_history = empty_history\<lparr>hist_ag_spend := Some s\<rparr>\<rparr>"
| ledger_custody: "ledger_step \<lparr>al_key = k, al_history = empty_history\<lparr>hist_ag_spend := Some s\<rparr>\<rparr>
    \<lparr>al_key = k, al_history = empty_history\<lparr>hist_ag_spend := Some s, hist_docket_attempt := Some t\<rparr>\<rparr>"
| ledger_settle: "ledger_step
    \<lparr>al_key = k, al_history = empty_history\<lparr>hist_ag_spend := Some s, hist_docket_attempt := Some t\<rparr>\<rparr>
    \<lparr>al_key = k, al_history = \<lparr>hist_ag_spend = Some s, hist_docket_attempt = Some t,
       hist_settlement = Some u, hist_receipt = Some r\<rparr>\<rparr>"
| ledger_open: "h = empty_history \<or> hist_settlement h \<noteq> None \<Longrightarrow> k \<noteq> k'
    \<Longrightarrow> key_campaign k' = key_campaign k
    \<Longrightarrow> ledger_step \<lparr>al_key = k, al_history = h\<rparr> \<lparr>al_key = k', al_history = empty_history\<rparr>"

definition ledger_of :: "OccurrenceSnapshotV1 \<Rightarrow> authority_ledger" where
  "ledger_of s = \<lparr>al_key = snap_key s, al_history = authority_history (snap_state s)\<rparr>"

text \<open>A halted occurrence without an unresolved attempt spent nothing or is settled.\<close>

definition halt_accounted :: "OccurrenceStateV1 \<Rightarrow> bool" where
  "halt_accounted st = (\<forall>h. st = Halted h \<longrightarrow>
     (if ha_unresolved_attempt h = None
      then ha_history h = empty_history \<or> hist_settlement (ha_history h) \<noteq> None
      else ha_unresolved_attempt h = hist_docket_attempt (ha_history h) \<and> hist_settlement (ha_history h) = None))"

lemma halt_accounted_effect:
  assumes "kernel_effect H c st" and "halt_accounted (snap_state c)"
  shows "halt_accounted st"
  using assms(1)
proof cases
  case eff_probe
  then show ?thesis by (cases "snap_state c") (auto simp: halt_accounted_def bump_probe_def)
next
  case eff_stop
  then show ?thesis
    by (cases "snap_state c")
      (auto simp: halt_accounted_def halted_state_def is_safe_halt_source_def empty_history_def)
qed (use assms(2) in \<open>auto simp: halt_accounted_def reopened_state_def\<close>)

interpretation accounting: invariant_law "kernel_init H" "kernel_step H" "\<lambda>s. halt_accounted (snap_state s)" for H
  by unfold_locales
    (auto elim!: kernel_init_state simp: halt_accounted_def [of "ObservationRequired _"]
      dest: kernel_step_effect intro: halt_accounted_effect)

lemma kernel_effect_ledger:
  assumes "kernel_effect H c (snap_state n)" and "halt_accounted (snap_state c)"
  shows "ledger_step (ledger_of c) (ledger_of n)"
  using assms(1)
proof cases
  case eff_propose
  then show ?thesis by (auto simp: ledger_of_def classify_proposal_ok intro: ledger_stay)
next
  case (eff_reopen halted occurrence program)
  then show ?thesis
    using assms(2)
    by (auto simp: ledger_of_def reopened_state_def halt_accounted_def dest: arg_cong [where f = key_occurrence]
        intro!: ledger_open)
next
  case (eff_continue settled occurrence m work prior)
  then show ?thesis
    by (auto simp: ledger_of_def dest: arg_cong [where f = key_occurrence] intro!: ledger_open)
qed (auto simp: ledger_of_def bump_probe_def halted_state_def
    intro: ledger_stay ledger_spend ledger_custody ledger_settle)

end
