(* ===== verification/Governed_Scenario.thy ===== *)
theory Governed_Scenario
  imports Governed_Reach
begin

text \<open>
  One concrete campaign: an instance of the library record that keeps its laws, resolvers and
  deciders that answer, and the snapshots of a complete occurrence (proposal, standing,
  admission, spend, custody, settlement), of its continuation and of the halts beside it.
  The instances of the kernel's theorems are evaluated on these snapshots.
\<close>

section \<open>The library\<close>

text \<open>
  Every input serializes as one of two documents. A state whose predecessor digest is that of
  the first document serializes as the second one, so that the digests of a chain alternate.
\<close>

definition demo_state_digest :: Digest where
  "demo_state_digest = hash_domain demo_jcs_lib STATE_DIGEST_DOMAIN_V1 (as_bytes ''null'')"

fun demo_input_text :: "digest_input \<Rightarrow> string" where
  "demo_input_text (StateInput prior state) = (if prior = demo_state_digest then ''{a:1,b:null}'' else ''null'')"
| "demo_input_text _ = ''null''"

definition demo_lib :: governed_lib where
  "demo_lib = \<lparr>sha256 = demo_sha256, hex_encode = demo_hex_encode, hex_decode_32 = demo_hex_decode,
     json_parse = demo_json_parse, jcs_to_vec = demo_jcs_to_vec,
     input_to_vec = (\<lambda>i. Some (as_bytes (demo_input_text i))),
     basis_to_vec = (\<lambda>_. Some (as_bytes ''null''))\<rparr>"

lemma demo_lib_laws: "sha256_law demo_lib" "hex_law demo_lib"
  using demo_laws by (auto simp: sha256_law_def hex_law_def demo_lib_def demo_jcs_lib_def)

lemma demo_documents:
  "jcs_parse demo_lib (as_bytes ''null'') = Ok (as_bytes ''null'')"
  "jcs_parse demo_lib (as_bytes ''{a:1,b:null}'') = Ok (as_bytes ''{a:1,b:null}'')"
  by code_simp+

lemma demo_input_text_cases: "demo_input_text i = ''null'' \<or> demo_input_text i = ''{a:1,b:null}''"
  by (cases i) auto

lemma demo_canonicalize:
  "jcs_canonicalize demo_lib (input_to_vec demo_lib) i = Ok (as_bytes (demo_input_text i))"
proof -
  have "input_to_vec demo_lib i = Some (as_bytes (demo_input_text i))"
    by (simp add: demo_lib_def)
  then show ?thesis
    using demo_input_text_cases [of i] demo_documents by (auto simp: jcs_canonicalize_def jcs_parse_def)
qed

lemma demo_input_serializes: "input_serializes demo_lib"
  by (simp add: input_serializes_def demo_canonicalize)

lemma demo_hash_domain: "hash_domain demo_lib = hash_domain demo_jcs_lib"
  by (intro ext) (simp add: hash_domain_def demo_lib_def demo_jcs_lib_def)

lemma demo_digest_value:
  "digest_value demo_lib domain i = hash_domain demo_jcs_lib domain (as_bytes (demo_input_text i))"
  by (simp add: digest_value_def demo_canonicalize demo_hash_domain)

text \<open>Named references with a canonical text; no digest of the library equals one of them.\<close>

definition demo_ref :: "char \<Rightarrow> Digest" where
  "demo_ref c = Digest (SHA256_PREFIX @ replicate 64 c)"

lemma demo_ref_inject [simp]: "demo_ref c = demo_ref d \<longleftrightarrow> c = d"
  by (simp add: demo_ref_def)


lemma demo_hex_digits:
  "hex_digit 6 = CHR ''6''" "hex_digit 7 = CHR ''7''" "hex_digit 12 = CHR ''c''" "hex_digit 13 = CHR ''d''"
  by code_simp+

lemma demo_hash_head:
  "hash_domain demo_jcs_lib domain (as_bytes ''null'')
     = Digest (SHA256_PREFIX @ CHR ''6'' # CHR ''c'' # drop 2 (demo_hex_encode (demo_sha256 (hash_domain_preimage domain (as_bytes ''null'')))))"
  "hash_domain demo_jcs_lib domain (as_bytes ''{a:1,b:null}'')
     = Digest (SHA256_PREFIX @ CHR ''7'' # CHR ''d'' # drop 2 (demo_hex_encode (demo_sha256 (hash_domain_preimage domain (as_bytes ''{a:1,b:null}'')))))"
  by (simp_all add: hash_domain_def demo_jcs_lib_def demo_sha256_def hash_domain_preimage_def as_bytes_def
      demo_hex_digits)

lemma demo_state_digests_differ:
  "hash_domain demo_jcs_lib domain (as_bytes ''{a:1,b:null}'') \<noteq> demo_state_digest"
  by (simp add: demo_state_digest_def demo_hash_head)

lemma demo_ref_fresh [simp]:
  "demo_ref c \<noteq> hash_domain demo_jcs_lib domain (as_bytes ''null'')"
  "digest_value demo_lib domain i \<noteq> demo_ref c" "demo_ref c \<noteq> digest_value demo_lib domain i"
proof -
  show "demo_ref c \<noteq> hash_domain demo_jcs_lib domain (as_bytes ''null'')"
    by (simp add: demo_ref_def demo_hash_head numeral_eq_Suc)
  show "digest_value demo_lib domain i \<noteq> demo_ref c"
    using demo_input_text_cases [of i]
    by (auto simp: demo_digest_value demo_ref_def demo_hash_head numeral_eq_Suc)
  then show "demo_ref c \<noteq> digest_value demo_lib domain i" by simp
qed

section \<open>The campaign\<close>

definition demo_key :: "u128 \<Rightarrow> OccurrenceKeyV1" where
  "demo_key n = \<lparr>key_campaign = CampaignId (demo_ref CHR ''a''), key_occurrence = OccurrenceId n\<rparr>"

definition demo_budget :: LoopBudgetV1 where
  "demo_budget = \<lparr>retry_limit = 1, retries_used = 0, probe_limit = 1, probes_used = 0,
     escalation_limit = 1, escalations_used = 0\<rparr>"

definition demo_meta :: OccurrenceMetaV1 where
  "demo_meta = \<lparr>meta_key = demo_key 1, meta_program = ProgramBasisRefV1 (demo_ref CHR ''b''),
     meta_expected_work = demo_ref CHR ''c'', meta_residuals = ResidualSetV1 [], meta_budget = demo_budget,
     meta_used_human_decisions = []\<rparr>"

definition demo_proposal :: ExactWorkProposalV1 where
  "demo_proposal = \<lparr>prop_schema = EXACT_WORK_PROPOSAL_SCHEMA_V1, prop_campaign = CampaignId (demo_ref CHR ''a''),
     prop_subject = demo_ref CHR ''d'', prop_scope = demo_ref CHR ''e'', prop_work_schema = ''work/v1'',
     prop_work = demo_ref CHR ''c'', prop_repair = None\<rparr>"

definition demo_basis :: TypedOpaqueObservationBasisV1 where
  "demo_basis = \<lparr>typed_schema = TYPED_OBSERVATION_BASIS_SCHEMA_V1, typed_basis_type = ''basis/v1'',
     typed_basis_identity = demo_ref CHR ''f''\<rparr>"

definition demo_preconditions :: PreconditionBasisRefV1 where
  "demo_preconditions = PreconditionBasisRefV1
     (digest_value demo_lib TYPED_OBSERVATION_BASIS_SCHEMA_V1 (TypedBasisInput demo_basis))"

text \<open>The resolvers answer every request at its own time, fresh for ten milliseconds.\<close>

definition demo_observation :: "OccurrenceKeyV1 \<Rightarrow> ObservationRefV1 \<Rightarrow> Digest \<Rightarrow> u64 \<Rightarrow> VersionedObservationResolutionV1" where
  "demo_observation key observation subject now = TypedV3 \<lparr>or3_schema = OBSERVATION_RESOLUTION_SCHEMA_V3,
     or3_key = key, or3_observation = observation,
     or3_currentness = ObservationCurrentnessRefV1 (demo_ref CHR ''0''),
     or3_normalized_preconditions = demo_preconditions,
     or3_basis = demo_basis, or3_resolver_id = ''nightshift'', or3_subject = subject,
     or3_status = Typed_Current, or3_resolved_at_unix_ms = now, or3_fresh_until_unix_ms = now + 10\<rparr>"

definition demo_observe :: observation_resolver where
  "demo_observe r = Ok (demo_observation (oreq_key r) (oreq_observation r) (oreq_subject r) (oreq_now_unix_ms r))"

definition demo_standing :: "StandingResolutionRequestV1 \<Rightarrow> CurrentStandingResolutionV2" where
  "demo_standing r = \<lparr>st_schema = STANDING_RESOLUTION_SCHEMA_V2,
     st_resolution = StandingResolutionRefV1 (demo_ref CHR ''1''),
     st_currentness = StandingCurrentnessRefV1 (demo_ref CHR ''2''), st_mandate = MandateRefV1 (demo_ref CHR ''3''),
     st_key = sreq_key r, st_observation = sreq_observation r, st_proposal = sreq_proposal r,
     st_subject = sreq_subject r, st_scope = sreq_scope r, st_resolver_id = ''standing'',
     st_status = Standing_Current, st_resolved_at_unix_ms = sreq_now_unix_ms r,
     st_expires_at_unix_ms = sreq_now_unix_ms r + 10\<rparr>"

definition demo_stand :: standing_resolver where
  "demo_stand r = Ok (demo_standing r)"

definition demo_decide :: admissibility_decider where
  "demo_decide r = Ok \<lparr>ad_decision = AdmissionDecisionRefV1 (demo_ref CHR ''4''), ad_key = st_key (areq_standing r),
     ad_observation = st_observation (areq_standing r), ad_proposal = st_proposal (areq_standing r),
     ad_standing_resolution = st_resolution (areq_standing r), ad_disposition = Admitted,
     ad_policy_basis = demo_ref CHR ''5''\<rparr>"

abbreviation demo_obs_ref :: ObservationRefV1 where
  "demo_obs_ref \<equiv> ObservationRefV1 (demo_ref CHR ''6'')"

section \<open>The snapshots\<close>

definition snap_opened :: OccurrenceSnapshotV1 where
  "snap_opened = (let state = ObservationRequired \<lparr>obr_meta = demo_meta, obr_prior = None\<rparr>;
       genesis = digest_value demo_lib GENESIS_DIGEST_DOMAIN_V1
         (GenesisInput (demo_key 1) (meta_program demo_meta) (meta_expected_work demo_meta))
     in \<lparr>snap_prior_state_digest = genesis, snap_state_digest = state_digest demo_lib genesis state,
         snap_state = state\<rparr>)"

definition demo_recorded :: "u64 \<Rightarrow> ProposalBasisV1" where
  "demo_recorded now = \<lparr>pb_meta = demo_meta,
     pb_observation = demo_observation (demo_key 1) demo_obs_ref (demo_ref CHR ''d'') now,
     pb_proposal = demo_proposal, pb_proposal_ref = proposal_reference demo_lib demo_proposal, pb_link = LinkInitial\<rparr>"

definition demo_admitted :: "u64 \<Rightarrow> AdmissibleBasisV1" where
  "demo_admitted now = (let standing = demo_standing \<lparr>sreq_key = demo_key 1, sreq_observation = demo_obs_ref,
         sreq_proposal = proposal_reference demo_lib demo_proposal, sreq_subject = demo_ref CHR ''d'',
         sreq_scope = demo_ref CHR ''e'', sreq_now_unix_ms = now\<rparr>
     in \<lparr>ab_proposal = demo_recorded now, ab_standing = standing,
         ab_decision = projr (demo_decide \<lparr>areq_proposal = demo_proposal,
           areq_observation = pb_observation (demo_recorded now), areq_standing = standing,
           areq_controlling_rejected_review = None\<rparr>)\<rparr>)"

definition demo_authorized :: AuthorizationConsumedV1 where
  "demo_authorized = (let spend = build_spend demo_lib (demo_admitted 102) 102
     in \<lparr>ac_admitted = demo_admitted 102, ac_spend = spend,
         ac_issuance = build_issuance demo_lib (demo_admitted 102) (sp_spend spend)\<rparr>)"

definition demo_custody :: DocketCustodyV1 where
  "demo_custody = \<lparr>cu_schema = DOCKET_CUSTODY_SCHEMA_V1, cu_issuance = iss_issuance (ac_issuance demo_authorized),
     cu_ag_spend = sp_spend (ac_spend demo_authorized),
     cu_execution_standing = DocketExecutionStandingRefV1 (demo_ref CHR ''7''),
     cu_standing_currentness = StandingCurrentnessRefV1 (demo_ref CHR ''2''),
     cu_attempt = attempt_for_issuance demo_lib (iss_issuance (ac_issuance demo_authorized)),
     cu_executor_marker = ExecutorAttemptMarkerRefV1 (demo_ref CHR ''8''), cu_accepted_at_unix_ms = 103\<rparr>"

definition demo_dispatch :: DispatchBasisV1 where
  "demo_dispatch = \<lparr>di_authorized = demo_authorized, di_custody = demo_custody\<rparr>"

definition demo_settlement :: DocketSettlementV1 where
  "demo_settlement = \<lparr>se_schema = DOCKET_SETTLEMENT_SCHEMA_V1, se_settlement = SettlementRefV1 (demo_ref CHR ''9''),
     se_issuance = iss_issuance (ac_issuance demo_authorized), se_attempt = cu_attempt demo_custody,
     se_executor_marker = cu_executor_marker demo_custody, se_receipt = ReceiptRefV1 (demo_ref CHR ''A''),
     se_outcome = Success, se_settled_at_unix_ms = 104\<rparr>"

definition demo_indeterminate :: "Digest \<Rightarrow> IndeterminateOutcomeV1" where
  "demo_indeterminate digest = \<lparr>ind_issuance = iss_issuance (ac_issuance demo_authorized),
     ind_attempt = cu_attempt demo_custody,
     ind_reconciliation = ReconciliationRefV1 (digest_value demo_lib ''ag.governed-loop.recovery-reconciliation/v1''
       (RecoveryInput digest (cu_attempt demo_custody))),
     ind_evidence = digest_value demo_lib ''ag.governed-loop.recovery-ambiguity/v1''
       (RecoveryInput digest (cu_attempt demo_custody))\<rparr>"

definition snap_proposed :: OccurrenceSnapshotV1 where
  "snap_proposed = successor_snapshot demo_lib snap_opened (ProposalRecorded (demo_recorded 100))"

definition snap_standing :: OccurrenceSnapshotV1 where
  "snap_standing = successor_snapshot demo_lib snap_proposed (StandingRequired (demo_recorded 100))"

definition snap_admitted :: OccurrenceSnapshotV1 where
  "snap_admitted = successor_snapshot demo_lib snap_standing (AdmissiblePendingAuthorization (demo_admitted 101))"

definition snap_spent :: OccurrenceSnapshotV1 where
  "snap_spent = successor_snapshot demo_lib snap_admitted (AuthorizationConsumed demo_authorized)"

definition snap_dispatched :: OccurrenceSnapshotV1 where
  "snap_dispatched = successor_snapshot demo_lib snap_spent (Dispatched demo_dispatch)"

definition snap_settled :: OccurrenceSnapshotV1 where
  "snap_settled = successor_snapshot demo_lib snap_dispatched
     (SettledObservationRequired \<lparr>sor_dispatch = demo_dispatch, sor_settlement = demo_settlement\<rparr>)"

definition snap_ambiguous :: OccurrenceSnapshotV1 where
  "snap_ambiguous = successor_snapshot demo_lib snap_dispatched (ReconciliationRequired
     \<lparr>rr_dispatch = demo_dispatch, rr_indeterminate = demo_indeterminate (snap_state_digest snap_dispatched)\<rparr>)"

definition demo_reason :: HaltReasonRefV1 where
  "demo_reason = HaltReasonRefV1 (demo_ref CHR ''B'')"

definition snap_halted :: OccurrenceSnapshotV1 where
  "snap_halted = successor_snapshot demo_lib snap_opened (halted_state snap_opened demo_meta demo_reason)"

definition snap_escalated :: OccurrenceSnapshotV1 where
  "snap_escalated = successor_snapshot demo_lib snap_ambiguous (halted_state snap_ambiguous
     (meta_budget_update (escalations_used_update (\<lambda>n. saturating_add n 1)) demo_meta) demo_reason)"

definition snap_continued :: OccurrenceSnapshotV1 where
  "snap_continued = successor_snapshot demo_lib snap_settled (ObservationRequired \<lparr>
     obr_meta = demo_meta\<lparr>meta_key := demo_key 2\<rparr>,
     obr_prior = Some \<lparr>pri_key = demo_key 1, pri_proposal = Some (proposal_reference demo_lib demo_proposal),
       pri_normalized_preconditions = Some demo_preconditions,
       pri_state_digest = snap_state_digest snap_settled\<rparr>\<rparr>)"

definition snap_completed :: OccurrenceSnapshotV1 where
  "snap_completed = successor_snapshot demo_lib snap_opened (Completed \<lparr>co_meta = demo_meta,
     co_terminal_observation = demo_observation (demo_key 1) demo_obs_ref (demo_ref CHR ''d'') 100,
     co_terminal_witness = TerminalWitnessRefV1 (demo_ref CHR ''C''), co_history = empty_history\<rparr>)"

section \<open>The run\<close>

lemma intact_successor:
  "intact H (successor_snapshot H c st) \<longleftrightarrow>
     budget_validate (meta_budget (meta st)) = Ok ()
     \<and> distinct (map res_residual (residual_slice (meta_residuals (meta st))))
     \<and> \<not> prior_digest_mismatch (snap_state_digest c) st \<and> validate_state H st = Ok ()"
  by (simp add: intact_iff)

lemma demo_meta_simps [simp]:
  "meta_key demo_meta = demo_key 1" "meta_residuals demo_meta = ResidualSetV1 []"
  "meta_budget demo_meta = demo_budget" "meta_used_human_decisions demo_meta = []"
  "meta_expected_work demo_meta = demo_ref CHR ''c''" "meta_program demo_meta = ProgramBasisRefV1 (demo_ref CHR ''b'')"
  by (simp_all add: demo_meta_def)

lemma demo_key_simps [simp]:
  "key_campaign (demo_key n) = CampaignId (demo_ref CHR ''a'')" "key_occurrence (demo_key n) = OccurrenceId n"
  "demo_key m = demo_key n \<longleftrightarrow> m = n"
  by (simp_all add: demo_key_def)

lemma demo_proposal_simps [simp]:
  "proposal_validate demo_proposal = Ok ()" "prop_campaign demo_proposal = CampaignId (demo_ref CHR ''a'')"
  "prop_subject demo_proposal = demo_ref CHR ''d''" "prop_scope demo_proposal = demo_ref CHR ''e''"
  "prop_work demo_proposal = demo_ref CHR ''c''" "prop_repair demo_proposal = None"
  by (auto simp: demo_proposal_def proposal_validate_def validate_label_ok is_ascii_control_def MAX_LABEL_BYTES_def)

lemma demo_recorded_simps [simp]:
  "pb_meta (demo_recorded now) = demo_meta" "pb_proposal (demo_recorded now) = demo_proposal"
  "pb_observation (demo_recorded now) = demo_observation (demo_key 1) demo_obs_ref (demo_ref CHR ''d'') now"
  "pb_proposal_ref (demo_recorded now) = proposal_reference demo_lib demo_proposal"
  "pb_link (demo_recorded now) = LinkInitial"
  by (simp_all add: demo_recorded_def)

lemma demo_basis_valid: "typed_validate demo_basis = Ok ()"
  by (auto simp: typed_validate_def demo_basis_def validate_label_ok is_ascii_control_def MAX_LABEL_BYTES_def
      DECISION_BASIS_SCHEMA_V1_def)

lemma demo_observation_fresh [simp]:
  assumes "now < now + 10"
  shows "fresh_observation demo_lib key observation subject ''nightshift'' now
    (demo_observation key observation subject now)"
  using assms
  by (simp add: fresh_observation_def demo_observation_def demo_preconditions_def binding_digest_def
      demo_basis_valid)

lemma demo_observation_simps [simp]:
  "obs_observation (demo_observation key observation subject now) = observation"
  "obs_key (demo_observation key observation subject now) = key"
  "obs_subject (demo_observation key observation subject now) = subject"
  "is_current (demo_observation key observation subject now)"
  "obs_schema (demo_observation key observation subject now) = OBSERVATION_RESOLUTION_SCHEMA_V3"
  "obs_normalized_preconditions (demo_observation key observation subject now) = demo_preconditions"
  by (simp_all add: demo_observation_def)

lemma demo_observation_integrity [simp]:
  "now < now + 10 \<Longrightarrow> validate_observation_resolution_integrity demo_lib (demo_observation key observation subject now) = Ok ()"
  by (rule fresh_observation_integrity, rule demo_observation_fresh)

lemma demo_budget_valid [simp]: "budget_validate demo_budget = Ok ()"
  by (simp add: budget_validate_ok demo_budget_def)

lemma demo_recorded_valid [simp]:
  "now < now + 10 \<Longrightarrow> validate_proposal_basis demo_lib demo_meta (demo_recorded now) = Ok ()"
  by (simp add: validate_proposal_basis_ok)

lemma demo_admitted_simps [simp]:
  "ab_proposal (demo_admitted now) = demo_recorded now"
  "st_resolution (ab_standing (demo_admitted now)) = StandingResolutionRefV1 (demo_ref CHR ''1'')"
  by (simp_all add: demo_admitted_def demo_standing_def Let_def)

lemma demo_admitted_valid [simp]: "validate_admissible_basis (demo_admitted now) = Ok ()"
  by (simp add: validate_admissible_basis_ok) (simp add: demo_admitted_def demo_standing_def demo_decide_def Let_def)

lemma demo_authorized_simps [simp]:
  "ac_admitted demo_authorized = demo_admitted 102"
  by (simp add: demo_authorized_def Let_def)

lemma demo_authorized_valid [simp]: "validate_authorized demo_lib demo_authorized = Ok ()"
  by (simp add: validate_authorized_ok) (simp add: demo_authorized_def build_spend_def Let_def)

lemma demo_custody_valid [simp]: "validate_custody demo_lib demo_custody demo_authorized = Ok ()"
  unfolding validate_custody_ok
  by (simp add: demo_custody_def)
    (simp add: demo_authorized_def build_spend_def attempt_for_issuance_def spend_for_authorization_def
      authorization_for_basis_def Let_def)

lemma demo_outcomes_valid [simp]:
  "validate_settlement demo_settlement demo_dispatch = Ok ()"
  "validate_indeterminate (demo_indeterminate digest) demo_dispatch = Ok ()"
  by (simp_all add: validate_settlement_ok validate_indeterminate_ok demo_settlement_def demo_indeterminate_def
      demo_dispatch_def)

lemma demo_dispatch_simps [simp]: "di_authorized demo_dispatch = demo_authorized" "di_custody demo_dispatch = demo_custody"
  by (simp_all add: demo_dispatch_def)

lemmas snapshot_defs = snap_proposed_def snap_standing_def snap_admitted_def snap_spent_def snap_dispatched_def
  snap_settled_def snap_ambiguous_def snap_halted_def snap_escalated_def snap_continued_def snap_completed_def

lemma demo_digests_alternate: "state_digest demo_lib prior state \<noteq> prior"
  by (auto simp: state_digest_def demo_digest_value demo_state_digests_differ demo_state_digest_def [symmetric])

lemma demo_opened [simp]:
  "snap_state snap_opened = ObservationRequired \<lparr>obr_meta = demo_meta, obr_prior = None\<rparr>"
  "intact demo_lib snap_opened"
  by (simp_all add: snap_opened_def Let_def intact_iff validate_state_ok)

lemma demo_intact [simp]:
  "intact demo_lib snap_proposed" "intact demo_lib snap_standing" "intact demo_lib snap_admitted"
  "intact demo_lib snap_spent" "intact demo_lib snap_dispatched" "intact demo_lib snap_settled"
  "intact demo_lib snap_ambiguous" "intact demo_lib snap_halted" "intact demo_lib snap_continued"
  "intact demo_lib snap_completed"
  by (simp_all add: snapshot_defs intact_successor validate_state_ok halted_state_def current_prior_basis_def
      residuals_empty_def)

lemma demo_intact_escalated [simp]: "intact demo_lib snap_escalated"
  unfolding snap_escalated_def
  by (simp add: intact_successor validate_state_ok halted_state_def current_prior_basis_def snap_ambiguous_def)
    (simp add: budget_validate_ok demo_budget_def saturating_add_def)

lemma demo_created: "kernel_init demo_lib snap_opened"
proof -
  have "create_initial demo_lib (CampaignId (demo_ref CHR ''a'')) (OccurrenceId 1)
      (ProgramBasisRefV1 (demo_ref CHR ''b'')) (demo_ref CHR ''c'') (ResidualSetV1 []) demo_budget = Ok snap_opened"
    using demo_opened(2)
    by (simp add: create_initial_def snap_opened_def Let_def demo_meta_def demo_key_def [of 1])
  moreover have "canonical_residuals (ResidualSetV1 [])" by (simp add: canonical_residuals_iff)
  ultimately show ?thesis unfolding kernel_init_def by blast
qed

lemma demo_resolve [simp]:
  "now < now + 10 \<Longrightarrow> resolve_observation demo_lib demo_observe key observation subject ''nightshift'' now
     = Ok (demo_observation key observation subject now)"
  by (simp add: resolve_observation_ok demo_observe_def)

lemma demo_admissible [simp]:
  assumes "now < now + 10" and "(10 :: u64) \<le> ttl"
  shows "resolve_admissibility demo_lib (demo_recorded before) demo_observe demo_stand demo_decide None
      ''nightshift'' ''standing'' ttl now
    = Ok (pb_observation (demo_recorded now), ab_standing (demo_admitted now), ab_decision (demo_admitted now))"
  using assms
  by (simp add: resolve_admissibility_ok resolve_standing_ok live_standing_def demo_stand_def)
    (simp add: demo_admitted_def demo_standing_def demo_decide_def Let_def)

lemma demo_proposes:
  "record_proposal demo_lib snap_opened demo_obs_ref demo_proposal ClassInitial demo_observe ''nightshift'' 100
     = Ok snap_proposed"
  by (simp add: record_proposal_ok classify_proposal_ok seal_ok)
    (simp add: snap_proposed_def demo_recorded_def demo_meta_def)

lemma demo_stands: "require_standing demo_lib snap_proposed = Ok snap_standing"
  by (simp add: require_standing_ok seal_ok) (simp add: snap_standing_def snap_proposed_def)

lemma demo_readmits:
  "\<lparr>ab_proposal = (demo_recorded before)\<lparr>pb_observation :=
       demo_observation (demo_key 1) demo_obs_ref (demo_ref CHR ''d'') now\<rparr>,
     ab_standing = ab_standing (demo_admitted now), ab_decision = ab_decision (demo_admitted now)\<rparr> = demo_admitted now"
  by (simp add: demo_admitted_def Let_def demo_recorded_def)

lemma demo_admits:
  "record_admissible demo_lib snap_standing demo_observe demo_stand demo_decide None ''nightshift'' ''standing'' 60 101
     = Ok snap_admitted"
proof -
  have "snap_state snap_standing = StandingRequired (demo_recorded 100)"
    by (simp add: snap_standing_def)
  then show ?thesis
    by (simp add: record_admissible_ok seal_ok demo_readmits) (simp add: snap_admitted_def)
qed

lemma demo_spends:
  "consume_authorization demo_lib snap_admitted demo_observe demo_stand demo_decide None ''nightshift'' ''standing'' 60 102
     = Ok snap_spent"
proof -
  have "snap_state snap_admitted = AdmissiblePendingAuthorization (demo_admitted 101)"
    by (simp add: snap_admitted_def)
  then show ?thesis
    by (simp add: consume_authorization_ok seal_ok demo_readmits) (simp add: snap_spent_def demo_authorized_def Let_def)
qed

lemma demo_dispatches: "accept_docket_custody demo_lib snap_spent demo_custody = Ok snap_dispatched"
  by (simp add: accept_docket_custody_ok seal_ok) (simp add: snap_spent_def snap_dispatched_def demo_dispatch_def)

lemma demo_settles: "record_settlement demo_lib snap_dispatched demo_settlement = Ok snap_settled"
  by (simp add: record_settlement_ok seal_ok) (simp add: snap_settled_def snap_dispatched_def)

lemma demo_recovers: "recover_dispatched demo_lib snap_dispatched = Ok snap_ambiguous"
proof -
  have "snap_state snap_dispatched = Dispatched demo_dispatch" by (simp add: snap_dispatched_def)
  then show ?thesis
    by (simp add: recover_dispatched_def Let_def require_reconciliation_ok seal_ok flip: demo_indeterminate_def)
      (simp add: snap_ambiguous_def)
qed

lemma demo_halts: "halt demo_lib snap_opened demo_reason = Ok snap_halted"
  by (simp add: halt_ok seal_ok is_safe_halt_source_def) (simp add: snap_halted_def halted_state_def)

lemma demo_escalates: "escalate demo_lib snap_ambiguous demo_reason = Ok snap_escalated"
  by (simp add: escalate_ok seal_ok)
    (simp add: snap_escalated_def halted_state_def snap_ambiguous_def is_safe_halt_source_def
      escalation_available_def demo_budget_def)

lemma demo_continues:
  "open_continuation demo_lib snap_settled (OccurrenceId 2) (demo_ref CHR ''c'') = Ok snap_continued"
  by (simp add: open_continuation_ok seal_ok)
    (simp add: snap_continued_def snap_settled_def demo_meta_def demo_key_def)

lemma demo_completes:
  "complete_from_observation demo_lib snap_opened demo_obs_ref (demo_ref CHR ''d'')
     (TerminalWitnessRefV1 (demo_ref CHR ''C'')) demo_observe ''nightshift'' 100 = Ok snap_completed"
  by (simp add: complete_from_observation_ok seal_ok residuals_empty_def) (simp add: snap_completed_def)

text \<open>A human disposition that discharges no residual of the escalated halt.\<close>

definition demo_scope :: HumanAuthorityScopeV1 where
  "demo_scope = \<lparr>scope_principal = HumanPrincipalRefV1 (demo_ref CHR ''D''), scope_mandate = MandateRefV1 (demo_ref CHR ''3'')\<rparr>"

definition demo_decision :: HumanDecisionIdV1 where
  "demo_decision = HumanDecisionIdV1 (demo_ref CHR ''E'')"

definition demo_discharge :: ExactResidualDischargeV1 where
  "demo_discharge = \<lparr>dis_campaign = CampaignId (demo_ref CHR ''a''), dis_occurrence = OccurrenceId 1,
     dis_program = ProgramBasisRefV1 (demo_ref CHR ''b''),
     dis_authority = ResidualAuthorityRefV1 (demo_ref CHR ''F''), dis_disposition = demo_decision,
     dis_before = [], dis_authorized = [], dis_closed = [], dis_after = []\<rparr>"

definition demo_residual :: "char \<Rightarrow> ResidualObligationV1" where
  "demo_residual c = \<lparr>res_residual = ResidualIdV1 (demo_ref c), res_owner = demo_ref CHR ''L'',
     res_subject = demo_ref CHR ''d'', res_statement = demo_ref CHR ''M''\<rparr>"

lemma demo_residuals_canonical: "canonical_residuals (ResidualSetV1 [demo_residual CHR ''1'', demo_residual CHR ''2''])"
  unfolding canonical_residuals_iff by code_simp

definition demo_disposition :: "Digest \<Rightarrow> HumanDispositionKindV1 \<Rightarrow> HumanDispositionV1" where
  "demo_disposition digest kind = \<lparr>hd_schema = HUMAN_DISPOSITION_SCHEMA_V1,
     hd_campaign = CampaignId (demo_ref CHR ''a''), hd_occurrence = OccurrenceId 1,
     hd_halted_state_digest = digest, hd_disposition = kind, hd_decision = demo_decision,
     hd_principal = scope_principal demo_scope, hd_mandate = scope_mandate demo_scope,
     hd_nonce = HumanNonceRefV1 (demo_ref CHR ''G''), hd_expires_at_unix_ms = 500\<rparr>"

definition demo_verify :: disposition_verifier where
  "demo_verify r = Ok (HumanVerificationRefV1 (demo_ref CHR ''H''))"

definition demo_escalated_halt :: HaltedV1 where
  "demo_escalated_halt = \<lparr>ha_meta = meta_budget_update (escalations_used_update (\<lambda>n. saturating_add n 1)) demo_meta,
     ha_source = PC_ReconciliationRequired, ha_reason = demo_reason, ha_prior = current_prior_basis snap_ambiguous,
     ha_unresolved_attempt = Some (cu_attempt demo_custody), ha_history = authority_history (snap_state snap_ambiguous)\<rparr>"

lemma demo_escalated_state: "snap_state snap_escalated = Halted demo_escalated_halt"
  by (simp add: snap_escalated_def halted_state_def demo_escalated_halt_def snap_ambiguous_def)

definition snap_disposed :: OccurrenceSnapshotV1 where
  "snap_disposed = successor_snapshot demo_lib snap_escalated
     (Halted (demo_escalated_halt\<lparr>ha_meta := consume_decision demo_decision
        ((ha_meta demo_escalated_halt)\<lparr>meta_residuals := ResidualSetV1 []\<rparr>)\<rparr>))"

lemma demo_intact_disposed: "intact demo_lib snap_disposed"
  using demo_intact_escalated
  unfolding snap_disposed_def snap_escalated_def
  by (simp add: intact_successor validate_state_ok consume_decision_def demo_escalated_halt_def halted_state_def
      snap_ambiguous_def)

lemma demo_disposes:
  "apply_human_disposition demo_lib snap_escalated
     (demo_disposition (snap_state_digest snap_escalated) (ExactResidualDisposition demo_discharge))
     demo_scope None demo_observe ''nightshift'' demo_verify 200
   = Ok (Updated snap_disposed (HumanVerificationRefV1 (demo_ref CHR ''H'')))"
proof -
  have seal: "seal demo_lib snap_escalated (Halted (demo_escalated_halt\<lparr>ha_meta := consume_decision demo_decision
      ((ha_meta demo_escalated_halt)\<lparr>meta_residuals := ResidualSetV1 []\<rparr>)\<rparr>)) = Ok snap_disposed"
    using demo_intact_disposed by (simp add: seal_ok snap_disposed_def)
  have discharge: "apply_exact_discharge demo_escalated_halt demo_discharge demo_decision = Ok (ResidualSetV1 [])"
    by (simp add: apply_exact_discharge_def demo_discharge_def demo_escalated_halt_def sorted_unique_ids_def
        residual_ids_def ResidualSetV1_new_cases)
  have "validate_human_artifact snap_escalated demo_escalated_halt
      (demo_disposition (snap_state_digest snap_escalated) (ExactResidualDisposition demo_discharge)) demo_scope 200 = Ok ()"
    by (simp add: validate_human_artifact_ok demo_disposition_def demo_escalated_halt_def)
  with seal discharge show ?thesis
    by (simp add: apply_human_disposition_def demo_escalated_state demo_verify_def)
      (simp add: demo_disposition_def)
qed

lemmas demo_steps =
  demo_proposes [THEN step_record_proposal] demo_stands [THEN step_require_standing]
  demo_admits [THEN step_record_admissible] demo_spends [THEN step_consume_authorization]
  demo_dispatches [THEN step_accept_docket_custody] demo_settles [THEN step_record_settlement]
  demo_recovers [THEN step_recover_dispatched] demo_halts [THEN step_halt] demo_escalates [THEN step_escalate]
  demo_continues [THEN step_open_continuation] demo_completes [THEN step_complete]

lemma demo_reachable:
  "reachable demo_lib snap_opened" "reachable demo_lib snap_spent" "reachable demo_lib snap_settled"
  "reachable demo_lib snap_escalated" "reachable demo_lib snap_continued" "reachable demo_lib snap_halted"
  by (meson reach_init reach_step demo_created demo_steps)+

end
