(* ===== verification/Governed_Progress.thy ===== *)
theory Governed_Progress
  imports Governed_Reach
begin

text \<open>
  Progress of the kernel: where the guards of an operation hold, its final integrity check
  succeeds, so the operation returns its successor. The one exception is a probe on a
  continuation that has not observed yet.
\<close>

section \<open>The final check\<close>

text \<open>The part of an intact snapshot that does not depend on its digests.\<close>

definition sound_meta :: "OccurrenceMetaV1 \<Rightarrow> bool" where
  "sound_meta m \<longleftrightarrow> budget_validate (meta_budget m) = Ok ()
     \<and> distinct (map res_residual (residual_slice (meta_residuals m))) \<and> distinct (meta_used_human_decisions m)"

lemma intact_meta: "intact H c \<Longrightarrow> sound_meta (meta (snap_state c))"
  by (simp add: intact_iff validate_state_ok sound_meta_def)

lemma seal_total:
  assumes "sound_meta (meta st)" and "\<not> prior_digest_mismatch (snap_state_digest c) st"
    and "\<And>basis. proposal_basis st = Some basis \<Longrightarrow> validate_proposal_basis H (meta st) basis = Ok ()"
    and "validate_variant H st = Ok ()"
  shows "seal H c st = Ok (successor_snapshot H c st)"
  using assms by (auto simp: seal_ok intact_iff validate_state_ok sound_meta_def)

lemma saturating_add_le: "(a :: u32) < b \<Longrightarrow> saturating_add a 1 \<le> b"
  by (simp add: word_le_nat_alt word_less_nat_alt unat_saturating_add_one)

lemma sound_meta_retry:
  "sound_meta m \<Longrightarrow> retry_available (meta_budget m)
   \<Longrightarrow> sound_meta (meta_budget_update (retries_used_update (\<lambda>n. saturating_add n 1)) m)"
  by (simp add: sound_meta_def budget_validate_ok retry_available_def saturating_add_le)

lemma sound_meta_escalation:
  "sound_meta m \<Longrightarrow> escalation_available (meta_budget m)
   \<Longrightarrow> sound_meta (meta_budget_update (escalations_used_update (\<lambda>n. saturating_add n 1)) m)"
  by (simp add: sound_meta_def budget_validate_ok escalation_available_def saturating_add_le)

section \<open>Halts\<close>

lemma halted_state_seal:
  assumes "sound_meta m" and "meta_key m = snap_key c"
  shows "seal H c (halted_state c m reason) = Ok (successor_snapshot H c (halted_state c m reason))"
  by (rule seal_total)
    (use assms in \<open>cases "snap_state c"; simp add: halted_state_def current_prior_basis_def\<close>)+

lemma halt_total:
  assumes "intact H c" and "is_safe_halt_source (snap_pc c)"
  shows "halt H c reason = Ok (successor_snapshot H c (halted_state c (meta (snap_state c)) reason))"
  using assms halted_state_seal [OF intact_meta [OF assms(1)] refl, of H reason]
  by (simp add: halt_ok halted_state_def)

lemma escalate_total:
  assumes "intact H c" and "is_safe_halt_source (snap_pc c)"
    and "escalation_available (meta_budget (meta (snap_state c)))"
  shows "escalate H c reason = Ok (successor_snapshot H c (halted_state c
    (meta_budget_update (escalations_used_update (\<lambda>n. saturating_add n 1)) (meta (snap_state c))) reason))"
  using assms halted_state_seal [OF sound_meta_escalation [OF intact_meta [OF assms(1)] assms(3)], of c H reason]
  by (simp add: escalate_ok halted_state_def)

section \<open>Proposal and admission\<close>

lemma record_proposal_total:
  assumes "intact H c" and "snap_state c = ObservationRequired pending"
    and "proposal_validate p = Ok ()" and "prop_campaign p = key_campaign (snap_key c)"
    and "prop_work p = meta_expected_work (meta (snap_state c))"
    and "resolver \<lparr>oreq_key = snap_key c, oreq_observation = observation, oreq_subject = prop_subject p,
      oreq_now_unix_ms = now\<rparr> = Ok r"
    and "fresh_observation H (snap_key c) observation (prop_subject p) resolver_id now r"
    and "classify_proposal H pending p cls r = Ok (link, m)"
  shows "\<exists>n. record_proposal H c observation p cls resolver resolver_id now = Ok n \<and> snap_pc n = PC_ProposalRecorded"
proof -
  let ?m = "m\<lparr>meta_residuals := meta_residuals (obr_meta pending)\<rparr>"
  let ?st = "ProposalRecorded \<lparr>pb_meta = ?m, pb_observation = r, pb_proposal = p,
      pb_proposal_ref = proposal_reference H p, pb_link = link\<rparr>"
  have sound: "sound_meta (obr_meta pending)" using intact_meta [OF assms(1)] assms(2) by simp
  have "sound_meta m" "meta_residuals m = meta_residuals (obr_meta pending)" "meta_key m = meta_key (obr_meta pending)"
    using assms(8) sound by (auto simp: classify_proposal_ok intro: sound_meta_retry)
  moreover have "validate_link (snap_key c) link"
    using assms(1,2,8) by (auto simp: classify_proposal_ok intact_iff validate_state_ok split: if_splits)
  ultimately have "seal H c ?st = Ok (successor_snapshot H c ?st)"
    using assms(2-7) fresh_observation_integrity [OF assms(7)]
    by (intro seal_total) (auto simp: sound_meta_def validate_proposal_basis_ok fresh_observation_def)
  then show ?thesis
    using assms by (auto simp: record_proposal_ok resolve_observation_ok)
qed

lemma require_standing_total:
  assumes "intact H c" and "snap_state c = ProposalRecorded p"
  shows "\<exists>n. require_standing H c = Ok n \<and> snap_state n = StandingRequired p"
proof -
  have "seal H c (StandingRequired p) = Ok (successor_snapshot H c (StandingRequired p))"
    using assms intact_meta [OF assms(1)]
    by (intro seal_total) (auto simp: intact_iff validate_state_ok)
  then show ?thesis using assms by (auto simp: require_standing_ok)
qed

text \<open>A basis that admits again keeps its metadata and stays valid.\<close>

lemma readmitted_basis:
  assumes "validate_proposal_basis H (pb_meta basis) basis = Ok ()"
    and "resolve_admissibility H basis obs_resolver standing_resolver decider controlling
          obs_id standing_id ttl now = Ok (observation, standing, decision)"
  shows "validate_proposal_basis H (pb_meta basis) (basis\<lparr>pb_observation := observation\<rparr>) = Ok ()"
    and "validate_admissible_basis \<lparr>ab_proposal = basis\<lparr>pb_observation := observation\<rparr>,
          ab_standing = standing, ab_decision = decision\<rparr> = Ok ()"
proof -
  from assms(2) have fresh: "fresh_observation H (meta_key (pb_meta basis)) (obs_observation (pb_observation basis))
      (prop_subject (pb_proposal basis)) obs_id now observation"
    and live: "live_standing basis observation standing_id ttl now standing"
    by (auto simp: resolve_admissibility_ok resolve_observation_ok resolve_standing_ok)
  show "validate_proposal_basis H (pb_meta basis) (basis\<lparr>pb_observation := observation\<rparr>) = Ok ()"
    using assms(1) fresh fresh_observation_integrity [OF fresh]
    by (simp add: validate_proposal_basis_ok fresh_observation_def)
  show "validate_admissible_basis \<lparr>ab_proposal = basis\<lparr>pb_observation := observation\<rparr>,
      ab_standing = standing, ab_decision = decision\<rparr> = Ok ()"
    using assms(2) live by (simp add: validate_admissible_basis_ok resolve_admissibility_ok live_standing_def)
qed

lemma record_admissible_total:
  assumes "intact H c" and "snap_state c = StandingRequired basis"
    and "resolve_admissibility H basis obs_resolver standing_resolver decider controlling
          obs_id standing_id ttl now = Ok (observation, standing, decision)"
  shows "\<exists>n. record_admissible H c obs_resolver standing_resolver decider controlling obs_id standing_id ttl now
      = Ok n \<and> snap_pc n = PC_AdmissiblePendingAuthorization"
proof -
  have valid: "validate_proposal_basis H (pb_meta basis) basis = Ok ()"
    using assms(1,2) by (simp add: intact_iff validate_state_ok)
  have "sound_meta (pb_meta basis)" using intact_meta [OF assms(1)] assms(2) by simp
  then have "seal H c (AdmissiblePendingAuthorization \<lparr>ab_proposal = basis\<lparr>pb_observation := observation\<rparr>,
      ab_standing = standing, ab_decision = decision\<rparr>) = Ok (successor_snapshot H c (AdmissiblePendingAuthorization
      \<lparr>ab_proposal = basis\<lparr>pb_observation := observation\<rparr>, ab_standing = standing, ab_decision = decision\<rparr>))"
    using readmitted_basis [OF valid assms(3)] by (intro seal_total) auto
  then show ?thesis using assms by (auto simp: record_admissible_ok)
qed

lemma consume_authorization_total:
  assumes "intact H c" and "snap_state c = AdmissiblePendingAuthorization pending"
    and "resolve_admissibility H (ab_proposal pending) obs_resolver standing_resolver decider controlling
          obs_id standing_id ttl now = Ok (observation, standing, decision)"
  shows "\<exists>n. consume_authorization H c obs_resolver standing_resolver decider controlling obs_id standing_id ttl now
      = Ok n \<and> snap_pc n = PC_AuthorizationConsumed"
proof -
  let ?admitted = "\<lparr>ab_proposal = (ab_proposal pending)\<lparr>pb_observation := observation\<rparr>,
      ab_standing = standing, ab_decision = decision\<rparr>"
  let ?st = "AuthorizationConsumed \<lparr>ac_admitted = ?admitted, ac_spend = build_spend H ?admitted now,
      ac_issuance = build_issuance H ?admitted (sp_spend (build_spend H ?admitted now))\<rparr>"
  have valid: "validate_proposal_basis H (pb_meta (ab_proposal pending)) (ab_proposal pending) = Ok ()"
    using assms(1,2) by (simp add: intact_iff validate_state_ok)
  have "sound_meta (pb_meta (ab_proposal pending))" using intact_meta [OF assms(1)] assms(2) by simp
  then have "seal H c ?st = Ok (successor_snapshot H c ?st)"
    using readmitted_basis [OF valid assms(3)] by (intro seal_total) (auto simp: build_spend_valid)
  then show ?thesis using assms by (auto simp: consume_authorization_ok)
qed

section \<open>Custody, settlement, recovery\<close>

lemma intact_dispatch:
  assumes "intact H c" and "proposal_basis (snap_state c) = Some basis"
  shows "validate_proposal_basis H (meta (snap_state c)) basis = Ok ()"
  using assms by (simp add: intact_iff validate_state_ok)

lemma accept_docket_custody_total:
  assumes "intact H c" and "snap_state c = AuthorizationConsumed a" and "validate_custody H custody a = Ok ()"
  shows "\<exists>n. accept_docket_custody H c custody = Ok n \<and> snap_pc n = PC_Dispatched"
proof -
  let ?st = "Dispatched \<lparr>di_authorized = a, di_custody = custody\<rparr>"
  have "seal H c ?st = Ok (successor_snapshot H c ?st)"
    using assms intact_meta [OF assms(1)] intact_dispatch [OF assms(1)]
    by (intro seal_total) (auto simp: intact_iff validate_state_ok)
  then show ?thesis using assms by (auto simp: accept_docket_custody_ok)
qed

lemma record_settlement_total:
  assumes "intact H c" and "snap_state c = Dispatched d" and "validate_settlement settlement d = Ok ()"
  shows "\<exists>n. record_settlement H c settlement = Ok n \<and> snap_pc n = PC_SettledObservationRequired"
proof -
  let ?st = "SettledObservationRequired \<lparr>sor_dispatch = d, sor_settlement = settlement\<rparr>"
  have "seal H c ?st = Ok (successor_snapshot H c ?st)"
    using assms intact_meta [OF assms(1)] intact_dispatch [OF assms(1)]
    by (intro seal_total) (auto simp: intact_iff validate_state_ok)
  then show ?thesis using assms by (auto simp: record_settlement_ok)
qed

lemma recover_dispatched_total:
  assumes "intact H c" and "snap_state c = Dispatched d"
  shows "\<exists>n r. recover_dispatched H c = Ok n \<and> snap_state n = ReconciliationRequired r \<and> rr_dispatch r = d"
proof -
  have seal: "seal H c (ReconciliationRequired \<lparr>rr_dispatch = d, rr_indeterminate = i\<rparr>)
      = Ok (successor_snapshot H c (ReconciliationRequired \<lparr>rr_dispatch = d, rr_indeterminate = i\<rparr>))"
    if "validate_indeterminate i d = Ok ()" for i
    using that assms intact_meta [OF assms(1)] intact_dispatch [OF assms(1)]
    by (intro seal_total) (auto simp: intact_iff validate_state_ok)
  let ?i = "\<lparr>ind_issuance = iss_issuance (ac_issuance (di_authorized d)), ind_attempt = cu_attempt (di_custody d),
      ind_reconciliation = ReconciliationRefV1 (digest_value H ''ag.governed-loop.recovery-reconciliation/v1''
        (RecoveryInput (snap_state_digest c) (cu_attempt (di_custody d)))),
      ind_evidence = digest_value H ''ag.governed-loop.recovery-ambiguity/v1''
        (RecoveryInput (snap_state_digest c) (cu_attempt (di_custody d)))\<rparr>"
  have valid: "validate_indeterminate ?i d = Ok ()" by (simp add: validate_indeterminate_ok)
  have "recover_dispatched H c = require_reconciliation H c ?i"
    using assms(2) by (simp add: recover_dispatched_def Let_def)
  with seal [OF valid] valid assms show ?thesis by (auto simp: require_reconciliation_ok)
qed

lemma open_continuation_total:
  assumes "intact H c" and "snap_state c = SettledObservationRequired settled"
    and "occurrence \<noteq> key_occurrence (snap_key c)"
  shows "\<exists>n pending prior. open_continuation H c occurrence work = Ok n \<and> snap_state n = ObservationRequired pending
    \<and> obr_meta pending = (meta (snap_state c))\<lparr>meta_expected_work := work,
        meta_key := \<lparr>key_campaign = key_campaign (snap_key c), key_occurrence = occurrence\<rparr>\<rparr>
    \<and> obr_prior pending = Some prior \<and> pri_key prior = snap_key c \<and> pri_state_digest prior = snap_state_digest c"
proof -
  let ?basis = "dispatch_proposal (sor_dispatch settled)"
  let ?st = "ObservationRequired \<lparr>obr_meta = (meta (snap_state c))\<lparr>meta_expected_work := work,
        meta_key := \<lparr>key_campaign = key_campaign (snap_key c), key_occurrence = occurrence\<rparr>\<rparr>,
      obr_prior = Some \<lparr>pri_key = snap_key c, pri_proposal = Some (pb_proposal_ref ?basis),
        pri_normalized_preconditions = Some (obs_normalized_preconditions (pb_observation ?basis)),
        pri_state_digest = snap_state_digest c\<rparr>\<rparr>"
  have "snap_key c \<noteq> \<lparr>key_campaign = key_campaign (snap_key c), key_occurrence = occurrence\<rparr>"
    using assms(3) by (auto dest: arg_cong [where f = key_occurrence])
  then have seal: "seal H c ?st = Ok (successor_snapshot H c ?st)"
    using intact_meta [OF assms(1)] by (intro seal_total) (auto simp: sound_meta_def)
  have "open_continuation H c occurrence work = Ok (successor_snapshot H c ?st)"
    using seal assms by (cases "meta (snap_state c)") (auto simp: open_continuation_ok)
  then show ?thesis by auto
qed

section \<open>A probe on a continuation\<close>

lemma note_probe_continuation:
  assumes "intact H c" and "snap_state c = ObservationRequired pending" and "obr_prior pending = Some prior"
    and "probe_available (meta_budget (obr_meta pending))"
    and "snap_state_digest c \<noteq> snap_prior_state_digest c"
  shows "note_probe H c = Err (StateInvariant ''continuation predecessor digest'')"
proof -
  have mismatch: "pri_state_digest prior \<noteq> snap_state_digest c"
    using assms(1-3,5) by (auto simp: intact_iff)
  have budget: "budget_validate (probes_used_update (\<lambda>n. saturating_add n 1) (meta_budget (obr_meta pending))) = Ok ()"
    using assms(1,2,4) by (auto simp: intact_iff budget_validate_ok probe_available_def saturating_add_le)
  show ?thesis
    using assms mismatch budget
    by (auto simp: note_probe_def seal_def bump_probe_def validate_integrity_def Let_def ResidualSetV1_new_cases
        intact_iff)
qed

end
