(* ===== verification/Governed_Termination.thy ===== *)
theory Governed_Termination
  imports Governed_Reach
begin

text \<open>
  Runs of the kernel inside one occurrence end: every operation that opens no other occurrence and consumes
  no human decision lowers a rank made of the program counter and of the probes left.
\<close>

section \<open>A rank that every step lowers\<close>

locale ranked_law =
  fixes step :: "'s \<Rightarrow> 's \<Rightarrow> bool"
    and rank :: "'s \<Rightarrow> nat"
  assumes step_rank: "step s t \<Longrightarrow> rank t < rank s"
begin

lemma run_length: "is_run step (s # run) \<Longrightarrow> length run \<le> rank s"
proof (induction run arbitrary: s)
  case (Cons t run)
  then have "length run \<le> rank t" "rank t < rank s" using step_rank by auto
  then show ?case by simp
qed simp

lemma step_wf: "wfP step\<inverse>\<inverse>"
  by (rule wfp_if_convertible_to_nat [of _ rank]) (simp add: step_rank)

end

section \<open>The rank of a snapshot\<close>

fun pc_rank :: "ProgramCounterV1 \<Rightarrow> nat" where
  "pc_rank PC_ObservationRequired = 8"
| "pc_rank PC_ProposalRecorded = 7"
| "pc_rank PC_StandingRequired = 6"
| "pc_rank PC_AdmissiblePendingAuthorization = 5"
| "pc_rank PC_AuthorizationConsumed = 4"
| "pc_rank PC_Dispatched = 3"
| "pc_rank PC_ReconciliationRequired = 2"
| "pc_rank PC_SettledObservationRequired = 1"
| "pc_rank PC_Halted = 0"
| "pc_rank PC_Completed = 0"

definition probes_left :: "LoopBudgetV1 \<Rightarrow> nat" where
  "probes_left b = unat (probe_limit b) - unat (probes_used b)"

definition occurrence_rank :: "OccurrenceSnapshotV1 \<Rightarrow> nat" where
  "occurrence_rank s = pc_rank (snap_pc s) + probes_left (snap_budget s)"

text \<open>A step inside the occurrence, without a human decision.\<close>

definition occurrence_step :: "'l governed_lib_scheme \<Rightarrow> OccurrenceSnapshotV1 \<Rightarrow> OccurrenceSnapshotV1 \<Rightarrow> bool" where
  "occurrence_step H s t \<longleftrightarrow> kernel_step H s t \<and> snap_key t = snap_key s
     \<and> meta_used_human_decisions (meta (snap_state t)) = meta_used_human_decisions (meta (snap_state s))"

lemma effect_pc:
  assumes "kernel_effect H c (snap_state n)" and "snap_key n = snap_key c"
    and "meta_used_human_decisions (meta (snap_state n)) = meta_used_human_decisions (meta (snap_state c))"
  shows "snap_pc n = snap_pc c \<and> snap_pc c \<noteq> PC_Halted \<or> pc_rank (snap_pc n) < pc_rank (snap_pc c)"
  using assms(1)
proof cases
  case (eff_stop m reason)
  then show ?thesis by (cases "snap_pc c") (auto simp: halted_state_def is_safe_halt_source_def)
next
  case eff_probe
  then show ?thesis by (auto simp: bump_probe_def)
next
  case (eff_continue settled occurrence m work prior)
  then show ?thesis using assms(2) by auto
next
  case (eff_reopen halted occurrence program)
  then show ?thesis using assms(2) by (auto simp: reopened_state_def)
qed (use assms(2,3) in \<open>auto simp: consume_decision_def\<close>)

lemma step_probes:
  assumes "budget_effect c n" and "\<not> probe_tick c n"
  shows "probes_left (snap_budget n) = probes_left (snap_budget c)"
  using assms by (auto simp: budget_effect_def probes_left_def)

lemma tick_probes:
  assumes "budget_effect c n" and "probe_tick c n"
  shows "probes_left (snap_budget n) < probes_left (snap_budget c)"
proof -
  have "probes_used (snap_budget c) < probe_limit (snap_budget c)"
    and n: "snap_budget n = probes_used_update (\<lambda>k. saturating_add k 1) (snap_budget c)"
    using assms by (auto simp: budget_effect_def probe_available_def)
  moreover have "unat (saturating_add (probes_used (snap_budget c)) 1) = unat (probes_used (snap_budget c)) + 1"
    using calculation(1) unat_saturating_add_one by blast
  ultimately show ?thesis by (simp add: probes_left_def word_less_nat_alt n)
qed

interpretation occurrence_ends: ranked_law "occurrence_step H" occurrence_rank for H
proof
  fix s t assume st: "occurrence_step H s t"
  then have b: "budget_effect s t" and e: "kernel_effect H s (snap_state t)"
    by (auto simp: occurrence_step_def intro: kernel_step_budget kernel_step_effect)
  have "snap_pc t = snap_pc s \<and> snap_pc s \<noteq> PC_Halted \<or> pc_rank (snap_pc t) < pc_rank (snap_pc s)"
    by (rule effect_pc [OF e]) (use st in \<open>simp_all add: occurrence_step_def\<close>)
  then show "occurrence_rank t < occurrence_rank s"
    using step_probes [OF b] tick_probes [OF b]
    by (cases "probe_tick s t") (auto simp: occurrence_rank_def probe_tick_def)
qed

lemma occurrence_run:
  assumes "is_run (kernel_step H) (s # run)"
    and "\<And>t. t \<in> set run \<Longrightarrow> snap_key t = snap_key s
      \<and> meta_used_human_decisions (meta (snap_state t)) = meta_used_human_decisions (meta (snap_state s))"
  shows "is_run (occurrence_step H) (s # run)"
  using assms
proof (induction run arbitrary: s)
  case (Cons t run)
  have t: "snap_key t = snap_key s"
      "meta_used_human_decisions (meta (snap_state t)) = meta_used_human_decisions (meta (snap_state s))"
    using Cons.prems(2) [of t] by simp_all
  have "is_run (occurrence_step H) (t # run)"
    by (rule Cons.IH) (use Cons.prems in \<open>auto simp: t\<close>)
  moreover have "occurrence_step H s t" using Cons.prems(1) t by (simp add: occurrence_step_def)
  ultimately show ?case by simp
qed simp

end
