(* ===== verification/Governed_Moves.thy ===== *)
theory Governed_Moves
  imports Governed_Successor
begin

text \<open>
  The law of the persistence membrane, written down without the validators of the code: one rule
  for every way a snapshot may follow another, with the changed and the kept fields spelled out.
  The executable \<open>validate_successor\<close> of \<open>crates/ag-campaign/src/governed.rs\<close> is shown to decide it.
\<close>

section \<open>The declared moves\<close>

text \<open>The coordinates of an occurrence that its own moves keep; its budget is stated by each move.\<close>

definition keeps_coordinates :: "OccurrenceMetaV1 \<Rightarrow> OccurrenceMetaV1 \<Rightarrow> bool" where
  "keeps_coordinates m n \<longleftrightarrow> meta_key n = meta_key m \<and> meta_program n = meta_program m
     \<and> meta_residuals n = meta_residuals m \<and> meta_used_human_decisions n = meta_used_human_decisions m"

text \<open>A proposal whose observation was resolved again, to the same observation of the same subject.\<close>

definition observed_again :: "ProposalBasisV1 \<Rightarrow> ProposalBasisV1 \<Rightarrow> bool" where
  "observed_again p q \<longleftrightarrow> (\<exists>new. q = p\<lparr>pb_observation := new\<rparr> \<and> is_current new
     \<and> (\<forall>old. old = pb_observation p \<longrightarrow> obs_schema new = obs_schema old \<and> obs_key new = obs_key old
         \<and> obs_observation new = obs_observation old \<and> obs_subject new = obs_subject old
         \<and> obs_normalized_preconditions new = obs_normalized_preconditions old))"

text \<open>Standing that is current and an admission that was granted, both for exactly this proposal.\<close>

definition admitted_for :: "ProposalBasisV1 \<Rightarrow> AdmissibleBasisV1 \<Rightarrow> bool" where
  "admitted_for p a \<longleftrightarrow> (\<exists>standing decision. a = \<lparr>ab_proposal = p, ab_standing = standing, ab_decision = decision\<rparr>
     \<and> st_schema standing = STANDING_RESOLUTION_SCHEMA_V2 \<and> st_status standing = Standing_Current
     \<and> st_key standing = meta_key (pb_meta p) \<and> st_observation standing = obs_observation (pb_observation p)
     \<and> st_proposal standing = pb_proposal_ref p \<and> st_subject standing = prop_subject (pb_proposal p)
     \<and> st_scope standing = prop_scope (pb_proposal p)
     \<and> ad_disposition decision = Admitted \<and> ad_key decision = meta_key (pb_meta p)
     \<and> ad_observation decision = obs_observation (pb_observation p) \<and> ad_proposal decision = pb_proposal_ref p
     \<and> ad_standing_resolution decision = st_resolution standing)"

text \<open>The spend and the issuance that one admission determines, up to the time of the spend.\<close>

definition spent_for :: "'l governed_lib_scheme \<Rightarrow> AuthorizationConsumedV1 \<Rightarrow> bool" where
  "spent_for H c \<longleftrightarrow> (\<forall>a p standing. a = ac_admitted c \<and> p = ab_proposal a \<and> standing = st_resolution (ab_standing a) \<longrightarrow>
     sp_authorization (ac_spend c) = authorization_for_basis H (meta_key (pb_meta p))
       (obs_observation (pb_observation p)) (pb_proposal_ref p) standing
     \<and> sp_spend (ac_spend c) = spend_for_authorization H (sp_authorization (ac_spend c))
     \<and> sp_key (ac_spend c) = meta_key (pb_meta p)
     \<and> sp_observation (ac_spend c) = obs_observation (pb_observation p)
     \<and> sp_proposal (ac_spend c) = pb_proposal_ref p
     \<and> sp_standing_resolution (ac_spend c) = standing
     \<and> sp_admission_decision (ac_spend c) = ad_decision (ab_decision a)
     \<and> ac_issuance c = build_issuance H a (sp_spend (ac_spend c)))"

text \<open>Custody of exactly this issuance, with instruments that are distinct from each other.\<close>

definition custody_for :: "'l governed_lib_scheme \<Rightarrow> AuthorizationConsumedV1 \<Rightarrow> DocketCustodyV1 \<Rightarrow> bool" where
  "custody_for H c custody \<longleftrightarrow> cu_schema custody = DOCKET_CUSTODY_SCHEMA_V1
     \<and> cu_issuance custody = iss_issuance (ac_issuance c) \<and> cu_ag_spend custody = sp_spend (ac_spend c)
     \<and> cu_attempt custody = attempt_for_issuance H (iss_issuance (ac_issuance c))
     \<and> execution_standing_digest (cu_execution_standing custody)
         \<notin> {spend_digest (sp_spend (ac_spend c)), authorization_digest (sp_authorization (ac_spend c))}
     \<and> marker_digest (cu_executor_marker custody)
         \<notin> {execution_standing_digest (cu_execution_standing custody), spend_digest (sp_spend (ac_spend c)),
             authorization_digest (sp_authorization (ac_spend c)), attempt_digest (cu_attempt custody)}"

definition settles :: "DispatchBasisV1 \<Rightarrow> DocketSettlementV1 \<Rightarrow> bool" where
  "settles d settlement \<longleftrightarrow> se_schema settlement = DOCKET_SETTLEMENT_SCHEMA_V1
     \<and> se_issuance settlement = iss_issuance (ac_issuance (di_authorized d))
     \<and> se_attempt settlement = cu_attempt (di_custody d)
     \<and> se_executor_marker settlement = cu_executor_marker (di_custody d)"

text \<open>Another occurrence of the campaign that names the snapshot it continues and inherits its accounts.\<close>

definition continues ::
  "OccurrenceSnapshotV1 \<Rightarrow> ProposalRefV1 option \<Rightarrow> PreconditionBasisRefV1 option \<Rightarrow> ObservationRequiredV1 \<Rightarrow> bool" where
  "continues s proposal preconditions o' \<longleftrightarrow> (\<forall>m n. m = meta (snap_state s) \<and> n = obr_meta o' \<longrightarrow>
     obr_prior o' = Some \<lparr>pri_key = meta_key m, pri_proposal = proposal,
        pri_normalized_preconditions = preconditions, pri_state_digest = snap_state_digest s\<rparr>
     \<and> meta_key n \<noteq> meta_key m \<and> key_campaign (meta_key n) = key_campaign (meta_key m)
     \<and> meta_residuals n = meta_residuals m \<and> meta_budget n = meta_budget m
     \<and> meta_used_human_decisions n = meta_used_human_decisions m)"

inductive declared_move :: "'l governed_lib_scheme \<Rightarrow> OccurrenceSnapshotV1 \<Rightarrow> OccurrenceSnapshotV1 \<Rightarrow> bool"
  for H s t where
  first_proposal: "snap_state s = ObservationRequired pending \<Longrightarrow> snap_state t = ProposalRecorded p
    \<Longrightarrow> obr_prior pending = None \<Longrightarrow> pb_link p = LinkInitial
    \<Longrightarrow> keeps_coordinates (obr_meta pending) (pb_meta p)
    \<Longrightarrow> meta_budget (pb_meta p) = meta_budget (obr_meta pending) \<Longrightarrow> declared_move H s t"
| retried_proposal: "snap_state s = ObservationRequired pending \<Longrightarrow> snap_state t = ProposalRecorded p
    \<Longrightarrow> obr_prior pending = Some prior \<Longrightarrow> pb_link p = RetryOf (pri_key prior)
    \<Longrightarrow> pri_key prior \<noteq> meta_key (obr_meta pending)
    \<Longrightarrow> pri_proposal prior = Some (pb_proposal_ref p)
    \<Longrightarrow> pri_normalized_preconditions prior = Some (obs_normalized_preconditions (pb_observation p))
    \<Longrightarrow> keeps_coordinates (obr_meta pending) (pb_meta p)
    \<Longrightarrow> meta_budget (pb_meta p) = retries_used_update (\<lambda>n. saturating_add n 1) (meta_budget (obr_meta pending))
    \<Longrightarrow> declared_move H s t"
| successor_proposal: "snap_state s = ObservationRequired pending \<Longrightarrow> snap_state t = ProposalRecorded p
    \<Longrightarrow> obr_prior pending = Some prior \<Longrightarrow> pb_link p = SuccessorOf (pri_key prior)
    \<Longrightarrow> pri_key prior \<noteq> meta_key (obr_meta pending)
    \<Longrightarrow> pri_proposal prior \<noteq> Some (pb_proposal_ref p)
    \<Longrightarrow> keeps_coordinates (obr_meta pending) (pb_meta p)
    \<Longrightarrow> meta_budget (pb_meta p) = meta_budget (obr_meta pending) \<Longrightarrow> declared_move H s t"
| require_standing: "snap_state s = ProposalRecorded p \<Longrightarrow> snap_state t = StandingRequired p
    \<Longrightarrow> declared_move H s t"
| admission: "snap_state s = StandingRequired p \<Longrightarrow> snap_state t = AdmissiblePendingAuthorization a
    \<Longrightarrow> observed_again p (ab_proposal a) \<Longrightarrow> admitted_for (ab_proposal a) a \<Longrightarrow> declared_move H s t"
| authorization: "snap_state s = AdmissiblePendingAuthorization a \<Longrightarrow> snap_state t = AuthorizationConsumed c
    \<Longrightarrow> observed_again (ab_proposal a) (ab_proposal (ac_admitted c))
    \<Longrightarrow> admitted_for (ab_proposal (ac_admitted c)) (ac_admitted c) \<Longrightarrow> spent_for H c \<Longrightarrow> declared_move H s t"
| custody: "snap_state s = AuthorizationConsumed c
    \<Longrightarrow> snap_state t = Dispatched \<lparr>di_authorized = c, di_custody = accepted_custody\<rparr>
    \<Longrightarrow> custody_for H c accepted_custody \<Longrightarrow> declared_move H s t"
| settlement: "snap_state s = Dispatched d
    \<Longrightarrow> snap_state t = SettledObservationRequired \<lparr>sor_dispatch = d, sor_settlement = outcome\<rparr>
    \<Longrightarrow> settles d outcome \<Longrightarrow> declared_move H s t"
| indeterminacy: "snap_state s = Dispatched d
    \<Longrightarrow> snap_state t = ReconciliationRequired \<lparr>rr_dispatch = d, rr_indeterminate = outcome\<rparr>
    \<Longrightarrow> ind_issuance outcome = iss_issuance (ac_issuance (di_authorized d))
    \<Longrightarrow> ind_attempt outcome = cu_attempt (di_custody d) \<Longrightarrow> declared_move H s t"
| reconciliation: "snap_state s = ReconciliationRequired r
    \<Longrightarrow> snap_state t = SettledObservationRequired \<lparr>sor_dispatch = rr_dispatch r, sor_settlement = outcome\<rparr>
    \<Longrightarrow> settles (rr_dispatch r) outcome \<Longrightarrow> declared_move H s t"
| continuation: "snap_state s = SettledObservationRequired v \<Longrightarrow> snap_state t = ObservationRequired pending
    \<Longrightarrow> p = ab_proposal (ac_admitted (di_authorized (sor_dispatch v)))
    \<Longrightarrow> continues s (Some (pb_proposal_ref p)) (Some (obs_normalized_preconditions (pb_observation p))) pending
    \<Longrightarrow> meta_program (obr_meta pending) = meta_program (meta (snap_state s)) \<Longrightarrow> declared_move H s t"
| halting: "snap_pc s \<notin> {PC_AuthorizationConsumed, PC_Dispatched, PC_Halted, PC_Completed}
    \<Longrightarrow> snap_state t = Halted h \<Longrightarrow> ha_source h = snap_pc s \<Longrightarrow> pri_key (ha_prior h) = snap_key s
    \<Longrightarrow> ha_history h = authority_history (snap_state s)
    \<Longrightarrow> ha_unresolved_attempt h = (case snap_state s of
          ReconciliationRequired r \<Rightarrow> Some (cu_attempt (di_custody (rr_dispatch r))) | _ \<Rightarrow> None)
    \<Longrightarrow> keeps_coordinates (meta (snap_state s)) (ha_meta h)
    \<Longrightarrow> meta_budget (ha_meta h) \<in> {meta_budget (meta (snap_state s)),
          escalations_used_update (\<lambda>n. saturating_add n 1) (meta_budget (meta (snap_state s)))}
    \<Longrightarrow> declared_move H s t"
| disposition: "snap_state s = Halted h \<Longrightarrow> snap_state t = Halted (h\<lparr>ha_meta := m\<rparr>)
    \<Longrightarrow> meta_key m = meta_key (ha_meta h) \<Longrightarrow> meta_program m = meta_program (ha_meta h)
    \<Longrightarrow> meta_budget m = meta_budget (ha_meta h)
    \<Longrightarrow> meta_used_human_decisions m = meta_used_human_decisions (ha_meta h) @ [decision]
    \<Longrightarrow> set (residual_slice (meta_residuals m)) \<subseteq> set (residual_slice (meta_residuals (ha_meta h)))
    \<Longrightarrow> declared_move H s t"
| reopening: "snap_state s = Halted h \<Longrightarrow> snap_state t = ObservationRequired pending
    \<Longrightarrow> ha_unresolved_attempt h = None
    \<Longrightarrow> continues s (pri_proposal (ha_prior h)) (pri_normalized_preconditions (ha_prior h)) pending
    \<Longrightarrow> declared_move H s t"
| human_completion: "snap_state s = Halted h \<Longrightarrow> snap_state t = Completed c
    \<Longrightarrow> ha_unresolved_attempt h = None \<Longrightarrow> co_history c = ha_history h
    \<Longrightarrow> residual_slice (meta_residuals (ha_meta h)) = [] \<Longrightarrow> residual_slice (meta_residuals (co_meta c)) = []
    \<Longrightarrow> meta_key (co_meta c) = meta_key (ha_meta h) \<Longrightarrow> meta_program (co_meta c) = meta_program (ha_meta h)
    \<Longrightarrow> meta_budget (co_meta c) = meta_budget (ha_meta h)
    \<Longrightarrow> meta_used_human_decisions (co_meta c) = meta_used_human_decisions (ha_meta h) @ [decision]
    \<Longrightarrow> declared_move H s t"
| completion: "snap_state s = ObservationRequired pending \<Longrightarrow> snap_state t = Completed c
    \<Longrightarrow> co_meta c = obr_meta pending \<Longrightarrow> residual_slice (meta_residuals (obr_meta pending)) = []
    \<Longrightarrow> declared_move H s t"
| probing: "snap_pc s \<noteq> PC_Halted
    \<Longrightarrow> snap_state t = meta_mut (\<lambda>m. m\<lparr>meta_expected_work := work,
          meta_budget := probes_used_update (\<lambda>n. saturating_add n 1) (meta_budget m)\<rparr>) (snap_state s)
    \<Longrightarrow> declared_move H s t"

section \<open>The membrane decides them\<close>

lemma observed_again_iff: "observed_again p q \<longleftrightarrow> same_proposal_basis p q"
  by (cases p; cases q) (auto simp: observed_again_def same_proposal_basis_def)

lemma admitted_for_iff: "admitted_for (ab_proposal a) a \<longleftrightarrow> validate_admissible_basis a = Ok ()"
  by (cases a) (auto simp: admitted_for_def validate_admissible_basis_ok)

lemma spent_for_iff:
  "validate_authorized H c = Ok () \<longleftrightarrow> admitted_for (ab_proposal (ac_admitted c)) (ac_admitted c) \<and> spent_for H c"
  by (simp add: validate_authorized_ok spent_for_def admitted_for_iff)

lemma custody_for_iff: "custody_for H c custody \<longleftrightarrow> validate_custody H custody c = Ok ()"
  by (auto simp: custody_for_def validate_custody_ok)

lemma settles_iff: "settles d settlement \<longleftrightarrow> validate_settlement settlement d = Ok ()"
  by (simp add: settles_def validate_settlement_ok)

lemma continues_iff:
  "validate_continuation s proposal preconditions pending replace = Ok () \<longleftrightarrow>
     continues s proposal preconditions pending
     \<and> (\<not> replace \<longrightarrow> meta_program (obr_meta pending) = meta_program (meta (snap_state s)))"
  by (auto simp: validate_continuation_ok continues_def)

lemma one_escalation_iff:
  "budget_same_or_one_escalation b c \<longleftrightarrow> c \<in> {b, escalations_used_update (\<lambda>n. saturating_add n 1) b}"
  by (cases b; cases c) (auto simp: budget_same_or_one_escalation_def)

lemma meta_mut_at: "meta_mut (\<lambda>_. f (meta st)) st = meta_mut f st"
  by (cases st) (simp_all add: update_admitted_meta_def update_dispatch_meta_def)

lemma probe_iff:
  "validate_probe_successor st st' \<longleftrightarrow> (\<exists>work. st' = meta_mut (\<lambda>m. m\<lparr>meta_expected_work := work,
     meta_budget := probes_used_update (\<lambda>n. saturating_add n 1) (meta_budget m)\<rparr>) st)"
  unfolding validate_probe_successor_ok by (simp add: meta_mut_at [of "\<lambda>m. m\<lparr>meta_expected_work := _, meta_budget := _ m\<rparr>", symmetric])

lemmas move_facts = observed_again_iff admitted_for_iff spent_for_iff custody_for_iff settles_iff continues_iff
  keeps_coordinates_def

lemma legal_move_declared:
  assumes "legal_move H s t"
  shows "declared_move H s t"
  using assms
proof cases
  case (propose pending p)
  then show ?thesis
    unfolding validate_recorded_proposal_ok
    by (elim conjE disjE exE)
      (auto intro: first_proposal retried_proposal successor_proposal simp: keeps_coordinates_def)
next
  case (halt_update h h')
  note kept = halt_update(3) [unfolded validate_human_halt_update_ok]
  have "h' = h\<lparr>ha_meta := ha_meta h'\<rparr>"
    using kept by (intro HaltedV1.equality) simp_all
  then have "snap_state t = Halted (h\<lparr>ha_meta := ha_meta h'\<rparr>)"
    using halt_update(2) by metis
  moreover obtain decision where
    "meta_used_human_decisions (ha_meta h') = meta_used_human_decisions (ha_meta h) @ [decision]"
    using kept by blast
  ultimately show ?thesis
    using kept by (intro disposition [OF halt_update(1)]) blast+
next
  case (stop h)
  then show ?thesis
    by (intro halting [of s t h H])
      (auto simp: validate_halt_successor_ok one_escalation_iff is_safe_halt_source_def keeps_coordinates_def
        split: OccurrenceStateV1.splits)
next
  case probe
  then show ?thesis by (auto simp: probe_iff intro: probing)
next
  case (dispatch c d)
  then show ?thesis by (intro custody [of s c t "di_custody d" H]) (simp_all add: move_facts)
next
  case (settle d v)
  then show ?thesis by (intro settlement [of s d t "sor_settlement v" H]) (simp_all add: move_facts)
next
  case (ambiguous d r)
  then show ?thesis
    by (intro indeterminacy [of s d t "rr_indeterminate r" H]) (simp_all add: validate_indeterminate_ok)
next
  case (reconcile r v)
  then show ?thesis by (intro reconciliation [of s r t "sor_settlement v" H]) (simp_all add: move_facts)
next
  case (human_complete h c)
  then show ?thesis by (auto simp: validate_human_completion_ok residuals_empty_def intro: human_completion)
next
  case stand
  then show ?thesis by (rule require_standing)
next
  case (admit p a)
  then show ?thesis by (intro admission [OF admit(1,2)]) (simp_all add: move_facts)
next
  case (spend a c)
  then show ?thesis by (intro authorization [OF spend(1,2)]) (simp_all add: move_facts)
next
  case (continue v pending)
  then show ?thesis by (intro continuation [OF continue(1,2) refl]) (simp_all add: move_facts)
next
  case (reopen h pending)
  then show ?thesis by (intro reopening [OF reopen(1-3)]) (simp_all add: move_facts)
next
  case (complete pending c)
  then show ?thesis by (intro completion [OF complete(1,2)]) (simp_all add: residuals_empty_def)
qed

lemma declared_move_legal:
  assumes "declared_move H s t"
  shows "legal_move H s t"
  using assms
proof cases
  case (halting h)
  then show ?thesis
    by (intro legal_move.stop [of t h])
      (cases "snap_state s"; auto simp: validate_halt_successor_ok one_escalation_iff is_safe_halt_source_def
        keeps_coordinates_def)+
next
  case (probing work)
  then show ?thesis
    by (intro legal_move.probe) (auto simp: probe_iff)
next
  case (disposition h m)
  then show ?thesis by (intro legal_move.halt_update [OF disposition(1,2)]) (auto simp: validate_human_halt_update_ok)
next
  case (human_completion h c decision)
  then show ?thesis by (intro legal_move.human_complete [OF human_completion(1,2)]) (auto simp: validate_human_completion_ok residuals_empty_def)
next
  case (first_proposal pending p)
  then show ?thesis by (intro legal_move.propose [OF first_proposal(1,2)]) (auto simp: keeps_coordinates_def validate_recorded_proposal_ok)
next
  case (retried_proposal pending p prior)
  then show ?thesis by (intro legal_move.propose [OF retried_proposal(1,2)]) (auto simp: keeps_coordinates_def validate_recorded_proposal_ok)
next
  case (successor_proposal pending p prior)
  then show ?thesis by (intro legal_move.propose [OF successor_proposal(1,2)]) (auto simp: keeps_coordinates_def validate_recorded_proposal_ok)
next
  case (require_standing p)
  then show ?thesis by (rule legal_move.stand)
next
  case (admission p a)
  then show ?thesis by (intro legal_move.admit [OF admission(1,2)]) (simp_all add: move_facts)
next
  case (authorization a c)
  then show ?thesis by (intro legal_move.spend [OF authorization(1,2)]) (simp_all add: move_facts)
next
  case (custody c accepted_custody)
  then show ?thesis by (intro legal_move.dispatch [OF custody(1,2)]) (simp_all add: move_facts)
next
  case (settlement d outcome)
  then show ?thesis by (intro legal_move.settle [OF settlement(1,2)]) (simp_all add: move_facts)
next
  case (indeterminacy d outcome)
  then show ?thesis by (intro legal_move.ambiguous [OF indeterminacy(1,2)]) (simp_all add: validate_indeterminate_ok)
next
  case (reconciliation r outcome)
  then show ?thesis by (intro legal_move.reconcile [OF reconciliation(1,2)]) (simp_all add: move_facts)
next
  case (continuation v pending p)
  then show ?thesis by (intro legal_move.continue [OF continuation(1,2)]) (simp_all add: move_facts)
next
  case (reopening h pending)
  then show ?thesis by (intro legal_move.reopen [OF reopening(1,2)]) (simp_all add: move_facts)
next
  case (completion pending c)
  then show ?thesis by (intro legal_move.complete [OF completion(1,2)]) (simp_all add: residuals_empty_def)
qed

lemma declared_move_iff: "legal_move H s t \<longleftrightarrow> declared_move H s t"
  by (auto intro: legal_move_declared declared_move_legal)

end
