(* ===== verification/Governed_Recovery.thy ===== *)
theory Governed_Recovery
  imports Governed_Reach
begin

text \<open>
  What recovery of an interrupted occurrence may assume: \<open>recovery_requirement\<close> of
  \<open>crates/ag-campaign/src/governed.rs\<close> against the authority history of a reachable snapshot.
\<close>

text \<open>A completed occurrence spent nothing or is settled.\<close>

definition completion_accounted :: "OccurrenceStateV1 \<Rightarrow> bool" where
  "completion_accounted st = (\<forall>v. st = Completed v \<longrightarrow>
     co_history v = empty_history \<or> hist_settlement (co_history v) \<noteq> None)"

lemma completion_accounted_effect:
  assumes "kernel_effect H c st" and "halt_accounted (snap_state c)"
  shows "completion_accounted st"
  using assms(1)
proof cases
  case eff_probe
  then show ?thesis by (cases "snap_state c") (auto simp: completion_accounted_def bump_probe_def)
qed (use assms(2) in \<open>auto simp: completion_accounted_def halt_accounted_def reopened_state_def halted_state_def\<close>)

interpretation endings: invariant_law "kernel_init H" "kernel_step H"
    "\<lambda>s. halt_accounted (snap_state s) \<and> completion_accounted (snap_state s)" for H
proof
  show "halt_accounted (snap_state s) \<and> completion_accounted (snap_state s)" if "kernel_init H s" for s
    using that by (auto elim!: kernel_init_state simp: completion_accounted_def halt_accounted_def)
  show "halt_accounted (snap_state t) \<and> completion_accounted (snap_state t)"
    if "halt_accounted (snap_state s) \<and> completion_accounted (snap_state s)" "kernel_step H s t" for s t
    using that kernel_step_effect completion_accounted_effect halt_accounted_effect by blast
qed

abbreviation unsettled_spend :: "AuthorityHistoryV1 \<Rightarrow> bool" where
  "unsettled_spend h \<equiv> hist_ag_spend h \<noteq> None \<and> hist_settlement h = None"

lemma recovery_by_history:
  assumes "halt_accounted (snap_state s)" and "completion_accounted (snap_state s)"
    and "h = authority_history (snap_state s)"
  shows "recovery_requirement s = ReconcileIssuance \<longleftrightarrow> unsettled_spend h \<and> hist_docket_attempt h = None"
    and "recovery_requirement s = ReconcileAttemptRequirement \<longleftrightarrow>
      unsettled_spend h \<and> hist_docket_attempt h \<noteq> None \<and> snap_pc s \<noteq> PC_Halted"
    and "unsettled_spend h \<and> snap_pc s = PC_Halted \<Longrightarrow> recovery_requirement s = ExternalDisposition
      \<and> (\<exists>v. snap_state s = Halted v \<and> ha_unresolved_attempt v = hist_docket_attempt h \<and> hist_docket_attempt h \<noteq> None)"
    and "unsettled_spend h \<Longrightarrow> snap_pc s \<noteq> PC_Completed"
  using assms
  by (cases "snap_state s";
      auto simp: recovery_requirement_def empty_history_def halt_accounted_def completion_accounted_def split: if_splits)+

end
