(* ===== verification/Lifecycle_Origin.thy ===== *)
theory Lifecycle_Origin
  imports Content_Digest
begin

text \<open>
  Authority domains, epochs, lifecycle nonces and book references:
  \<open>crates/ag-primitives/src/origin.rs\<close>. A compile-time book tag is a phantom type parameter;
  the constant \<open>K::KIND\<close> of a tag is an argument of the operations that use it.
\<close>

section \<open>Identifiers\<close>

datatype IdentifierError =
    Identifier_Empty string
  | Identifier_TooLong string nat nat
  | NonCanonical string
  | ZeroEpoch
  | InvalidEpochText
  | EpochExhausted

definition MAX_IDENTIFIER_LENGTH :: nat where
  "MAX_IDENTIFIER_LENGTH = 128"

definition endpoint_is_alphanumeric :: "char \<Rightarrow> bool" where
  "endpoint_is_alphanumeric c =
     ((of_char c :: nat) \<in> {97..122} \<or> (of_char c :: nat) \<in> {48..57})"

definition identifier_admitted :: "char \<Rightarrow> bool" where
  "identifier_admitted c = (endpoint_is_alphanumeric c \<or> c \<in> set ''-_.:/'')"

definition validate_identifier :: "string \<Rightarrow> string \<Rightarrow> IdentifierError + unit" where
  "validate_identifier kind value =
     (if value = [] then Err (Identifier_Empty kind)
      else if MAX_IDENTIFIER_LENGTH < length value
      then Err (Identifier_TooLong kind MAX_IDENTIFIER_LENGTH (length value))
      else if \<not> endpoint_is_alphanumeric (hd value) \<or> \<not> endpoint_is_alphanumeric (last value)
              \<or> \<not> list_all identifier_admitted value
      then Err (NonCanonical kind)
      else Ok ())"

datatype AuthorityDomainId = AuthorityDomainId string

definition authority_domain_new :: "string \<Rightarrow> IdentifierError + AuthorityDomainId" where
  "authority_domain_new value =
     try_then (validate_identifier ''authority domain'' value) (\<lambda>_. Ok (AuthorityDomainId value))"

datatype BookLocalId = BookLocalId string

definition book_local_id_new :: "string \<Rightarrow> IdentifierError + BookLocalId" where
  "book_local_id_new value =
     try_then (validate_identifier ''book local ID'' value) (\<lambda>_. Ok (BookLocalId value))"

section \<open>Epochs\<close>

datatype EpochId = EpochId (epoch_get: u64)

definition epoch_new :: "u64 \<Rightarrow> IdentifierError + EpochId" where
  "epoch_new value = (if value = 0 then Err ZeroEpoch else Ok (EpochId value))"

text \<open>Rust's decimal \<open>u64::from_str\<close> on a text of digits: refused on overflow.\<close>

definition is_ascii_digit :: "char \<Rightarrow> bool" where
  "is_ascii_digit c = ((of_char c :: nat) \<in> {48..57})"

definition decimal_value :: "string \<Rightarrow> nat" where
  "decimal_value s = foldl (\<lambda>n c. 10 * n + (of_char c - 48)) 0 s"

definition epoch_parse :: "string \<Rightarrow> IdentifierError + EpochId" where
  "epoch_parse value =
     (if value = [] \<or> \<not> list_all is_ascii_digit value \<or> (1 < length value \<and> hd value = CHR ''0'')
      then Err InvalidEpochText
      else if decimal_value value < 2 ^ 64 then epoch_new (word_of_nat (decimal_value value))
      else Err InvalidEpochText)"

definition checked_next :: "EpochId \<Rightarrow> IdentifierError + EpochId" where
  "checked_next e =
     (if epoch_get e = - 1 then Err EpochExhausted else Ok (EpochId (epoch_get e + 1)))"

text \<open>Rust's \<open>Display\<close> of an unsigned integer.\<close>

fun decimal_text :: "nat \<Rightarrow> string" where
  "decimal_text n = (if n < 10 then [char_of (48 + n)] else decimal_text (n div 10) @ [char_of (48 + n mod 10)])"

declare decimal_text.simps [simp del]

definition epoch_display :: "EpochId \<Rightarrow> string" where
  "epoch_display e = decimal_text (unat (epoch_get e))"

section \<open>Origins and book references\<close>

text \<open>\<open>LifecycleNonce([u8; 16])\<close>; the fixed length is a predicate.\<close>

datatype LifecycleNonce = LifecycleNonce bytes

record LifecycleOrigin =
  authority_domain :: AuthorityDomainId
  origin_epoch :: EpochId
  lifecycle_nonce :: LifecycleNonce

datatype LifecycleNonceParseError =
    Nonce_Length nat
  | Nonce_Hex nat string
  | Nonce_InternalHexInvariant

record origin_lib = jcs_lib +
  hex_decode_16 :: "string \<Rightarrow> bytes option"

definition nonce_from_str :: "'l origin_lib_scheme \<Rightarrow> string \<Rightarrow> LifecycleNonceParseError + LifecycleNonce" where
  "nonce_from_str L value =
     (if length value \<noteq> 32 then Err (Nonce_Length (length value))
      else case find_non_hex 0 value of
          Some (index, character) \<Rightarrow> Err (Nonce_Hex index character)
        | None \<Rightarrow> (case hex_decode_16 L value of
            None \<Rightarrow> Err Nonce_InternalHexInvariant
          | Some raw \<Rightarrow> Ok (LifecycleNonce raw)))"

datatype BookKind = Kind_Standing | Kind_Custody | Kind_Obligation | Kind_Capacity

datatype standing_tag = Standing_tag
datatype custody_tag = Custody_tag
datatype obligation_tag = Obligation_tag
datatype capacity_tag = Capacity_tag

datatype 'k BookRef = BookRef (ref_origin: LifecycleOrigin) (ref_local_id: BookLocalId)

record AnyBookRef =
  any_book :: BookKind
  any_origin :: LifecycleOrigin
  any_local_id :: BookLocalId

datatype BookKindMismatch = BookKindMismatch BookKind BookKind

definition erase :: "BookKind \<Rightarrow> 'k BookRef \<Rightarrow> AnyBookRef" where
  "erase kind r = \<lparr>any_book = kind, any_origin = ref_origin r, any_local_id = ref_local_id r\<rparr>"

definition try_typed :: "BookKind \<Rightarrow> AnyBookRef \<Rightarrow> BookKindMismatch + 'k BookRef" where
  "try_typed kind a =
     (if any_book a \<noteq> kind then Err (BookKindMismatch kind (any_book a))
      else Ok (BookRef (any_origin a) (any_local_id a)))"

section \<open>Lemmas\<close>

lemma try_typed_erase:
  "try_typed kind (erase kind' r) = (if kind' = kind then Ok r else Err (BookKindMismatch kind kind'))"
  by (cases r) (simp add: try_typed_def erase_def)

lemma erase_inject [simp]: "erase kind r = erase kind r' \<longleftrightarrow> r = r'"
  by (cases r; cases r') (simp add: erase_def)

lemma decimal_value_snoc: "decimal_value (s @ [c]) = 10 * decimal_value s + (of_char c - 48)"
  by (simp add: decimal_value_def)

lemma decimal_text_value: "decimal_value (decimal_text n) = n"
proof (induction n rule: decimal_text.induct)
  case (1 n)
  show ?case
  proof (cases "n < 10")
    case True
    then show ?thesis by (simp add: decimal_text.simps [of n] decimal_value_def)
  next
    case False
    then show ?thesis using 1 by (simp add: decimal_text.simps [of n] decimal_value_snoc)
  qed
qed

lemma decimal_text_digits: "list_all is_ascii_digit (decimal_text n)" "decimal_text n \<noteq> []"
proof (induction n rule: decimal_text.induct)
  case (1 n)
  { case 1 then show ?case
      using "1.IH"(1) by (cases "n < 10") (auto simp: decimal_text.simps [of n] is_ascii_digit_def)
  next case 2 then show ?case by (simp add: decimal_text.simps [of n]) }
qed

lemma decimal_text_leading: "0 < n \<Longrightarrow> hd (decimal_text n) \<noteq> CHR ''0''"
proof (induction n rule: decimal_text.induct)
  case (1 n)
  have digit: "char_of (48 + k) \<noteq> CHR ''0''" if "0 < k" "k < 10" for k :: nat
  proof
    assume "char_of (48 + k) = CHR ''0''"
    then have "(of_char (char_of (48 + k)) :: nat) = of_char (CHR ''0'')" by simp
    then show False using that by simp
  qed
  show ?case
    using 1 decimal_text_digits(2) [of "n div 10"] digit [of n]
    by (cases "n < 10") (auto simp: decimal_text.simps [of n] hd_append)
qed

lemma epoch_roundtrip: "epoch_get e \<noteq> 0 \<Longrightarrow> epoch_parse (epoch_display e) = Ok e"
proof -
  assume nz: "epoch_get e \<noteq> 0"
  then have "0 < unat (epoch_get e)" by (simp add: unat_gt_0)
  moreover have "unat (epoch_get e) < 2 ^ 64" using unsigned_less [of "epoch_get e"] by simp
  ultimately show ?thesis
    using nz decimal_text_digits [of "unat (epoch_get e)"] decimal_text_leading [of "unat (epoch_get e)"]
    by (cases e) (simp add: epoch_parse_def epoch_display_def decimal_text_value epoch_new_def)
qed

lemma checked_next_succ:
  assumes "checked_next e = Ok e'"
  shows "unat (epoch_get e') = Suc (unat (epoch_get e))"
proof -
  have ne: "epoch_get e \<noteq> - 1" and e': "e' = EpochId (epoch_get e + 1)"
    using assms by (simp_all add: checked_next_def split: if_splits)
  from ne have "1 + epoch_get e \<noteq> 0" by (simp add: eq_neg_iff_add_eq_0 add.commute)
  then show ?thesis using e' by (simp add: add.commute unatSuc)
qed

end
