(* ===== verification/Judgment_Calculus.thy ===== *)
theory Judgment_Calculus
  imports Lifecycle_Origin
begin

text \<open>
  Semantic judgments, the operational envelope and the obstruction log:
  \<open>crates/ag-kernel/src/judgment.rs\<close> and \<open>path.rs\<close>. A \<open>&mut self\<close> method returns the
  updated value.
\<close>

section \<open>Non-empty sequences\<close>

datatype 'a NonEmpty = NonEmpty (ne_head: 'a) (ne_tail: "'a list")

definition ne_new :: "'a \<Rightarrow> 'a NonEmpty" where
  "ne_new head = NonEmpty head []"

fun ne_from_vec :: "'a list \<Rightarrow> 'a NonEmpty option" where
  "ne_from_vec [] = None"
| "ne_from_vec (head # tail) = Some (NonEmpty head tail)"

definition ne_push :: "'a NonEmpty \<Rightarrow> 'a \<Rightarrow> 'a NonEmpty" where
  "ne_push n value = NonEmpty (ne_head n) (ne_tail n @ [value])"

definition ne_iter :: "'a NonEmpty \<Rightarrow> 'a list" where
  "ne_iter n = ne_head n # ne_tail n"

definition ne_len :: "'a NonEmpty \<Rightarrow> nat" where
  "ne_len n = 1 + length (ne_tail n)"

definition ne_into_vec :: "'a NonEmpty \<Rightarrow> 'a list" where
  "ne_into_vec n = [ne_head n] @ ne_tail n"

definition ne_map :: "('a \<Rightarrow> 'b) \<Rightarrow> 'a NonEmpty \<Rightarrow> 'b NonEmpty" where
  "ne_map f n = NonEmpty (f (ne_head n)) (map f (ne_tail n))"

section \<open>Judgments and the operational envelope\<close>

datatype ('w, 'r) NativeJudgment = Admit 'w | Refuse 'r

fun map_admit :: "('w \<Rightarrow> 'u) \<Rightarrow> ('w, 'r) NativeJudgment \<Rightarrow> ('u, 'r) NativeJudgment" where
  "map_admit f (Admit witness) = Admit (f witness)"
| "map_admit f (Refuse refusal) = Refuse refusal"

fun map_refuse :: "('r \<Rightarrow> 'u) \<Rightarrow> ('w, 'r) NativeJudgment \<Rightarrow> ('w, 'u) NativeJudgment" where
  "map_refuse f (Admit witness) = Admit witness"
| "map_refuse f (Refuse refusal) = Refuse (f refusal)"

datatype OperationalFailureKind =
    ObservationUnavailable
  | Timeout
  | CustodyFailure
  | StoreFailure
  | ClockFailure
  | IncompleteEvaluation

record FailureEvidence =
  failure_kind :: OperationalFailureKind
  evidence_digest :: Digest

datatype ('w, 'r) OperationalEvaluation =
    Evaluated "('w, 'r) NativeJudgment"
  | Indeterminate "FailureEvidence NonEmpty"

definition indeterminate :: "FailureEvidence \<Rightarrow> ('w, 'r) OperationalEvaluation" where
  "indeterminate evidence = Indeterminate (ne_new evidence)"

fun admitted :: "('w, 'r) OperationalEvaluation \<Rightarrow> 'w option" where
  "admitted (Evaluated (Admit witness)) = Some witness"
| "admitted (Evaluated (Refuse _)) = None"
| "admitted (Indeterminate _) = None"

section \<open>Obstruction logs and traces\<close>

datatype 'o LocatedObstruction = LocatedObstruction (edge_id: Digest) (obstruction: 'o)

definition located_rename :: "('o \<Rightarrow> 'u) \<Rightarrow> 'o LocatedObstruction \<Rightarrow> 'u LocatedObstruction" where
  "located_rename f l = LocatedObstruction (edge_id l) (f (obstruction l))"

datatype 'o PathVerdict = PathVerdict (obstructions: "'o LocatedObstruction list")

definition path_clean :: "'o PathVerdict" where
  "path_clean = PathVerdict []"

definition obstructed :: "Digest \<Rightarrow> 'o \<Rightarrow> 'o PathVerdict" where
  "obstructed edge ob = PathVerdict [LocatedObstruction edge ob]"

definition path_push :: "'o PathVerdict \<Rightarrow> Digest \<Rightarrow> 'o \<Rightarrow> 'o PathVerdict" where
  "path_push p edge ob = PathVerdict (obstructions p @ [LocatedObstruction edge ob])"

definition path_compose :: "'o PathVerdict \<Rightarrow> 'o PathVerdict \<Rightarrow> 'o PathVerdict" where
  "path_compose p later = PathVerdict (obstructions p @ obstructions later)"

definition path_rename :: "('o \<Rightarrow> 'u) \<Rightarrow> 'o PathVerdict \<Rightarrow> 'u PathVerdict" where
  "path_rename f p = PathVerdict (map (located_rename f) (obstructions p))"

definition is_clean :: "'o PathVerdict \<Rightarrow> bool" where
  "is_clean p = (obstructions p = [])"

datatype TraceOutcome =
    Trace_Clean Digest
  | Trace_Obstructed Digest
  | Trace_Skipped Digest
  | Trace_Indeterminate "FailureEvidence NonEmpty"

record TraceStep =
  step_edge_id :: Digest
  step_outcome :: TraceOutcome

datatype EvaluationTrace = EvaluationTrace (trace_steps: "TraceStep list")

definition trace_push :: "EvaluationTrace \<Rightarrow> TraceStep \<Rightarrow> EvaluationTrace" where
  "trace_push t s = EvaluationTrace (trace_steps t @ [s])"

section \<open>Lemmas\<close>

named_theorems nonempty_simps "reading a non-empty sequence as its list"

lemma ne_iter_simps [nonempty_simps, simp]:
  "ne_iter (ne_new x) = [x]"
  "ne_iter (NonEmpty x xs) = x # xs"
  "ne_iter (ne_push n y) = ne_iter n @ [y]"
  "ne_iter (ne_map f n) = map f (ne_iter n)"
  by (simp_all add: ne_iter_def ne_new_def ne_push_def ne_map_def)

lemma ne_iter_ne [simp]: "ne_iter n \<noteq> []"
  by (simp add: ne_iter_def)

lemma ne_into_vec_iter [nonempty_simps]: "ne_into_vec n = ne_iter n"
  by (simp add: ne_into_vec_def ne_iter_def)

lemma ne_len_iter [nonempty_simps]: "ne_len n = length (ne_iter n)"
  by (simp add: ne_len_def ne_iter_def)

lemma ne_from_vec_iter: "ne_from_vec xs = Some n \<longleftrightarrow> xs = ne_iter n"
  by (cases xs; cases n) (auto simp: ne_iter_def)

lemma ne_from_vec_None [simp]: "ne_from_vec xs = None \<longleftrightarrow> xs = []"
  by (cases xs) simp_all

lemma ne_iter_inject: "ne_iter n = ne_iter m \<longleftrightarrow> n = m"
  by (cases n; cases m) (simp add: ne_iter_def)

lemma ne_fold_push [simp]: "ne_iter (foldl ne_push n xs) = ne_iter n @ xs"
  by (induction xs arbitrary: n) simp_all

text \<open>
  The obstruction logs form a free monoid under \<open>compose\<close>, of which \<open>rename\<close> is a
  homomorphism: a clean later path heals nothing.
\<close>

locale obstruction_log =
  fixes compose :: "'p \<Rightarrow> 'p \<Rightarrow> 'p" and clean :: 'p and log :: "'p \<Rightarrow> 'e list"
  assumes log_compose: "log (compose p q) = log p @ log q"
    and log_clean: "log clean = []"
    and log_inject: "log p = log q \<Longrightarrow> p = q"
begin

lemma compose_assoc: "compose (compose p q) r = compose p (compose q r)"
  by (rule log_inject) (simp add: log_compose)

lemma compose_clean: "compose p clean = p" "compose clean p = p"
  by (rule log_inject, simp add: log_compose log_clean)+

lemma compose_is_clean: "compose p q = clean \<longleftrightarrow> p = clean \<and> q = clean"
proof
  assume "compose p q = clean"
  then have "log p @ log q = []" using log_compose log_clean by metis
  then show "p = clean \<and> q = clean" using log_inject [of p clean] log_inject [of q clean] log_clean by simp
qed (simp add: compose_clean)

lemma fold_is_clean: "foldl compose p ps = clean \<longleftrightarrow> p = clean \<and> (\<forall>q \<in> set ps. q = clean)"
  by (induction ps arbitrary: p) (auto simp: compose_is_clean)

end

interpretation path_log: obstruction_log path_compose path_clean obstructions
  by unfold_locales (simp_all add: path_compose_def path_clean_def PathVerdict.expand)

lemma path_rename_compose: "path_rename f (path_compose p q) = path_compose (path_rename f p) (path_rename f q)"
  by (simp add: path_rename_def path_compose_def)

lemma is_clean_iff: "is_clean p \<longleftrightarrow> p = path_clean"
  by (cases p) (simp add: is_clean_def path_clean_def)

end
