(* ===== verification/Judgment_Books.thy ===== *)
theory Judgment_Books
  imports Judgment_Calculus
begin

text \<open>
  The four judgment families and the named crossings: \<open>crates/ag-kernel/src/family.rs\<close>. The
  macro \<open>define_family!\<close> is modelled once, polymorphic in the phantom book tag; its macro
  arguments \<open>$kind\<close> and \<open>$empty_domain\<close> are arguments of the operations, and each of the four
  invocations is an instance of the tag type.
\<close>

section \<open>The family macro\<close>

text \<open>\<open>serde_jcs::to_vec\<close> of the triple of a kind, a head and an entry (its reference tagged).\<close>

record book_lib = origin_lib +
  event_to_vec :: "BookKind \<Rightarrow> Digest \<Rightarrow> AnyBookRef \<times> Digest \<Rightarrow> bytes option"

datatype FamilyBookError =
    Book_ForeignOrigin BookKind LifecycleOrigin LifecycleOrigin
  | DuplicateReference BookKind
  | Book_Canonicalization BookKind

record 'k family_entry =
  entry_reference :: "'k BookRef"
  entry_subject_digest :: Digest

record 'k family_book =
  book_origin :: LifecycleOrigin
  book_head :: Digest
  book_entries :: "'k family_entry list"

record 'k family_claim =
  claim_origin :: LifecycleOrigin
  claim_subject_digest :: Digest
  claim_reference :: "'k BookRef"

record 'k family_witness =
  witness_claim :: "'k family_claim"
  witness_book_head :: Digest
  observed_subject_digest :: Digest

datatype 'k family_failure =
    BookOriginMismatch LifecycleOrigin LifecycleOrigin
  | ReferenceOriginMismatch LifecycleOrigin LifecycleOrigin
  | MissingReference "'k BookRef"
  | SubjectMismatch "'k BookRef" Digest Digest

datatype 'k family_refusal = FamilyRefusal (refusal_failures: "'k family_failure NonEmpty")

definition book_new :: "'l book_lib_scheme \<Rightarrow> string \<Rightarrow> LifecycleOrigin \<Rightarrow> 'k family_book" where
  "book_new L empty_domain origin =
     \<lparr>book_origin = origin, book_head = hash_bytes L (as_bytes empty_domain), book_entries = []\<rparr>"

definition erased_entry :: "BookKind \<Rightarrow> 'k family_entry \<Rightarrow> AnyBookRef \<times> Digest" where
  "erased_entry kind entry = (erase kind (entry_reference entry), entry_subject_digest entry)"

definition event_preimage :: "string \<Rightarrow> bytes \<Rightarrow> bytes" where
  "event_preimage empty_domain material =
     as_bytes (''ag-ng:book-event:v1:'' @ empty_domain) @ [0] @ material"

definition replay_committed ::
  "'l book_lib_scheme \<Rightarrow> BookKind \<Rightarrow> string \<Rightarrow> 'k family_book \<Rightarrow> 'k family_entry
   \<Rightarrow> FamilyBookError + 'k family_book" where
  "replay_committed L kind empty_domain book entry =
     (if ref_origin (entry_reference entry) \<noteq> book_origin book
      then Err (Book_ForeignOrigin kind (book_origin book) (ref_origin (entry_reference entry)))
      else if list_ex (\<lambda>existing. entry_reference existing = entry_reference entry) (book_entries book)
      then Err (DuplicateReference kind)
      else try_then
        (ok_or (event_to_vec L kind (book_head book) (erased_entry kind entry)) (Book_Canonicalization kind))
        (\<lambda>material. Ok (book
           \<lparr>book_head := hash_bytes L (event_preimage empty_domain material),
            book_entries := book_entries book @ [entry]\<rparr>)))"

definition decide ::
  "'k family_book \<Rightarrow> 'k family_claim \<Rightarrow> ('k family_witness, 'k family_refusal) NativeJudgment" where
  "decide book claim =
     (let book_failures =
            (if claim_origin claim \<noteq> book_origin book
             then [BookOriginMismatch (claim_origin claim) (book_origin book)] else []);
          reference_failures =
            (if ref_origin (claim_reference claim) \<noteq> claim_origin claim
             then [ReferenceOriginMismatch (claim_origin claim) (ref_origin (claim_reference claim))] else []);
          observed = find (\<lambda>entry. entry_reference entry = claim_reference claim) (book_entries book);
          observed_failures =
            (case observed of
               None \<Rightarrow> [MissingReference (claim_reference claim)]
             | Some entry \<Rightarrow>
                 if entry_subject_digest entry \<noteq> claim_subject_digest claim
                 then [SubjectMismatch (claim_reference claim) (claim_subject_digest claim) (entry_subject_digest entry)]
                 else [])
      in case ne_from_vec (book_failures @ reference_failures @ observed_failures) of
           Some failures \<Rightarrow> Refuse (FamilyRefusal failures)
         | None \<Rightarrow> Admit
             \<lparr>witness_claim = claim,
              witness_book_head = book_head book,
              observed_subject_digest = entry_subject_digest (the observed)\<rparr>)"

text \<open>The four invocations of the macro.\<close>

type_synonym StandingBook = "standing_tag family_book"
type_synonym CustodyBook = "custody_tag family_book"
type_synonym ObligationBook = "obligation_tag family_book"
type_synonym CapacityBook = "capacity_tag family_book"

definition decide_standing ::
  "StandingBook \<Rightarrow> standing_tag family_claim \<Rightarrow> (standing_tag family_witness, standing_tag family_refusal) NativeJudgment" where
  "decide_standing = decide"

definition decide_custody ::
  "CustodyBook \<Rightarrow> custody_tag family_claim \<Rightarrow> (custody_tag family_witness, custody_tag family_refusal) NativeJudgment" where
  "decide_custody = decide"

definition decide_obligation ::
  "ObligationBook \<Rightarrow> obligation_tag family_claim \<Rightarrow> (obligation_tag family_witness, obligation_tag family_refusal) NativeJudgment" where
  "decide_obligation = decide"

definition decide_capacity ::
  "CapacityBook \<Rightarrow> capacity_tag family_claim \<Rightarrow> (capacity_tag family_witness, capacity_tag family_refusal) NativeJudgment" where
  "decide_capacity = decide"

section \<open>The proposal crossing\<close>

record ProposalCrossingClaim =
  pc_standing :: "standing_tag family_claim"
  pc_custody :: "custody_tag family_claim"

record ProposalCrossingWitness =
  pw_standing :: "standing_tag family_witness"
  pw_custody :: "custody_tag family_witness"

datatype ProposalFamilyRefusal =
    Proposal_Standing "standing_tag family_refusal"
  | Proposal_Custody "custody_tag family_refusal"
  | Proposal_OriginMismatch BookKind LifecycleOrigin LifecycleOrigin

datatype ProposalCrossingRefusal =
  ProposalCrossingRefusal (proposal_failures: "ProposalFamilyRefusal NonEmpty")

text \<open>\<open>if let NativeJudgment::Refuse(refusal) = j { failures.push(tag(refusal)) }\<close>\<close>

definition push_refusal :: "('r \<Rightarrow> 'f) \<Rightarrow> ('w, 'r) NativeJudgment \<Rightarrow> 'f NonEmpty \<Rightarrow> 'f NonEmpty" where
  "push_refusal tag j failures =
     (case j of Refuse refusal \<Rightarrow> ne_push failures (tag refusal) | Admit _ \<Rightarrow> failures)"

definition evaluate_proposal_crossing ::
  "StandingBook \<Rightarrow> CustodyBook \<Rightarrow> ProposalCrossingClaim
   \<Rightarrow> (ProposalCrossingWitness, ProposalCrossingRefusal) NativeJudgment" where
  "evaluate_proposal_crossing standing_book custody_book claim =
     (let crossing_failures =
            (if claim_origin (pc_custody claim) \<noteq> claim_origin (pc_standing claim)
             then [Proposal_OriginMismatch Kind_Custody (claim_origin (pc_standing claim)) (claim_origin (pc_custody claim))]
             else [])
      in case (decide_standing standing_book (pc_standing claim), decide_custody custody_book (pc_custody claim)) of
           (Admit standing, Admit custody) \<Rightarrow>
             (case ne_from_vec crossing_failures of
                Some failures \<Rightarrow> Refuse (ProposalCrossingRefusal failures)
              | None \<Rightarrow> Admit \<lparr>pw_standing = standing, pw_custody = custody\<rparr>)
         | (Refuse standing, custody) \<Rightarrow>
             Refuse (ProposalCrossingRefusal
               (foldl ne_push (push_refusal Proposal_Custody custody (ne_new (Proposal_Standing standing))) crossing_failures))
         | (Admit _, Refuse custody) \<Rightarrow>
             Refuse (ProposalCrossingRefusal (foldl ne_push (ne_new (Proposal_Custody custody)) crossing_failures)))"

section \<open>The effect crossing\<close>

record EffectCrossingClaim =
  ec_standing :: "standing_tag family_claim"
  ec_custody :: "custody_tag family_claim"
  ec_obligation :: "obligation_tag family_claim"
  ec_capacity :: "capacity_tag family_claim"

record EffectCrossingWitness =
  ew_standing :: "standing_tag family_witness"
  ew_custody :: "custody_tag family_witness"
  ew_obligation :: "obligation_tag family_witness"
  ew_capacity :: "capacity_tag family_witness"

datatype EffectFamilyRefusal =
    Effect_Standing "standing_tag family_refusal"
  | Effect_Custody "custody_tag family_refusal"
  | Effect_Obligation "obligation_tag family_refusal"
  | Effect_Capacity "capacity_tag family_refusal"
  | Effect_OriginMismatch BookKind LifecycleOrigin LifecycleOrigin

datatype EffectCrossingRefusal =
  EffectCrossingRefusal (effect_failures: "EffectFamilyRefusal NonEmpty")

definition effect_crossing_failures :: "EffectCrossingClaim \<Rightarrow> EffectFamilyRefusal list" where
  "effect_crossing_failures claim =
     concat (map (\<lambda>(family, observed).
         if observed \<noteq> claim_origin (ec_standing claim)
         then [Effect_OriginMismatch family (claim_origin (ec_standing claim)) observed] else [])
       [(Kind_Custody, claim_origin (ec_custody claim)),
        (Kind_Obligation, claim_origin (ec_obligation claim)),
        (Kind_Capacity, claim_origin (ec_capacity claim))])"

definition evaluate_effect_crossing ::
  "StandingBook \<Rightarrow> CustodyBook \<Rightarrow> ObligationBook \<Rightarrow> CapacityBook \<Rightarrow> EffectCrossingClaim
   \<Rightarrow> (EffectCrossingWitness, EffectCrossingRefusal) NativeJudgment" where
  "evaluate_effect_crossing standing_book custody_book obligation_book capacity_book claim =
     (let crossing_failures = effect_crossing_failures claim
      in case (decide_standing standing_book (ec_standing claim), decide_custody custody_book (ec_custody claim),
               decide_obligation obligation_book (ec_obligation claim), decide_capacity capacity_book (ec_capacity claim)) of
           (Admit standing, Admit custody, Admit obligation, Admit capacity) \<Rightarrow>
             (case ne_from_vec crossing_failures of
                Some failures \<Rightarrow> Refuse (EffectCrossingRefusal failures)
              | None \<Rightarrow> Admit \<lparr>ew_standing = standing, ew_custody = custody,
                                ew_obligation = obligation, ew_capacity = capacity\<rparr>)
         | (Refuse standing, custody, obligation, capacity) \<Rightarrow>
             Refuse (EffectCrossingRefusal (foldl ne_push
               (push_refusal Effect_Capacity capacity (push_refusal Effect_Obligation obligation
                  (push_refusal Effect_Custody custody (ne_new (Effect_Standing standing))))) crossing_failures))
         | (Admit _, Refuse custody, obligation, capacity) \<Rightarrow>
             Refuse (EffectCrossingRefusal (foldl ne_push
               (push_refusal Effect_Capacity capacity (push_refusal Effect_Obligation obligation
                  (ne_new (Effect_Custody custody)))) crossing_failures))
         | (Admit _, Admit _, Refuse obligation, capacity) \<Rightarrow>
             Refuse (EffectCrossingRefusal (foldl ne_push
               (push_refusal Effect_Capacity capacity (ne_new (Effect_Obligation obligation))) crossing_failures))
         | (Admit _, Admit _, Admit _, Refuse capacity) \<Rightarrow>
             Refuse (EffectCrossingRefusal (foldl ne_push (ne_new (Effect_Capacity capacity)) crossing_failures)))"

section \<open>What a family decides\<close>

text \<open>
  The abstract book: the finite map from references to subjects. \<open>holds\<close> is the claim's truth
  in it.
\<close>

definition abs_book :: "'k family_book \<Rightarrow> 'k BookRef \<rightharpoonup> Digest" where
  "abs_book book = map_of (map (\<lambda>e. (entry_reference e, entry_subject_digest e)) (book_entries book))"

definition claim_holds :: "'k family_book \<Rightarrow> 'k family_claim \<Rightarrow> bool" where
  "claim_holds book claim \<longleftrightarrow>
     claim_origin claim = book_origin book \<and> ref_origin (claim_reference claim) = claim_origin claim
     \<and> abs_book book (claim_reference claim) = Some (claim_subject_digest claim)"

definition native_witness :: "'k family_book \<Rightarrow> 'k family_claim \<Rightarrow> 'k family_witness" where
  "native_witness book claim =
     \<lparr>witness_claim = claim, witness_book_head = book_head book,
      observed_subject_digest = claim_subject_digest claim\<rparr>"

text \<open>What a crossing relies on: a family admits exactly the claims that hold, with one witness.\<close>

locale judgment_family =
  fixes judge :: "'book \<Rightarrow> 'claim \<Rightarrow> ('w, 'r) NativeJudgment"
    and truth :: "'book \<Rightarrow> 'claim \<Rightarrow> bool"
    and witness_of :: "'book \<Rightarrow> 'claim \<Rightarrow> 'w"
    and claim_of :: "'w \<Rightarrow> 'claim"
  assumes judge_Admit: "judge b c = Admit w \<longleftrightarrow> truth b c \<and> w = witness_of b c"
    and claim_of_witness: "claim_of (witness_of b c) = c"
begin

lemma judge_refuses: "(\<exists>r. judge b c = Refuse r) \<longleftrightarrow> \<not> truth b c"
proof (cases "judge b c")
  case (Admit w)
  then show ?thesis using judge_Admit [of b c w] by simp
next
  case (Refuse r)
  then show ?thesis using judge_Admit [of b c "witness_of b c"] by simp
qed

lemma judge_cases: "judge b c = Admit (witness_of b c) \<or> (\<exists>r. judge b c = Refuse r)"
  using judge_Admit [of b c] by (cases "judge b c") auto

lemma judge_claim: "judge b c = Admit w \<Longrightarrow> claim_of w = c"
  by (simp add: judge_Admit claim_of_witness)

lemma judge_replays: "judge b c = Admit w \<Longrightarrow> judge b (claim_of w) = Admit w"
  using judge_claim by metis

end

lemma find_abs_book:
  "abs_book book r = map_option entry_subject_digest (find (\<lambda>e. entry_reference e = r) (book_entries book))"
proof -
  have "map_of (map (\<lambda>e. (entry_reference e, entry_subject_digest e)) es) r
      = map_option entry_subject_digest (find (\<lambda>e. entry_reference e = r) es)" for es :: "'a family_entry list"
    by (induction es) simp_all
  then show ?thesis by (simp add: abs_book_def)
qed

lemma decide_Admit: "decide book claim = Admit w \<longleftrightarrow> claim_holds book claim \<and> w = native_witness book claim"
  by (auto simp: decide_def Let_def claim_holds_def native_witness_def find_abs_book split: option.splits if_splits)

interpretation standing_family: judgment_family decide_standing claim_holds native_witness witness_claim
  by unfold_locales (simp_all add: decide_standing_def decide_Admit native_witness_def)

interpretation custody_family: judgment_family decide_custody claim_holds native_witness witness_claim
  by unfold_locales (simp_all add: decide_custody_def decide_Admit native_witness_def)

interpretation obligation_family: judgment_family decide_obligation claim_holds native_witness witness_claim
  by unfold_locales (simp_all add: decide_obligation_def decide_Admit native_witness_def)

interpretation capacity_family: judgment_family decide_capacity claim_holds native_witness witness_claim
  by unfold_locales (simp_all add: decide_capacity_def decide_Admit native_witness_def)

section \<open>Crossings\<close>

text \<open>A crossing against its reference: the refusals of every family, then the origin mismatches.\<close>

fun native_refusals :: "('r \<Rightarrow> 'f) \<Rightarrow> ('w, 'r) NativeJudgment \<Rightarrow> 'f list" where
  "native_refusals tag (Admit _) = []"
| "native_refusals tag (Refuse refusal) = [tag refusal]"

lemma native_refusals_none: "native_refusals tag j = [] \<longleftrightarrow> (\<exists>w. j = Admit w)"
  by (cases j) simp_all

lemma push_refusal_iter: "ne_iter (push_refusal tag j failures) = ne_iter failures @ native_refusals tag j"
  by (cases j) (simp_all add: push_refusal_def)

lemma Some_from_vec: "ne_iter n = xs \<Longrightarrow> ne_from_vec xs = Some n"
  by (simp add: ne_from_vec_iter)

lemma effect_crossing_reference:
  "evaluate_effect_crossing sb cb ob kb claim =
     (case ne_from_vec
        (native_refusals Effect_Standing (decide_standing sb (ec_standing claim))
         @ native_refusals Effect_Custody (decide_custody cb (ec_custody claim))
         @ native_refusals Effect_Obligation (decide_obligation ob (ec_obligation claim))
         @ native_refusals Effect_Capacity (decide_capacity kb (ec_capacity claim))
         @ effect_crossing_failures claim) of
        Some failures \<Rightarrow> Refuse (EffectCrossingRefusal failures)
      | None \<Rightarrow> Admit
          \<lparr>ew_standing = native_witness sb (ec_standing claim), ew_custody = native_witness cb (ec_custody claim),
           ew_obligation = native_witness ob (ec_obligation claim), ew_capacity = native_witness kb (ec_capacity claim)\<rparr>)"
  using standing_family.judge_cases [of sb "ec_standing claim"] custody_family.judge_cases [of cb "ec_custody claim"]
    obligation_family.judge_cases [of ob "ec_obligation claim"] capacity_family.judge_cases [of kb "ec_capacity claim"]
  by (elim disjE exE)
    (simp_all add: evaluate_effect_crossing_def Let_def ne_iter_inject [symmetric] push_refusal_iter split: option.split)

lemma proposal_crossing_reference:
  "evaluate_proposal_crossing sb cb claim =
     (case ne_from_vec
        (native_refusals Proposal_Standing (decide_standing sb (pc_standing claim))
         @ native_refusals Proposal_Custody (decide_custody cb (pc_custody claim))
         @ (if claim_origin (pc_custody claim) \<noteq> claim_origin (pc_standing claim)
            then [Proposal_OriginMismatch Kind_Custody (claim_origin (pc_standing claim)) (claim_origin (pc_custody claim))]
            else [])) of
        Some failures \<Rightarrow> Refuse (ProposalCrossingRefusal failures)
      | None \<Rightarrow> Admit
          \<lparr>pw_standing = native_witness sb (pc_standing claim), pw_custody = native_witness cb (pc_custody claim)\<rparr>)"
  using standing_family.judge_cases [of sb "pc_standing claim"] custody_family.judge_cases [of cb "pc_custody claim"]
  by (elim disjE exE)
    (simp_all add: evaluate_proposal_crossing_def Let_def ne_iter_inject [symmetric] push_refusal_iter split: option.split)

lemma effect_crossing_Admit:
  "evaluate_effect_crossing sb cb ob kb claim = Admit w \<longleftrightarrow>
     claim_holds sb (ec_standing claim) \<and> claim_holds cb (ec_custody claim)
     \<and> claim_holds ob (ec_obligation claim) \<and> claim_holds kb (ec_capacity claim)
     \<and> claim_origin (ec_custody claim) = claim_origin (ec_standing claim)
     \<and> claim_origin (ec_obligation claim) = claim_origin (ec_standing claim)
     \<and> claim_origin (ec_capacity claim) = claim_origin (ec_standing claim)
     \<and> w = \<lparr>ew_standing = native_witness sb (ec_standing claim), ew_custody = native_witness cb (ec_custody claim),
           ew_obligation = native_witness ob (ec_obligation claim), ew_capacity = native_witness kb (ec_capacity claim)\<rparr>"
proof -
  let ?all = "native_refusals Effect_Standing (decide_standing sb (ec_standing claim))
      @ native_refusals Effect_Custody (decide_custody cb (ec_custody claim))
      @ native_refusals Effect_Obligation (decide_obligation ob (ec_obligation claim))
      @ native_refusals Effect_Capacity (decide_capacity kb (ec_capacity claim)) @ effect_crossing_failures claim"
  have "evaluate_effect_crossing sb cb ob kb claim = Admit w \<longleftrightarrow> ?all = [] \<and>
      w = \<lparr>ew_standing = native_witness sb (ec_standing claim), ew_custody = native_witness cb (ec_custody claim),
           ew_obligation = native_witness ob (ec_obligation claim), ew_capacity = native_witness kb (ec_capacity claim)\<rparr>"
    unfolding effect_crossing_reference by (cases "?all") auto
  then show ?thesis
    by (simp add: native_refusals_none standing_family.judge_Admit custody_family.judge_Admit
      obligation_family.judge_Admit capacity_family.judge_Admit effect_crossing_failures_def)
qed

section \<open>Replay of a committed book\<close>

text \<open>A store replays the committed entries of a book in order.\<close>

primrec replay_all ::
  "'l book_lib_scheme \<Rightarrow> BookKind \<Rightarrow> string \<Rightarrow> 'k family_book \<Rightarrow> 'k family_entry list
   \<Rightarrow> FamilyBookError + 'k family_book" where
  "replay_all L kind domain book [] = Ok book"
| "replay_all L kind domain book (e # es) =
     try_then (replay_committed L kind domain book e) (\<lambda>book'. replay_all L kind domain book' es)"

lemma replay_all_append:
  "replay_all L kind domain book (es @ fs) =
     try_then (replay_all L kind domain book es) (\<lambda>book'. replay_all L kind domain book' fs)"
  by (induction es arbitrary: book) (auto simp: try_then_def split: sum.splits)

lemma replay_committed_Ok:
  "replay_committed L kind domain book e = Ok book' \<longleftrightarrow>
     ref_origin (entry_reference e) = book_origin book
     \<and> entry_reference e \<notin> entry_reference ` set (book_entries book)
     \<and> (\<exists>material. event_to_vec L kind (book_head book) (erased_entry kind e) = Some material
         \<and> book' = book \<lparr>book_head := hash_bytes L (event_preimage domain material),
                           book_entries := book_entries book @ [e]\<rparr>)"
  by (auto simp: replay_committed_def ok_or_def list_ex_iff image_iff split: option.splits)

definition entries_wellformed :: "LifecycleOrigin \<Rightarrow> 'k family_entry list \<Rightarrow> bool" where
  "entries_wellformed origin es \<longleftrightarrow>
     distinct (map entry_reference es) \<and> (\<forall>e \<in> set es. ref_origin (entry_reference e) = origin)"

lemma replay_all_new:
  assumes "replay_all L kind domain (book_new L domain origin) es = Ok book"
  shows "book_origin book = origin" and "book_entries book = es" and "entries_wellformed origin es"
proof -
  have "book_origin book = origin \<and> book_entries book = es \<and> entries_wellformed origin es"
    using assms
  proof (induction es arbitrary: book rule: rev_induct)
    case Nil
    then show ?case by (auto simp: book_new_def entries_wellformed_def)
  next
    case (snoc e es)
    from snoc.prems obtain b where b: "replay_all L kind domain (book_new L domain origin) es = Ok b"
      and e: "replay_committed L kind domain b e = Ok book"
      by (auto simp: replay_all_append)
    show ?case using snoc.IH [OF b] e by (auto simp: replay_committed_Ok entries_wellformed_def)
  qed
  then show "book_origin book = origin" "book_entries book = es" "entries_wellformed origin es" by simp_all
qed

definition events_serialize :: "'l book_lib_scheme \<Rightarrow> bool" where
  "events_serialize L = (\<forall>kind head entry. event_to_vec L kind head entry \<noteq> None)"

lemma replay_all_total:
  assumes "events_serialize L" and "entries_wellformed origin es"
  shows "\<exists>book. replay_all L kind domain (book_new L domain origin) es = Ok book"
  using assms(2)
proof (induction es rule: rev_induct)
  case Nil
  then show ?case by simp
next
  case (snoc e es)
  then obtain b where b: "replay_all L kind domain (book_new L domain origin) es = Ok b"
    by (auto simp: entries_wellformed_def)
  obtain material where "event_to_vec L kind (book_head b) (erased_entry kind e) = Some material"
    using assms(1) unfolding events_serialize_def by blast
  then have "\<exists>book. replay_committed L kind domain b e = Ok book"
    using replay_all_new [OF b] snoc.prems by (auto simp: replay_committed_Ok entries_wellformed_def)
  then show ?case using b by (auto simp: replay_all_append)
qed

lemma abs_book_entry:
  "distinct (map entry_reference (book_entries book)) \<Longrightarrow>
     abs_book book r = Some d \<longleftrightarrow> (\<exists>e \<in> set (book_entries book). entry_reference e = r \<and> entry_subject_digest e = d)"
  by (auto simp: abs_book_def map_of_eq_Some_iff comp_def)

section \<open>The head commits to the history\<close>

text \<open>
  Canonical JSON of two events of one book with references of one origin: the bytes determine
  the previous head and the entry.
\<close>

definition event_law :: "'l book_lib_scheme \<Rightarrow> bool" where
  "event_law L = (\<forall>kind head head' entry entry' material.
     any_origin (fst entry) = any_origin (fst entry')
     \<and> event_to_vec L kind head entry = Some material \<and> event_to_vec L kind head' entry' = Some material
     \<longrightarrow> head = head' \<and> entry = entry')"

text \<open>The byte strings that a replay hashes.\<close>

fun replay_preimages :: "'l book_lib_scheme \<Rightarrow> BookKind \<Rightarrow> string \<Rightarrow> 'k family_book \<Rightarrow> 'k family_entry list \<Rightarrow> bytes set" where
  "replay_preimages L kind domain book [] = {}"
| "replay_preimages L kind domain book (e # es) =
     (case event_to_vec L kind (book_head book) (erased_entry kind e) of
        None \<Rightarrow> {}
      | Some material \<Rightarrow> insert (event_preimage domain material)
          (case replay_committed L kind domain book e of
             Err _ \<Rightarrow> {}
           | Ok book' \<Rightarrow> replay_preimages L kind domain book' es))"

lemma event_lawD:
  assumes "event_law L" and "any_origin (fst entry) = any_origin (fst entry')"
    and "event_to_vec L kind head entry = Some material" and "event_to_vec L kind head' entry' = Some material"
  shows "head = head'" and "entry = entry'"
  using assms unfolding event_law_def by blast+

lemma erased_entry_inject [simp]: "erased_entry kind e = erased_entry kind e' \<longleftrightarrow> e = e'"
  by (auto simp: erased_entry_def)

lemma replay_preimages_snoc:
  assumes "replay_all L kind domain book es = Ok b"
    and "event_to_vec L kind (book_head b) (erased_entry kind e) = Some material"
  shows "replay_preimages L kind domain book (es @ [e])
    = insert (event_preimage domain material) (replay_preimages L kind domain book es)"
  using assms
proof (induction es arbitrary: book)
  case (Cons x es)
  then obtain book' where step: "replay_committed L kind domain book x = Ok book'"
    and rest: "replay_all L kind domain book' es = Ok b" by auto
  then obtain m where "event_to_vec L kind (book_head book) (erased_entry kind x) = Some m"
    by (auto simp: replay_committed_Ok)
  then show ?case
    using Cons.IH [OF rest Cons.prems(2)] step by (simp add: insert_commute)
qed (simp add: replay_committed_def split: sum.splits)

lemma event_preimage_inject: "event_preimage domain m = event_preimage domain m' \<longleftrightarrow> m = m'"
  by (simp add: event_preimage_def)

lemma event_preimage_not_empty_domain: "as_bytes domain \<noteq> event_preimage domain m"
proof
  assume "as_bytes domain = event_preimage domain m"
  then have "length (as_bytes domain) = length (event_preimage domain m)" by simp
  then show False by (simp add: event_preimage_def)
qed

lemma hash_bytes_injD:
  assumes "sha256_law L" "hex_law L" "inj_on (sha256 L) X" "hash_bytes L x = hash_bytes L y" "x \<in> X" "y \<in> X"
  shows "x = y"
  using hex_encode_inject [OF assms(1,2)] inj_onD [OF assms(3) _ assms(5,6)] assms(4) by (simp add: hash_bytes_def)

lemma replay_snocE:
  assumes "replay_all L kind domain book (es @ [e]) = Ok b"
  obtains c m where "replay_all L kind domain book es = Ok c"
    and "event_to_vec L kind (book_head c) (erased_entry kind e) = Some m"
    and "book_head b = hash_bytes L (event_preimage domain m)"
    and "ref_origin (entry_reference e) = book_origin c"
    and "replay_preimages L kind domain book (es @ [e])
      = insert (event_preimage domain m) (replay_preimages L kind domain book es)"
proof -
  from assms obtain c where c: "replay_all L kind domain book es = Ok c"
    and e: "replay_committed L kind domain c e = Ok b" by (auto simp: replay_all_append)
  from e obtain m where "event_to_vec L kind (book_head c) (erased_entry kind e) = Some m"
    and "book_head b = hash_bytes L (event_preimage domain m)" "ref_origin (entry_reference e) = book_origin c"
    by (auto simp: replay_committed_Ok)
  then show thesis using that c replay_preimages_snoc [OF c] by blast
qed

lemma replay_head_not_empty:
  assumes "sha256_law L" "hex_law L" and "replay_all L kind domain book (es @ [e]) = Ok b"
    and "inj_on (sha256 L) X" "as_bytes domain \<in> X" "replay_preimages L kind domain book (es @ [e]) \<subseteq> X"
  shows "book_head b \<noteq> hash_bytes L (as_bytes domain)"
proof
  assume empty: "book_head b = hash_bytes L (as_bytes domain)"
  from assms(3) obtain m where m: "book_head b = hash_bytes L (event_preimage domain m)"
    and pre: "event_preimage domain m \<in> replay_preimages L kind domain book (es @ [e])"
    by (elim replay_snocE) simp
  have "as_bytes domain = event_preimage domain m"
    by (rule hash_bytes_injD [OF assms(1,2,4)]) (use empty m pre assms(5,6) in auto)
  then show False using event_preimage_not_empty_domain by blast
qed

lemma replay_head_inject:
  fixes es es' :: "'k family_entry list"
  assumes "sha256_law L" "hex_law L" "event_law L" and "inj_on (sha256 L) X" "as_bytes domain \<in> X"
    and "replay_all L kind domain (book_new L domain origin) es = Ok b"
    and "replay_all L kind domain (book_new L domain origin) es' = Ok b'"
    and "replay_preimages L kind domain (book_new L domain origin) es \<subseteq> X"
    and "replay_preimages L kind domain (book_new L domain origin) es' \<subseteq> X"
    and "book_head b = book_head b'"
  shows "es = es'"
  using assms(6-10)
proof (induction es arbitrary: es' b b' rule: rev_induct)
  case Nil
  then have "book_head b' = hash_bytes L (as_bytes domain)" by (auto simp: book_new_def)
  then have "es' \<noteq> fs @ [f]" for fs f
    using replay_head_not_empty [OF assms(1,2) _ assms(4,5), of kind "book_new L domain origin" fs f b'] Nil.prems(2,4)
    by auto
  then show ?case by (cases es' rule: rev_cases) auto
next
  case old: (snoc e es)
  show ?case
  proof (cases es' rule: rev_cases)
    case Nil
    then have "book_head b = hash_bytes L (as_bytes domain)" using old.prems(2,5) by (auto simp: book_new_def)
    then show ?thesis using replay_head_not_empty [OF assms(1,2) old.prems(1) assms(4,5) old.prems(3)] by simp
  next
    case es': (snoc fs f)
    from old.prems(1) obtain c m where c: "replay_all L kind domain (book_new L domain origin) es = Ok c"
      and m: "event_to_vec L kind (book_head c) (erased_entry kind e) = Some m"
      and b: "book_head b = hash_bytes L (event_preimage domain m)" "ref_origin (entry_reference e) = book_origin c"
      and pre: "replay_preimages L kind domain (book_new L domain origin) (es @ [e])
        = insert (event_preimage domain m) (replay_preimages L kind domain (book_new L domain origin) es)"
      by (rule replay_snocE)
    from old.prems(2) [unfolded es'] obtain c' m' where c': "replay_all L kind domain (book_new L domain origin) fs = Ok c'"
      and m': "event_to_vec L kind (book_head c') (erased_entry kind f) = Some m'"
      and b': "book_head b' = hash_bytes L (event_preimage domain m')" "ref_origin (entry_reference f) = book_origin c'"
      and pre': "replay_preimages L kind domain (book_new L domain origin) (fs @ [f])
        = insert (event_preimage domain m') (replay_preimages L kind domain (book_new L domain origin) fs)"
      by (rule replay_snocE)
    have "event_preimage domain m = event_preimage domain m'"
      by (rule hash_bytes_injD [OF assms(1,2,4)]) (use old.prems(3-5) es' b b' pre pre' in auto)
    moreover have "any_origin (fst (erased_entry kind e)) = any_origin (fst (erased_entry kind f))"
      using b b' replay_all_new(1) [OF c] replay_all_new(1) [OF c'] by (simp add: erased_entry_def erase_def)
    ultimately have "book_head c = book_head c'" "e = f"
      using event_lawD [OF assms(3) _ m, of "erased_entry kind f"] m' by (auto simp: event_preimage_inject)
    then show ?thesis
      using old.IH [OF c c'] old.prems(3,4) pre pre' es' by auto
  qed
qed

end
