(* ===== verification/Judgment_Authority.thy ===== *)
theory Judgment_Authority
  imports Judgment_Books
begin

text \<open>
  Committed admission evidence and the reconstruction of effect authority from it:
  \<open>crates/ag-kernel/src/authority.rs\<close>. The one authority family is \<open>EffectFamily\<close>, whose witness
  is the effect-crossing witness.
\<close>

section \<open>Commits\<close>

text \<open>\<open>serde_jcs::to_vec\<close> at the three types this file serializes.\<close>

record authority_lib = book_lib +
  effect_witness_to_vec :: "EffectCrossingWitness \<Rightarrow> bytes option"
  commit_pair_to_vec :: "Digest \<times> Digest \<Rightarrow> bytes option"
  context_to_vec :: "Digest \<times> Digest \<times> Digest \<times> Digest \<Rightarrow> bytes option"

datatype AuthorityError =
    WitnessDigestMismatch
  | CommitDigestMismatch
  | EvaluationContextMismatch
  | ReplayRefused
  | ReplayWitnessMismatch
  | Authority_Canonicalization

definition EFFECT_FAMILY_DOMAIN :: string where
  "EFFECT_FAMILY_DOMAIN = ''effect-crossing''"

definition domain_digest ::
  "'l digest_lib_scheme \<Rightarrow> ('v \<Rightarrow> bytes option) \<Rightarrow> string \<Rightarrow> 'v \<Rightarrow> AuthorityError + Digest" where
  "domain_digest L to_vec domain value =
     try_then (ok_or (to_vec value) Authority_Canonicalization) (\<lambda>encoded.
       Ok (hash_bytes L (as_bytes domain @ [0] @ encoded)))"

record AdmissionCommit =
  commit_witness :: EffectCrossingWitness
  commit_witness_digest :: Digest
  evaluation_context_digest :: Digest
  commit_commit_digest :: Digest

definition witness_digest :: "'l authority_lib_scheme \<Rightarrow> EffectCrossingWitness \<Rightarrow> AuthorityError + Digest" where
  "witness_digest L w =
     domain_digest L (effect_witness_to_vec L) (''ag-ng:'' @ EFFECT_FAMILY_DOMAIN @ '':witness:v1'') w"

definition commit_digest :: "'l authority_lib_scheme \<Rightarrow> Digest \<Rightarrow> Digest \<Rightarrow> AuthorityError + Digest" where
  "commit_digest L witness context =
     domain_digest L (commit_pair_to_vec L) (''ag-ng:'' @ EFFECT_FAMILY_DOMAIN @ '':admission-commit:v1'') (witness, context)"

definition effect_context_digest ::
  "'l authority_lib_scheme \<Rightarrow> Digest \<Rightarrow> Digest \<Rightarrow> Digest \<Rightarrow> Digest \<Rightarrow> AuthorityError + Digest" where
  "effect_context_digest L standing custody obligation capacity =
     domain_digest L (context_to_vec L) ''ag-ng:effect-crossing:context:v1'' (standing, custody, obligation, capacity)"

definition effect_context_digest_from_witness ::
  "'l authority_lib_scheme \<Rightarrow> EffectCrossingWitness \<Rightarrow> AuthorityError + Digest" where
  "effect_context_digest_from_witness L w =
     effect_context_digest L (witness_book_head (ew_standing w)) (witness_book_head (ew_custody w))
       (witness_book_head (ew_obligation w)) (witness_book_head (ew_capacity w))"

definition admission_commit_new ::
  "'l authority_lib_scheme \<Rightarrow> EffectCrossingWitness \<Rightarrow> Digest \<Rightarrow> AuthorityError + AdmissionCommit" where
  "admission_commit_new L witness context =
     try_then (witness_digest L witness) (\<lambda>wd.
     try_then (commit_digest L wd context) (\<lambda>cd.
       Ok \<lparr>commit_witness = witness, commit_witness_digest = wd,
           evaluation_context_digest = context, commit_commit_digest = cd\<rparr>))"

definition admission_commit_effect ::
  "'l authority_lib_scheme \<Rightarrow> EffectCrossingWitness \<Rightarrow> AuthorityError + AdmissionCommit" where
  "admission_commit_effect L witness =
     try_then (effect_context_digest_from_witness L witness) (\<lambda>context. admission_commit_new L witness context)"

section \<open>Reconstruction\<close>

record Authority =
  authority_witness :: EffectCrossingWitness
  authority_commit_digest :: Digest

definition from_verified :: "AdmissionCommit \<Rightarrow> Authority" where
  "from_verified r = \<lparr>authority_witness = commit_witness r, authority_commit_digest = commit_commit_digest r\<rparr>"

definition verify_record :: "'l authority_lib_scheme \<Rightarrow> AdmissionCommit \<Rightarrow> AuthorityError + unit" where
  "verify_record L r =
     try_then (witness_digest L (commit_witness r)) (\<lambda>observed_witness.
       if observed_witness \<noteq> commit_witness_digest r then Err WitnessDigestMismatch
       else try_then (commit_digest L (commit_witness_digest r) (evaluation_context_digest r)) (\<lambda>observed_commit.
         if observed_commit \<noteq> commit_commit_digest r then Err CommitDigestMismatch else Ok ()))"

definition claim_of_effect_witness :: "EffectCrossingWitness \<Rightarrow> EffectCrossingClaim" where
  "claim_of_effect_witness w =
     \<lparr>ec_standing = witness_claim (ew_standing w), ec_custody = witness_claim (ew_custody w),
      ec_obligation = witness_claim (ew_obligation w), ec_capacity = witness_claim (ew_capacity w)\<rparr>"

definition reconstruct_effect_authority ::
  "'l authority_lib_scheme \<Rightarrow> StandingBook \<Rightarrow> CustodyBook \<Rightarrow> ObligationBook \<Rightarrow> CapacityBook
   \<Rightarrow> AdmissionCommit \<Rightarrow> AuthorityError + Authority" where
  "reconstruct_effect_authority L standing_book custody_book obligation_book capacity_book r =
     try_then (verify_record L r) (\<lambda>_.
     try_then (effect_context_digest L (book_head standing_book) (book_head custody_book)
         (book_head obligation_book) (book_head capacity_book)) (\<lambda>context.
       if evaluation_context_digest r \<noteq> context then Err EvaluationContextMismatch
       else case evaluate_effect_crossing standing_book custody_book obligation_book capacity_book
              (claim_of_effect_witness (commit_witness r)) of
           Refuse _ \<Rightarrow> Err ReplayRefused
         | Admit replayed \<Rightarrow>
             if replayed \<noteq> commit_witness r then Err ReplayWitnessMismatch else Ok (from_verified r)))"

section \<open>Lemmas\<close>

lemma admission_commit_effect_Ok:
  "admission_commit_effect L w = Ok r \<longleftrightarrow>
     commit_witness r = w \<and> verify_record L r = Ok ()
     \<and> effect_context_digest_from_witness L w = Ok (evaluation_context_digest r)"
  by (cases r) (auto simp: admission_commit_effect_def admission_commit_new_def verify_record_def)

lemma effect_crossing_claim:
  "evaluate_effect_crossing sb cb ob kb claim = Admit w \<Longrightarrow> claim_of_effect_witness w = claim"
  by (simp add: effect_crossing_Admit claim_of_effect_witness_def native_witness_def)

lemma effect_crossing_context:
  "evaluate_effect_crossing sb cb ob kb claim = Admit w \<Longrightarrow>
     effect_context_digest_from_witness L w
       = effect_context_digest L (book_head sb) (book_head cb) (book_head ob) (book_head kb)"
  by (simp add: effect_crossing_Admit effect_context_digest_from_witness_def native_witness_def)

lemma reconstruct_iff:
  "reconstruct_effect_authority L sb cb ob kb r = Ok a \<longleftrightarrow>
     (\<exists>claim. evaluate_effect_crossing sb cb ob kb claim = Admit (commit_witness r))
     \<and> admission_commit_effect L (commit_witness r) = Ok r \<and> a = from_verified r"
proof
  assume "reconstruct_effect_authority L sb cb ob kb r = Ok a"
  then show "(\<exists>claim. evaluate_effect_crossing sb cb ob kb claim = Admit (commit_witness r))
     \<and> admission_commit_effect L (commit_witness r) = Ok r \<and> a = from_verified r"
    using effect_crossing_context [of sb cb ob kb "claim_of_effect_witness (commit_witness r)" "commit_witness r" L]
    by (auto simp: reconstruct_effect_authority_def admission_commit_effect_Ok split: if_splits NativeJudgment.splits)
next
  assume *: "(\<exists>claim. evaluate_effect_crossing sb cb ob kb claim = Admit (commit_witness r))
     \<and> admission_commit_effect L (commit_witness r) = Ok r \<and> a = from_verified r"
  then obtain claim where "evaluate_effect_crossing sb cb ob kb claim = Admit (commit_witness r)" by blast
  then show "reconstruct_effect_authority L sb cb ob kb r = Ok a"
    using * effect_crossing_claim [of sb cb ob kb claim "commit_witness r"]
      effect_crossing_context [of sb cb ob kb claim "commit_witness r" L]
    by (simp add: reconstruct_effect_authority_def admission_commit_effect_Ok)
qed

end
