(* ===== verification/Judgment_Recompose.thy ===== *)
theory Judgment_Recompose
  imports Judgment_Calculus
begin

text \<open>
  Exact accounting at a recomposition boundary: \<open>crates/ag-kernel/src/recomposition.rs\<close>.
\<close>

record BoundaryRequirement =
  req_boundary_id :: Digest
  expected_slice_digest :: Digest

datatype ManifestError = Manifest_Empty | Manifest_DuplicateBoundary

record BoundaryManifest =
  manifest_origin :: LifecycleOrigin
  whole_claim_digest :: Digest
  requirements :: "BoundaryRequirement NonEmpty"

text \<open>The loop over \<open>values[index + 1..]\<close>.\<close>

fun repeated_boundary :: "BoundaryRequirement list \<Rightarrow> bool" where
  "repeated_boundary [] = False"
| "repeated_boundary (r # rs) =
     (list_ex (\<lambda>other. req_boundary_id other = req_boundary_id r) rs \<or> repeated_boundary rs)"

definition manifest_new ::
  "LifecycleOrigin \<Rightarrow> Digest \<Rightarrow> BoundaryRequirement list \<Rightarrow> ManifestError + BoundaryManifest" where
  "manifest_new origin whole reqs =
     try_then (ok_or (ne_from_vec reqs) Manifest_Empty) (\<lambda>reqs.
       if repeated_boundary (ne_iter reqs) then Err Manifest_DuplicateBoundary
       else Ok \<lparr>manifest_origin = origin, whole_claim_digest = whole, requirements = reqs\<rparr>)"

record 'o BoundarySlice =
  slice_origin :: LifecycleOrigin
  slice_boundary_id :: Digest
  slice_digest :: Digest
  slice_verdict :: "'o PathVerdict"

record 'o AccountedBoundary =
  acc_boundary_id :: Digest
  acc_slice_digest :: Digest
  acc_verdict :: "'o PathVerdict"

record 'o RecompositionWitness =
  rw_origin :: LifecycleOrigin
  rw_whole_claim_digest :: Digest
  rw_boundaries :: "'o AccountedBoundary NonEmpty"

datatype 'o RecompositionFailure =
    MissingBoundary Digest
  | DuplicateBoundary Digest
  | UnaccountedBoundary Digest
  | Slice_ForeignOrigin Digest LifecycleOrigin LifecycleOrigin
  | RewrittenSlice Digest Digest Digest
  | ObstructedBoundary Digest "'o LocatedObstruction NonEmpty"

datatype 'o RecompositionRefusal = RecompositionRefusal (recomposition_failures: "'o RecompositionFailure NonEmpty")

text \<open>The failures of one slice in the first loop, and of one requirement in the second.\<close>

definition slice_failures :: "BoundaryManifest \<Rightarrow> 'o BoundarySlice \<Rightarrow> 'o RecompositionFailure list" where
  "slice_failures manifest presented =
     (if \<not> list_ex (\<lambda>required. req_boundary_id required = slice_boundary_id presented) (ne_iter (requirements manifest))
      then [UnaccountedBoundary (slice_boundary_id presented)] else [])
     @ (if slice_origin presented \<noteq> manifest_origin manifest
        then [Slice_ForeignOrigin (slice_boundary_id presented) (manifest_origin manifest) (slice_origin presented)] else [])"

definition matched_failures :: "BoundaryRequirement \<Rightarrow> 'o BoundarySlice \<Rightarrow> 'o RecompositionFailure list" where
  "matched_failures requirement presented =
     (if slice_digest presented \<noteq> expected_slice_digest requirement
      then [RewrittenSlice (req_boundary_id requirement) (expected_slice_digest requirement) (slice_digest presented)] else [])
     @ (if \<not> is_clean (slice_verdict presented)
        then (case ne_from_vec (obstructions (slice_verdict presented)) of
                Some located \<Rightarrow> [ObstructedBoundary (req_boundary_id requirement) located]
              | None \<Rightarrow> []) else [])"

definition requirement_failures ::
  "'o BoundarySlice list \<Rightarrow> BoundaryRequirement \<Rightarrow> 'o RecompositionFailure list" where
  "requirement_failures slices requirement =
     (let matching = filter (\<lambda>presented. slice_boundary_id presented = req_boundary_id requirement) slices
      in if matching = [] then [MissingBoundary (req_boundary_id requirement)]
         else (if 1 < length matching then [DuplicateBoundary (req_boundary_id requirement)] else [])
              @ concat (map (matched_failures requirement) matching))"

text \<open>The last loop, which stops at the first requirement without a slice.\<close>

fun account_boundaries ::
  "'o BoundarySlice list \<Rightarrow> BoundaryRequirement list \<Rightarrow> Digest + 'o AccountedBoundary list" where
  "account_boundaries slices [] = Ok []"
| "account_boundaries slices (required # rest) =
     (case find (\<lambda>presented. slice_boundary_id presented = req_boundary_id required) slices of
        None \<Rightarrow> Err (req_boundary_id required)
      | Some presented \<Rightarrow> try_then (account_boundaries slices rest) (\<lambda>boundaries.
          Ok (\<lparr>acc_boundary_id = slice_boundary_id presented, acc_slice_digest = slice_digest presented,
              acc_verdict = slice_verdict presented\<rparr> # boundaries)))"

definition recompose ::
  "BoundaryManifest \<Rightarrow> 'o BoundarySlice list \<Rightarrow> ('o RecompositionWitness, 'o RecompositionRefusal) NativeJudgment" where
  "recompose manifest slices =
     (case ne_from_vec (concat (map (slice_failures manifest) slices)
             @ concat (map (requirement_failures slices) (ne_iter (requirements manifest)))) of
        Some failures \<Rightarrow> Refuse (RecompositionRefusal failures)
      | None \<Rightarrow> (case account_boundaries slices (ne_iter (requirements manifest)) of
          Err missing \<Rightarrow> Refuse (RecompositionRefusal (ne_new (MissingBoundary missing)))
        | Ok boundaries \<Rightarrow> (case ne_from_vec boundaries of
            None \<Rightarrow> Refuse (RecompositionRefusal
              (ne_new (MissingBoundary (req_boundary_id (ne_head (requirements manifest))))))
          | Some boundaries \<Rightarrow> Admit
              \<lparr>rw_origin = manifest_origin manifest, rw_whole_claim_digest = whole_claim_digest manifest,
               rw_boundaries = boundaries\<rparr>)))"

section \<open>Lemmas\<close>

lemma repeated_boundary_distinct: "repeated_boundary rs \<longleftrightarrow> \<not> distinct (map req_boundary_id rs)"
proof -
  have "list_ex (\<lambda>other. req_boundary_id other = b) rs \<longleftrightarrow> b \<in> req_boundary_id ` set rs" for b rs
    by (auto simp: list_ex_iff)
  then show ?thesis by (induction rs) auto
qed

lemma manifest_new_Ok:
  "manifest_new origin whole reqs = Ok m \<longleftrightarrow>
     reqs \<noteq> [] \<and> distinct (map req_boundary_id reqs)
     \<and> manifest_origin m = origin \<and> whole_claim_digest m = whole \<and> ne_iter (requirements m) = reqs"
  by (cases m; cases reqs) (auto simp: manifest_new_def repeated_boundary_distinct ok_or_def ne_iter_inject [symmetric])

text \<open>
  A slice that exactly answers a requirement, and the reference condition of recomposition: as
  multisets the presented slices are exactly the required ones, clean and of the manifest's origin.
\<close>

definition exact_slice :: "BoundaryManifest \<Rightarrow> BoundaryRequirement \<Rightarrow> 'o BoundarySlice" where
  "exact_slice manifest r =
     \<lparr>slice_origin = manifest_origin manifest, slice_boundary_id = req_boundary_id r,
      slice_digest = expected_slice_digest r, slice_verdict = path_clean\<rparr>"

lemma slice_failures_none:
  "slice_failures manifest presented = [] \<longleftrightarrow>
     slice_boundary_id presented \<in> req_boundary_id ` set (ne_iter (requirements manifest))
     \<and> slice_origin presented = manifest_origin manifest"
  by (auto simp: slice_failures_def list_ex_iff image_iff intro: sym)

lemma matched_failures_none:
  "matched_failures r presented = [] \<longleftrightarrow>
     slice_digest presented = expected_slice_digest r \<and> slice_verdict presented = path_clean"
  by (auto simp: matched_failures_def is_clean_iff path_clean_def PathVerdict.expand is_clean_def split: option.splits)

lemma requirement_failures_none:
  "requirement_failures slices r = [] \<longleftrightarrow>
     (\<exists>presented. filter (\<lambda>s. slice_boundary_id s = req_boundary_id r) slices = [presented]
        \<and> slice_digest presented = expected_slice_digest r \<and> slice_verdict presented = path_clean)"
proof (cases "filter (\<lambda>s. slice_boundary_id s = req_boundary_id r) slices")
  case Nil
  then show ?thesis by (simp add: requirement_failures_def)
next
  case (Cons s ss)
  then show ?thesis by (cases ss) (auto simp: requirement_failures_def Let_def matched_failures_none)
qed

definition accounted_boundary :: "BoundaryRequirement \<Rightarrow> 'o AccountedBoundary" where
  "accounted_boundary r =
     \<lparr>acc_boundary_id = req_boundary_id r, acc_slice_digest = expected_slice_digest r, acc_verdict = path_clean\<rparr>"

lemma mset_by_key:
  "mset xs = mset ys \<longleftrightarrow> (\<forall>k. mset (filter (\<lambda>x. f x = k) xs) = mset (filter (\<lambda>x. f x = k) ys))"
proof
  assume *: "\<forall>k. mset (filter (\<lambda>x. f x = k) xs) = mset (filter (\<lambda>x. f x = k) ys)"
  show "mset xs = mset ys"
  proof (rule multiset_eqI)
    fix x
    have "count (mset (filter (\<lambda>y. f y = f x) xs)) x = count (mset (filter (\<lambda>y. f y = f x) ys)) x"
      using * by simp
    then show "count (mset xs) x = count (mset ys) x" by simp
  qed
qed (simp add: mset_filter)

lemma filter_exact_slices:
  "distinct (map req_boundary_id rs) \<Longrightarrow>
     filter (\<lambda>s. slice_boundary_id s = k) (map (exact_slice m) rs)
       = map (exact_slice m) (filter (\<lambda>r. req_boundary_id r = k) rs)"
  by (induction rs) (simp_all add: exact_slice_def)

lemma filter_requirement:
  assumes "distinct (map req_boundary_id rs)" and "r \<in> set rs"
  shows "filter (\<lambda>r'. req_boundary_id r' = req_boundary_id r) rs = [r]"
  using assms
proof (induction rs)
  case (Cons x rs)
  show ?case
  proof (cases "x = r")
    case True
    then have "\<forall>r' \<in> set rs. req_boundary_id r' \<noteq> req_boundary_id r"
      using Cons.prems(1) by (auto simp: image_iff)
    then show ?thesis using True by (simp add: filter_empty_conv)
  next
    case False
    then have "r \<in> set rs" and "req_boundary_id x \<noteq> req_boundary_id r"
      using Cons.prems by (auto simp: image_iff)
    then show ?thesis using Cons by simp
  qed
qed simp

lemma filter_exact_slice:
  assumes "distinct (map req_boundary_id rs)" and "r \<in> set rs"
  shows "filter (\<lambda>s. slice_boundary_id s = req_boundary_id r) (map (exact_slice m) rs) = [exact_slice m r]"
  unfolding filter_exact_slices [OF assms(1)] filter_requirement [OF assms] by simp

lemma find_filter: "find P xs = (case filter P xs of [] \<Rightarrow> None | x # _ \<Rightarrow> Some x)"
  by (induction xs) simp_all

lemma account_boundaries_exact:
  assumes "\<forall>r \<in> set rs. filter (\<lambda>s. slice_boundary_id s = req_boundary_id r) slices = [exact_slice m r]"
  shows "account_boundaries slices rs = Ok (map accounted_boundary rs)"
  using assms by (induction rs) (simp_all add: find_filter exact_slice_def accounted_boundary_def)

lemma mset_single_list: "mset xs = mset [a] \<Longrightarrow> xs = [a]"
  by (cases xs) simp_all

lemma exact_filter:
  assumes "distinct (map req_boundary_id reqs)" and "mset slices = mset (map (exact_slice m) reqs)"
    and "r \<in> set reqs"
  shows "filter (\<lambda>s. slice_boundary_id s = req_boundary_id r) slices = [exact_slice m r]"
proof -
  have "mset (filter (\<lambda>s. slice_boundary_id s = req_boundary_id r) slices)
      = mset (filter (\<lambda>s. slice_boundary_id s = req_boundary_id r) (map (exact_slice m) reqs))"
    using assms(2) by (simp only: mset_filter)
  then show ?thesis
    unfolding filter_exact_slice [OF assms(1,3)] by (rule mset_single_list)
qed

lemma no_failures_iff:
  fixes slices :: "'o BoundarySlice list" and m :: BoundaryManifest
  defines "reqs \<equiv> ne_iter (requirements m)"
  assumes "distinct (map req_boundary_id reqs)"
  shows "concat (map (slice_failures m) slices) @ concat (map (requirement_failures slices) reqs) = []
    \<longleftrightarrow> mset slices = mset (map (exact_slice m) reqs)"
proof
  assume none: "concat (map (slice_failures m) slices) @ concat (map (requirement_failures slices) reqs) = []"
  have "mset (filter (\<lambda>s. slice_boundary_id s = k) slices)
      = mset (filter (\<lambda>s. slice_boundary_id s = k) (map (exact_slice m) reqs))" for k
  proof (cases "k \<in> req_boundary_id ` set reqs")
    case True
    then obtain r where r: "r \<in> set reqs" "k = req_boundary_id r" by blast
    then obtain s where s: "filter (\<lambda>s. slice_boundary_id s = k) slices = [s]"
      and digest: "slice_digest s = expected_slice_digest r" "slice_verdict s = path_clean"
      using none by (auto simp: requirement_failures_none)
    have "s \<in> set (filter (\<lambda>s. slice_boundary_id s = k) slices)" by (simp add: s)
    then have "slice_origin s = manifest_origin m" "slice_boundary_id s = k"
      using none by (auto simp: slice_failures_none)
    then have "s = exact_slice m r" using digest r(2) by (simp add: exact_slice_def)
    then show ?thesis unfolding r(2) filter_exact_slice [OF assms(2) r(1)] using s r(2) by simp
  next
    case False
    then have "filter (\<lambda>s. slice_boundary_id s = k) slices = []"
      using none by (auto simp: filter_empty_conv slice_failures_none reqs_def)
    moreover have "filter (\<lambda>r. req_boundary_id r = k) reqs = []"
      using False by (auto simp: filter_empty_conv)
    ultimately show ?thesis unfolding filter_exact_slices [OF assms(2)] by simp
  qed
  then show "mset slices = mset (map (exact_slice m) reqs)" using mset_by_key by blast
next
  assume eq: "mset slices = mset (map (exact_slice m) reqs)"
  have "\<forall>r \<in> set reqs. filter (\<lambda>s. slice_boundary_id s = req_boundary_id r) slices = [exact_slice m r]"
    using exact_filter [OF assms(2) eq] by blast
  then have "\<forall>r \<in> set reqs. requirement_failures slices r = []"
    by (auto simp: requirement_failures_none exact_slice_def)
  moreover have "\<forall>s \<in> set slices. slice_failures m s = []"
    using mset_eq_setD [OF eq] by (auto simp: slice_failures_none exact_slice_def reqs_def)
  ultimately show "concat (map (slice_failures m) slices) @ concat (map (requirement_failures slices) reqs) = []"
    by simp
qed

lemma ne_from_vec_self: "ne_from_vec (ne_iter n) = Some n"
  by (simp add: ne_from_vec_iter)

lemma recompose_Admit:
  assumes "distinct (map req_boundary_id (ne_iter (requirements m)))"
  shows "recompose m slices = Admit w \<longleftrightarrow>
    mset slices = mset (map (exact_slice m) (ne_iter (requirements m)))
    \<and> w = \<lparr>rw_origin = manifest_origin m, rw_whole_claim_digest = whole_claim_digest m,
          rw_boundaries = ne_map accounted_boundary (requirements m)\<rparr>"
proof -
  let ?failures = "concat (map (slice_failures m) slices)
    @ concat (map (requirement_failures slices) (ne_iter (requirements m)))"
  show ?thesis
  proof (cases "?failures = []")
    case True
    then have "\<forall>r \<in> set (ne_iter (requirements m)).
        filter (\<lambda>s. slice_boundary_id s = req_boundary_id r) slices = [exact_slice m r]"
      using exact_filter [OF assms] no_failures_iff [OF assms, of slices] by blast
    then have "account_boundaries slices (ne_iter (requirements m))
        = Ok (ne_iter (ne_map accounted_boundary (requirements m)))"
      using account_boundaries_exact by simp
    moreover have "mset slices = mset (map (exact_slice m) (ne_iter (requirements m)))"
      using True no_failures_iff [OF assms] by blast
    ultimately show ?thesis
      unfolding recompose_def True by (auto simp: ne_from_vec_self simp del: ne_iter_simps)
  next
    case False
    then show ?thesis
      using no_failures_iff [OF assms, of slices] unfolding recompose_def by (cases ?failures) auto
  qed
qed

end
