(* ===== verification/Calculus_Ledger.thy ===== *)
theory Calculus_Ledger
  imports Judgment_Calculus
begin

text \<open>
  The correspondence membrane for adapted decisions and its one-use ledger:
  \<open>crates/ag-kernel/src/correspondence.rs\<close>. A \<open>BTreeMap\<close> is the list of its entries by
  ascending key. Serialization of a generic outcome is an argument of the operations, since it
  depends on the native evidence types.
\<close>

section \<open>Contexts and decisions\<close>

record calculus_lib = origin_lib +
  use_to_vec :: "Digest \<times> Digest \<times> LifecycleOrigin \<Rightarrow> bytes option"

definition CALCULUS_ADAPTER_SCHEMA_V1 :: string where
  "CALCULUS_ADAPTER_SCHEMA_V1 = ''ag.calculus-adapter/v1''"

definition ADMISSIBILITY_CALCULUS_REVISION_V1 :: string where
  "ADMISSIBILITY_CALCULUS_REVISION_V1 = ''ff491b808ebeab2a132d9ade46d234cf85dcfbe9''"

definition ADMISSIBILITY_CALCULUS_RELEASE_V1 :: string where
  "ADMISSIBILITY_CALCULUS_RELEASE_V1 = ''14.0.0''"

record CalculusAdapterContextV1 =
  ctx_schema :: string
  calculus_revision :: string
  calculus_release :: string
  ctx_authority_domain :: AuthorityDomainId
  ctx_epoch :: EpochId
  ctx_lifecycle_origin :: LifecycleOrigin
  evaluator_identity :: Digest
  input_digest :: Digest

datatype CalculusAdapterError =
    SchemaMismatch
  | CalculusBaselineMismatch
  | LifecycleContextMismatch
  | DecisionDigestMismatch
  | ForeignLifecycleOrigin
  | DecisionAlreadyConsumed
  | UseReceiptMismatch
  | Calculus_Canonicalization

definition adapter_context_new ::
  "AuthorityDomainId \<Rightarrow> EpochId \<Rightarrow> LifecycleOrigin \<Rightarrow> Digest \<Rightarrow> Digest \<Rightarrow> CalculusAdapterContextV1" where
  "adapter_context_new domain epoch origin evaluator inp =
     \<lparr>ctx_schema = CALCULUS_ADAPTER_SCHEMA_V1,
      calculus_revision = ADMISSIBILITY_CALCULUS_REVISION_V1,
      calculus_release = ADMISSIBILITY_CALCULUS_RELEASE_V1,
      ctx_authority_domain = domain, ctx_epoch = epoch, ctx_lifecycle_origin = origin,
      evaluator_identity = evaluator, input_digest = inp\<rparr>"

definition context_verify :: "CalculusAdapterContextV1 \<Rightarrow> CalculusAdapterError + unit" where
  "context_verify c =
     (if ctx_schema c \<noteq> CALCULUS_ADAPTER_SCHEMA_V1 then Err SchemaMismatch
      else if calculus_revision c \<noteq> ADMISSIBILITY_CALCULUS_REVISION_V1
              \<or> calculus_release c \<noteq> ADMISSIBILITY_CALCULUS_RELEASE_V1
      then Err CalculusBaselineMismatch
      else if authority_domain (ctx_lifecycle_origin c) \<noteq> ctx_authority_domain c
              \<or> origin_epoch (ctx_lifecycle_origin c) \<noteq> ctx_epoch c
      then Err LifecycleContextMismatch
      else Ok ())"

definition canonical_digest ::
  "'l jcs_lib_scheme \<Rightarrow> ('v \<Rightarrow> bytes option) \<Rightarrow> string \<Rightarrow> 'v \<Rightarrow> CalculusAdapterError + Digest" where
  "canonical_digest L to_vec domain value =
     try_then (map_err (\<lambda>_. Calculus_Canonicalization) (jcs_canonicalize L to_vec value)) (\<lambda>encoded.
       Ok (hash_bytes L (as_bytes domain @ [0] @ encoded)))"

datatype CalculusDispositionV1 = Disposition_Admit | Disposition_Refuse | Disposition_Indeterminate

record ('w, 'r) CalculusDecisionV1 =
  dec_context :: CalculusAdapterContextV1
  dec_outcome :: "('w, 'r) OperationalEvaluation"
  dec_decision_digest :: Digest

type_synonym ('w, 'r) decision_serializer =
  "CalculusAdapterContextV1 \<times> ('w, 'r) OperationalEvaluation \<Rightarrow> bytes option"

definition decision_digest ::
  "'l calculus_lib_scheme \<Rightarrow> ('w, 'r) decision_serializer \<Rightarrow> CalculusAdapterContextV1
   \<Rightarrow> ('w, 'r) OperationalEvaluation \<Rightarrow> CalculusAdapterError + Digest" where
  "decision_digest L to_vec c outcome = canonical_digest L to_vec ''ag-ng:calculus-decision:v1'' (c, outcome)"

definition decision_new ::
  "'l calculus_lib_scheme \<Rightarrow> ('w, 'r) decision_serializer \<Rightarrow> CalculusAdapterContextV1
   \<Rightarrow> ('w, 'r) OperationalEvaluation \<Rightarrow> CalculusAdapterError + ('w, 'r) CalculusDecisionV1" where
  "decision_new L to_vec c outcome =
     try_then (context_verify c) (\<lambda>_.
     try_then (decision_digest L to_vec c outcome) (\<lambda>d.
       Ok \<lparr>dec_context = c, dec_outcome = outcome, dec_decision_digest = d\<rparr>))"

definition decision_verify ::
  "'l calculus_lib_scheme \<Rightarrow> ('w, 'r) decision_serializer \<Rightarrow> ('w, 'r) CalculusDecisionV1
   \<Rightarrow> CalculusAdapterError + unit" where
  "decision_verify L to_vec d =
     try_then (context_verify (dec_context d)) (\<lambda>_.
     try_then (decision_digest L to_vec (dec_context d) (dec_outcome d)) (\<lambda>observed.
       if observed \<noteq> dec_decision_digest d then Err DecisionDigestMismatch else Ok ()))"

definition verified_outcome ::
  "'l calculus_lib_scheme \<Rightarrow> ('w, 'r) decision_serializer \<Rightarrow> ('w, 'r) CalculusDecisionV1
   \<Rightarrow> CalculusAdapterError + ('w, 'r) OperationalEvaluation" where
  "verified_outcome L to_vec d = try_then (decision_verify L to_vec d) (\<lambda>_. Ok (dec_outcome d))"

definition disposition ::
  "'l calculus_lib_scheme \<Rightarrow> ('w, 'r) decision_serializer \<Rightarrow> ('w, 'r) CalculusDecisionV1
   \<Rightarrow> CalculusAdapterError + CalculusDispositionV1" where
  "disposition L to_vec d =
     try_then (decision_verify L to_vec d) (\<lambda>_.
       Ok (case dec_outcome d of
             Evaluated (Admit _) \<Rightarrow> Disposition_Admit
           | Evaluated (Refuse _) \<Rightarrow> Disposition_Refuse
           | Indeterminate _ \<Rightarrow> Disposition_Indeterminate))"

section \<open>The ledger\<close>

record CalculusUseReceiptV1 =
  use_decision :: Digest
  use_consumer :: Digest
  use_lifecycle_origin :: LifecycleOrigin
  use_digest :: Digest

definition receipt_verify :: "'l calculus_lib_scheme \<Rightarrow> CalculusUseReceiptV1 \<Rightarrow> CalculusAdapterError + unit" where
  "receipt_verify L r =
     try_then (canonical_digest L (use_to_vec L) ''ag-ng:calculus-decision-use:v1''
         (use_decision r, use_consumer r, use_lifecycle_origin r)) (\<lambda>expected.
       if expected \<noteq> use_digest r then Err UseReceiptMismatch else Ok ())"

record CalculusDecisionLedgerV1 =
  ledger_lifecycle_origin :: LifecycleOrigin
  consumed :: "(Digest \<times> CalculusUseReceiptV1) list"

definition ledger_new :: "LifecycleOrigin \<Rightarrow> CalculusDecisionLedgerV1" where
  "ledger_new origin = \<lparr>ledger_lifecycle_origin = origin, consumed = []\<rparr>"

fun verify_consumed ::
  "'l calculus_lib_scheme \<Rightarrow> LifecycleOrigin \<Rightarrow> (Digest \<times> CalculusUseReceiptV1) list \<Rightarrow> CalculusAdapterError + unit" where
  "verify_consumed L origin [] = Ok ()"
| "verify_consumed L origin ((decision, receipt) # rest) =
     (if decision \<noteq> use_decision receipt \<or> use_lifecycle_origin receipt \<noteq> origin then Err UseReceiptMismatch
      else try_then (receipt_verify L receipt) (\<lambda>_. verify_consumed L origin rest))"

definition ledger_verify :: "'l calculus_lib_scheme \<Rightarrow> CalculusDecisionLedgerV1 \<Rightarrow> CalculusAdapterError + unit" where
  "ledger_verify L ledger = verify_consumed L (ledger_lifecycle_origin ledger) (consumed ledger)"

definition consume ::
  "'l calculus_lib_scheme \<Rightarrow> ('w, 'r) decision_serializer \<Rightarrow> CalculusDecisionLedgerV1
   \<Rightarrow> ('w, 'r) CalculusDecisionV1 \<Rightarrow> Digest
   \<Rightarrow> CalculusAdapterError + (CalculusDecisionLedgerV1 \<times> CalculusUseReceiptV1)" where
  "consume L to_vec ledger decision consumer =
     try_then (ledger_verify L ledger) (\<lambda>_.
     try_then (decision_verify L to_vec decision) (\<lambda>_.
       if ctx_lifecycle_origin (dec_context decision) \<noteq> ledger_lifecycle_origin ledger then Err ForeignLifecycleOrigin
       else if map_of (consumed ledger) (dec_decision_digest decision) \<noteq> None then Err DecisionAlreadyConsumed
       else try_then (canonical_digest L (use_to_vec L) ''ag-ng:calculus-decision-use:v1''
           (dec_decision_digest decision, consumer, ledger_lifecycle_origin ledger)) (\<lambda>use.
         let receipt = \<lparr>use_decision = dec_decision_digest decision, use_consumer = consumer,
                        use_lifecycle_origin = ledger_lifecycle_origin ledger, use_digest = use\<rparr>
         in Ok (ledger \<lparr>consumed := btree_insert (dec_decision_digest decision) receipt (consumed ledger)\<rparr>, receipt))))"

definition ledger_receipt ::
  "'l calculus_lib_scheme \<Rightarrow> CalculusDecisionLedgerV1 \<Rightarrow> Digest
   \<Rightarrow> CalculusAdapterError + CalculusUseReceiptV1 option" where
  "ledger_receipt L ledger decision =
     try_then (ledger_verify L ledger) (\<lambda>_. Ok (map_of (consumed ledger) decision))"

section \<open>Lemmas\<close>

lemma decision_new_verifies: "decision_new L to_vec c outcome = Ok d \<Longrightarrow> decision_verify L to_vec d = Ok ()"
  by (auto simp: decision_new_def decision_verify_def)

lemma verify_consumed_Ok:
  "verify_consumed L origin kvs = Ok () \<longleftrightarrow>
     (\<forall>(decision, receipt) \<in> set kvs. decision = use_decision receipt \<and> use_lifecycle_origin receipt = origin
        \<and> receipt_verify L receipt = Ok ())"
  by (induction L origin kvs rule: verify_consumed.induct) auto

text \<open>A well-formed ledger: the invariant of \<open>BTreeMap\<close> and the verified entries.\<close>

definition ledger_wf :: "'l calculus_lib_scheme \<Rightarrow> CalculusDecisionLedgerV1 \<Rightarrow> bool" where
  "ledger_wf L ledger \<longleftrightarrow> sorted_wrt (<) (map fst (consumed ledger)) \<and> ledger_verify L ledger = Ok ()"

lemma ledger_new_wf: "ledger_wf L (ledger_new origin)"
  by (simp add: ledger_wf_def ledger_new_def ledger_verify_def)

lemma consume_Ok:
  assumes "ledger_wf L ledger" and "consume L to_vec ledger decision consumer = Ok (ledger', receipt)"
  shows "decision_verify L to_vec decision = Ok ()"
    and "map_of (consumed ledger) (dec_decision_digest decision) = None"
    and "map_of (consumed ledger') = (map_of (consumed ledger))(dec_decision_digest decision \<mapsto> receipt)"
    and "ledger_lifecycle_origin ledger' = ledger_lifecycle_origin ledger"
    and "ctx_lifecycle_origin (dec_context decision) = ledger_lifecycle_origin ledger"
    and "use_decision receipt = dec_decision_digest decision" "use_consumer receipt = consumer"
    and "ledger_wf L ledger'"
proof -
  have sorted: "sorted_wrt (<) (map fst (consumed ledger))" and old: "ledger_verify L ledger = Ok ()"
    using assms(1) by (auto simp: ledger_wf_def)
  from assms(2) obtain "use" where verified: "decision_verify L to_vec decision = Ok ()"
    and origin: "ctx_lifecycle_origin (dec_context decision) = ledger_lifecycle_origin ledger"
    and fresh: "map_of (consumed ledger) (dec_decision_digest decision) = None"
    and "use": "canonical_digest L (use_to_vec L) ''ag-ng:calculus-decision-use:v1''
        (dec_decision_digest decision, consumer, ledger_lifecycle_origin ledger) = Ok use"
    and receipt: "receipt = \<lparr>use_decision = dec_decision_digest decision, use_consumer = consumer,
        use_lifecycle_origin = ledger_lifecycle_origin ledger, use_digest = use\<rparr>"
    and ledger': "ledger' = ledger \<lparr>consumed := btree_insert (dec_decision_digest decision) receipt (consumed ledger)\<rparr>"
    by (auto simp: consume_def Let_def split: if_splits)
  show "decision_verify L to_vec decision = Ok ()" "map_of (consumed ledger) (dec_decision_digest decision) = None"
    "ctx_lifecycle_origin (dec_context decision) = ledger_lifecycle_origin ledger"
    by (fact verified fresh origin)+
  show "map_of (consumed ledger') = (map_of (consumed ledger))(dec_decision_digest decision \<mapsto> receipt)"
    "ledger_lifecycle_origin ledger' = ledger_lifecycle_origin ledger"
    "use_decision receipt = dec_decision_digest decision" "use_consumer receipt = consumer"
    using ledger' receipt by (simp_all add: map_of_btree_insert)
  have "set (consumed ledger') = insert (dec_decision_digest decision, receipt) (set (consumed ledger))"
    using fresh ledger' set_btree_insert_new by (simp add: map_of_eq_None_iff)
  moreover have "receipt_verify L receipt = Ok ()" using "use" receipt by (simp add: receipt_verify_def)
  ultimately show "ledger_wf L ledger'"
    using old sorted sorted_btree_insert ledger' receipt
    by (simp add: ledger_wf_def ledger_verify_def verify_consumed_Ok)
qed

text \<open>A history of attempted uses: a refused attempt leaves the ledger as it was.\<close>

primrec use_all ::
  "'l calculus_lib_scheme \<Rightarrow> ('w, 'r) decision_serializer \<Rightarrow> CalculusDecisionLedgerV1
   \<Rightarrow> (('w, 'r) CalculusDecisionV1 \<times> Digest) list
   \<Rightarrow> CalculusDecisionLedgerV1 \<times> (CalculusAdapterError + CalculusUseReceiptV1) list" where
  "use_all L to_vec ledger [] = (ledger, [])"
| "use_all L to_vec ledger (attempt # rest) =
     (case consume L to_vec ledger (fst attempt) (snd attempt) of
        Err e \<Rightarrow> (let (ledger', out) = use_all L to_vec ledger rest in (ledger', Err e # out))
      | Ok (next_ledger, receipt) \<Rightarrow>
          (let (ledger', out) = use_all L to_vec next_ledger rest in (ledger', Ok receipt # out)))"

definition uses_serialize :: "'l calculus_lib_scheme \<Rightarrow> bool" where
  "uses_serialize L = (\<forall>v. is_ok (jcs_canonicalize L (use_to_vec L) v))"

lemma uses_serializeD:
  assumes "uses_serialize L"
  shows "\<exists>b. jcs_canonicalize L (use_to_vec L) v = Ok b"
proof -
  have "is_ok (jcs_canonicalize L (use_to_vec L) v)" using assms unfolding uses_serialize_def by blast
  then show ?thesis by (cases "jcs_canonicalize L (use_to_vec L) v") simp_all
qed

lemma consume_fresh:
  assumes "ledger_wf L ledger" "uses_serialize L" and "decision_verify L to_vec decision = Ok ()"
    and "ctx_lifecycle_origin (dec_context decision) = ledger_lifecycle_origin ledger"
  shows "consume L to_vec ledger decision consumer = Err DecisionAlreadyConsumed
      \<and> map_of (consumed ledger) (dec_decision_digest decision) \<noteq> None
    \<or> (\<exists>ledger' receipt. consume L to_vec ledger decision consumer = Ok (ledger', receipt))"
proof -
  obtain b where "jcs_canonicalize L (use_to_vec L)
      (dec_decision_digest decision, consumer, ledger_lifecycle_origin ledger) = Ok b"
    using uses_serializeD [OF assms(2)] by blast
  then show ?thesis using assms by (auto simp: consume_def ledger_wf_def canonical_digest_def Let_def)
qed

text \<open>The receipts that a history of attempts was given.\<close>

fun granted :: "(CalculusAdapterError + CalculusUseReceiptV1) list \<Rightarrow> CalculusUseReceiptV1 list" where
  "granted [] = []"
| "granted (Inl _ # out) = granted out"
| "granted (Inr receipt # out) = receipt # granted out"

lemma use_all_history:
  assumes "ledger_wf L ledger" and "use_all L to_vec ledger attempts = (ledger', out)"
  shows "ledger_wf L ledger' \<and> ledger_lifecycle_origin ledger' = ledger_lifecycle_origin ledger
    \<and> distinct (map use_decision (granted out))
    \<and> use_decision ` set (granted out) \<inter> dom (map_of (consumed ledger)) = {}
    \<and> map_of (consumed ledger') = map_of (consumed ledger) ++ map_of (map (\<lambda>r. (use_decision r, r)) (granted out))"
  using assms
proof (induction attempts arbitrary: ledger out)
  case (Cons attempt rest)
  show ?case
  proof (cases "consume L to_vec ledger (fst attempt) (snd attempt)")
    case (Inl e)
    with Cons.prems(2) obtain rest_out where "use_all L to_vec ledger rest = (ledger', rest_out)"
      and "out = Err e # rest_out" by (auto split: prod.splits)
    then show ?thesis using Cons.IH [OF Cons.prems(1)] by simp
  next
    case (Inr result)
    then obtain mid receipt where step: "consume L to_vec ledger (fst attempt) (snd attempt) = Ok (mid, receipt)"
      by (cases result) auto
    note facts = consume_Ok [OF Cons.prems(1) step]
    from Cons.prems(2) step obtain rest_out where run: "use_all L to_vec mid rest = (ledger', rest_out)"
      and out: "out = Ok receipt # rest_out" by (auto split: prod.splits)
    note IH = Cons.IH [OF facts(8) run]
    have fresh: "use_decision receipt \<notin> use_decision ` set (granted rest_out)"
      using IH unfolding facts(3,6) by auto
    have disjoint: "use_decision ` set (granted rest_out) \<inter> dom (map_of (consumed ledger)) = {}"
      using IH unfolding facts(3) by auto
    have absent: "map_of (map (\<lambda>r. (use_decision r, r)) (granted rest_out)) (use_decision receipt) = None"
      using fresh by (simp add: map_of_eq_None_iff image_image)
    have "map_of (consumed ledger')
        = (map_of (consumed ledger))(use_decision receipt \<mapsto> receipt) ++ map_of (map (\<lambda>r. (use_decision r, r)) (granted rest_out))"
      using IH unfolding facts(3,6) by blast
    also have "\<dots> = map_of (consumed ledger) ++ map_of (map (\<lambda>r. (use_decision r, r)) (granted out))"
      unfolding out using absent by (auto simp: map_add_def split: option.split)
    finally have final: "map_of (consumed ledger') = map_of (consumed ledger) ++ map_of (map (\<lambda>r. (use_decision r, r)) (granted out))" .
    have "use_decision receipt \<notin> dom (map_of (consumed ledger))"
      using facts(2,6) by (simp add: domIff)
    then have "distinct (map use_decision (granted out))"
      "use_decision ` set (granted out) \<inter> dom (map_of (consumed ledger)) = {}"
      using IH fresh disjoint unfolding out by simp_all
    then show ?thesis using IH facts(4) final by auto
  qed
qed simp

lemma use_all_consumes:
  assumes "ledger_wf L ledger" "uses_serialize L" and "use_all L to_vec ledger attempts = (ledger', out)"
    and "(decision, consumer) \<in> set attempts" and "decision_verify L to_vec decision = Ok ()"
    and "ctx_lifecycle_origin (dec_context decision) = ledger_lifecycle_origin ledger"
  shows "map_of (consumed ledger') (dec_decision_digest decision) \<noteq> None"
  using assms(1,3,4,6)
proof (induction attempts arbitrary: ledger out)
  case (Cons attempt rest)
  note keeps = use_all_history [THEN conjunct2, THEN conjunct2, THEN conjunct2, THEN conjunct2]
  show ?case
  proof (cases "consume L to_vec ledger (fst attempt) (snd attempt)")
    case (Inl e)
    then obtain rest_out where run: "use_all L to_vec ledger rest = (ledger', rest_out)"
      using Cons.prems(2) by (auto split: prod.splits)
    show ?thesis
    proof (cases "(decision, consumer) \<in> set rest")
      case True
      then show ?thesis using Cons.IH [OF Cons.prems(1) run] Cons.prems(4) by blast
    next
      case False
      then have "attempt = (decision, consumer)" using Cons.prems(3) by simp
      then have "map_of (consumed ledger) (dec_decision_digest decision) \<noteq> None"
        using consume_fresh [OF Cons.prems(1) assms(2,5) Cons.prems(4), of consumer] Inl by auto
      then show ?thesis using keeps [OF Cons.prems(1) run] by (auto simp: map_add_def split: option.splits)
    qed
  next
    case (Inr result)
    then obtain mid receipt where step: "consume L to_vec ledger (fst attempt) (snd attempt) = Ok (mid, receipt)"
      by (cases result) auto
    note facts = consume_Ok [OF Cons.prems(1) step]
    from Cons.prems(2) step obtain rest_out where run: "use_all L to_vec mid rest = (ledger', rest_out)"
      by (auto split: prod.splits)
    show ?thesis
    proof (cases "(decision, consumer) \<in> set rest")
      case True
      then show ?thesis using Cons.IH [OF facts(8) run] Cons.prems(4) facts(4) by simp
    next
      case False
      then have "map_of (consumed mid) (dec_decision_digest decision) \<noteq> None"
        using Cons.prems(3) facts(3) by auto
      then show ?thesis using keeps [OF facts(8) run] by (auto simp: map_add_def split: option.splits)
    qed
  qed
qed simp

end
