(* ===== verification/Judgment_Kernel.thy ===== *)
theory Judgment_Kernel
  imports Judgment_Authority Judgment_Recompose Calculus_Ledger
begin

text \<open>
  What the judgment kernel (\<open>crates/ag-kernel\<close>) promises its caller: exact decisions, crossings
  that report every refusal, book heads that commit to their history, authority only by exact
  replay, exact recomposition and one-use projection.
\<close>

section \<open>An instance of the library\<close>

fun demo_text :: "string \<Rightarrow> bytes" where
  "demo_text [] = [0]"
| "demo_text (c # cs) = 1 # of_char c # demo_text cs"

fun demo_book_kind :: "BookKind \<Rightarrow> u8" where
  "demo_book_kind Kind_Standing = 0"
| "demo_book_kind Kind_Custody = 1"
| "demo_book_kind Kind_Obligation = 2"
| "demo_book_kind Kind_Capacity = 3"

fun demo_local_id :: "BookLocalId \<Rightarrow> string" where
  "demo_local_id (BookLocalId s) = s"

definition demo_event :: "BookKind \<Rightarrow> Digest \<Rightarrow> AnyBookRef \<times> Digest \<Rightarrow> bytes option" where
  "demo_event kind head entry =
     Some (demo_text (as_str head) @ [demo_book_kind (any_book (fst entry))]
       @ demo_text (demo_local_id (any_local_id (fst entry))) @ demo_text (as_str (snd entry)))"

definition demo_authority_lib :: authority_lib where
  "demo_authority_lib = \<lparr>sha256 = demo_sha256, hex_encode = demo_hex_encode, hex_decode_32 = demo_hex_decode,
     json_parse = demo_json_parse, jcs_to_vec = demo_jcs_to_vec, hex_decode_16 = (\<lambda>_. None),
     event_to_vec = demo_event, effect_witness_to_vec = (\<lambda>_. Some []), commit_pair_to_vec = (\<lambda>_. Some []),
     context_to_vec = (\<lambda>_. Some [])\<rparr>"

definition demo_calculus_lib :: calculus_lib where
  "demo_calculus_lib = \<lparr>sha256 = demo_sha256, hex_encode = demo_hex_encode, hex_decode_32 = demo_hex_decode,
     json_parse = demo_json_parse, jcs_to_vec = demo_jcs_to_vec, hex_decode_16 = (\<lambda>_. None),
     use_to_vec = (\<lambda>_. Some (as_bytes ''null''))\<rparr>"

lemma demo_authority_laws: "sha256_law demo_authority_lib" "hex_law demo_authority_lib"
  using demo_laws by (auto simp: sha256_law_def hex_law_def demo_authority_lib_def demo_jcs_lib_def)

lemma demo_text_prefix: "demo_text s @ r = demo_text t @ r' \<longleftrightarrow> s = t \<and> r = r'"
proof (induction s arbitrary: t)
  case Nil
  then show ?case by (cases t) auto
next
  case (Cons c s)
  then show ?case by (cases t) auto
qed

lemma demo_text_last: "\<exists>b. demo_text s = b @ [0]"
  by (induction s) (auto intro: exI [of _ "_ # _"])

lemma demo_book_kind_inject [simp]: "demo_book_kind k = demo_book_kind k' \<longleftrightarrow> k = k'"
  by (cases k; cases k') simp_all

lemma demo_event_law: "event_law demo_authority_lib" "events_serialize demo_authority_lib"
proof -
  have local: "demo_local_id i = demo_local_id i' \<longleftrightarrow> i = i'" for i i' by (cases i; cases i') simp
  have digest: "as_str d = as_str d' \<longleftrightarrow> d = d'" for d d' by (cases d; cases d') simp
  have "demo_text s = demo_text t \<longleftrightarrow> s = t" for s t using demo_text_prefix [of s "[]" t "[]"] by simp
  then show "event_law demo_authority_lib"
    unfolding event_law_def
    by (auto simp: demo_authority_lib_def demo_event_def demo_text_prefix local digest intro: AnyBookRef.equality)
  show "events_serialize demo_authority_lib" by (simp add: events_serialize_def demo_authority_lib_def demo_event_def)
qed

definition demo_origin :: LifecycleOrigin where
  "demo_origin = \<lparr>authority_domain = AuthorityDomainId ''ag.test'', origin_epoch = EpochId 1,
     lifecycle_nonce = LifecycleNonce (replicate 16 7)\<rparr>"

definition demo_entry :: "standing_tag family_entry" where
  "demo_entry = \<lparr>entry_reference = BookRef demo_origin (BookLocalId ''s1''), entry_subject_digest = Digest ''s''\<rparr>"

section \<open>Family books\<close>

text \<open>C29. A book replayed from its committed entries decides exactly. Replay accepts the entries when
  their references are pairwise distinct and all of the book's origin, and refuses otherwise. The
  book then holds those entries in order, and admits a claim exactly when the claim carries the
  book's origin and one entry has its reference and its subject; the witness binds the claim to
  the book head.
\<close>

theorem replayed_book_decides_exactly:
  assumes "events_serialize L"
  shows "case replay_all L kind domain (book_new L domain origin) es of
      Err _ \<Rightarrow> \<not> entries_wellformed origin es
    | Ok book \<Rightarrow> entries_wellformed origin es \<and> book_origin book = origin \<and> book_entries book = es
        \<and> (\<forall>claim w. decide book claim = Admit w \<longleftrightarrow>
             claim_origin claim = origin
             \<and> (\<exists>e \<in> set es. entry_reference e = claim_reference claim
                  \<and> entry_subject_digest e = claim_subject_digest claim)
             \<and> w = \<lparr>witness_claim = claim, witness_book_head = book_head book,
                    observed_subject_digest = claim_subject_digest claim\<rparr>)"
proof (cases "replay_all L kind domain (book_new L domain origin) es")
  case (Inl e)
  then show ?thesis using replay_all_total [OF assms, of origin es kind domain] by auto
next
  case (Inr book)
  note facts = replay_all_new [OF Inr]
  have "distinct (map entry_reference (book_entries book))" using facts by (simp add: entries_wellformed_def)
  note entry = abs_book_entry [OF this]
  have "claim_holds book claim \<longleftrightarrow> claim_origin claim = origin
      \<and> (\<exists>e \<in> set es. entry_reference e = claim_reference claim \<and> entry_subject_digest e = claim_subject_digest claim)" for claim
    using facts by (auto simp: claim_holds_def entry entries_wellformed_def)
  then show ?thesis using Inr facts by (simp add: decide_Admit native_witness_def)
qed

theorem replayed_book_decides_exactly_witness:
  "\<exists>book w. replay_all demo_authority_lib Kind_Standing ''standing'' (book_new demo_authority_lib ''standing'' demo_origin) [demo_entry] = Ok book
     \<and> decide book \<lparr>claim_origin = demo_origin, claim_subject_digest = Digest ''s'',
          claim_reference = BookRef demo_origin (BookLocalId ''s1'')\<rparr> = Admit w"
proof -
  have "entries_wellformed demo_origin [demo_entry]" by (simp add: entries_wellformed_def demo_entry_def)
  then show ?thesis
    using replayed_book_decides_exactly [OF demo_event_law(2), where kind = Kind_Standing and domain = "''standing''"
        and origin = demo_origin and es = "[demo_entry]"]
    by (auto simp: demo_entry_def split: sum.splits)
qed

text \<open>C30. A book head commits to the whole history of its book: two replays of one family from one
  origin end with the same head exactly when they replayed the same entries in the same order,
  where SHA-256 has no collision among the byte strings the two replays hash.
\<close>

theorem book_head_commits_to_history:
  fixes es es' :: "'k family_entry list"
  assumes "sha256_law L" "hex_law L" "event_law L"
    and "replay_all L kind domain (book_new L domain origin) es = Ok b"
    and "replay_all L kind domain (book_new L domain origin) es' = Ok b'"
    and "inj_on (sha256 L) ({as_bytes domain} \<union> replay_preimages L kind domain (book_new L domain origin) es
           \<union> replay_preimages L kind domain (book_new L domain origin) es')"
  shows "book_head b = book_head b' \<longleftrightarrow> es = es'"
proof
  assume "book_head b = book_head b'"
  then show "es = es'"
    by (rule replay_head_inject [OF assms(1-3) assms(6) _ assms(4,5), rotated 3]) auto
next
  assume "es = es'"
  then show "book_head b = book_head b'" using assms(4,5) by simp
qed

theorem book_head_commits_to_history_witness:
  "\<exists>b b'. replay_all demo_authority_lib Kind_Standing ''standing''
         (book_new demo_authority_lib ''standing'' demo_origin :: standing_tag family_book) [] = Ok b
     \<and> replay_all demo_authority_lib Kind_Standing ''standing'' (book_new demo_authority_lib ''standing'' demo_origin) [demo_entry] = Ok b'
     \<and> book_head b \<noteq> book_head b'"
proof -
  let ?b = "book_new demo_authority_lib ''standing'' demo_origin :: standing_tag family_book"
  obtain b' where b': "replay_all demo_authority_lib Kind_Standing ''standing'' ?b [demo_entry] = Ok b'"
    using replay_all_total [OF demo_event_law(2), of demo_origin "[demo_entry]"]
    by (auto simp: entries_wellformed_def demo_entry_def)
  obtain m where m: "event_to_vec demo_authority_lib Kind_Standing (book_head ?b) (erased_entry Kind_Standing demo_entry) = Some (m @ [0])"
    using demo_text_last [of "as_str (snd (erased_entry Kind_Standing demo_entry))"]
    by (auto simp: demo_authority_lib_def demo_event_def)
  have pre: "replay_preimages demo_authority_lib Kind_Standing ''standing'' ?b [demo_entry] = {event_preimage ''standing'' (m @ [0])}"
    using m by (simp split: sum.splits)
  have "sha256 demo_authority_lib (as_bytes ''standing'') \<noteq> sha256 demo_authority_lib (event_preimage ''standing'' (m @ [0]))"
  proof
    assume "sha256 demo_authority_lib (as_bytes ''standing'') = sha256 demo_authority_lib (event_preimage ''standing'' (m @ [0]))"
    then have "hd (sha256 demo_authority_lib (as_bytes ''standing'')) = hd (sha256 demo_authority_lib (event_preimage ''standing'' (m @ [0])))"
      by simp
    then show False by (simp add: demo_authority_lib_def demo_sha256_def event_preimage_def as_bytes_def)
  qed
  then have "inj_on (sha256 demo_authority_lib) ({as_bytes ''standing''}
      \<union> replay_preimages demo_authority_lib Kind_Standing ''standing'' ?b []
      \<union> replay_preimages demo_authority_lib Kind_Standing ''standing'' ?b [demo_entry])"
    unfolding pre by (auto simp: inj_on_def)
  then have "book_head ?b = book_head b' \<longleftrightarrow> [] = [demo_entry]"
    by (rule book_head_commits_to_history [OF demo_authority_laws demo_event_law(1) replay_all.simps(1) b'])
  then have "book_head ?b \<noteq> book_head b'" by simp
  then show ?thesis using b' replay_all.simps(1) by blast
qed

section \<open>Crossings and authority\<close>

text \<open>C31. The effect crossing evaluates all four families and stops at none: its refusal is the
  non-empty list of every family's native refusal in order followed by every origin mismatch, and
  it admits exactly when that list is empty, with the four native witnesses.
\<close>

theorem effect_crossing_reports_every_refusal:
  "evaluate_effect_crossing sb cb ob kb claim =
     (case ne_from_vec
        (native_refusals Effect_Standing (decide_standing sb (ec_standing claim))
         @ native_refusals Effect_Custody (decide_custody cb (ec_custody claim))
         @ native_refusals Effect_Obligation (decide_obligation ob (ec_obligation claim))
         @ native_refusals Effect_Capacity (decide_capacity kb (ec_capacity claim))
         @ map (\<lambda>(family, observed). Effect_OriginMismatch family (claim_origin (ec_standing claim)) observed)
             (filter (\<lambda>(family, observed). observed \<noteq> claim_origin (ec_standing claim))
               [(Kind_Custody, claim_origin (ec_custody claim)), (Kind_Obligation, claim_origin (ec_obligation claim)),
                (Kind_Capacity, claim_origin (ec_capacity claim))])) of
        Some failures \<Rightarrow> Refuse (EffectCrossingRefusal failures)
      | None \<Rightarrow> Admit
          \<lparr>ew_standing = native_witness sb (ec_standing claim), ew_custody = native_witness cb (ec_custody claim),
           ew_obligation = native_witness ob (ec_obligation claim), ew_capacity = native_witness kb (ec_capacity claim)\<rparr>)"
  unfolding effect_crossing_reference by (simp add: effect_crossing_failures_def)

text \<open>C32. Effect authority is reconstructed exactly from a commit record whose witness is what the
  supplied four books admit now and whose three digests are those that committing this witness
  writes: nothing else in the record is trusted, and a record written for an admitted crossing
  reconstructs as long as the books have not moved. The authority carries that witness and the
  record's commitment.
\<close>

theorem effect_authority_is_exactly_replayable:
  "reconstruct_effect_authority L sb cb ob kb r = Ok a \<longleftrightarrow>
     admission_commit_effect L (commit_witness r) = Ok r
     \<and> (\<exists>claim :: EffectCrossingClaim. claim_holds sb (ec_standing claim) \<and> claim_holds cb (ec_custody claim)
          \<and> claim_holds ob (ec_obligation claim) \<and> claim_holds kb (ec_capacity claim)
          \<and> claim_origin (ec_custody claim) = claim_origin (ec_standing claim)
          \<and> claim_origin (ec_obligation claim) = claim_origin (ec_standing claim)
          \<and> claim_origin (ec_capacity claim) = claim_origin (ec_standing claim)
          \<and> commit_witness r = \<lparr>ew_standing = native_witness sb (ec_standing claim),
              ew_custody = native_witness cb (ec_custody claim), ew_obligation = native_witness ob (ec_obligation claim),
              ew_capacity = native_witness kb (ec_capacity claim)\<rparr>)
     \<and> a = \<lparr>authority_witness = commit_witness r, authority_commit_digest = commit_commit_digest r\<rparr>"
  unfolding reconstruct_iff effect_crossing_Admit from_verified_def by (rule conj_left_commute)

section \<open>Recomposition\<close>

text \<open>C33. A recomposition admits exactly when the presented slices are, as a multiset, one clean
  slice of the manifest's origin and of the expected digest for each required boundary: a
  missing, repeated, unaccounted, foreign, rewritten or obstructed slice refuses. The witness
  accounts for the boundaries in the order of the manifest.
\<close>

theorem recomposition_accounts_for_every_slice:
  assumes "manifest_new origin whole reqs = Ok m"
  shows "recompose m slices = Admit w \<longleftrightarrow>
    mset slices = mset (map (\<lambda>r. \<lparr>slice_origin = origin, slice_boundary_id = req_boundary_id r,
        slice_digest = expected_slice_digest r, slice_verdict = path_clean\<rparr>) reqs)
    \<and> rw_origin w = origin \<and> rw_whole_claim_digest w = whole
    \<and> ne_iter (rw_boundaries w) = map (\<lambda>r. \<lparr>acc_boundary_id = req_boundary_id r,
        acc_slice_digest = expected_slice_digest r, acc_verdict = path_clean\<rparr>) reqs"
proof -
  have m: "distinct (map req_boundary_id (ne_iter (requirements m)))" "manifest_origin m = origin"
    "whole_claim_digest m = whole" "ne_iter (requirements m) = reqs"
    using assms by (simp_all add: manifest_new_Ok)
  have exact: "exact_slice m = (\<lambda>r. \<lparr>slice_origin = origin, slice_boundary_id = req_boundary_id r,
        slice_digest = expected_slice_digest r, slice_verdict = path_clean\<rparr>)"
    by (rule ext) (simp add: exact_slice_def m)
  have accounted: "accounted_boundary = (\<lambda>r. \<lparr>acc_boundary_id = req_boundary_id r,
        acc_slice_digest = expected_slice_digest r, acc_verdict = path_clean\<rparr>)"
    by (rule ext) (simp add: accounted_boundary_def)
  have "w = \<lparr>rw_origin = origin, rw_whole_claim_digest = whole,
        rw_boundaries = ne_map accounted_boundary (requirements m)\<rparr> \<longleftrightarrow>
      rw_origin w = origin \<and> rw_whole_claim_digest w = whole
      \<and> ne_iter (rw_boundaries w) = map accounted_boundary reqs"
    using m(4) by (cases w) (simp add: ne_iter_inject [symmetric])
  then show ?thesis
    unfolding recompose_Admit [OF m(1)] m(2-4) exact accounted by (simp only:)
qed

theorem recomposition_accounts_for_every_slice_witness:
  "\<exists>m w. manifest_new demo_origin (Digest ''w'') [\<lparr>req_boundary_id = Digest ''a'', expected_slice_digest = Digest ''x''\<rparr>,
        \<lparr>req_boundary_id = Digest ''b'', expected_slice_digest = Digest ''y''\<rparr>] = Ok m
     \<and> recompose m [\<lparr>slice_origin = demo_origin, slice_boundary_id = Digest ''b'', slice_digest = Digest ''y'',
            slice_verdict = path_clean :: unit PathVerdict\<rparr>,
          \<lparr>slice_origin = demo_origin, slice_boundary_id = Digest ''a'', slice_digest = Digest ''x'',
            slice_verdict = path_clean\<rparr>] = Admit w"
proof -
  let ?reqs = "[\<lparr>req_boundary_id = Digest ''a'', expected_slice_digest = Digest ''x''\<rparr>,
    \<lparr>req_boundary_id = Digest ''b'', expected_slice_digest = Digest ''y''\<rparr>]"
  let ?m = "\<lparr>manifest_origin = demo_origin, whole_claim_digest = Digest ''w'', requirements = NonEmpty (hd ?reqs) (tl ?reqs)\<rparr>"
  let ?w = "\<lparr>rw_origin = demo_origin, rw_whole_claim_digest = Digest ''w'',
    rw_boundaries = NonEmpty \<lparr>acc_boundary_id = Digest ''a'', acc_slice_digest = Digest ''x'', acc_verdict = path_clean :: unit PathVerdict\<rparr>
      [\<lparr>acc_boundary_id = Digest ''b'', acc_slice_digest = Digest ''y'', acc_verdict = path_clean\<rparr>]\<rparr>"
  have "manifest_new demo_origin (Digest ''w'') ?reqs = Ok ?m" by (simp add: manifest_new_Ok)
  then show ?thesis
    using recomposition_accounts_for_every_slice [of demo_origin "Digest ''w''" ?reqs ?m
        "[\<lparr>slice_origin = demo_origin, slice_boundary_id = Digest ''b'', slice_digest = Digest ''y'',
            slice_verdict = path_clean :: unit PathVerdict\<rparr>,
          \<lparr>slice_origin = demo_origin, slice_boundary_id = Digest ''a'', slice_digest = Digest ''x'',
            slice_verdict = path_clean\<rparr>]" ?w]
    by (auto simp: add_mset_commute)
qed

section \<open>One-use projection\<close>

text \<open>C34. Over any sequence of attempts to consume adapted decisions, by whatever consumers, each
  decision is granted at most once: the granted receipts name pairwise distinct decisions, none
  of which the ledger had recorded before, each is found in the final ledger, an earlier receipt is
  never replaced, and every attempted decision that verifies and belongs to the ledger's lifecycle is
  recorded in the end, so one attempt has won.
\<close>

theorem calculus_decision_is_projected_once:
  assumes "ledger_wf L ledger" "uses_serialize L" and "use_all L to_vec ledger attempts = (ledger', out)"
  shows "ledger_wf L ledger' \<and> distinct (map use_decision (granted out))
    \<and> (\<forall>r \<in> set (granted out). map_of (consumed ledger) (use_decision r) = None
         \<and> map_of (consumed ledger') (use_decision r) = Some r)
    \<and> (\<forall>d r. map_of (consumed ledger) d = Some r \<longrightarrow> map_of (consumed ledger') d = Some r)
    \<and> (\<forall>decision consumer. (decision, consumer) \<in> set attempts \<and> decision_verify L to_vec decision = Ok ()
         \<and> ctx_lifecycle_origin (dec_context decision) = ledger_lifecycle_origin ledger
         \<longrightarrow> (\<exists>r. map_of (consumed ledger') (dec_decision_digest decision) = Some r))"
proof -
  note history = use_all_history [OF assms(1,3)]
  have table: "map_of (map (\<lambda>r. (use_decision r, r)) rs) (use_decision r) = Some r"
    if "distinct (map use_decision rs)" "r \<in> set rs" for rs and r :: CalculusUseReceiptV1
    using that by (auto intro!: map_of_is_SomeI simp: comp_def)
  have final: "map_of (consumed ledger') = map_of (consumed ledger) ++ map_of (map (\<lambda>r. (use_decision r, r)) (granted out))"
    using history by blast
  have "map_of (consumed ledger) (use_decision r) = None \<and> map_of (consumed ledger') (use_decision r) = Some r"
    if "r \<in> set (granted out)" for r
    using that history table [of "granted out" r] unfolding final by (auto simp: map_add_def)
  moreover have "map_of (consumed ledger') d = Some r" if "map_of (consumed ledger) d = Some r" for d r
  proof -
    have "d \<notin> use_decision ` set (granted out)" using history that by auto
    then have "map_of (map (\<lambda>r. (use_decision r, r)) (granted out)) d = None"
      by (simp add: map_of_eq_None_iff image_image)
    then show ?thesis unfolding final using that by (simp add: map_add_def)
  qed
  moreover have "\<exists>r. map_of (consumed ledger') (dec_decision_digest decision) = Some r"
    if "(decision, consumer) \<in> set attempts" "decision_verify L to_vec decision = Ok ()"
      "ctx_lifecycle_origin (dec_context decision) = ledger_lifecycle_origin ledger" for decision consumer
    using use_all_consumes [OF assms that] by blast
  ultimately show ?thesis using history by blast
qed

definition demo_adapter_context :: CalculusAdapterContextV1 where
  "demo_adapter_context = adapter_context_new (AuthorityDomainId ''ag.test'') (EpochId 1) demo_origin (Digest ''e'') (Digest ''i'')"

definition demo_calculus_decision :: "(unit, unit) CalculusDecisionV1" where
  "demo_calculus_decision = \<lparr>dec_context = demo_adapter_context, dec_outcome = Evaluated (Refuse ()),
     dec_decision_digest = hash_bytes demo_calculus_lib (as_bytes ''ag-ng:calculus-decision:v1'' @ [0] @ as_bytes ''null'')\<rparr>"

lemma demo_calculus_null:
  "to_vec = (\<lambda>_. Some (as_bytes ''null'')) \<Longrightarrow> jcs_canonicalize demo_calculus_lib to_vec v = Ok (as_bytes ''null'')"
proof -
  have "parse_strict_value demo_calculus_lib (as_bytes ''null'') = Ok Null"
    "jcs_to_vec demo_calculus_lib Null = Some (as_bytes ''null'')" by code_simp+
  then show "to_vec = (\<lambda>_. Some (as_bytes ''null'')) \<Longrightarrow> ?thesis" by (simp add: jcs_canonicalize_def)
qed

lemma demo_uses_serialize: "uses_serialize demo_calculus_lib"
  by (simp add: uses_serialize_def demo_calculus_null demo_calculus_lib_def [THEN arg_cong, of use_to_vec])

lemma demo_decision_verifies: "decision_verify demo_calculus_lib (\<lambda>_. Some (as_bytes ''null'')) demo_calculus_decision = Ok ()"
  by (simp add: decision_verify_def decision_digest_def canonical_digest_def demo_calculus_null demo_calculus_decision_def
      context_verify_def demo_adapter_context_def adapter_context_new_def demo_origin_def)

theorem calculus_decision_is_projected_once_witness:
  "\<exists>ledger' out r. use_all demo_calculus_lib (\<lambda>_. Some (as_bytes ''null'')) (ledger_new demo_origin)
       [(demo_calculus_decision, Digest ''c1''), (demo_calculus_decision, Digest ''c2'')] = (ledger', out)
     \<and> distinct (map use_decision (granted out))
     \<and> map_of (consumed ledger') (dec_decision_digest demo_calculus_decision) = Some r"
proof -
  obtain ledger' out where run: "use_all demo_calculus_lib (\<lambda>_. Some (as_bytes ''null'')) (ledger_new demo_origin)
       [(demo_calculus_decision, Digest ''c1''), (demo_calculus_decision, Digest ''c2'')] = (ledger', out)" by fastforce
  have "ctx_lifecycle_origin (dec_context demo_calculus_decision) = ledger_lifecycle_origin (ledger_new demo_origin)"
    by (simp add: demo_calculus_decision_def demo_adapter_context_def adapter_context_new_def ledger_new_def)
  then show ?thesis
    using calculus_decision_is_projected_once [OF ledger_new_wf demo_uses_serialize run] demo_decision_verifies run by auto
qed

end
