(* ===== verification/Store_Types.thy ===== *)
theory Store_Types
  imports Governed_Laws Lifecycle_Origin
begin

text \<open>
  The vocabulary of the durable campaign store, \<open>crates/ag-store/src/campaign.rs\<close>: constants,
  transition kinds and evidence, receipts, reports and projections, errors, and the conversions between
  values and columns. The crates \<open>uuid\<close>, \<open>serde_json\<close> and \<open>serde_jcs\<close> are fields of the library record.
\<close>

section \<open>Constants, kinds and evidence\<close>

definition CAMPAIGN_STORE_SCHEMA_VERSION :: u32 where
  "CAMPAIGN_STORE_SCHEMA_VERSION = 2"

definition CAMPAIGN_STORE_APPLICATION_ID :: u32 where
  "CAMPAIGN_STORE_APPLICATION_ID = 0x41474331"

definition CAMPAIGN_STORE_SCHEMA_NAME :: string where
  "CAMPAIGN_STORE_SCHEMA_NAME = ''ag-governed-loop-campaign-store/v2''"

definition RUNTIME_PROFILE_DIGEST_DOMAIN_V1 :: string where
  "RUNTIME_PROFILE_DIGEST_DOMAIN_V1 = ''ag.governed-loop.runtime-profile/v1''"

definition CAMPAIGN_TRANSITION_HISTORY_SCHEMA_V1 :: string where
  "CAMPAIGN_TRANSITION_HISTORY_SCHEMA_V1 = ''ag.governed-loop.transition-history/v1''"

definition CAMPAIGN_REFUSAL_HISTORY_SCHEMA_V1 :: string where
  "CAMPAIGN_REFUSAL_HISTORY_SCHEMA_V1 = ''ag.governed-loop.refusal-history/v1''"

definition EVENT_DOMAIN_V1 :: string where
  "EVENT_DOMAIN_V1 = ''ag.governed-loop.store-event/v1''"

definition EVENT_GENESIS_DOMAIN_V1 :: string where
  "EVENT_GENESIS_DOMAIN_V1 = ''ag.governed-loop.store-event-genesis/v1''"

definition REFUSAL_DOMAIN_V1 :: string where
  "REFUSAL_DOMAIN_V1 = ''ag.governed-loop.store-refusal/v1''"

datatype CampaignTransitionKindV1 =
    K_CampaignCreated
  | K_ProposalRecorded
  | K_StandingRequired
  | K_Admissible
  | K_AuthorizationConsumed
  | K_DocketCustodyAccepted
  | K_SettlementRecorded
  | K_ReconciliationRequired
  | K_ReconciledSettlement
  | K_ContinuationOpened
  | K_ProbeNoted
  | K_Halted
  | K_Escalated
  | K_RecoveryReconciliation
  | K_HumanDisposition
  | K_Completed

fun kind_as_str :: "CampaignTransitionKindV1 \<Rightarrow> string" where
  "kind_as_str K_CampaignCreated = ''campaign_created''"
| "kind_as_str K_ProposalRecorded = ''proposal_recorded''"
| "kind_as_str K_StandingRequired = ''standing_required''"
| "kind_as_str K_Admissible = ''admissible''"
| "kind_as_str K_AuthorizationConsumed = ''authorization_consumed''"
| "kind_as_str K_DocketCustodyAccepted = ''docket_custody_accepted''"
| "kind_as_str K_SettlementRecorded = ''settlement_recorded''"
| "kind_as_str K_ReconciliationRequired = ''reconciliation_required''"
| "kind_as_str K_ReconciledSettlement = ''reconciled_settlement''"
| "kind_as_str K_ContinuationOpened = ''continuation_opened''"
| "kind_as_str K_ProbeNoted = ''probe_noted''"
| "kind_as_str K_Halted = ''halted''"
| "kind_as_str K_Escalated = ''escalated''"
| "kind_as_str K_RecoveryReconciliation = ''recovery_reconciliation''"
| "kind_as_str K_HumanDisposition = ''human_disposition''"
| "kind_as_str K_Completed = ''completed''"

datatype CampaignTransitionEvidenceV1 =
    Ev_Genesis "Digest option"
  | Ev_None
  | Ev_HumanDisposition HumanDispositionV1 HumanVerificationRefV1
  | Ev_GovernedIntervention VerifiedGovernedInterventionV1

datatype RefusalCodeV1 =
    StaleObservation
  | Ref_Contradiction
  | AbsentStanding
  | Ref_StandingNotCurrent
  | InadmissibleExactWork
  | Ref_BudgetExhausted
  | ResidualUnresolved
  | HumanDecisionRequired
  | ProfileLawViolation
  | RecoveryRequired
  | InterventionBindingMismatch
  | InterventionNotApplicable
  | InterventionOutcomeUnknown

record RefusalOutcomeV1 =
  ro_key :: OccurrenceKeyV1
  ro_at_state_digest :: Digest
  ro_code :: RefusalCodeV1
  ro_evidence :: "Digest option"
  ro_governed_intervention :: "VerifiedGovernedInterventionV1 option"

record StoreEventDigestInputV1 =
  sed_campaign :: CampaignId
  sed_source_occurrence :: "string option"
  sed_successor_occurrence :: string
  sed_transition_kind :: string
  sed_predecessor_state_digest :: Digest
  sed_successor_state_digest :: Digest
  sed_evidence_digest :: Digest
  sed_previous_event_digest :: Digest
  sed_recorded_at_unix_ms :: u64

record CampaignCommitReceiptV1 =
  ccr_revision :: u64
  ccr_predecessor_state_digest :: Digest
  ccr_successor_state_digest :: Digest
  ccr_event_digest :: Digest

record CampaignReplayReportV1 =
  rep_campaign :: CampaignId
  rep_transitions :: u64
  rep_ag_spends :: u64
  rep_docket_attempts :: u64
  rep_settlements :: u64
  rep_human_dispositions :: u64
  rep_current_state_digest :: Digest

record CampaignTransitionProjectionV1 =
  tp_sequence :: u64
  tp_source_occurrence :: "string option"
  tp_successor_occurrence :: string
  tp_kind :: CampaignTransitionKindV1
  tp_predecessor_state_digest :: Digest
  tp_successor_state_digest :: Digest
  tp_successor :: OccurrenceSnapshotV1
  tp_evidence :: CampaignTransitionEvidenceV1
  tp_evidence_digest :: Digest
  tp_previous_event_digest :: Digest
  tp_event_digest :: Digest
  tp_recorded_at_unix_ms :: u64

record CampaignTransitionHistoryV1 =
  th_schema :: string
  th_campaign :: CampaignId
  th_transitions :: "CampaignTransitionProjectionV1 list"
  th_current_state_digest :: Digest

record CampaignRefusalProjectionV1 =
  rp_refusal :: Digest
  rp_outcome :: RefusalOutcomeV1
  rp_recorded_at_unix_ms :: u64

record CampaignRefusalHistoryV1 =
  rh_schema :: string
  rh_campaign :: CampaignId
  rh_verified_at_state_digest :: Digest
  rh_refusals :: "CampaignRefusalProjectionV1 list"

record StoredRuntimeProfileV1 =
  srp_schema :: string
  srp_digest :: Digest
  srp_canonical_bytes :: bytes

text \<open>
  Errors. A message that prints another error is that error as a value; environment failures
  (\<open>AlreadyExists\<close>, \<open>Missing\<close>, \<open>Io\<close>) belong to opening the file and do not occur in the operations here.
\<close>

datatype corrupt_reason =
    Reason string
  | Reason_Digest DigestParseError
  | Reason_ProfileJson JcsError

datatype canonical_reason =
    Jcs JcsError
  | ProfileSchemaToken
  | ProfileJson JcsError

datatype CampaignStoreErrorV1 =
    Sqlite
  | Canonical canonical_reason
  | Kernel KernelErrorV1
  | StalePredecessor Digest Digest
  | Store_BindingMismatch
  | StoreIdentity
  | Corrupt corrupt_reason
  | HumanDispositionReplay

section \<open>The library\<close>

text \<open>
  A codec is the pair of \<open>serde_jcs::to_vec\<close> and \<open>serde_json::from_slice\<close> at one type; a type that is
  only written has its serializer alone. \<open>schema_sql\<close> is the text of \<open>SCHEMA_SQL\<close>, whose content is
  the tables below.
\<close>

datatype 'v codec = Codec (codec_to_vec: "'v \<Rightarrow> bytes option") (codec_from_slice: "bytes \<Rightarrow> 'v option")

record store_lib = governed_lib +
  occurrence_to_string :: "OccurrenceId \<Rightarrow> string"
  schema_sql :: string
  snapshot_codec :: "OccurrenceSnapshotV1 codec"
  evidence_codec :: "CampaignTransitionEvidenceV1 codec"
  issuance_codec :: "AgIssuanceV1 codec"
  human_codec :: "HumanDispositionV1 codec"
  refusal_codec :: "RefusalOutcomeV1 codec"
  store_event_to_vec :: "StoreEventDigestInputV1 \<Rightarrow> bytes option"
  spend_to_vec :: "AgAuthorizationSpendV1 \<Rightarrow> bytes option"
  custody_to_vec :: "DocketCustodyV1 \<Rightarrow> bytes option"
  settlement_to_vec :: "DocketSettlementV1 \<Rightarrow> bytes option"
  residual_ids_to_vec :: "ResidualIdV1 list \<Rightarrow> bytes option"

definition encode :: "'l jcs_lib_scheme \<Rightarrow> ('v \<Rightarrow> bytes option) \<Rightarrow> 'v \<Rightarrow> CampaignStoreErrorV1 + bytes" where
  "encode S to_vec value = map_err (\<lambda>e. Canonical (Jcs e)) (jcs_canonicalize S to_vec value)"

definition decode :: "'l jcs_lib_scheme \<Rightarrow> (bytes \<Rightarrow> 'v option) \<Rightarrow> bytes \<Rightarrow> CampaignStoreErrorV1 + 'v" where
  "decode S from_slice b =
     map_err (\<lambda>e. Canonical (Jcs e))
       (try_then (from_canonical_bytes S b) (\<lambda>document. ok_or (from_slice document) Deserialization))"

definition to_i64 :: "u64 \<Rightarrow> CampaignStoreErrorV1 + int" where
  "to_i64 value =
     (if unat value < 2 ^ 63 then Ok (uint value) else Err (Corrupt (Reason ''integer exceeds SQLite range'')))"

definition to_u64 :: "int \<Rightarrow> CampaignStoreErrorV1 + u64" where
  "to_u64 value =
     (if 0 \<le> value then Ok (word_of_int value) else Err (Corrupt (Reason ''negative durable counter'')))"

text \<open>\<open>row.get\<close> at type \<open>u32\<close> fails on a value out of range.\<close>

definition get_u32 :: "int \<Rightarrow> CampaignStoreErrorV1 + u32" where
  "get_u32 value = (if 0 \<le> value \<and> value < 2 ^ 32 then Ok (word_of_int value) else Err Sqlite)"

definition parse_digest :: "'l digest_lib_scheme \<Rightarrow> string \<Rightarrow> CampaignStoreErrorV1 + Digest" where
  "parse_digest S value = map_err (\<lambda>e. Corrupt (Reason_Digest e)) (digest_from_str S value)"

fun pc_tag :: "ProgramCounterV1 \<Rightarrow> string" where
  "pc_tag PC_ObservationRequired = ''observation_required''"
| "pc_tag PC_ProposalRecorded = ''proposal_recorded''"
| "pc_tag PC_StandingRequired = ''standing_required''"
| "pc_tag PC_AdmissiblePendingAuthorization = ''admissible_pending_authorization''"
| "pc_tag PC_AuthorizationConsumed = ''authorization_consumed''"
| "pc_tag PC_Dispatched = ''dispatched''"
| "pc_tag PC_ReconciliationRequired = ''reconciliation_required''"
| "pc_tag PC_SettledObservationRequired = ''settled_observation_required''"
| "pc_tag PC_Halted = ''halted''"
| "pc_tag PC_Completed = ''completed''"

text \<open>The derived \<open>Debug\<close> of a program counter.\<close>

fun pc_debug :: "ProgramCounterV1 \<Rightarrow> string" where
  "pc_debug PC_ObservationRequired = ''ObservationRequired''"
| "pc_debug PC_ProposalRecorded = ''ProposalRecorded''"
| "pc_debug PC_StandingRequired = ''StandingRequired''"
| "pc_debug PC_AdmissiblePendingAuthorization = ''AdmissiblePendingAuthorization''"
| "pc_debug PC_AuthorizationConsumed = ''AuthorizationConsumed''"
| "pc_debug PC_Dispatched = ''Dispatched''"
| "pc_debug PC_ReconciliationRequired = ''ReconciliationRequired''"
| "pc_debug PC_SettledObservationRequired = ''SettledObservationRequired''"
| "pc_debug PC_Halted = ''Halted''"
| "pc_debug PC_Completed = ''Completed''"

text \<open>
  \<open>chars().any(char::is_whitespace)\<close> on UTF-8 bytes: the code points of the Unicode property
  \<open>White_Space\<close>, of one, two or three bytes.
\<close>

fun has_whitespace :: "nat list \<Rightarrow> bool" where
  "has_whitespace (a # b # c # rest) =
     (9 \<le> a \<and> a \<le> 13 \<or> a = 32 \<or> a = 194 \<and> (b = 133 \<or> b = 160)
      \<or> a = 225 \<and> b = 154 \<and> c = 128
      \<or> a = 226 \<and> b = 128 \<and> (128 \<le> c \<and> c \<le> 138 \<or> c = 168 \<or> c = 169 \<or> c = 175)
      \<or> a = 226 \<and> b = 129 \<and> c = 159 \<or> a = 227 \<and> b = 128 \<and> c = 128
      \<or> has_whitespace (b # c # rest))"
| "has_whitespace [a, b] =
     (9 \<le> a \<and> a \<le> 13 \<or> a = 32 \<or> a = 194 \<and> (b = 133 \<or> b = 160) \<or> has_whitespace [b])"
| "has_whitespace [a] = (9 \<le> a \<and> a \<le> 13 \<or> a = 32)"
| "has_whitespace [] = False"

definition schema_token :: "string \<Rightarrow> bool" where
  "schema_token s = (s \<noteq> [] \<and> \<not> has_whitespace (map of_char s))"

text \<open>\<open>CampaignTransitionKindV1::parse\<close>, arm by arm.\<close>

definition kind_parse :: "string \<Rightarrow> CampaignStoreErrorV1 + CampaignTransitionKindV1" where
  "kind_parse value =
     (case map_of (map (\<lambda>k. (kind_as_str k, k))
        [K_CampaignCreated, K_ProposalRecorded, K_StandingRequired, K_Admissible, K_AuthorizationConsumed,
         K_DocketCustodyAccepted, K_SettlementRecorded, K_ReconciliationRequired, K_ReconciledSettlement,
         K_ContinuationOpened, K_ProbeNoted, K_Halted, K_Escalated, K_RecoveryReconciliation,
         K_HumanDisposition, K_Completed]) value of
        Some kind \<Rightarrow> Ok kind
      | None \<Rightarrow> Err (Corrupt (Reason ''unknown transition kind'')))"

text \<open>\<open>as_str\<close> of the exact references.\<close>

primrec program_text :: "ProgramBasisRefV1 \<Rightarrow> string" where "program_text (ProgramBasisRefV1 d) = as_str d"
primrec issuance_text :: "AgIssuanceRefV1 \<Rightarrow> string" where "issuance_text (AgIssuanceRefV1 d) = as_str d"
primrec settlement_text :: "SettlementRefV1 \<Rightarrow> string" where "settlement_text (SettlementRefV1 d) = as_str d"
primrec receipt_text :: "ReceiptRefV1 \<Rightarrow> string" where "receipt_text (ReceiptRefV1 d) = as_str d"
primrec decision_text :: "HumanDecisionIdV1 \<Rightarrow> string" where "decision_text (HumanDecisionIdV1 d) = as_str d"
primrec nonce_text :: "HumanNonceRefV1 \<Rightarrow> string" where "nonce_text (HumanNonceRefV1 d) = as_str d"
primrec verification_text :: "HumanVerificationRefV1 \<Rightarrow> string" where
  "verification_text (HumanVerificationRefV1 d) = as_str d"
primrec authority_text :: "ResidualAuthorityRefV1 \<Rightarrow> string" where
  "authority_text (ResidualAuthorityRefV1 d) = as_str d"

primrec intervention_request_digest :: "GovernedInterventionRequestIdV1 \<Rightarrow> Digest" where
  "intervention_request_digest (GovernedInterventionRequestIdV1 d) = d"

definition campaign_text :: "CampaignId \<Rightarrow> string" where
  "campaign_text c = as_str (campaign_as_digest c)"

definition spend_text :: "AgSpendRefV1 \<Rightarrow> string" where
  "spend_text s = as_str (spend_digest s)"

definition authorization_text :: "AgAuthorizationRefV1 \<Rightarrow> string" where
  "authorization_text a = as_str (authorization_digest a)"

definition attempt_text :: "DocketAttemptRefV1 \<Rightarrow> string" where
  "attempt_text a = as_str (attempt_digest a)"

section \<open>Lemmas\<close>

lemma kind_parse_as_str: "kind_parse (kind_as_str k) = Ok k"
  by (cases k) (simp_all add: kind_parse_def)

lemma to_i64_Ok: "to_i64 v = Ok i \<longleftrightarrow> unat v < 2 ^ 63 \<and> i = uint v"
  by (auto simp: to_i64_def)

lemma to_u64_uint [simp]: "to_u64 (uint v) = Ok v"
  by (simp add: to_u64_def)

lemma encode_Ok [simp]: "encode S to_vec v = Ok b \<longleftrightarrow> jcs_canonicalize S to_vec v = Ok b"
  by (simp add: encode_def)

lemma parse_digest_Ok:
  "hex_law S \<Longrightarrow> parse_digest S s = Ok d \<longleftrightarrow> canonical_digest_text s \<and> d = Digest s"
  using digest_from_str_accepts [of S s d] by (simp add: parse_digest_def)

end
