(* ===== verification/Store_Evidence.thy ===== *)
theory Store_Evidence
  imports Store_Types
begin

text \<open>
  The pure checks of the campaign store (\<open>crates/ag-store/src/campaign.rs\<close>): which program counters a
  transition kind describes, and what the evidence of a transition must say about it.
\<close>

section \<open>Kinds\<close>

fun kind_describes ::
  "OccurrenceSnapshotV1 \<Rightarrow> OccurrenceSnapshotV1 \<Rightarrow> CampaignTransitionKindV1 \<Rightarrow> bool" where
  "kind_describes source target K_CampaignCreated = False"
| "kind_describes source target K_ProposalRecorded =
     (snap_pc source = PC_ObservationRequired \<and> snap_pc target = PC_ProposalRecorded)"
| "kind_describes source target K_StandingRequired =
     (snap_pc source = PC_ProposalRecorded \<and> snap_pc target = PC_StandingRequired)"
| "kind_describes source target K_Admissible =
     (snap_pc source = PC_StandingRequired \<and> snap_pc target = PC_AdmissiblePendingAuthorization)"
| "kind_describes source target K_AuthorizationConsumed =
     (snap_pc source = PC_AdmissiblePendingAuthorization \<and> snap_pc target = PC_AuthorizationConsumed)"
| "kind_describes source target K_DocketCustodyAccepted =
     (snap_pc source = PC_AuthorizationConsumed \<and> snap_pc target = PC_Dispatched)"
| "kind_describes source target K_SettlementRecorded =
     (snap_pc source = PC_Dispatched \<and> snap_pc target = PC_SettledObservationRequired)"
| "kind_describes source target K_ReconciliationRequired =
     (snap_pc source = PC_Dispatched \<and> snap_pc target = PC_ReconciliationRequired)"
| "kind_describes source target K_RecoveryReconciliation =
     (snap_pc source = PC_Dispatched \<and> snap_pc target = PC_ReconciliationRequired)"
| "kind_describes source target K_ReconciledSettlement =
     (snap_pc source = PC_ReconciliationRequired \<and> snap_pc target = PC_SettledObservationRequired)"
| "kind_describes source target K_ContinuationOpened =
     (snap_pc source = PC_SettledObservationRequired \<and> snap_pc target = PC_ObservationRequired
      \<and> snap_key source \<noteq> snap_key target)"
| "kind_describes source target K_ProbeNoted =
     ((snap_pc source = PC_ObservationRequired \<and> snap_pc target = PC_ObservationRequired
       \<or> snap_pc source = PC_SettledObservationRequired \<and> snap_pc target = PC_SettledObservationRequired)
      \<and> snap_key source = snap_key target)"
| "kind_describes source target K_Halted = (snap_pc target = PC_Halted)"
| "kind_describes source target K_Escalated = (snap_pc target = PC_Halted)"
| "kind_describes source target K_HumanDisposition =
     (snap_pc source = PC_Halted
      \<and> (snap_pc target = PC_Halted \<or> snap_pc target = PC_ObservationRequired \<or> snap_pc target = PC_Completed))"
| "kind_describes source target K_Completed =
     (snap_pc source = PC_ObservationRequired \<and> snap_pc target = PC_Completed)"

definition validate_transition_kind ::
  "OccurrenceSnapshotV1 \<Rightarrow> OccurrenceSnapshotV1 \<Rightarrow> CampaignTransitionKindV1 \<Rightarrow> CampaignStoreErrorV1 + unit" where
  "validate_transition_kind source target kind =
     (if \<not> kind_describes source target kind
      then Err (Corrupt (Reason (''transition kind '' @ kind_as_str kind @ '' does not describe ''
             @ pc_debug (snap_pc source) @ ''->'' @ pc_debug (snap_pc target))))
      else Ok ())"

section \<open>Human dispositions\<close>

text \<open>The closure \<open>unique\<close>: a list without duplicates as a set.\<close>

definition unique_ids :: "ResidualIdV1 list \<Rightarrow> ResidualIdV1 set option" where
  "unique_ids values = (if card (set values) = length values then Some (set values) else None)"

definition snapshot_residual_ids :: "OccurrenceSnapshotV1 \<Rightarrow> ResidualIdV1 set" where
  "snapshot_residual_ids s = res_residual ` set (residual_slice (meta_residuals (meta (snap_state s))))"

definition validate_residual_disposition ::
  "OccurrenceSnapshotV1 \<Rightarrow> OccurrenceSnapshotV1 \<Rightarrow> HumanDispositionV1 \<Rightarrow> ExactResidualDischargeV1
     \<Rightarrow> CampaignStoreErrorV1 + unit" where
  "validate_residual_disposition source target artifact discharge =
     (if snap_pc target \<noteq> PC_Halted
         \<or> dis_campaign discharge \<noteq> key_campaign (snap_key source)
         \<or> dis_occurrence discharge \<noteq> key_occurrence (snap_key source)
         \<or> dis_program discharge \<noteq> meta_program (meta (snap_state source))
         \<or> dis_disposition discharge \<noteq> hd_decision artifact
      then Err Store_BindingMismatch
      else
        try_then (ok_or (unique_ids (dis_before discharge)) Store_BindingMismatch) (\<lambda>before.
        try_then (ok_or (unique_ids (dis_authorized discharge)) Store_BindingMismatch) (\<lambda>authorized.
        try_then (ok_or (unique_ids (dis_closed discharge)) Store_BindingMismatch) (\<lambda>closed.
        try_then (ok_or (unique_ids (dis_after discharge)) Store_BindingMismatch) (\<lambda>after.
        if before \<noteq> snapshot_residual_ids source
           \<or> authorized \<noteq> closed
           \<or> closed \<inter> after \<noteq> {}
           \<or> before \<noteq> closed \<union> after
           \<or> after \<noteq> snapshot_residual_ids target
        then Err Store_BindingMismatch
        else Ok ())))))"

definition validate_human_transition_evidence ::
  "OccurrenceSnapshotV1 \<Rightarrow> OccurrenceSnapshotV1 \<Rightarrow> HumanDispositionV1 \<Rightarrow> CampaignStoreErrorV1 + unit" where
  "validate_human_transition_evidence source target artifact =
     (let source_meta = meta (snap_state source); target_meta = meta (snap_state target);
          original = (hd_halted_state_digest artifact = snap_state_digest source);
          second_open = (hd_halted_state_digest artifact = snap_prior_state_digest source
            \<and> snap_pc target = PC_ObservationRequired);
          unchanged_halt =
            (if snap_pc target \<noteq> PC_Halted
                \<or> meta_program target_meta \<noteq> meta_program source_meta
                \<or> meta_residuals target_meta \<noteq> meta_residuals source_meta
             then Err Store_BindingMismatch else Ok ());
          opened = (\<lambda>expected_program.
             if meta_program target_meta \<noteq> expected_program
                \<or> meta_residuals target_meta \<noteq> meta_residuals source_meta
                \<or> meta_used_human_decisions source_meta = []
                \<or> last (meta_used_human_decisions source_meta) \<noteq> hd_decision artifact
             then Err Store_BindingMismatch else Ok ())
      in if snap_pc source \<noteq> PC_Halted then Err Store_BindingMismatch
         else if \<not> original \<and> \<not> second_open then Err Store_BindingMismatch
         else if original then
           (case hd_disposition artifact of
              ReturnToObservation \<Rightarrow> unchanged_halt
            | ReplaceProgram _ \<Rightarrow> unchanged_halt
            | ExactResidualDisposition discharge \<Rightarrow>
                validate_residual_disposition source target artifact discharge
            | Terminate _ _ _ \<Rightarrow>
                if snap_pc target \<noteq> PC_Completed \<or> \<not> residuals_empty (meta_residuals source_meta)
                then Err Store_BindingMismatch else Ok ())
         else
           (case hd_disposition artifact of
              ReturnToObservation \<Rightarrow> opened (meta_program source_meta)
            | ReplaceProgram program \<Rightarrow> opened program
            | _ \<Rightarrow> Err Store_BindingMismatch))"

definition validate_human_store_binding ::
  "'l governed_lib_scheme \<Rightarrow> OccurrenceSnapshotV1 \<Rightarrow> OccurrenceSnapshotV1 \<Rightarrow> OccurrenceSnapshotV1 option
     \<Rightarrow> HumanDispositionV1 \<Rightarrow> CampaignStoreErrorV1 + unit" where
  "validate_human_store_binding H expected first second artifact =
     try_then (map_err Kernel (validate_successor H expected first)) (\<lambda>_.
     if hd_campaign artifact \<noteq> key_campaign (snap_key expected)
        \<or> hd_occurrence artifact \<noteq> key_occurrence (snap_key expected)
        \<or> hd_halted_state_digest artifact \<noteq> snap_state_digest expected
     then Err Store_BindingMismatch
     else
       let before = meta_used_human_decisions (meta (snap_state expected));
           after = meta_used_human_decisions (meta (snap_state first)) in
       if length after \<noteq> length before + 1 \<or> \<not> prefix before after
          \<or> after = [] \<or> last after \<noteq> hd_decision artifact
       then Err HumanDispositionReplay
       else
         try_then (validate_human_transition_evidence expected first artifact) (\<lambda>_.
         let reopened = (\<lambda>successor.
               if snap_pc first \<noteq> PC_Halted \<or> snap_pc successor \<noteq> PC_ObservationRequired
               then Err Store_BindingMismatch
               else try_then (map_err Kernel (validate_successor H first successor)) (\<lambda>_.
                 validate_human_transition_evidence first successor artifact)) in
         case (hd_disposition artifact, second) of
           (ReturnToObservation, Some successor) \<Rightarrow> reopened successor
         | (ReplaceProgram _, Some successor) \<Rightarrow> reopened successor
         | (ExactResidualDisposition _, None) \<Rightarrow>
             if snap_pc first \<noteq> PC_Halted then Err Store_BindingMismatch else Ok ()
         | (Terminate _ _ _, None) \<Rightarrow>
             if snap_pc first \<noteq> PC_Completed then Err Store_BindingMismatch else Ok ()
         | _ \<Rightarrow> Err Store_BindingMismatch))"

section \<open>Interventions\<close>

fun intervention_exact ::
  "OccurrenceSnapshotV1 \<Rightarrow> OccurrenceSnapshotV1 \<Rightarrow> CampaignTransitionKindV1 \<Rightarrow> GovernedInterventionClassV1 \<Rightarrow> bool" where
  "intervention_exact source target kind (RequestProbe _ _) =
     (kind = K_ProbeNoted \<and> snap_key source = snap_key target \<and> snap_pc target = snap_pc source)"
| "intervention_exact source target kind (OpenSuccessor successor_occurrence exact_work) =
     (kind = K_ContinuationOpened \<and> key_occurrence (snap_key target) = successor_occurrence
      \<and> meta_expected_work (meta (snap_state target)) = exact_work
      \<and> snap_pc target = PC_ObservationRequired)"
| "intervention_exact source target kind (HaltContinuation _) =
     (kind = K_Halted \<and> snap_pc target = PC_Halted)"
| "intervention_exact source target kind (ReconcileAttempt issuance attempt _) =
     (kind = K_ReconciledSettlement \<and> snap_pc source = PC_ReconciliationRequired
      \<and> (case state_docket_custody (snap_state source) of
           None \<Rightarrow> False
         | Some custody \<Rightarrow> cu_issuance custody = issuance \<and> cu_attempt custody = attempt)
      \<and> snap_pc target = PC_SettledObservationRequired)"

definition validate_governed_intervention_evidence ::
  "'l governed_lib_scheme \<Rightarrow> OccurrenceSnapshotV1 \<Rightarrow> OccurrenceSnapshotV1 \<Rightarrow> CampaignTransitionKindV1
     \<Rightarrow> VerifiedGovernedInterventionV1 \<Rightarrow> CampaignStoreErrorV1 + unit" where
  "validate_governed_intervention_evidence H source target kind verified =
     (let request = vgi_request verified in
      try_then (map_err Kernel (intervention_validate_integrity H request)) (\<lambda>_.
      if gi_campaign request \<noteq> key_campaign (snap_key source)
         \<or> gi_occurrence request \<noteq> key_occurrence (snap_key source)
         \<or> gi_target_state_digest request \<noteq> snap_state_digest source
      then Err Store_BindingMismatch
      else if intervention_exact source target kind (gi_intervention request) then Ok ()
      else Err (Corrupt (Reason ''governed intervention evidence does not match transition''))))"

definition validate_refusal_intervention_binding ::
  "'l governed_lib_scheme \<Rightarrow> RefusalOutcomeV1 \<Rightarrow> CampaignStoreErrorV1 + unit" where
  "validate_refusal_intervention_binding H refusal =
     (case ro_governed_intervention refusal of
        None \<Rightarrow> Ok ()
      | Some verified \<Rightarrow>
          try_then (map_err Kernel (intervention_validate_integrity H (vgi_request verified))) (\<lambda>_.
          if ro_evidence refusal \<noteq> Some (intervention_request_digest (gi_request (vgi_request verified)))
          then Err Store_BindingMismatch else Ok ()))"

section \<open>Evidence met in a replay\<close>

definition validate_replayed_evidence ::
  "'l governed_lib_scheme \<Rightarrow> OccurrenceSnapshotV1 \<Rightarrow> OccurrenceSnapshotV1 \<Rightarrow> CampaignTransitionKindV1
     \<Rightarrow> CampaignTransitionEvidenceV1 \<Rightarrow> CampaignStoreErrorV1 + unit" where
  "validate_replayed_evidence H source target kind evidence =
     (case (kind, evidence) of
        (K_HumanDisposition, Ev_HumanDisposition artifact _) \<Rightarrow>
          if hd_campaign artifact \<noteq> key_campaign (snap_key source)
          then Err (Corrupt (Reason ''human evidence campaign mismatch''))
          else if hd_halted_state_digest artifact \<noteq> snap_state_digest source
               \<and> \<not> (hd_halted_state_digest artifact = snap_prior_state_digest source
                    \<and> snap_pc source = PC_Halted \<and> snap_pc target = PC_ObservationRequired)
          then Err (Corrupt (Reason ''human evidence halted digest mismatch''))
          else validate_human_transition_evidence source target artifact
      | (K_HumanDisposition, _) \<Rightarrow>
          Err (Corrupt (Reason ''human transition lacks exact disposition evidence''))
      | (_, Ev_GovernedIntervention verified) \<Rightarrow>
          validate_governed_intervention_evidence H source target kind verified
      | (_, Ev_None) \<Rightarrow> Ok ()
      | (_, _) \<Rightarrow> Err (Corrupt (Reason ''transition carries incompatible special evidence'')))"

end
