(* ===== verification/Store_Tables.thy ===== *)
theory Store_Tables
  imports Store_Types
begin

text \<open>
  The tables of \<open>SCHEMA_SQL\<close> in \<open>crates/ag-store/src/campaign.rs\<close> and the statements the store executes
  on them. A table is the list of its rows in insertion order; \<open>TEXT\<close> columns are strings, \<open>BLOB\<close>
  columns byte strings and \<open>INTEGER\<close> columns integers. A statement checks the constraints the schema
  declares for the rows it writes (keys, uniqueness, checks, foreign keys, the range of an
  integer column) and fails with \<open>Sqlite\<close> where one does not hold; the transaction around it then
  leaves the database as it was. The store never deletes a row, so the \<open>AUTOINCREMENT\<close> key of a
  transition is one more than that of the last row.
\<close>

section \<open>Maps collected from rows\<close>

text \<open>\<open>entry(k).or_insert(v)\<close> of a \<open>BTreeMap\<close>.\<close>

definition or_insert :: "'k::linorder \<Rightarrow> 'v \<Rightarrow> ('k \<times> 'v) list \<Rightarrow> ('k \<times> 'v) list" where
  "or_insert k v m = (if k \<in> fst ` set m then m else btree_insert k v m)"

section \<open>Rows\<close>

record campaign_row =
  cr_campaign_id :: string
  cr_current_occurrence_id :: string
  cr_current_state_digest :: string
  cr_revision :: int
  cr_event_count :: int
  cr_event_head_digest :: string

record occurrence_row =
  or_campaign_id :: string
  or_occurrence_id :: string
  or_program_basis :: string
  or_program_counter :: string
  or_prior_state_digest :: string
  or_state_digest :: string
  or_revision :: int
  or_snapshot_jcs :: bytes

record transition_row =
  tr_campaign_id :: string
  tr_source_occurrence_id :: "string option"
  tr_successor_occurrence_id :: string
  tr_transition_kind :: string
  tr_predecessor_state_digest :: string
  tr_successor_state_digest :: string
  tr_successor_snapshot_jcs :: bytes
  tr_evidence_jcs :: bytes
  tr_evidence_digest :: string
  tr_previous_event_digest :: string
  tr_event_digest :: string
  tr_recorded_at_unix_ms :: int

record ExpectedSpendRow =
  es_authorization :: string
  es_campaign :: string
  es_occurrence :: string
  es_issuance :: string
  es_spend_jcs :: bytes
  es_issuance_jcs :: bytes
  es_transition :: string

record ExpectedAttemptRow =
  ea_issuance :: string
  ea_campaign :: string
  ea_occurrence :: string
  ea_custody_jcs :: bytes
  ea_transition :: string

record ExpectedSettlementRow =
  et_attempt :: string
  et_receipt :: string
  et_campaign :: string
  et_occurrence :: string
  et_settlement_jcs :: bytes
  et_transition :: string

record human_row =
  hr_nonce :: string
  hr_campaign_id :: string
  hr_occurrence_id :: string
  hr_halted_state_digest :: string
  hr_verification_ref :: string
  hr_artifact_jcs :: bytes
  hr_consumed_at_unix_ms :: int

type_synonym discharge_row = "string \<times> bytes \<times> bytes \<times> bytes"

record refusal_row =
  rr_campaign_id :: string
  rr_occurrence_id :: string
  rr_state_digest :: string
  rr_refusal_jcs :: bytes
  rr_recorded_at_unix_ms :: int

text \<open>
  The database. Rows that the store compares by key are pairs of the key (\<open>sequence\<close>, \<open>spend_id\<close>,
  \<open>attempt_id\<close>, \<open>settlement_id\<close>, \<open>decision_id\<close> or \<open>refusal_id\<close>) and the other columns; \<open>db_quick_check\<close> is
  what \<open>PRAGMA quick_check\<close> reports of the file.
\<close>

record campaign_db =
  db_application_id :: int
  db_user_version :: int
  db_quick_check :: string
  db_identity :: "(int \<times> string \<times> int \<times> string) option"
  db_runtime_profile :: "(string \<times> string \<times> bytes) option"
  db_campaigns :: "campaign_row list"
  db_occurrences :: "occurrence_row list"
  db_transitions :: "(int \<times> transition_row) list"
  db_spends :: "(string \<times> ExpectedSpendRow) list"
  db_attempts :: "(string \<times> ExpectedAttemptRow) list"
  db_settlements :: "(string \<times> ExpectedSettlementRow) list"
  db_humans :: "(string \<times> human_row) list"
  db_discharges :: "(string \<times> discharge_row) list"
  db_refusals :: "(string \<times> refusal_row) list"

section \<open>Statements\<close>

definition positive_i64 :: "int \<Rightarrow> bool" where
  "positive_i64 i = (0 < i \<and> i < 2 ^ 63)"

definition campaign_exists :: "campaign_db \<Rightarrow> string \<Rightarrow> bool" where
  "campaign_exists db c = list_ex (\<lambda>r. cr_campaign_id r = c) (db_campaigns db)"

definition occurrence_exists :: "campaign_db \<Rightarrow> string \<Rightarrow> string \<Rightarrow> bool" where
  "occurrence_exists db c x = list_ex (\<lambda>r. or_campaign_id r = c \<and> or_occurrence_id r = x) (db_occurrences db)"

definition insert_campaign_row :: "campaign_row \<Rightarrow> campaign_db \<Rightarrow> CampaignStoreErrorV1 + campaign_db" where
  "insert_campaign_row r db =
     (if campaign_exists db (cr_campaign_id r)
         \<or> \<not> positive_i64 (cr_revision r) \<or> \<not> positive_i64 (cr_event_count r)
      then Err Sqlite
      else Ok (db\<lparr>db_campaigns := db_campaigns db @ [r]\<rparr>))"

definition insert_occurrence_row :: "occurrence_row \<Rightarrow> campaign_db \<Rightarrow> CampaignStoreErrorV1 + campaign_db" where
  "insert_occurrence_row r db =
     (if occurrence_exists db (or_campaign_id r) (or_occurrence_id r)
         \<or> list_ex (\<lambda>x. or_state_digest x = or_state_digest r) (db_occurrences db)
         \<or> \<not> positive_i64 (or_revision r)
         \<or> \<not> campaign_exists db (or_campaign_id r)
      then Err Sqlite
      else Ok (db\<lparr>db_occurrences := db_occurrences db @ [r]\<rparr>))"

definition next_sequence :: "campaign_db \<Rightarrow> int" where
  "next_sequence db = (if db_transitions db = [] then 1 else fst (last (db_transitions db)) + 1)"

definition insert_transition_row :: "transition_row \<Rightarrow> campaign_db \<Rightarrow> CampaignStoreErrorV1 + campaign_db" where
  "insert_transition_row r db =
     (if \<not> positive_i64 (next_sequence db)
         \<or> list_ex (\<lambda>(_, x). tr_event_digest x = tr_event_digest r
              \<or> tr_campaign_id x = tr_campaign_id r
                \<and> (tr_predecessor_state_digest x = tr_predecessor_state_digest r
                   \<or> tr_successor_state_digest x = tr_successor_state_digest r)) (db_transitions db)
         \<or> tr_recorded_at_unix_ms r < 0
         \<or> \<not> campaign_exists db (tr_campaign_id r)
      then Err Sqlite
      else Ok (db\<lparr>db_transitions := db_transitions db @ [(next_sequence db, r)]\<rparr>))"

definition insert_spend_row ::
  "string \<Rightarrow> ExpectedSpendRow \<Rightarrow> campaign_db \<Rightarrow> CampaignStoreErrorV1 + campaign_db" where
  "insert_spend_row k r db =
     (if list_ex (\<lambda>(k', x). k' = k \<or> es_authorization x = es_authorization r \<or> es_issuance x = es_issuance r
              \<or> es_transition x = es_transition r
              \<or> es_campaign x = es_campaign r \<and> es_occurrence x = es_occurrence r) (db_spends db)
         \<or> \<not> occurrence_exists db (es_campaign r) (es_occurrence r)
      then Err Sqlite
      else Ok (db\<lparr>db_spends := db_spends db @ [(k, r)]\<rparr>))"

definition insert_attempt_row ::
  "string \<Rightarrow> ExpectedAttemptRow \<Rightarrow> campaign_db \<Rightarrow> CampaignStoreErrorV1 + campaign_db" where
  "insert_attempt_row k r db =
     (if list_ex (\<lambda>(k', x). k' = k \<or> ea_issuance x = ea_issuance r \<or> ea_transition x = ea_transition r
              \<or> ea_campaign x = ea_campaign r \<and> ea_occurrence x = ea_occurrence r) (db_attempts db)
         \<or> \<not> occurrence_exists db (ea_campaign r) (ea_occurrence r)
      then Err Sqlite
      else Ok (db\<lparr>db_attempts := db_attempts db @ [(k, r)]\<rparr>))"

definition insert_settlement_row ::
  "string \<Rightarrow> ExpectedSettlementRow \<Rightarrow> campaign_db \<Rightarrow> CampaignStoreErrorV1 + campaign_db" where
  "insert_settlement_row k r db =
     (if list_ex (\<lambda>(k', x). k' = k \<or> et_attempt x = et_attempt r \<or> et_receipt x = et_receipt r
              \<or> et_transition x = et_transition r) (db_settlements db)
         \<or> \<not> occurrence_exists db (et_campaign r) (et_occurrence r)
      then Err Sqlite
      else Ok (db\<lparr>db_settlements := db_settlements db @ [(k, r)]\<rparr>))"

definition insert_human_row :: "string \<Rightarrow> human_row \<Rightarrow> campaign_db \<Rightarrow> CampaignStoreErrorV1 + campaign_db" where
  "insert_human_row k r db =
     (if list_ex (\<lambda>(k', x). k' = k \<or> hr_nonce x = hr_nonce r) (db_humans db)
         \<or> hr_consumed_at_unix_ms r < 0
         \<or> \<not> occurrence_exists db (hr_campaign_id r) (hr_occurrence_id r)
      then Err Sqlite
      else Ok (db\<lparr>db_humans := db_humans db @ [(k, r)]\<rparr>))"

definition insert_discharge_row ::
  "string \<Rightarrow> discharge_row \<Rightarrow> campaign_db \<Rightarrow> CampaignStoreErrorV1 + campaign_db" where
  "insert_discharge_row k r db =
     (if k \<in> fst ` set (db_discharges db) \<or> k \<notin> fst ` set (db_humans db)
      then Err Sqlite
      else Ok (db\<lparr>db_discharges := db_discharges db @ [(k, r)]\<rparr>))"

text \<open>
  \<open>INSERT OR IGNORE\<close> skips a row whose key is taken or whose check fails; a missing parent is an error.
\<close>

definition insert_refusal_row :: "string \<Rightarrow> refusal_row \<Rightarrow> campaign_db \<Rightarrow> CampaignStoreErrorV1 + campaign_db" where
  "insert_refusal_row k r db =
     (if k \<in> fst ` set (db_refusals db) \<or> rr_recorded_at_unix_ms r < 0 then Ok db
      else if \<not> occurrence_exists db (rr_campaign_id r) (rr_occurrence_id r) then Err Sqlite
      else Ok (db\<lparr>db_refusals := db_refusals db @ [(k, r)]\<rparr>))"

text \<open>
  \<open>UPDATE occurrences .. WHERE campaign_id=? AND occurrence_id=? AND state_digest=?\<close> and
  \<open>UPDATE campaigns .. WHERE campaign_id=? AND revision=? AND current_state_digest=?\<close>: the new database
  and the number of changed rows.
\<close>

definition update_occurrence_row ::
  "(occurrence_row \<Rightarrow> bool) \<Rightarrow> (occurrence_row \<Rightarrow> occurrence_row) \<Rightarrow> campaign_db
     \<Rightarrow> CampaignStoreErrorV1 + campaign_db \<times> nat" where
  "update_occurrence_row sel f db =
     (let changed = filter sel (db_occurrences db); others = filter (\<lambda>r. \<not> sel r) (db_occurrences db) in
      if list_ex (\<lambda>r. \<not> positive_i64 (or_revision (f r))
           \<or> list_ex (\<lambda>x. or_state_digest x = or_state_digest (f r)) others) changed
      then Err Sqlite
      else Ok (db\<lparr>db_occurrences := map (\<lambda>r. if sel r then f r else r) (db_occurrences db)\<rparr>, length changed))"

definition update_campaign_row ::
  "(campaign_row \<Rightarrow> bool) \<Rightarrow> (campaign_row \<Rightarrow> campaign_row) \<Rightarrow> campaign_db
     \<Rightarrow> CampaignStoreErrorV1 + campaign_db \<times> nat" where
  "update_campaign_row sel f db =
     (let changed = filter sel (db_campaigns db) in
      if list_ex (\<lambda>r. \<not> positive_i64 (cr_revision (f r)) \<or> \<not> positive_i64 (cr_event_count (f r))) changed
      then Err Sqlite
      else Ok (db\<lparr>db_campaigns := map (\<lambda>r. if sel r then f r else r) (db_campaigns db)\<rparr>, length changed))"

lemmas statement_defs = insert_campaign_row_def insert_occurrence_row_def insert_transition_row_def
  insert_spend_row_def insert_attempt_row_def insert_settlement_row_def insert_human_row_def
  insert_discharge_row_def insert_refusal_row_def update_occurrence_row_def update_campaign_row_def

section \<open>Lemmas on collected rows\<close>

lemma or_insert_fresh: "k \<notin> fst ` set m \<Longrightarrow> or_insert k v m = btree_insert k v m"
  by (simp add: or_insert_def)

lemma or_insert_known: "k \<in> fst ` set m \<Longrightarrow> or_insert k v m = m"
  by (simp add: or_insert_def)

lemma keys_or_insert [simp]: "fst ` set (or_insert k v m) = insert k (fst ` set m)"
  by (auto simp: or_insert_def simp del: set_map)

end
