(* ===== verification/Store_Commit.thy ===== *)
theory Store_Commit
  imports Store_Evidence Store_Tables
begin

text \<open>
  The operations of \<open>CampaignStoreV1\<close> (\<open>crates/ag-store/src/campaign.rs\<close>) that write or read single rows.
  A writing operation is one transaction: it returns the new database, or an error and the database
  stays as it was. Opening, locking and syncing the file are not modelled.
\<close>

section \<open>The event chain\<close>

text \<open>
  \<open>store_event_digest\<close> panics where canonicalization fails; the value is left unspecified there.
\<close>

definition store_event_digest ::
  "'l store_lib_scheme \<Rightarrow> CampaignId \<Rightarrow> string option \<Rightarrow> string \<Rightarrow> CampaignTransitionKindV1 \<Rightarrow> Digest \<Rightarrow> Digest
     \<Rightarrow> Digest \<Rightarrow> Digest \<Rightarrow> u64 \<Rightarrow> Digest" where
  "store_event_digest L campaign source_occurrence successor_occurrence kind predecessor successor
       evidence previous recorded_at_unix_ms =
     (case jcs_canonicalize L (store_event_to_vec L)
        \<lparr>sed_campaign = campaign, sed_source_occurrence = source_occurrence,
         sed_successor_occurrence = successor_occurrence, sed_transition_kind = kind_as_str kind,
         sed_predecessor_state_digest = predecessor, sed_successor_state_digest = successor,
         sed_evidence_digest = evidence, sed_previous_event_digest = previous,
         sed_recorded_at_unix_ms = recorded_at_unix_ms\<rparr> of
        Inl _ \<Rightarrow> undefined
      | Inr document \<Rightarrow> hash_domain L EVENT_DOMAIN_V1 document)"

definition event_genesis :: "'l store_lib_scheme \<Rightarrow> CampaignId \<Rightarrow> Digest" where
  "event_genesis L campaign = hash_domain L EVENT_GENESIS_DOMAIN_V1 (as_bytes (campaign_text campaign))"

record CampaignHeadRow =
  chr_campaign :: string
  chr_occurrence :: string
  chr_state_digest :: string
  chr_revision :: u64
  chr_event_count :: u64
  chr_event_head :: string

definition campaign_head :: "campaign_db \<Rightarrow> CampaignStoreErrorV1 + CampaignHeadRow" where
  "campaign_head db =
     (case db_campaigns db of
        [] \<Rightarrow> Err Sqlite
      | raw # _ \<Rightarrow>
          try_then (to_u64 (cr_revision raw)) (\<lambda>revision.
          try_then (to_u64 (cr_event_count raw)) (\<lambda>event_count.
          Ok \<lparr>chr_campaign = cr_campaign_id raw, chr_occurrence = cr_current_occurrence_id raw,
              chr_state_digest = cr_current_state_digest raw, chr_revision = revision,
              chr_event_count = event_count, chr_event_head = cr_event_head_digest raw\<rparr>)))"

section \<open>One transition\<close>

definition occurrence_columns ::
  "'l store_lib_scheme \<Rightarrow> OccurrenceSnapshotV1 \<Rightarrow> int \<Rightarrow> bytes \<Rightarrow> occurrence_row" where
  "occurrence_columns L snapshot revision snapshot_jcs =
     \<lparr>or_campaign_id = campaign_text (key_campaign (snap_key snapshot)),
      or_occurrence_id = occurrence_to_string L (key_occurrence (snap_key snapshot)),
      or_program_basis = program_text (meta_program (meta (snap_state snapshot))),
      or_program_counter = pc_tag (snap_pc snapshot),
      or_prior_state_digest = as_str (snap_prior_state_digest snapshot),
      or_state_digest = as_str (snap_state_digest snapshot),
      or_revision = revision, or_snapshot_jcs = snapshot_jcs\<rparr>"

definition insert_occurrence ::
  "'l store_lib_scheme \<Rightarrow> OccurrenceSnapshotV1 \<Rightarrow> u64 \<Rightarrow> bytes \<Rightarrow> campaign_db
     \<Rightarrow> CampaignStoreErrorV1 + campaign_db" where
  "insert_occurrence L snapshot revision snapshot_jcs db =
     try_then (to_i64 revision) (\<lambda>revision.
     insert_occurrence_row (occurrence_columns L snapshot revision snapshot_jcs) db)"

text \<open>The \<open>if\<close> of \<open>write_transition\<close> that replaces the row of the occurrence or inserts a new one.\<close>

definition write_occurrence ::
  "'l store_lib_scheme \<Rightarrow> OccurrenceSnapshotV1 \<Rightarrow> OccurrenceSnapshotV1 \<Rightarrow> bytes \<Rightarrow> Digest \<Rightarrow> campaign_db
     \<Rightarrow> CampaignStoreErrorV1 + campaign_db" where
  "write_occurrence L expected successor snapshot_jcs authoritative db =
     (if snap_key expected = snap_key successor
      then try_then (update_occurrence_row
             (\<lambda>r. or_campaign_id r = campaign_text (key_campaign (snap_key successor))
               \<and> or_occurrence_id r = occurrence_to_string L (key_occurrence (snap_key successor))
               \<and> or_state_digest r = as_str (snap_state_digest expected))
             (\<lambda>r. r\<lparr>or_program_basis := program_text (meta_program (meta (snap_state successor))),
               or_program_counter := pc_tag (snap_pc successor),
               or_prior_state_digest := as_str (snap_prior_state_digest successor),
               or_state_digest := as_str (snap_state_digest successor),
               or_revision := or_revision r + 1,
               or_snapshot_jcs := snapshot_jcs\<rparr>) db) (\<lambda>(db, changed).
           if changed \<noteq> 1 then Err (StalePredecessor (snap_state_digest expected) authoritative)
           else Ok db)
      else insert_occurrence L successor 1 snapshot_jcs db)"

definition account_spend ::
  "'l store_lib_scheme \<Rightarrow> OccurrenceSnapshotV1 \<Rightarrow> OccurrenceSnapshotV1 \<Rightarrow> campaign_db
     \<Rightarrow> CampaignStoreErrorV1 + campaign_db" where
  "account_spend L expected successor db =
     (case (state_ag_spend (snap_state expected), state_ag_spend (snap_state successor),
        state_issuance (snap_state successor)) of
        (None, Some spend, Some issuance) \<Rightarrow>
          try_then (encode L (spend_to_vec L) spend) (\<lambda>spend_jcs.
          try_then (encode L (codec_to_vec (issuance_codec L)) issuance) (\<lambda>issuance_jcs.
          insert_spend_row (spend_text (sp_spend spend))
            \<lparr>es_authorization = authorization_text (sp_authorization spend),
             es_campaign = campaign_text (key_campaign (sp_key spend)),
             es_occurrence = occurrence_to_string L (key_occurrence (sp_key spend)),
             es_issuance = issuance_text (iss_issuance issuance),
             es_spend_jcs = spend_jcs, es_issuance_jcs = issuance_jcs,
             es_transition = as_str (snap_state_digest successor)\<rparr> db))
      | _ \<Rightarrow> Ok db)"

definition account_attempt ::
  "'l store_lib_scheme \<Rightarrow> OccurrenceSnapshotV1 \<Rightarrow> OccurrenceSnapshotV1 \<Rightarrow> campaign_db
     \<Rightarrow> CampaignStoreErrorV1 + campaign_db" where
  "account_attempt L expected successor db =
     (case (state_docket_custody (snap_state expected), state_docket_custody (snap_state successor)) of
        (None, Some custody) \<Rightarrow>
          try_then (encode L (custody_to_vec L) custody) (\<lambda>custody_jcs.
          insert_attempt_row (attempt_text (cu_attempt custody))
            \<lparr>ea_issuance = issuance_text (cu_issuance custody),
             ea_campaign = campaign_text (key_campaign (snap_key successor)),
             ea_occurrence = occurrence_to_string L (key_occurrence (snap_key successor)),
             ea_custody_jcs = custody_jcs, ea_transition = as_str (snap_state_digest successor)\<rparr> db)
      | _ \<Rightarrow> Ok db)"

definition account_settlement ::
  "'l store_lib_scheme \<Rightarrow> OccurrenceSnapshotV1 \<Rightarrow> OccurrenceSnapshotV1 \<Rightarrow> campaign_db
     \<Rightarrow> CampaignStoreErrorV1 + campaign_db" where
  "account_settlement L expected successor db =
     (case (state_settlement (snap_state expected), state_settlement (snap_state successor)) of
        (None, Some settlement) \<Rightarrow>
          try_then (encode L (settlement_to_vec L) settlement) (\<lambda>settlement_jcs.
          insert_settlement_row (settlement_text (se_settlement settlement))
            \<lparr>et_attempt = attempt_text (se_attempt settlement),
             et_receipt = receipt_text (se_receipt settlement),
             et_campaign = campaign_text (key_campaign (snap_key successor)),
             et_occurrence = occurrence_to_string L (key_occurrence (snap_key successor)),
             et_settlement_jcs = settlement_jcs, et_transition = as_str (snap_state_digest successor)\<rparr> db)
      | _ \<Rightarrow> Ok db)"

definition account_new_facts ::
  "'l store_lib_scheme \<Rightarrow> OccurrenceSnapshotV1 \<Rightarrow> OccurrenceSnapshotV1 \<Rightarrow> campaign_db
     \<Rightarrow> CampaignStoreErrorV1 + campaign_db" where
  "account_new_facts L expected successor db =
     try_then (account_spend L expected successor db) (\<lambda>db.
     try_then (account_attempt L expected successor db) (\<lambda>db.
     account_settlement L expected successor db))"

text \<open>The last statement of \<open>write_transition\<close>, the compare-and-swap on the campaign row.\<close>

definition advance_head ::
  "'l store_lib_scheme \<Rightarrow> CampaignHeadRow \<Rightarrow> OccurrenceSnapshotV1 \<Rightarrow> OccurrenceSnapshotV1 \<Rightarrow> Digest \<Rightarrow> Digest
     \<Rightarrow> campaign_db \<Rightarrow> CampaignStoreErrorV1 + campaign_db" where
  "advance_head L head expected successor event_digest authoritative db =
     try_then (to_i64 (saturating_add (chr_revision head) 1)) (\<lambda>next_revision.
     try_then (to_i64 (saturating_add (chr_event_count head) 1)) (\<lambda>next_event_count.
     try_then (to_i64 (chr_revision head)) (\<lambda>revision.
     try_then (update_campaign_row
         (\<lambda>r. cr_campaign_id r = campaign_text (key_campaign (snap_key successor))
           \<and> cr_revision r = revision \<and> cr_current_state_digest r = as_str (snap_state_digest expected))
         (\<lambda>r. r\<lparr>cr_current_occurrence_id := occurrence_to_string L (key_occurrence (snap_key successor)),
           cr_current_state_digest := as_str (snap_state_digest successor),
           cr_revision := next_revision, cr_event_count := next_event_count,
           cr_event_head_digest := as_str event_digest\<rparr>) db) (\<lambda>(db, changed).
     if changed \<noteq> 1 then Err (StalePredecessor (snap_state_digest expected) authoritative)
     else Ok db))))"

definition write_transition ::
  "'l store_lib_scheme \<Rightarrow> OccurrenceSnapshotV1 \<Rightarrow> OccurrenceSnapshotV1 \<Rightarrow> CampaignTransitionKindV1
     \<Rightarrow> CampaignTransitionEvidenceV1 \<Rightarrow> u64 \<Rightarrow> campaign_db
     \<Rightarrow> CampaignStoreErrorV1 + campaign_db \<times> CampaignCommitReceiptV1" where
  "write_transition L expected successor kind evidence recorded_at_unix_ms db =
     try_then (map_err Kernel (validate_successor L expected successor)) (\<lambda>_.
     if key_campaign (snap_key expected) \<noteq> key_campaign (snap_key successor) then Err Store_BindingMismatch
     else
     try_then (campaign_head db) (\<lambda>head.
     let source_occurrence = occurrence_to_string L (key_occurrence (snap_key expected));
         successor_occurrence = occurrence_to_string L (key_occurrence (snap_key successor)) in
     if chr_campaign head \<noteq> campaign_text (key_campaign (snap_key expected))
        \<or> chr_occurrence head \<noteq> source_occurrence
     then Err Store_BindingMismatch
     else
     try_then (parse_digest L (chr_state_digest head)) (\<lambda>authoritative.
     if authoritative \<noteq> snap_state_digest expected
     then Err (StalePredecessor (snap_state_digest expected) authoritative)
     else
     try_then (validate_transition_kind expected successor kind) (\<lambda>_.
     try_then (encode L (codec_to_vec (snapshot_codec L)) successor) (\<lambda>snapshot_jcs.
     try_then (encode L (codec_to_vec (evidence_codec L)) evidence) (\<lambda>evidence_jcs.
     try_then (parse_digest L (chr_event_head head)) (\<lambda>previous_event_digest.
     let evidence_digest = hash_domain L EVENT_DOMAIN_V1 evidence_jcs;
         event_digest = store_event_digest L (key_campaign (snap_key expected)) (Some source_occurrence)
           successor_occurrence kind (snap_state_digest expected) (snap_state_digest successor)
           evidence_digest previous_event_digest recorded_at_unix_ms in
     try_then (write_occurrence L expected successor snapshot_jcs authoritative db) (\<lambda>db.
     try_then (account_new_facts L expected successor db) (\<lambda>db.
     try_then (to_i64 recorded_at_unix_ms) (\<lambda>recorded.
     try_then (insert_transition_row
       \<lparr>tr_campaign_id = campaign_text (key_campaign (snap_key expected)),
        tr_source_occurrence_id = Some source_occurrence,
        tr_successor_occurrence_id = successor_occurrence,
        tr_transition_kind = kind_as_str kind,
        tr_predecessor_state_digest = as_str (snap_state_digest expected),
        tr_successor_state_digest = as_str (snap_state_digest successor),
        tr_successor_snapshot_jcs = snapshot_jcs, tr_evidence_jcs = evidence_jcs,
        tr_evidence_digest = as_str evidence_digest,
        tr_previous_event_digest = as_str previous_event_digest,
        tr_event_digest = as_str event_digest, tr_recorded_at_unix_ms = recorded\<rparr> db) (\<lambda>db.
     try_then (advance_head L head expected successor event_digest authoritative db) (\<lambda>db.
     Ok (db, \<lparr>ccr_revision = saturating_add (chr_revision head) 1,
              ccr_predecessor_state_digest = snap_state_digest expected,
              ccr_successor_state_digest = snap_state_digest successor,
              ccr_event_digest = event_digest\<rparr>)))))))))))))"

end
