(* ===== verification/Store_Replay.thy ===== *)
theory Store_Replay
  imports Store_Commit
begin

text \<open>
  \<open>replay_store\<close> of \<open>crates/ag-store/src/campaign.rs\<close> and the checks it ends with: the journal is decoded and
  walked from genesis through the membrane, the facts met on the way are accumulated, and every
  table is compared with them. A \<open>BTreeMap\<close> is its entries in the order of the keys; rows that are
  collected into one are read in any order, the others in the order of their \<open>ORDER BY\<close>.
\<close>

section \<open>The journal\<close>

record StoredTransitionRow =
  str_source_occurrence :: "string option"
  str_successor_occurrence :: string
  str_kind :: CampaignTransitionKindV1
  str_predecessor :: Digest
  str_successor :: Digest
  str_snapshot :: OccurrenceSnapshotV1
  str_evidence :: CampaignTransitionEvidenceV1
  str_evidence_digest :: Digest
  str_previous_event :: Digest
  str_event :: Digest
  str_recorded_at_unix_ms :: u64

record ExpectedHumanRow =
  eh_nonce :: string
  eh_campaign :: string
  eh_occurrence :: string
  eh_halted_state_digest :: string
  eh_verification :: string
  eh_artifact_jcs :: bytes
  eh_consumed_at_unix_ms :: u64

definition read_transition ::
  "'l store_lib_scheme \<Rightarrow> transition_row \<Rightarrow> CampaignStoreErrorV1 + StoredTransitionRow" where
  "read_transition L raw =
     try_then (kind_parse (tr_transition_kind raw)) (\<lambda>kind.
     try_then (parse_digest L (tr_predecessor_state_digest raw)) (\<lambda>predecessor.
     try_then (parse_digest L (tr_successor_state_digest raw)) (\<lambda>successor.
     try_then (decode L (codec_from_slice (snapshot_codec L)) (tr_successor_snapshot_jcs raw)) (\<lambda>snapshot.
     try_then (decode L (codec_from_slice (evidence_codec L)) (tr_evidence_jcs raw)) (\<lambda>evidence.
     try_then (parse_digest L (tr_evidence_digest raw)) (\<lambda>evidence_digest.
     try_then (parse_digest L (tr_previous_event_digest raw)) (\<lambda>previous_event.
     try_then (parse_digest L (tr_event_digest raw)) (\<lambda>event.
     try_then (to_u64 (tr_recorded_at_unix_ms raw)) (\<lambda>recorded.
     Ok \<lparr>str_source_occurrence = tr_source_occurrence_id raw,
         str_successor_occurrence = tr_successor_occurrence_id raw, str_kind = kind,
         str_predecessor = predecessor, str_successor = successor, str_snapshot = snapshot,
         str_evidence = evidence, str_evidence_digest = evidence_digest,
         str_previous_event = previous_event, str_event = event,
         str_recorded_at_unix_ms = recorded\<rparr>)))))))))"

text \<open>\<open>WHERE campaign_id=?1 ORDER BY sequence\<close>\<close>

definition journal_rows :: "campaign_db \<Rightarrow> CampaignId \<Rightarrow> transition_row list" where
  "journal_rows db campaign = filter (\<lambda>r. tr_campaign_id r = campaign_text campaign) (map snd (db_transitions db))"

section \<open>Walking the journal\<close>

text \<open>The variables of the loop; the index of the row is the number of rows before it.\<close>

record replay_state =
  rs_index :: nat
  rs_previous_snapshot :: "OccurrenceSnapshotV1 option"
  rs_previous_event :: Digest
  rs_latest_occurrences :: "(string \<times> OccurrenceSnapshotV1) list"
  rs_spends :: "(string \<times> ExpectedSpendRow) list"
  rs_attempts :: "(string \<times> ExpectedAttemptRow) list"
  rs_settlements :: "(string \<times> ExpectedSettlementRow) list"
  rs_human_decisions :: "string set"
  rs_human_artifacts :: "(string \<times> ExpectedHumanRow) list"

definition replay_start :: "'l store_lib_scheme \<Rightarrow> CampaignId \<Rightarrow> replay_state" where
  "replay_start L campaign =
     \<lparr>rs_index = 0, rs_previous_snapshot = None, rs_previous_event = event_genesis L campaign,
      rs_latest_occurrences = [], rs_spends = [], rs_attempts = [], rs_settlements = [],
      rs_human_decisions = {}, rs_human_artifacts = []\<rparr>"

definition transition_failed :: "nat \<Rightarrow> string \<Rightarrow> CampaignStoreErrorV1" where
  "transition_failed index what = Corrupt (Reason (''transition '' @ decimal_text (index + 1) @ what))"

definition replay_binding ::
  "'l store_lib_scheme \<Rightarrow> CampaignId \<Rightarrow> nat \<Rightarrow> Digest \<Rightarrow> StoredTransitionRow \<Rightarrow> CampaignStoreErrorV1 + unit" where
  "replay_binding L campaign index previous_event row =
     try_then (map_err Kernel (validate_integrity L (str_snapshot row))) (\<lambda>_.
     if key_campaign (snap_key (str_snapshot row)) \<noteq> campaign
        \<or> str_successor_occurrence row \<noteq> occurrence_to_string L (key_occurrence (snap_key (str_snapshot row)))
        \<or> str_predecessor row \<noteq> snap_prior_state_digest (str_snapshot row)
        \<or> str_successor row \<noteq> snap_state_digest (str_snapshot row)
     then Err (transition_failed index '' snapshot binding failed'')
     else
     try_then (encode L (codec_to_vec (evidence_codec L)) (str_evidence row)) (\<lambda>evidence_jcs.
     if str_evidence_digest row \<noteq> hash_domain L EVENT_DOMAIN_V1 evidence_jcs
        \<or> str_previous_event row \<noteq> previous_event
     then Err (transition_failed index '' evidence/event chain failed'')
     else if str_event row \<noteq> store_event_digest L campaign (str_source_occurrence row)
          (str_successor_occurrence row) (str_kind row) (str_predecessor row) (str_successor row)
          (str_evidence_digest row) (str_previous_event row) (str_recorded_at_unix_ms row)
     then Err (transition_failed index '' event digest failed'')
     else Ok ()))"

definition replay_genesis :: "Digest option \<Rightarrow> StoredTransitionRow \<Rightarrow> CampaignStoreErrorV1 + unit" where
  "replay_genesis stored_profile row =
     (case str_evidence row of
        Ev_Genesis genesis_profile \<Rightarrow>
          if str_kind row \<noteq> K_CampaignCreated
             \<or> str_source_occurrence row \<noteq> None
             \<or> snap_pc (str_snapshot row) \<noteq> PC_ObservationRequired
             \<or> state_prior_occurrence (snap_state (str_snapshot row)) \<noteq> None
             \<or> genesis_profile \<noteq> stored_profile
          then Err (Corrupt (Reason ''invalid campaign genesis transition''))
          else Ok ()
      | _ \<Rightarrow> Err (Corrupt (Reason ''campaign genesis lacks its runtime-profile binding'')))"

text \<open>The decisions the row consumes, each of which must be new to the whole replay.\<close>

definition new_decisions :: "OccurrenceSnapshotV1 \<Rightarrow> OccurrenceSnapshotV1 \<Rightarrow> HumanDecisionIdV1 list" where
  "new_decisions prior snapshot =
     filter (\<lambda>d. d \<notin> set (meta_used_human_decisions (meta (snap_state prior))))
       (meta_used_human_decisions (meta (snap_state snapshot)))"

definition record_decision :: "string set \<Rightarrow> HumanDecisionIdV1 \<Rightarrow> CampaignStoreErrorV1 + string set" where
  "record_decision seen decision =
     (if decision_text decision \<in> seen
      then Err (Corrupt (Reason ''human decision appears twice in replay''))
      else Ok (insert (decision_text decision) seen))"

definition replay_link ::
  "'l store_lib_scheme \<Rightarrow> nat \<Rightarrow> OccurrenceSnapshotV1 option \<Rightarrow> StoredTransitionRow \<Rightarrow> string set
     \<Rightarrow> CampaignStoreErrorV1 + string set" where
  "replay_link L index previous_snapshot row human_decisions =
     try_then (ok_or previous_snapshot (Corrupt (Reason ''missing replay predecessor''))) (\<lambda>prior.
     if str_source_occurrence row \<noteq> Some (occurrence_to_string L (key_occurrence (snap_key prior)))
     then Err (transition_failed index '' source occurrence failed'')
     else
     try_then (map_err Kernel (validate_successor L prior (str_snapshot row))) (\<lambda>_.
     try_then (validate_transition_kind prior (str_snapshot row) (str_kind row)) (\<lambda>_.
     try_then (validate_replayed_evidence L prior (str_snapshot row) (str_kind row) (str_evidence row)) (\<lambda>_.
     try_fold record_decision human_decisions (new_decisions prior (str_snapshot row))))))"

definition replay_spend ::
  "'l store_lib_scheme \<Rightarrow> StoredTransitionRow \<Rightarrow> (string \<times> ExpectedSpendRow) list
     \<Rightarrow> CampaignStoreErrorV1 + (string \<times> ExpectedSpendRow) list" where
  "replay_spend L row spends =
     (case state_ag_spend (snap_state (str_snapshot row)) of
        None \<Rightarrow> Ok spends
      | Some spend \<Rightarrow>
          (case state_issuance (snap_state (str_snapshot row)) of
             None \<Rightarrow> Err (Corrupt (Reason ''AG spend lacks exact issuance''))
           | Some issuance \<Rightarrow>
               try_then (encode L (spend_to_vec L) spend) (\<lambda>spend_jcs.
               try_then (encode L (codec_to_vec (issuance_codec L)) issuance) (\<lambda>issuance_jcs.
               Ok (or_insert (spend_text (sp_spend spend))
                 \<lparr>es_authorization = authorization_text (sp_authorization spend),
                  es_campaign = campaign_text (key_campaign (sp_key spend)),
                  es_occurrence = occurrence_to_string L (key_occurrence (sp_key spend)),
                  es_issuance = issuance_text (iss_issuance issuance),
                  es_spend_jcs = spend_jcs, es_issuance_jcs = issuance_jcs,
                  es_transition = as_str (str_successor row)\<rparr> spends)))))"

definition replay_attempt ::
  "'l store_lib_scheme \<Rightarrow> StoredTransitionRow \<Rightarrow> (string \<times> ExpectedAttemptRow) list
     \<Rightarrow> CampaignStoreErrorV1 + (string \<times> ExpectedAttemptRow) list" where
  "replay_attempt L row attempts =
     (case state_docket_custody (snap_state (str_snapshot row)) of
        None \<Rightarrow> Ok attempts
      | Some custody \<Rightarrow>
          try_then (encode L (custody_to_vec L) custody) (\<lambda>custody_jcs.
          Ok (or_insert (attempt_text (cu_attempt custody))
            \<lparr>ea_issuance = issuance_text (cu_issuance custody),
             ea_campaign = campaign_text (key_campaign (snap_key (str_snapshot row))),
             ea_occurrence = occurrence_to_string L (key_occurrence (snap_key (str_snapshot row))),
             ea_custody_jcs = custody_jcs, ea_transition = as_str (str_successor row)\<rparr> attempts)))"

definition replay_settlement ::
  "'l store_lib_scheme \<Rightarrow> StoredTransitionRow \<Rightarrow> (string \<times> ExpectedSettlementRow) list
     \<Rightarrow> CampaignStoreErrorV1 + (string \<times> ExpectedSettlementRow) list" where
  "replay_settlement L row settlements =
     (case state_settlement (snap_state (str_snapshot row)) of
        None \<Rightarrow> Ok settlements
      | Some settlement \<Rightarrow>
          try_then (encode L (settlement_to_vec L) settlement) (\<lambda>settlement_jcs.
          Ok (or_insert (settlement_text (se_settlement settlement))
            \<lparr>et_attempt = attempt_text (se_attempt settlement),
             et_receipt = receipt_text (se_receipt settlement),
             et_campaign = campaign_text (key_campaign (snap_key (str_snapshot row))),
             et_occurrence = occurrence_to_string L (key_occurrence (snap_key (str_snapshot row))),
             et_settlement_jcs = settlement_jcs, et_transition = as_str (str_successor row)\<rparr> settlements)))"

definition replay_human ::
  "'l store_lib_scheme \<Rightarrow> StoredTransitionRow \<Rightarrow> (string \<times> ExpectedHumanRow) list
     \<Rightarrow> CampaignStoreErrorV1 + (string \<times> ExpectedHumanRow) list" where
  "replay_human L row artifacts =
     (case str_evidence row of
        Ev_HumanDisposition artifact verification \<Rightarrow>
          try_then (encode L (codec_to_vec (human_codec L)) artifact) (\<lambda>artifact_jcs.
          let decision = decision_text (hd_decision artifact);
              expected = \<lparr>eh_nonce = nonce_text (hd_nonce artifact),
                eh_campaign = campaign_text (hd_campaign artifact),
                eh_occurrence = occurrence_to_string L (hd_occurrence artifact),
                eh_halted_state_digest = as_str (hd_halted_state_digest artifact),
                eh_verification = verification_text verification,
                eh_artifact_jcs = artifact_jcs,
                eh_consumed_at_unix_ms = str_recorded_at_unix_ms row\<rparr> in
          case map_of artifacts decision of
            Some prior \<Rightarrow>
              if prior \<noteq> expected
              then Err (Corrupt (Reason ''human disposition evidence changed across one transaction''))
              else Ok (btree_insert decision expected artifacts)
          | None \<Rightarrow> Ok (btree_insert decision expected artifacts))
      | _ \<Rightarrow> Ok artifacts)"

definition replay_row ::
  "'l store_lib_scheme \<Rightarrow> CampaignId \<Rightarrow> Digest option \<Rightarrow> replay_state \<Rightarrow> StoredTransitionRow
     \<Rightarrow> CampaignStoreErrorV1 + replay_state" where
  "replay_row L campaign stored_profile s row =
     try_then (replay_binding L campaign (rs_index s) (rs_previous_event s) row) (\<lambda>_.
     try_then (if rs_index s = 0
         then try_then (replay_genesis stored_profile row) (\<lambda>_. Ok (rs_human_decisions s))
         else replay_link L (rs_index s) (rs_previous_snapshot s) row (rs_human_decisions s)) (\<lambda>decisions.
     try_then (replay_spend L row (rs_spends s)) (\<lambda>spends.
     try_then (replay_attempt L row (rs_attempts s)) (\<lambda>attempts.
     try_then (replay_settlement L row (rs_settlements s)) (\<lambda>settlements.
     try_then (replay_human L row (rs_human_artifacts s)) (\<lambda>artifacts.
     Ok \<lparr>rs_index = rs_index s + 1, rs_previous_snapshot = Some (str_snapshot row),
         rs_previous_event = str_event row,
         rs_latest_occurrences =
           btree_insert (str_successor_occurrence row) (str_snapshot row) (rs_latest_occurrences s),
         rs_spends = spends, rs_attempts = attempts, rs_settlements = settlements,
         rs_human_decisions = decisions, rs_human_artifacts = artifacts\<rparr>))))))"

section \<open>Comparing the tables\<close>

definition verify_occurrence_row ::
  "'l store_lib_scheme \<Rightarrow> (string \<times> OccurrenceSnapshotV1) list \<Rightarrow> occurrence_row
     \<Rightarrow> CampaignStoreErrorV1 + unit" where
  "verify_occurrence_row L expected row =
     try_then (decode L (codec_from_slice (snapshot_codec L)) (or_snapshot_jcs row)) (\<lambda>snapshot.
     try_then (ok_or (map_of expected (or_occurrence_id row)) (Corrupt (Reason ''unreplayed occurrence row'')))
       (\<lambda>expected_snapshot.
     if snapshot \<noteq> expected_snapshot
        \<or> or_program_basis row \<noteq> program_text (meta_program (meta (snap_state snapshot)))
        \<or> or_program_counter row \<noteq> pc_tag (snap_pc snapshot)
        \<or> or_prior_state_digest row \<noteq> as_str (snap_prior_state_digest snapshot)
        \<or> or_state_digest row \<noteq> as_str (snap_state_digest snapshot)
     then Err (Corrupt (Reason ''occurrence materialization differs from replay''))
     else Ok ()))"

definition verify_occurrence_materialization ::
  "'l store_lib_scheme \<Rightarrow> campaign_db \<Rightarrow> CampaignId \<Rightarrow> (string \<times> OccurrenceSnapshotV1) list
     \<Rightarrow> CampaignStoreErrorV1 + unit" where
  "verify_occurrence_materialization L db campaign expected =
     (let rows = sort_key or_occurrence_id
            (filter (\<lambda>r. or_campaign_id r = campaign_text campaign) (db_occurrences db)) in
      try_then (try_fold (\<lambda>_. verify_occurrence_row L expected) () rows) (\<lambda>_.
      if or_occurrence_id ` set rows \<noteq> fst ` set expected
      then Err (Corrupt (Reason ''occurrence materialization is incomplete''))
      else Ok ()))"

definition verify_spend_accounting ::
  "campaign_db \<Rightarrow> (string \<times> ExpectedSpendRow) list \<Rightarrow> CampaignStoreErrorV1 + unit" where
  "verify_spend_accounting db expected =
     (if btree_collect (db_spends db) \<noteq> expected
      then Err (Corrupt (Reason ''AG spend accounting differs from replay'')) else Ok ())"

definition verify_attempt_accounting ::
  "campaign_db \<Rightarrow> (string \<times> ExpectedAttemptRow) list \<Rightarrow> CampaignStoreErrorV1 + unit" where
  "verify_attempt_accounting db expected =
     (if btree_collect (db_attempts db) \<noteq> expected
      then Err (Corrupt (Reason ''Docket attempt accounting differs from replay'')) else Ok ())"

definition verify_settlement_accounting ::
  "campaign_db \<Rightarrow> (string \<times> ExpectedSettlementRow) list \<Rightarrow> CampaignStoreErrorV1 + unit" where
  "verify_settlement_accounting db expected =
     (if btree_collect (db_settlements db) \<noteq> expected
      then Err (Corrupt (Reason ''Docket settlement accounting differs from replay'')) else Ok ())"

text \<open>A human row as the replay expects it; a negative time fails in the row conversion.\<close>

definition read_human :: "string \<times> human_row \<Rightarrow> CampaignStoreErrorV1 + string \<times> ExpectedHumanRow" where
  "read_human r =
     (case r of (decision, row) \<Rightarrow>
        try_then (map_err (\<lambda>_. Sqlite) (to_u64 (hr_consumed_at_unix_ms row))) (\<lambda>consumed.
        Ok (decision, \<lparr>eh_nonce = hr_nonce row, eh_campaign = hr_campaign_id row,
          eh_occurrence = hr_occurrence_id row, eh_halted_state_digest = hr_halted_state_digest row,
          eh_verification = hr_verification_ref row, eh_artifact_jcs = hr_artifact_jcs row,
          eh_consumed_at_unix_ms = consumed\<rparr>)))"

definition expected_discharge ::
  "'l store_lib_scheme \<Rightarrow> (string \<times> discharge_row) list \<Rightarrow> string \<times> ExpectedHumanRow
     \<Rightarrow> CampaignStoreErrorV1 + (string \<times> discharge_row) list" where
  "expected_discharge L expected entry =
     try_then (decode L (codec_from_slice (human_codec L)) (eh_artifact_jcs (snd entry))) (\<lambda>artifact.
     case hd_disposition artifact of
       ExactResidualDisposition discharge \<Rightarrow>
         try_then (encode L (residual_ids_to_vec L) (dis_before discharge)) (\<lambda>before_jcs.
         try_then (encode L (residual_ids_to_vec L) (dis_closed discharge)) (\<lambda>closed_jcs.
         try_then (encode L (residual_ids_to_vec L) (dis_after discharge)) (\<lambda>after_jcs.
         Ok (btree_insert (fst entry)
           (authority_text (dis_authority discharge), before_jcs, closed_jcs, after_jcs) expected))))
     | _ \<Rightarrow> Ok expected)"

definition verify_residual_discharge_accounting ::
  "'l store_lib_scheme \<Rightarrow> campaign_db \<Rightarrow> (string \<times> ExpectedHumanRow) list \<Rightarrow> CampaignStoreErrorV1 + unit" where
  "verify_residual_discharge_accounting L db humans =
     try_then (try_fold (expected_discharge L) [] humans) (\<lambda>expected.
     if btree_collect (db_discharges db) \<noteq> expected
     then Err (Corrupt (Reason ''residual discharge accounting differs from replay''))
     else Ok ())"

definition verify_human_artifacts ::
  "'l store_lib_scheme \<Rightarrow> campaign_db \<Rightarrow> (string \<times> ExpectedHumanRow) list \<Rightarrow> CampaignStoreErrorV1 + unit" where
  "verify_human_artifacts L db expected =
     try_then (try_map read_human (db_humans db)) (\<lambda>rows.
     if btree_collect rows \<noteq> expected
     then Err (Corrupt (Reason ''human disposition materialization differs from replay''))
     else verify_residual_discharge_accounting L db expected)"

definition verify_refusal_row ::
  "'l store_lib_scheme \<Rightarrow> CampaignId \<Rightarrow> string set \<Rightarrow> string \<times> refusal_row \<Rightarrow> CampaignStoreErrorV1 + unit" where
  "verify_refusal_row L campaign valid_states entry =
     (case entry of (refusal_id, row) \<Rightarrow>
      try_then (decode L (codec_from_slice (refusal_codec L)) (rr_refusal_jcs row)) (\<lambda>refusal.
      if refusal_id \<noteq> as_str (hash_domain L REFUSAL_DOMAIN_V1 (rr_refusal_jcs row))
         \<or> rr_campaign_id row \<noteq> campaign_text campaign
         \<or> rr_campaign_id row \<noteq> campaign_text (key_campaign (ro_key refusal))
         \<or> rr_occurrence_id row \<noteq> occurrence_to_string L (key_occurrence (ro_key refusal))
         \<or> rr_state_digest row \<noteq> as_str (ro_at_state_digest refusal)
         \<or> rr_state_digest row \<notin> valid_states
      then Err (Corrupt (Reason ''refusal materialization mismatch''))
      else Ok ()))"

definition verify_refusals ::
  "'l store_lib_scheme \<Rightarrow> campaign_db \<Rightarrow> CampaignId \<Rightarrow> StoredTransitionRow list \<Rightarrow> CampaignStoreErrorV1 + unit" where
  "verify_refusals L db campaign transitions =
     try_fold (\<lambda>_. verify_refusal_row L campaign ((\<lambda>t. as_str (str_successor t)) ` set transitions)) ()
       (sort_key fst (db_refusals db))"

section \<open>The replay\<close>

definition verify_head ::
  "'l store_lib_scheme \<Rightarrow> campaign_row \<Rightarrow> Digest \<Rightarrow> Digest \<Rightarrow> nat \<Rightarrow> replay_state
     \<Rightarrow> CampaignStoreErrorV1 + unit" where
  "verify_head L row current_digest head rows s =
     try_then (ok_or (rs_previous_snapshot s) (Corrupt (Reason ''missing final replay snapshot''))) (\<lambda>final.
     let differs = Err (Corrupt (Reason ''campaign head does not equal replay result'')) in
     if occurrence_to_string L (key_occurrence (snap_key final)) \<noteq> cr_current_occurrence_id row
        \<or> snap_state_digest final \<noteq> current_digest
        \<or> rs_previous_event s \<noteq> head
     then differs
     else try_then (to_u64 (cr_event_count row)) (\<lambda>event_count.
       if event_count \<noteq> word_of_nat rows then differs
       else try_then (to_u64 (cr_revision row)) (\<lambda>revision.
         if revision \<noteq> event_count then differs else Ok ())))"

definition stored_profile_digest :: "'l store_lib_scheme \<Rightarrow> campaign_db \<Rightarrow> CampaignStoreErrorV1 + Digest option" where
  "stored_profile_digest L db =
     (case db_runtime_profile db of
        None \<Rightarrow> Ok None
      | Some (_, digest, _) \<Rightarrow> try_then (parse_digest L digest) (\<lambda>d. Ok (Some d)))"

definition replay_store ::
  "'l store_lib_scheme \<Rightarrow> campaign_db \<Rightarrow> CampaignStoreErrorV1 + CampaignReplayReportV1" where
  "replay_store L db =
     (case db_campaigns db of
        [row] \<Rightarrow>
          try_then (parse_digest L (cr_campaign_id row)) (\<lambda>campaign_digest.
          let campaign = CampaignId campaign_digest in
          try_then (parse_digest L (cr_current_state_digest row)) (\<lambda>current_digest.
          try_then (parse_digest L (cr_event_head_digest row)) (\<lambda>head.
          try_then (stored_profile_digest L db) (\<lambda>stored_profile.
          try_then (try_map (read_transition L) (journal_rows db campaign)) (\<lambda>transitions.
          if transitions = [] then Err (Corrupt (Reason ''transition journal is empty''))
          else
          try_then (try_fold (replay_row L campaign stored_profile) (replay_start L campaign) transitions) (\<lambda>s.
          try_then (verify_head L row current_digest head (length transitions) s) (\<lambda>_.
          try_then (verify_occurrence_materialization L db campaign (rs_latest_occurrences s)) (\<lambda>_.
          try_then (verify_spend_accounting db (rs_spends s)) (\<lambda>_.
          try_then (verify_attempt_accounting db (rs_attempts s)) (\<lambda>_.
          try_then (verify_settlement_accounting db (rs_settlements s)) (\<lambda>_.
          if rs_human_decisions s \<noteq> fst ` set (rs_human_artifacts s)
          then Err (Corrupt (Reason ''human decision accounting differs from transition evidence''))
          else
          try_then (verify_human_artifacts L db (rs_human_artifacts s)) (\<lambda>_.
          try_then (verify_refusals L db campaign transitions) (\<lambda>_.
          if db_quick_check db \<noteq> ''ok''
          then Err (Corrupt (Reason (''SQLite quick_check: '' @ db_quick_check db)))
          else Ok
            \<lparr>rep_campaign = campaign, rep_transitions = word_of_nat (length transitions),
             rep_ag_spends = word_of_nat (length (rs_spends s)),
             rep_docket_attempts = word_of_nat (length (rs_attempts s)),
             rep_settlements = word_of_nat (length (rs_settlements s)),
             rep_human_dispositions = word_of_nat (card (rs_human_decisions s)),
             rep_current_state_digest = current_digest\<rparr>)))))))))))))
      | _ \<Rightarrow> Err (Corrupt (Reason ''store must contain exactly one campaign'')))"

end
