(* ===== verification/Store_Operations.thy ===== *)
theory Store_Operations
  imports Store_Replay
begin

text \<open>
  The public operations of \<open>CampaignStoreV1\<close> (\<open>crates/ag-store/src/campaign.rs\<close>): creation, opening, reading,
  the three ways to commit, refusals and the verified projections.
\<close>

section \<open>Identity\<close>

definition runtime_profile ::
  "'l store_lib_scheme \<Rightarrow> campaign_db \<Rightarrow> CampaignStoreErrorV1 + StoredRuntimeProfileV1 option" where
  "runtime_profile L db =
     (case db_runtime_profile db of
        None \<Rightarrow> Ok None
      | Some (schema, digest, canonical_bytes) \<Rightarrow>
          try_then (parse_digest L digest) (\<lambda>digest.
          try_then (map_err (\<lambda>e. Corrupt (Reason_ProfileJson e)) (from_canonical_bytes L canonical_bytes)) (\<lambda>_.
          if \<not> schema_token schema \<or> digest \<noteq> hash_domain L RUNTIME_PROFILE_DIGEST_DOMAIN_V1 canonical_bytes
          then Err (Corrupt (Reason ''runtime profile binding differs from genesis''))
          else Ok (Some \<lparr>srp_schema = schema, srp_digest = digest, srp_canonical_bytes = canonical_bytes\<rparr>))))"

definition schema_digest :: "'l store_lib_scheme \<Rightarrow> Digest" where
  "schema_digest L = hash_domain L ''ag.governed-loop.store-schema/v1'' (as_bytes (schema_sql L))"

definition verify_identity :: "'l store_lib_scheme \<Rightarrow> campaign_db \<Rightarrow> CampaignStoreErrorV1 + unit" where
  "verify_identity L db =
     try_then (get_u32 (db_application_id db)) (\<lambda>application_id.
     try_then (get_u32 (db_user_version db)) (\<lambda>user_version.
     case db_identity db of
       None \<Rightarrow> Err Sqlite
     | Some (row_application, row_name, row_version, row_digest) \<Rightarrow>
         try_then (get_u32 row_application) (\<lambda>row_application.
         try_then (get_u32 row_version) (\<lambda>row_version.
         if application_id \<noteq> CAMPAIGN_STORE_APPLICATION_ID
            \<or> user_version \<noteq> CAMPAIGN_STORE_SCHEMA_VERSION
            \<or> row_application \<noteq> CAMPAIGN_STORE_APPLICATION_ID
            \<or> row_name \<noteq> CAMPAIGN_STORE_SCHEMA_NAME
            \<or> row_version \<noteq> CAMPAIGN_STORE_SCHEMA_VERSION
            \<or> row_digest \<noteq> as_str (schema_digest L)
         then Err StoreIdentity
         else try_then (runtime_profile L db) (\<lambda>_. Ok ())))))"

definition store_replay ::
  "'l store_lib_scheme \<Rightarrow> campaign_db \<Rightarrow> CampaignStoreErrorV1 + CampaignReplayReportV1" where
  "store_replay L db = try_then (verify_identity L db) (\<lambda>_. replay_store L db)"

text \<open>The checks of \<open>open\<close> once the file is open.\<close>

definition open_store :: "'l store_lib_scheme \<Rightarrow> campaign_db \<Rightarrow> CampaignStoreErrorV1 + campaign_db" where
  "open_store L db =
     try_then (verify_identity L db) (\<lambda>_.
     try_then (store_replay L db) (\<lambda>_. Ok db))"

section \<open>Creation\<close>

text \<open>The database after \<open>execute_batch(SCHEMA_SQL)\<close> on a new file.\<close>

definition empty_db :: campaign_db where
  "empty_db = \<lparr>db_application_id = 0, db_user_version = 0, db_quick_check = ''ok'', db_identity = None,
     db_runtime_profile = None, db_campaigns = [], db_occurrences = [], db_transitions = [], db_spends = [],
     db_attempts = [], db_settlements = [], db_humans = [], db_discharges = [], db_refusals = []\<rparr>"

definition bind_runtime_profile ::
  "'l store_lib_scheme \<Rightarrow> (string \<times> bytes) option \<Rightarrow> campaign_db
     \<Rightarrow> CampaignStoreErrorV1 + campaign_db \<times> Digest option" where
  "bind_runtime_profile L profile db =
     (case profile of
        None \<Rightarrow> Ok (db, None)
      | Some (schema, profile_jcs) \<Rightarrow>
          if \<not> schema_token schema then Err (Canonical ProfileSchemaToken)
          else
            try_then (map_err (\<lambda>e. Canonical (ProfileJson e)) (from_canonical_bytes L profile_jcs)) (\<lambda>_.
            let profile_digest = hash_domain L RUNTIME_PROFILE_DIGEST_DOMAIN_V1 profile_jcs in
            Ok (db\<lparr>db_runtime_profile := Some (schema, as_str profile_digest, profile_jcs)\<rparr>,
                Some profile_digest)))"

definition create_with_runtime_profile ::
  "'l store_lib_scheme \<Rightarrow> OccurrenceSnapshotV1 \<Rightarrow> (string \<times> bytes) option \<Rightarrow> u64
     \<Rightarrow> CampaignStoreErrorV1 + campaign_db" where
  "create_with_runtime_profile L initial profile recorded_at_unix_ms =
     try_then (map_err Kernel (validate_integrity L initial)) (\<lambda>_.
     if snap_pc initial \<noteq> PC_ObservationRequired \<or> state_prior_occurrence (snap_state initial) \<noteq> None
     then Err (Corrupt (Reason ''genesis must be an initial observation-required occurrence''))
     else
     try_then (bind_runtime_profile L profile
       (empty_db\<lparr>db_identity := Some (uint CAMPAIGN_STORE_APPLICATION_ID, CAMPAIGN_STORE_SCHEMA_NAME,
          uint CAMPAIGN_STORE_SCHEMA_VERSION, as_str (schema_digest L))\<rparr>)) (\<lambda>(db, profile_digest).
     let db = db\<lparr>db_application_id := uint CAMPAIGN_STORE_APPLICATION_ID,
                db_user_version := uint CAMPAIGN_STORE_SCHEMA_VERSION\<rparr> in
     try_then (encode L (codec_to_vec (snapshot_codec L)) initial) (\<lambda>snapshot_jcs.
     let campaign = key_campaign (snap_key initial);
         occurrence = occurrence_to_string L (key_occurrence (snap_key initial));
         previous_event_digest = event_genesis L campaign in
     try_then (encode L (codec_to_vec (evidence_codec L)) (Ev_Genesis profile_digest)) (\<lambda>evidence_jcs.
     let evidence_digest = hash_domain L EVENT_DOMAIN_V1 evidence_jcs;
         event_digest = store_event_digest L campaign None occurrence K_CampaignCreated
           (snap_prior_state_digest initial) (snap_state_digest initial) evidence_digest
           previous_event_digest recorded_at_unix_ms in
     try_then (insert_campaign_row
       \<lparr>cr_campaign_id = campaign_text campaign, cr_current_occurrence_id = occurrence,
        cr_current_state_digest = as_str (snap_state_digest initial), cr_revision = 1, cr_event_count = 1,
        cr_event_head_digest = as_str event_digest\<rparr> db) (\<lambda>db.
     try_then (insert_occurrence L initial 1 snapshot_jcs db) (\<lambda>db.
     try_then (to_i64 recorded_at_unix_ms) (\<lambda>recorded.
     try_then (insert_transition_row
       \<lparr>tr_campaign_id = campaign_text campaign, tr_source_occurrence_id = None,
        tr_successor_occurrence_id = occurrence, tr_transition_kind = kind_as_str K_CampaignCreated,
        tr_predecessor_state_digest = as_str (snap_prior_state_digest initial),
        tr_successor_state_digest = as_str (snap_state_digest initial),
        tr_successor_snapshot_jcs = snapshot_jcs, tr_evidence_jcs = evidence_jcs,
        tr_evidence_digest = as_str evidence_digest,
        tr_previous_event_digest = as_str previous_event_digest,
        tr_event_digest = as_str event_digest, tr_recorded_at_unix_ms = recorded\<rparr> db) (\<lambda>db.
     try_then (verify_identity L db) (\<lambda>_.
     try_then (store_replay L db) (\<lambda>_. Ok db))))))))))"

section \<open>Reading\<close>

definition store_campaign_id :: "'l store_lib_scheme \<Rightarrow> campaign_db \<Rightarrow> CampaignStoreErrorV1 + CampaignId" where
  "store_campaign_id L db =
     (case db_campaigns db of
        [] \<Rightarrow> Err Sqlite
      | row # _ \<Rightarrow> try_then (parse_digest L (cr_campaign_id row)) (\<lambda>digest. Ok (CampaignId digest)))"

definition load_snapshot ::
  "'l store_lib_scheme \<Rightarrow> bytes \<Rightarrow> CampaignStoreErrorV1 + OccurrenceSnapshotV1" where
  "load_snapshot L b =
     try_then (decode L (codec_from_slice (snapshot_codec L)) b) (\<lambda>snapshot.
     try_then (map_err Kernel (validate_integrity L snapshot)) (\<lambda>_. Ok snapshot))"

definition store_current :: "'l store_lib_scheme \<Rightarrow> campaign_db \<Rightarrow> CampaignStoreErrorV1 + OccurrenceSnapshotV1" where
  "store_current L db =
     (case concat (map (\<lambda>c. filter (\<lambda>r. or_campaign_id r = cr_campaign_id c
          \<and> or_occurrence_id r = cr_current_occurrence_id c) (db_occurrences db)) (db_campaigns db)) of
        [] \<Rightarrow> Err Sqlite
      | row # _ \<Rightarrow> load_snapshot L (or_snapshot_jcs row))"

definition store_occurrence ::
  "'l store_lib_scheme \<Rightarrow> OccurrenceKeyV1 \<Rightarrow> campaign_db \<Rightarrow> CampaignStoreErrorV1 + OccurrenceSnapshotV1 option" where
  "store_occurrence L key db =
     (case filter (\<lambda>r. or_campaign_id r = campaign_text (key_campaign key)
          \<and> or_occurrence_id r = occurrence_to_string L (key_occurrence key)) (db_occurrences db) of
        [] \<Rightarrow> Ok None
      | row # _ \<Rightarrow> try_then (load_snapshot L (or_snapshot_jcs row)) (\<lambda>snapshot. Ok (Some snapshot)))"

definition store_issuance ::
  "'l store_lib_scheme \<Rightarrow> AgIssuanceRefV1 \<Rightarrow> campaign_db \<Rightarrow> CampaignStoreErrorV1 + AgIssuanceV1 option" where
  "store_issuance L reference db =
     (case filter (\<lambda>(_, r). es_issuance r = issuance_text reference) (db_spends db) of
        [] \<Rightarrow> Ok None
      | (_, row) # _ \<Rightarrow>
          try_then (decode L (codec_from_slice (issuance_codec L)) (es_issuance_jcs row)) (\<lambda>v. Ok (Some v)))"

definition table_count :: "'r list \<Rightarrow> CampaignStoreErrorV1 + u64" where
  "table_count rows = to_u64 (int (length rows))"

definition accounting_counts :: "campaign_db \<Rightarrow> CampaignStoreErrorV1 + u64 \<times> u64 \<times> u64" where
  "accounting_counts db =
     try_then (table_count (db_spends db)) (\<lambda>spends.
     try_then (table_count (db_attempts db)) (\<lambda>attempts.
     try_then (table_count (db_settlements db)) (\<lambda>settlements. Ok (spends, attempts, settlements))))"

section \<open>Committing\<close>

definition store_commit ::
  "'l store_lib_scheme \<Rightarrow> OccurrenceSnapshotV1 \<Rightarrow> OccurrenceSnapshotV1 \<Rightarrow> CampaignTransitionKindV1 \<Rightarrow> u64
     \<Rightarrow> campaign_db \<Rightarrow> CampaignStoreErrorV1 + campaign_db \<times> CampaignCommitReceiptV1" where
  "store_commit L expected successor kind recorded_at_unix_ms db =
     (if kind = K_HumanDisposition \<or> kind = K_CampaignCreated
      then Err (Corrupt (Reason ''special transition requires its exact store API''))
      else
        try_then (validate_transition_kind expected successor kind) (\<lambda>_.
        write_transition L expected successor kind Ev_None recorded_at_unix_ms db))"

definition insert_human_disposition ::
  "'l store_lib_scheme \<Rightarrow> HumanDispositionV1 \<Rightarrow> HumanVerificationRefV1 \<Rightarrow> u64 \<Rightarrow> campaign_db
     \<Rightarrow> CampaignStoreErrorV1 + campaign_db" where
  "insert_human_disposition L artifact verification consumed_at_unix_ms db =
     (let decision = decision_text (hd_decision artifact); nonce = nonce_text (hd_nonce artifact) in
      if list_ex (\<lambda>(k, r). k = decision \<or> hr_nonce r = nonce) (db_humans db)
      then Err HumanDispositionReplay
      else
        try_then (encode L (codec_to_vec (human_codec L)) artifact) (\<lambda>artifact_jcs.
        try_then (to_i64 consumed_at_unix_ms) (\<lambda>consumed.
        try_then (insert_human_row decision
          \<lparr>hr_nonce = nonce, hr_campaign_id = campaign_text (hd_campaign artifact),
           hr_occurrence_id = occurrence_to_string L (hd_occurrence artifact),
           hr_halted_state_digest = as_str (hd_halted_state_digest artifact),
           hr_verification_ref = verification_text verification,
           hr_artifact_jcs = artifact_jcs, hr_consumed_at_unix_ms = consumed\<rparr> db) (\<lambda>db.
        case hd_disposition artifact of
          ExactResidualDisposition discharge \<Rightarrow>
            try_then (encode L (residual_ids_to_vec L) (dis_before discharge)) (\<lambda>before_jcs.
            try_then (encode L (residual_ids_to_vec L) (dis_closed discharge)) (\<lambda>closed_jcs.
            try_then (encode L (residual_ids_to_vec L) (dis_after discharge)) (\<lambda>after_jcs.
            insert_discharge_row decision
              (authority_text (dis_authority discharge), before_jcs, closed_jcs, after_jcs) db)))
        | _ \<Rightarrow> Ok db))))"

fun effect_parts ::
  "HumanDispositionEffectV1 \<Rightarrow> HumanVerificationRefV1 \<times> OccurrenceSnapshotV1 \<times> OccurrenceSnapshotV1 option" where
  "effect_parts (Updated snapshot verification) = (verification, snapshot, None)"
| "effect_parts (OpenedOccurrence halted successor verification) = (verification, halted, Some successor)"

definition commit_human_disposition ::
  "'l store_lib_scheme \<Rightarrow> OccurrenceSnapshotV1 \<Rightarrow> HumanDispositionEffectV1 \<Rightarrow> HumanDispositionV1 \<Rightarrow> u64
     \<Rightarrow> campaign_db \<Rightarrow> CampaignStoreErrorV1 + campaign_db \<times> CampaignCommitReceiptV1 list" where
  "commit_human_disposition L expected eff artifact recorded_at_unix_ms db =
     (case effect_parts eff of (verification, first, second) \<Rightarrow>
      try_then (validate_human_store_binding L expected first second artifact) (\<lambda>_.
      try_then (insert_human_disposition L artifact verification recorded_at_unix_ms db) (\<lambda>db.
      let evidence = Ev_HumanDisposition artifact verification in
      try_then (write_transition L expected first K_HumanDisposition evidence recorded_at_unix_ms db)
        (\<lambda>(db, receipt).
      case second of
        None \<Rightarrow> Ok (db, [receipt])
      | Some second \<Rightarrow>
          try_then (write_transition L first second K_HumanDisposition evidence recorded_at_unix_ms db)
            (\<lambda>(db, receipt2). Ok (db, [receipt, receipt2]))))))"

definition commit_governed_intervention ::
  "'l store_lib_scheme \<Rightarrow> OccurrenceSnapshotV1 \<Rightarrow> OccurrenceSnapshotV1 \<Rightarrow> CampaignTransitionKindV1
     \<Rightarrow> VerifiedGovernedInterventionV1 \<Rightarrow> u64 \<Rightarrow> campaign_db
     \<Rightarrow> CampaignStoreErrorV1 + campaign_db \<times> CampaignCommitReceiptV1" where
  "commit_governed_intervention L expected successor kind verified recorded_at_unix_ms db =
     try_then (validate_governed_intervention_evidence L expected successor kind verified) (\<lambda>_.
     write_transition L expected successor kind (Ev_GovernedIntervention verified) recorded_at_unix_ms db)"

definition record_refusal ::
  "'l store_lib_scheme \<Rightarrow> RefusalOutcomeV1 \<Rightarrow> u64 \<Rightarrow> campaign_db \<Rightarrow> CampaignStoreErrorV1 + campaign_db \<times> Digest" where
  "record_refusal L refusal recorded_at_unix_ms db =
     try_then (store_current L db) (\<lambda>snapshot.
     if ro_key refusal \<noteq> snap_key snapshot \<or> ro_at_state_digest refusal \<noteq> snap_state_digest snapshot
     then Err Store_BindingMismatch
     else
     try_then (validate_refusal_intervention_binding L refusal) (\<lambda>_.
     try_then (encode L (codec_to_vec (refusal_codec L)) refusal) (\<lambda>refusal_jcs.
     let refusal_id = hash_domain L REFUSAL_DOMAIN_V1 refusal_jcs in
     try_then (to_i64 recorded_at_unix_ms) (\<lambda>recorded.
     try_then (insert_refusal_row (as_str refusal_id)
       \<lparr>rr_campaign_id = campaign_text (key_campaign (ro_key refusal)),
        rr_occurrence_id = occurrence_to_string L (key_occurrence (ro_key refusal)),
        rr_state_digest = as_str (ro_at_state_digest refusal),
        rr_refusal_jcs = refusal_jcs, rr_recorded_at_unix_ms = recorded\<rparr> db) (\<lambda>db.
     Ok (db, refusal_id))))))"

section \<open>Verified projections\<close>

definition project_transition ::
  "'l store_lib_scheme \<Rightarrow> int \<times> transition_row \<Rightarrow> CampaignStoreErrorV1 + CampaignTransitionProjectionV1" where
  "project_transition L raw =
     try_then (to_u64 (fst raw)) (\<lambda>sequence.
     try_then (read_transition L (snd raw)) (\<lambda>row.
     Ok \<lparr>tp_sequence = sequence, tp_source_occurrence = str_source_occurrence row,
         tp_successor_occurrence = str_successor_occurrence row, tp_kind = str_kind row,
         tp_predecessor_state_digest = str_predecessor row, tp_successor_state_digest = str_successor row,
         tp_successor = str_snapshot row, tp_evidence = str_evidence row,
         tp_evidence_digest = str_evidence_digest row, tp_previous_event_digest = str_previous_event row,
         tp_event_digest = str_event row, tp_recorded_at_unix_ms = str_recorded_at_unix_ms row\<rparr>))"

definition store_history ::
  "'l store_lib_scheme \<Rightarrow> campaign_db \<Rightarrow> CampaignStoreErrorV1 + CampaignTransitionHistoryV1" where
  "store_history L db =
     try_then (store_campaign_id L db) (\<lambda>campaign.
     try_then (try_map (project_transition L)
       (filter (\<lambda>r. tr_campaign_id (snd r) = campaign_text campaign) (db_transitions db))) (\<lambda>transitions.
     try_then (store_replay L db) (\<lambda>report.
     if transitions = [] then Err (Corrupt (Reason ''transition history is empty''))
     else if rep_campaign report \<noteq> campaign
        \<or> rep_transitions report \<noteq> word_of_nat (length transitions)
        \<or> rep_current_state_digest report \<noteq> tp_successor_state_digest (last transitions)
     then Err (Corrupt (Reason ''transition history differs from deterministic replay''))
     else Ok \<lparr>th_schema = CAMPAIGN_TRANSITION_HISTORY_SCHEMA_V1, th_campaign = campaign,
       th_transitions = transitions, th_current_state_digest = rep_current_state_digest report\<rparr>)))"

definition project_refusal ::
  "'l store_lib_scheme \<Rightarrow> CampaignId \<Rightarrow> string \<times> refusal_row
     \<Rightarrow> CampaignStoreErrorV1 + CampaignRefusalProjectionV1" where
  "project_refusal L campaign entry =
     (case entry of (refusal, row) \<Rightarrow>
      try_then (decode L (codec_from_slice (refusal_codec L)) (rr_refusal_jcs row)) (\<lambda>outcome.
      try_then (parse_digest L refusal) (\<lambda>identity.
      if identity \<noteq> hash_domain L REFUSAL_DOMAIN_V1 (rr_refusal_jcs row)
         \<or> key_campaign (ro_key outcome) \<noteq> campaign
      then Err (Corrupt (Reason ''refusal projection binding mismatch''))
      else
      try_then (validate_refusal_intervention_binding L outcome) (\<lambda>_.
      try_then (to_u64 (rr_recorded_at_unix_ms row)) (\<lambda>recorded.
      Ok \<lparr>rp_refusal = identity, rp_outcome = outcome, rp_recorded_at_unix_ms = recorded\<rparr>)))))"

definition refusal_history ::
  "'l store_lib_scheme \<Rightarrow> campaign_db \<Rightarrow> CampaignStoreErrorV1 + CampaignRefusalHistoryV1" where
  "refusal_history L db =
     try_then (store_replay L db) (\<lambda>report.
     try_then (try_map (project_refusal L (rep_campaign report))
       (sort_key (\<lambda>r. rr_recorded_at_unix_ms (snd r)) (sort_key fst
         (filter (\<lambda>r. rr_campaign_id (snd r) = campaign_text (rep_campaign report)) (db_refusals db)))))
       (\<lambda>refusals.
     Ok \<lparr>rh_schema = CAMPAIGN_REFUSAL_HISTORY_SCHEMA_V1, rh_campaign = rep_campaign report,
         rh_verified_at_state_digest = rep_current_state_digest report, rh_refusals = refusals\<rparr>))"

end
