(* ===== verification/Store_Laws.thy ===== *)
theory Store_Laws
  imports Store_Operations
begin

text \<open>
  Laws of the campaign store: what a successful replay says of the tables, and that a transition
  written on top of a replayed store extends the replay. The three accounting tables obey one
  contract, the locale \<open>fact_table\<close>.
\<close>

section \<open>Facts along the membrane\<close>

lemma meta_mut_facts [simp]:
  "state_issuance (meta_mut f s) = state_issuance s"
  "state_docket_custody (meta_mut f s) = state_docket_custody s"
  "state_settlement (meta_mut f s) = state_settlement s"
  by (cases s; simp add: update_dispatch_meta_def)+

lemma legal_move_facts:
  assumes "legal_move H s t"
  shows "state_ag_spend (snap_state s) = Some x \<Longrightarrow> state_ag_spend (snap_state t) = Some y \<Longrightarrow> x = y"
    and "state_ag_spend (snap_state s) \<noteq> None \<Longrightarrow> state_ag_spend (snap_state t) \<noteq> None
      \<Longrightarrow> state_issuance (snap_state s) = state_issuance (snap_state t)"
    and "state_docket_custody (snap_state s) = Some c \<Longrightarrow> state_docket_custody (snap_state t) = Some d \<Longrightarrow> c = d"
    and "state_settlement (snap_state s) = Some m \<Longrightarrow> state_settlement (snap_state t) = Some n \<Longrightarrow> m = n"
  using assms by (cases; auto simp: validate_probe_successor_ok)+

lemma spend_issuance: "state_issuance st = None \<longleftrightarrow> state_ag_spend st = None"
  by (cases st) auto

lemma legal_move_campaign: "legal_move H s t \<Longrightarrow> key_campaign (snap_key t) = key_campaign (snap_key s)"
  using legal_move_ledger [of H s t] by (simp add: ledger_le_def)

text \<open>Only a human update of a halt, and a human completion, consume a decision.\<close>

lemma legal_move_decisions:
  assumes "legal_move H s t" and "\<not> (snap_pc s = PC_Halted \<and> snap_pc t \<in> {PC_Halted, PC_Completed})"
  shows "meta_used_human_decisions (meta (snap_state t)) = meta_used_human_decisions (meta (snap_state s))"
  using assms(1)
proof cases
  case probe
  then show ?thesis by (auto simp: validate_probe_successor_ok)
qed (use assms(2) in \<open>auto simp: validator_facts same_proposal_basis_def is_safe_halt_source_def\<close>)

lemma legal_move_appends:
  assumes "legal_move H s t"
  shows "meta_used_human_decisions (meta (snap_state t)) = meta_used_human_decisions (meta (snap_state s))
    \<or> (\<exists>d. meta_used_human_decisions (meta (snap_state t)) = meta_used_human_decisions (meta (snap_state s)) @ [d])"
proof (cases "snap_pc s = PC_Halted \<and> snap_pc t \<in> {PC_Halted, PC_Completed}")
  case True
  from assms show ?thesis
    by cases (use True in \<open>auto simp: validator_facts is_safe_halt_source_def\<close>)
qed (use legal_move_decisions [OF assms] in blast)

section \<open>Lookups\<close>

lemma parse_digest_as_str:
  "hex_law L \<Longrightarrow> parse_digest L s = Ok d \<Longrightarrow> as_str d = s"
  by (auto simp: parse_digest_Ok)

lemma campaign_text_inject [simp]: "campaign_text a = campaign_text b \<longleftrightarrow> a = b"
  by (cases a; cases b) (auto simp: campaign_text_def intro: Digest.expand)

section \<open>Accounting tables\<close>

text \<open>
  The contract of an accounting table. A snapshot carries at most one fact, which never changes while it
  is carried. Writing a transition appends the fact of the successor where the source has none,
  under a key the table does not hold; the replay inserts the fact of every snapshot it meets
  unless its key is known.
\<close>

locale fact_table =
  fixes L :: "'l store_lib_scheme"
    and fact :: "OccurrenceStateV1 \<Rightarrow> 'f option"
    and key :: "'f \<Rightarrow> string"
    and fact_row :: "OccurrenceSnapshotV1 \<Rightarrow> 'f \<Rightarrow> CampaignStoreErrorV1 + 'r"
    and rows :: "campaign_db \<Rightarrow> (string \<times> 'r) list"
    and account :: "OccurrenceSnapshotV1 \<Rightarrow> OccurrenceSnapshotV1 \<Rightarrow> campaign_db \<Rightarrow> CampaignStoreErrorV1 + campaign_db"
    and walk :: "StoredTransitionRow \<Rightarrow> (string \<times> 'r) list \<Rightarrow> CampaignStoreErrorV1 + (string \<times> 'r) list"
  assumes stable: "legal_move L s t \<Longrightarrow> fact (snap_state s) = Some f \<Longrightarrow> fact (snap_state t) = Some g \<Longrightarrow> f = g"
    and encodable: "is_ok (fact_row s f) \<longleftrightarrow> is_ok (fact_row t f)"
    and account_new: "account s t db = Ok db' \<Longrightarrow> fact (snap_state s) = None \<Longrightarrow> fact (snap_state t) = Some f
      \<Longrightarrow> \<exists>r. fact_row t f = Ok r \<and> key f \<notin> fst ` set (rows db) \<and> rows db' = rows db @ [(key f, r)]"
    and account_old: "account s t db = Ok db' \<Longrightarrow> fact (snap_state s) \<noteq> None \<or> fact (snap_state t) = None
      \<Longrightarrow> rows db' = rows db"
    and walk_row: "str_successor a = snap_state_digest (str_snapshot a) \<Longrightarrow>
      walk a m = (case fact (snap_state (str_snapshot a)) of None \<Rightarrow> Ok m
        | Some f \<Rightarrow> try_then (fact_row (str_snapshot a) f) (\<lambda>r. Ok (or_insert (key f) r m)))"
begin

lemma walk_covers:
  assumes "str_successor t = snap_state_digest (str_snapshot t)" and "walk t m = Ok m'"
    and "fact (snap_state (str_snapshot t)) = Some f"
  shows "key f \<in> fst ` set m'" and "is_ok (fact_row (str_snapshot t) f)"
  using assms by (auto simp: walk_row)

lemma account_extends_walk:
  assumes "legal_move L (str_snapshot a) (str_snapshot b)"
    and "str_successor a = snap_state_digest (str_snapshot a)"
    and "str_successor b = snap_state_digest (str_snapshot b)"
    and "walk a m = Ok (btree_collect (rows db))"
    and "account (str_snapshot a) (str_snapshot b) db = Ok db'"
  shows "walk b (btree_collect (rows db)) = Ok (btree_collect (rows db'))"
proof (cases "fact (snap_state (str_snapshot b))")
  case None
  then show ?thesis using assms account_old by (simp add: walk_row)
next
  case b: (Some g)
  show ?thesis
  proof (cases "fact (snap_state (str_snapshot a))")
    case None
    then obtain r where "fact_row (str_snapshot b) g = Ok r" "key g \<notin> fst ` set (rows db)"
        "rows db' = rows db @ [(key g, r)]"
      using account_new assms(5) b by blast
    then show ?thesis
      using assms(3) b by (simp add: walk_row or_insert_fresh btree_collect_snoc)
  next
    case (Some f)
    have same: "f = g" using stable assms(1) Some b by blast
    have "key f \<in> fst ` set (btree_collect (rows db))" "is_ok (fact_row (str_snapshot b) f)"
      using walk_covers [OF assms(2,4) Some] encodable by blast+
    moreover have "rows db' = rows db"
      using account_old assms(5) Some by blast
    ultimately show ?thesis
      using assms(3) b same by (auto simp: walk_row or_insert_known is_ok_iff)
  qed
qed

end

definition spend_fact :: "OccurrenceStateV1 \<Rightarrow> (AgAuthorizationSpendV1 \<times> AgIssuanceV1) option" where
  "spend_fact st = (case (state_ag_spend st, state_issuance st) of
     (Some spend, Some issuance) \<Rightarrow> Some (spend, issuance) | _ \<Rightarrow> None)"

definition spend_fact_row ::
  "'l store_lib_scheme \<Rightarrow> OccurrenceSnapshotV1 \<Rightarrow> AgAuthorizationSpendV1 \<times> AgIssuanceV1
     \<Rightarrow> CampaignStoreErrorV1 + ExpectedSpendRow" where
  "spend_fact_row L s f =
     try_then (encode L (spend_to_vec L) (fst f)) (\<lambda>spend_jcs.
     try_then (encode L (codec_to_vec (issuance_codec L)) (snd f)) (\<lambda>issuance_jcs.
     Ok \<lparr>es_authorization = authorization_text (sp_authorization (fst f)),
         es_campaign = campaign_text (key_campaign (sp_key (fst f))),
         es_occurrence = occurrence_to_string L (key_occurrence (sp_key (fst f))),
         es_issuance = issuance_text (iss_issuance (snd f)),
         es_spend_jcs = spend_jcs, es_issuance_jcs = issuance_jcs,
         es_transition = as_str (snap_state_digest s)\<rparr>))"

definition attempt_fact_row ::
  "'l store_lib_scheme \<Rightarrow> OccurrenceSnapshotV1 \<Rightarrow> DocketCustodyV1 \<Rightarrow> CampaignStoreErrorV1 + ExpectedAttemptRow" where
  "attempt_fact_row L s custody =
     try_then (encode L (custody_to_vec L) custody) (\<lambda>custody_jcs.
     Ok \<lparr>ea_issuance = issuance_text (cu_issuance custody),
         ea_campaign = campaign_text (key_campaign (snap_key s)),
         ea_occurrence = occurrence_to_string L (key_occurrence (snap_key s)),
         ea_custody_jcs = custody_jcs, ea_transition = as_str (snap_state_digest s)\<rparr>)"

definition settlement_fact_row ::
  "'l store_lib_scheme \<Rightarrow> OccurrenceSnapshotV1 \<Rightarrow> DocketSettlementV1
     \<Rightarrow> CampaignStoreErrorV1 + ExpectedSettlementRow" where
  "settlement_fact_row L s settlement =
     try_then (encode L (settlement_to_vec L) settlement) (\<lambda>settlement_jcs.
     Ok \<lparr>et_attempt = attempt_text (se_attempt settlement), et_receipt = receipt_text (se_receipt settlement),
         et_campaign = campaign_text (key_campaign (snap_key s)),
         et_occurrence = occurrence_to_string L (key_occurrence (snap_key s)),
         et_settlement_jcs = settlement_jcs, et_transition = as_str (snap_state_digest s)\<rparr>)"

lemma is_ok_encode_row:
  "is_ok (try_then r (\<lambda>x. Ok (f x))) \<longleftrightarrow> is_ok r"
  by (cases r) auto

lemma fresh_key: "\<not> list_ex (\<lambda>(k', x). k' = k \<or> P k' x) kvs \<Longrightarrow> k \<notin> fst ` set kvs"
  by (auto simp: list_ex_iff)

interpretation spends: fact_table L spend_fact "\<lambda>f. spend_text (sp_spend (fst f))" "spend_fact_row L" db_spends
    "account_spend L" "replay_spend L" for L
proof
  show "legal_move L s t \<Longrightarrow> spend_fact (snap_state s) = Some f \<Longrightarrow> spend_fact (snap_state t) = Some g \<Longrightarrow> f = g"
    for s t f g
    using legal_move_facts(1,2) [of L s t] by (auto simp: spend_fact_def split: option.splits)
  show "is_ok (spend_fact_row L s f) \<longleftrightarrow> is_ok (spend_fact_row L t f)" for s t f
    by (auto simp: spend_fact_row_def is_ok_iff)
  show "\<exists>r. spend_fact_row L t f = Ok r \<and> spend_text (sp_spend (fst f)) \<notin> fst ` set (db_spends db)
      \<and> db_spends db' = db_spends db @ [(spend_text (sp_spend (fst f)), r)]"
    if "account_spend L s t db = Ok db'" "spend_fact (snap_state s) = None" "spend_fact (snap_state t) = Some f"
    for s t db db' f
    using that spend_issuance [of "snap_state s"]
    by (auto simp: spend_fact_def account_spend_def spend_fact_row_def insert_spend_row_def
        split: option.splits dest!: fresh_key)
  show "db_spends db' = db_spends db"
    if "account_spend L s t db = Ok db'" "spend_fact (snap_state s) \<noteq> None \<or> spend_fact (snap_state t) = None"
    for s t db db'
    using that spend_issuance [of "snap_state t"]
    by (auto simp: spend_fact_def account_spend_def split: option.splits)
  show "replay_spend L t m = (case spend_fact (snap_state (str_snapshot t)) of None \<Rightarrow> Ok m
      | Some f \<Rightarrow> try_then (spend_fact_row L (str_snapshot t) f)
          (\<lambda>r. Ok (or_insert (spend_text (sp_spend (fst f))) r m)))"
    if "str_successor t = snap_state_digest (str_snapshot t)" for t m
    using that spend_issuance [of "snap_state (str_snapshot t)"]
    by (auto simp: replay_spend_def spend_fact_def spend_fact_row_def try_then_def simp del: encode_Ok
        split: option.splits sum.splits)
qed

interpretation attempts: fact_table L state_docket_custody "\<lambda>f. attempt_text (cu_attempt f)" "attempt_fact_row L"
    db_attempts "account_attempt L" "replay_attempt L" for L
proof
  show "legal_move L s t \<Longrightarrow> state_docket_custody (snap_state s) = Some f
      \<Longrightarrow> state_docket_custody (snap_state t) = Some g \<Longrightarrow> f = g" for s t f g
    by (rule legal_move_facts(3))
qed (auto simp: attempt_fact_row_def is_ok_encode_row account_attempt_def insert_attempt_row_def
    replay_attempt_def try_then_def simp del: encode_Ok split: option.splits sum.splits dest!: fresh_key)

interpretation settlements: fact_table L state_settlement "\<lambda>f. settlement_text (se_settlement f)"
    "settlement_fact_row L" db_settlements "account_settlement L" "replay_settlement L" for L
proof
  show "legal_move L s t \<Longrightarrow> state_settlement (snap_state s) = Some f
      \<Longrightarrow> state_settlement (snap_state t) = Some g \<Longrightarrow> f = g" for s t f g
    by (rule legal_move_facts(4))
qed (auto simp: settlement_fact_row_def is_ok_encode_row account_settlement_def insert_settlement_row_def
    replay_settlement_def try_then_def simp del: encode_Ok split: option.splits sum.splits dest!: fresh_key)

section \<open>A replayed store\<close>

text \<open>
  What \<open>replay_store\<close> establishes of the journal, the head, the occurrences and the three accounting
  tables, with the decoded journal \<open>ts\<close> and the final variables \<open>s\<close> of its loop.
\<close>

definition replayed ::
  "'l store_lib_scheme \<Rightarrow> campaign_db \<Rightarrow> campaign_row \<Rightarrow> CampaignId \<Rightarrow> Digest option
     \<Rightarrow> StoredTransitionRow list \<Rightarrow> replay_state \<Rightarrow> bool" where
  "replayed L db row campaign profile ts s \<longleftrightarrow>
     db_campaigns db = [row]
     \<and> parse_digest L (cr_campaign_id row) = Ok (campaign_as_digest campaign)
     \<and> stored_profile_digest L db = Ok profile
     \<and> try_map (read_transition L) (journal_rows db campaign) = Ok ts \<and> ts \<noteq> []
     \<and> try_fold (replay_row L campaign profile) (replay_start L campaign) ts = Ok s
     \<and> (\<exists>digest head. parse_digest L (cr_current_state_digest row) = Ok digest
          \<and> parse_digest L (cr_event_head_digest row) = Ok head
          \<and> verify_head L row digest head (length ts) s = Ok ())
     \<and> verify_occurrence_materialization L db campaign (rs_latest_occurrences s) = Ok ()
     \<and> btree_collect (db_spends db) = rs_spends s
     \<and> btree_collect (db_attempts db) = rs_attempts s
     \<and> btree_collect (db_settlements db) = rs_settlements s
     \<and> db_quick_check db = ''ok''"

definition humans_accounted :: "'l store_lib_scheme \<Rightarrow> campaign_db \<Rightarrow> replay_state \<Rightarrow> bool" where
  "humans_accounted L db s \<longleftrightarrow>
     rs_human_decisions s = fst ` set (rs_human_artifacts s)
     \<and> verify_human_artifacts L db (rs_human_artifacts s) = Ok ()"

lemma replay_store_iff:
  "is_ok (replay_store L db) \<longleftrightarrow>
     (\<exists>row campaign profile ts s. replayed L db row campaign profile ts s
       \<and> humans_accounted L db s \<and> verify_refusals L db campaign ts = Ok ())"
proof
  assume "is_ok (replay_store L db)"
  then obtain report where ok: "replay_store L db = Ok report" by (auto simp: is_ok_iff)
  then obtain row where row: "db_campaigns db = [row]"
    by (auto simp: replay_store_def split: list.splits)
  obtain d digest head profile ts s where "parse_digest L (cr_campaign_id row) = Ok d"
      "parse_digest L (cr_current_state_digest row) = Ok digest" "parse_digest L (cr_event_head_digest row) = Ok head"
      "stored_profile_digest L db = Ok profile"
      "try_map (read_transition L) (journal_rows db (CampaignId d)) = Ok ts" "ts \<noteq> []"
      "try_fold (replay_row L (CampaignId d) profile) (replay_start L (CampaignId d)) ts = Ok s"
      "verify_head L row digest head (length ts) s = Ok ()"
      "verify_occurrence_materialization L db (CampaignId d) (rs_latest_occurrences s) = Ok ()"
      "btree_collect (db_spends db) = rs_spends s" "btree_collect (db_attempts db) = rs_attempts s"
      "btree_collect (db_settlements db) = rs_settlements s"
      "rs_human_decisions s = fst ` set (rs_human_artifacts s)"
      "verify_human_artifacts L db (rs_human_artifacts s) = Ok ()"
      "verify_refusals L db (CampaignId d) ts = Ok ()" "db_quick_check db = ''ok''"
    using ok by (auto simp: replay_store_def row Let_def verify_spend_accounting_def
        verify_attempt_accounting_def verify_settlement_accounting_def)
  then have "replayed L db row (CampaignId d) profile ts s" "humans_accounted L db s"
      "verify_refusals L db (CampaignId d) ts = Ok ()"
    using row by (auto simp: replayed_def humans_accounted_def)
  then show "\<exists>row campaign profile ts s. replayed L db row campaign profile ts s
       \<and> humans_accounted L db s \<and> verify_refusals L db campaign ts = Ok ()"
    by blast
next
  assume "\<exists>row campaign profile ts s. replayed L db row campaign profile ts s
       \<and> humans_accounted L db s \<and> verify_refusals L db campaign ts = Ok ()"
  then obtain row campaign profile ts s where "replayed L db row campaign profile ts s"
    and "humans_accounted L db s" and "verify_refusals L db campaign ts = Ok ()" by blast
  then show "is_ok (replay_store L db)"
    by (cases campaign) (auto simp: replay_store_def replayed_def humans_accounted_def Let_def
        verify_spend_accounting_def verify_attempt_accounting_def verify_settlement_accounting_def)
qed

lemma replay_row_iff:
  "replay_row L campaign profile s t = Ok s' \<longleftrightarrow>
     replay_binding L campaign (rs_index s) (rs_previous_event s) t = Ok ()
     \<and> (if rs_index s = 0 then replay_genesis profile t = Ok () \<and> rs_human_decisions s' = rs_human_decisions s
        else replay_link L (rs_index s) (rs_previous_snapshot s) t (rs_human_decisions s)
          = Ok (rs_human_decisions s'))
     \<and> replay_spend L t (rs_spends s) = Ok (rs_spends s')
     \<and> replay_attempt L t (rs_attempts s) = Ok (rs_attempts s')
     \<and> replay_settlement L t (rs_settlements s) = Ok (rs_settlements s')
     \<and> replay_human L t (rs_human_artifacts s) = Ok (rs_human_artifacts s')
     \<and> rs_index s' = rs_index s + 1 \<and> rs_previous_snapshot s' = Some (str_snapshot t)
     \<and> rs_previous_event s' = str_event t
     \<and> rs_latest_occurrences s' =
         btree_insert (str_successor_occurrence t) (str_snapshot t) (rs_latest_occurrences s)"
  by (cases s') (auto simp: replay_row_def)

lemma replay_index:
  "try_fold (replay_row L campaign profile) (replay_start L campaign) ts = Ok s \<Longrightarrow> rs_index s = length ts"
proof (induction ts arbitrary: s rule: rev_induct)
  case (snoc t ts)
  then show ?case by (auto simp: try_fold_append replay_row_iff)
qed (simp add: replay_start_def)

text \<open>The last row of a replayed journal.\<close>

lemma replayed_last:
  assumes "replayed L db row campaign profile ts s"
  obtains before s0 a where "ts = before @ [a]" "replay_row L campaign profile s0 a = Ok s"
    "rs_previous_snapshot s = Some (str_snapshot a)" "rs_previous_event s = str_event a"
    "intact L (str_snapshot a)" "str_successor a = snap_state_digest (str_snapshot a)"
    "key_campaign (snap_key (str_snapshot a)) = campaign"
    "str_successor_occurrence a = occurrence_to_string L (key_occurrence (snap_key (str_snapshot a)))"
proof -
  have "ts \<noteq> []" using assms by (simp add: replayed_def)
  then obtain before a where ts: "ts = before @ [a]" by (metis rev_exhaust)
  then obtain s0 where row: "replay_row L campaign profile s0 a = Ok s"
    using assms by (auto simp: replayed_def try_fold_append)
  then show ?thesis
    using that [OF ts row] by (auto simp: replay_row_iff replay_binding_def)
qed

lemma occurrences_match_iff:
  "verify_occurrence_materialization L db campaign expected = Ok () \<longleftrightarrow>
     (\<forall>r \<in> set (db_occurrences db). or_campaign_id r = campaign_text campaign \<longrightarrow> verify_occurrence_row L expected r = Ok ())
     \<and> or_occurrence_id ` {r \<in> set (db_occurrences db). or_campaign_id r = campaign_text campaign} = fst ` set expected"
  by (auto simp: verify_occurrence_materialization_def Let_def try_fold_unit_Ok)

end
