(* ===== verification/Store_Extend.thy ===== *)
theory Store_Extend
  imports Store_Laws
begin

text \<open>
  A transition written on top of a replayed store extends its replay by one row: the statements of
  \<open>write_transition\<close> one by one, then the whole operation.
\<close>

section \<open>What the store relies on\<close>

text \<open>
  The documented behaviour of the libraries: reading a canonical document back gives the value it was
  written from, and the two inputs of digests serialize. The integers of the stored records are counters, limits and
  times in milliseconds; that their documents keep them exactly is part of the law of each codec, while
  \<open>jcs_law\<close>, which is about arbitrary documents, promises it only below 2^53, as RFC 8785 does.
\<close>

definition codec_law :: "'l jcs_lib_scheme \<Rightarrow> 'v codec \<Rightarrow> bool" where
  "codec_law L c \<longleftrightarrow>
     (\<forall>v b. encode L (codec_to_vec c) v = Ok b \<longrightarrow> decode L (codec_from_slice c) b = Ok v)"

definition store_laws :: "'l store_lib_scheme \<Rightarrow> bool" where
  "store_laws L \<longleftrightarrow> sha256_law L \<and> hex_law L \<and> input_serializes L
     \<and> (\<forall>i. is_ok (jcs_canonicalize L (store_event_to_vec L) i))
     \<and> codec_law L (snapshot_codec L) \<and> codec_law L (evidence_codec L) \<and> codec_law L (issuance_codec L)
     \<and> codec_law L (human_codec L) \<and> codec_law L (refusal_codec L)"

lemma parse_hash_domain:
  "sha256_law L \<Longrightarrow> hex_law L \<Longrightarrow> parse_digest L (as_str (hash_domain L d b)) = Ok (hash_domain L d b)"
  using hash_text_canonical(2) [of L d b] by (simp add: parse_digest_Ok)

lemma parse_state_digest:
  assumes "store_laws L" and "intact L s"
  shows "parse_digest L (as_str (snap_state_digest s)) = Ok (snap_state_digest s)"
  using assms parse_hash_domain [of L]
  by (simp add: store_laws_def intact_iff state_digest_def digest_value_hash)

lemma parse_store_event:
  assumes "store_laws L"
  shows "parse_digest L (as_str (store_event_digest L c so to k p n e q r))
    = Ok (store_event_digest L c so to k p n e q r)"
proof -
  have "\<exists>b. store_event_digest L c so to k p n e q r = hash_domain L EVENT_DOMAIN_V1 b"
    using assms unfolding store_laws_def store_event_digest_def is_ok_iff by (metis sum.case(2))
  then show ?thesis using assms parse_hash_domain [of L] by (auto simp: store_laws_def)
qed

section \<open>The statements\<close>

lemma verify_occurrence_row_other:
  "or_occurrence_id r \<noteq> k \<Longrightarrow> verify_occurrence_row L (btree_insert k t latest) r = verify_occurrence_row L latest r"
  by (simp add: verify_occurrence_row_def map_of_btree_insert)

lemma verify_occurrence_row_stored:
  assumes "verify_occurrence_row L latest r = Ok ()" and "map_of latest (or_occurrence_id r) = Some e"
  shows "or_state_digest r = as_str (snap_state_digest e)"
  using assms by (auto simp: verify_occurrence_row_def)

lemma write_occurrence_ok:
  assumes ok: "write_occurrence L e t jcs authoritative db = Ok db'"
    and match: "verify_occurrence_materialization L db (key_campaign (snap_key t)) latest = Ok ()"
    and old: "map_of latest (occurrence_to_string L (key_occurrence (snap_key e))) = Some e"
    and jcs: "decode L (codec_from_slice (snapshot_codec L)) jcs = Ok t"
  shows "verify_occurrence_materialization L db' (key_campaign (snap_key t))
      (btree_insert (occurrence_to_string L (key_occurrence (snap_key t))) t latest) = Ok ()"
    and "\<exists>rows. db' = db\<lparr>db_occurrences := rows\<rparr>"
proof -
  let ?c = "campaign_text (key_campaign (snap_key t))"
  let ?x = "occurrence_to_string L (key_occurrence (snap_key t))"
  have rows: "verify_occurrence_row L latest r = Ok ()"
    if "r \<in> set (db_occurrences db)" "or_campaign_id r = ?c" for r
    using match that by (simp add: occurrences_match_iff)
  have keys: "or_occurrence_id ` {r \<in> set (db_occurrences db). or_campaign_id r = ?c} = fst ` set latest"
    using match by (simp add: occurrences_match_iff)
  have "verify_occurrence_materialization L db' (key_campaign (snap_key t)) (btree_insert ?x t latest) = Ok ()
      \<and> (\<exists>rows. db' = db\<lparr>db_occurrences := rows\<rparr>)"
  proof (cases "snap_key e = snap_key t")
    case True
    define sel where "sel = (\<lambda>r :: occurrence_row. or_campaign_id r = ?c \<and> or_occurrence_id r = ?x
      \<and> or_state_digest r = as_str (snap_state_digest e))"
    define f where "f = (\<lambda>r. r\<lparr>or_program_basis := program_text (meta_program (meta (snap_state t))),
      or_program_counter := pc_tag (snap_pc t), or_prior_state_digest := as_str (snap_prior_state_digest t),
      or_state_digest := as_str (snap_state_digest t), or_revision := or_revision r + 1,
      or_snapshot_jcs := jcs\<rparr> :: occurrence_row)"
    define g where "g = (\<lambda>r. if sel r then f r else r)"
    have db': "db' = db\<lparr>db_occurrences := map g (db_occurrences db)\<rparr>"
      using ok True by (auto simp: write_occurrence_def update_occurrence_row_def Let_def sel_def f_def g_def)
    have kept [simp]: "or_campaign_id (g r) = or_campaign_id r" "or_occurrence_id (g r) = or_occurrence_id r" for r
      by (simp_all add: g_def f_def)
    have new: "verify_occurrence_row L (btree_insert ?x t latest) (f r) = Ok ()" if "sel r" for r
      using that jcs by (simp add: verify_occurrence_row_def map_of_btree_insert sel_def f_def)
    have other: "verify_occurrence_row L (btree_insert ?x t latest) r = Ok ()"
      if "r \<in> set (db_occurrences db)" "or_campaign_id r = ?c" "\<not> sel r" for r
    proof -
      have "or_occurrence_id r \<noteq> ?x"
        using verify_occurrence_row_stored [OF rows [OF that(1,2)], of e] that old True by (auto simp: sel_def)
      then show ?thesis using rows that by (simp add: verify_occurrence_row_other)
    qed
    have "?x \<in> fst ` set latest"
      using old True by (metis map_of_eq_None_iff option.distinct(1))
    moreover have "{r \<in> set (db_occurrences db'). or_campaign_id r = ?c}
        = g ` {r \<in> set (db_occurrences db). or_campaign_id r = ?c}"
      unfolding db' by auto
    ultimately have "or_occurrence_id ` {r \<in> set (db_occurrences db'). or_campaign_id r = ?c}
        = fst ` set (btree_insert ?x t latest)"
      using keys by (simp add: image_image insert_absorb)
    moreover have "verify_occurrence_row L (btree_insert ?x t latest) r = Ok ()"
      if "r \<in> set (db_occurrences db')" "or_campaign_id r = ?c" for r
      using that new other unfolding db' by (auto simp: g_def split: if_splits)
    ultimately show ?thesis
      unfolding occurrences_match_iff using db' by blast
  next
    case False
    then obtain n where fresh: "\<not> occurrence_exists db (or_campaign_id (occurrence_columns L t n jcs))
          (or_occurrence_id (occurrence_columns L t n jcs))"
        and db': "db' = db\<lparr>db_occurrences := db_occurrences db @ [occurrence_columns L t n jcs]\<rparr>"
      using ok by (auto simp: write_occurrence_def insert_occurrence_def insert_occurrence_row_def)
    define r where "r = occurrence_columns L t n jcs"
    have r: "or_campaign_id r = ?c" "or_occurrence_id r = ?x" "\<not> occurrence_exists db ?c ?x"
        "verify_occurrence_row L (btree_insert ?x t latest) r = Ok ()"
      using fresh jcs by (simp_all add: r_def occurrence_columns_def verify_occurrence_row_def map_of_btree_insert)
    have "or_occurrence_id q \<noteq> ?x" if "q \<in> set (db_occurrences db)" "or_campaign_id q = ?c" for q
      using r(3) that by (auto simp: occurrence_exists_def list_ex_iff)
    then have "verify_occurrence_row L (btree_insert ?x t latest) q = Ok ()"
      if "q \<in> set (db_occurrences db @ [r])" "or_campaign_id q = ?c" for q
      using that rows r by (auto simp: verify_occurrence_row_other)
    moreover have "{q \<in> set (db_occurrences db @ [r]). or_campaign_id q = ?c}
        = insert r {q \<in> set (db_occurrences db). or_campaign_id q = ?c}" using r(1) by auto
    ultimately show ?thesis
      using keys r(2) unfolding occurrences_match_iff db' r_def [symmetric] by auto
  qed
  then show "verify_occurrence_materialization L db' (key_campaign (snap_key t)) (btree_insert ?x t latest) = Ok ()"
    and "\<exists>rows. db' = db\<lparr>db_occurrences := rows\<rparr>" by auto
qed

lemma account_frames:
  "account_spend L e t db = Ok db' \<Longrightarrow> \<exists>rows. db' = db\<lparr>db_spends := rows\<rparr>"
  "account_attempt L e t db = Ok db' \<Longrightarrow> \<exists>rows. db' = db\<lparr>db_attempts := rows\<rparr>"
  "account_settlement L e t db = Ok db' \<Longrightarrow> \<exists>rows. db' = db\<lparr>db_settlements := rows\<rparr>"
proof -
  have same: "\<exists>rows. db = db\<lparr>db_spends := rows\<rparr>" "\<exists>rows. db = db\<lparr>db_attempts := rows\<rparr>"
      "\<exists>rows. db = db\<lparr>db_settlements := rows\<rparr>"
    by (rule exI [of _ "db_spends db"] exI [of _ "db_attempts db"] exI [of _ "db_settlements db"], cases db, simp)+
  show "account_spend L e t db = Ok db' \<Longrightarrow> \<exists>rows. db' = db\<lparr>db_spends := rows\<rparr>"
    using same(1) by (auto simp: account_spend_def insert_spend_row_def split: option.splits)
  show "account_attempt L e t db = Ok db' \<Longrightarrow> \<exists>rows. db' = db\<lparr>db_attempts := rows\<rparr>"
    using same(2) by (auto simp: account_attempt_def insert_attempt_row_def split: option.splits)
  show "account_settlement L e t db = Ok db' \<Longrightarrow> \<exists>rows. db' = db\<lparr>db_settlements := rows\<rparr>"
    using same(3) by (auto simp: account_settlement_def insert_settlement_row_def split: option.splits)
qed

lemma to_i64_next: "to_i64 (saturating_add w 1) = Ok i \<Longrightarrow> to_u64 i = Ok (w + 1)"
proof -
  assume "to_i64 (saturating_add w 1) = Ok i"
  then have small: "unat (saturating_add w 1) < 2 ^ 63" and i: "i = uint (saturating_add w 1)"
    by (simp_all add: to_i64_Ok)
  have "unat (- 1 :: u64) = 2 ^ 64 - 1" by (simp add: unsigned_minus_1_eq_mask mask_eq_exp_minus_1)
  then have "saturating_add w 1 = w + 1"
    using small by (auto simp: saturating_add_def split: if_splits)
  then show "to_u64 i = Ok (w + 1)" using i by simp
qed

lemma advance_head_ok:
  assumes "advance_head L head e t event authoritative db = Ok db'"
    and "db_campaigns db = [row]" and "campaign_head db0 = Ok head" and "db_campaigns db0 = [row]"
  shows "\<exists>row'. db' = db\<lparr>db_campaigns := [row']\<rparr> \<and> cr_campaign_id row' = cr_campaign_id row
    \<and> cr_current_occurrence_id row' = occurrence_to_string L (key_occurrence (snap_key t))
    \<and> cr_current_state_digest row' = as_str (snap_state_digest t)
    \<and> cr_event_head_digest row' = as_str event
    \<and> to_u64 (cr_revision row') = Ok (chr_revision head + 1)
    \<and> to_u64 (cr_event_count row') = Ok (chr_event_count head + 1)"
proof -
  obtain revision events where stepped: "to_i64 (saturating_add (chr_revision head) 1) = Ok revision"
      "to_i64 (saturating_add (chr_event_count head) 1) = Ok events"
    using assms(1) by (auto simp: advance_head_def)
  let ?row = "row\<lparr>cr_current_occurrence_id := occurrence_to_string L (key_occurrence (snap_key t)),
    cr_current_state_digest := as_str (snap_state_digest t), cr_revision := revision, cr_event_count := events,
    cr_event_head_digest := as_str event\<rparr>"
  have "db' = db\<lparr>db_campaigns := [?row]\<rparr>"
    using assms(1,2) stepped by (auto simp: advance_head_def update_campaign_row_def Let_def split: if_splits)
  then show ?thesis using stepped [THEN to_i64_next] by (intro exI [of _ ?row]) simp
qed

lemma campaign_head_fields:
  assumes "campaign_head db = Ok head" and "db_campaigns db = [row]"
  shows "chr_campaign head = cr_campaign_id row" "chr_occurrence head = cr_current_occurrence_id row"
    "chr_state_digest head = cr_current_state_digest row" "chr_event_head head = cr_event_head_digest row"
    "to_u64 (cr_revision row) = Ok (chr_revision head)" "to_u64 (cr_event_count row) = Ok (chr_event_count head)"
  using assms by (auto simp: campaign_head_def)

section \<open>One written transition\<close>

text \<open>The row that \<open>write_transition\<close> appends to the journal, as the replay reads it.\<close>

definition written_row ::
  "'l store_lib_scheme \<Rightarrow> OccurrenceSnapshotV1 \<Rightarrow> OccurrenceSnapshotV1 \<Rightarrow> CampaignTransitionKindV1
     \<Rightarrow> CampaignTransitionEvidenceV1 \<Rightarrow> bytes \<Rightarrow> Digest \<Rightarrow> u64 \<Rightarrow> StoredTransitionRow" where
  "written_row L e t kind evidence evidence_jcs previous now =
     (let source = occurrence_to_string L (key_occurrence (snap_key e));
          target = occurrence_to_string L (key_occurrence (snap_key t));
          evidence_digest = hash_domain L EVENT_DOMAIN_V1 evidence_jcs in
      \<lparr>str_source_occurrence = Some source, str_successor_occurrence = target, str_kind = kind,
       str_predecessor = snap_state_digest e, str_successor = snap_state_digest t, str_snapshot = t,
       str_evidence = evidence, str_evidence_digest = evidence_digest, str_previous_event = previous,
       str_event = store_event_digest L (key_campaign (snap_key e)) (Some source) target kind
         (snap_state_digest e) (snap_state_digest t) evidence_digest previous now,
       str_recorded_at_unix_ms = now\<rparr>)"

lemma written_row_simps [simp]:
  "str_snapshot (written_row L e t k ev b p n) = t"
  "str_evidence (written_row L e t k ev b p n) = ev"
  "str_successor (written_row L e t k ev b p n) = snap_state_digest t"
  "str_predecessor (written_row L e t k ev b p n) = snap_state_digest e"
  "str_kind (written_row L e t k ev b p n) = k"
  "str_recorded_at_unix_ms (written_row L e t k ev b p n) = n"
  "str_previous_event (written_row L e t k ev b p n) = p"
  "str_source_occurrence (written_row L e t k ev b p n) = Some (occurrence_to_string L (key_occurrence (snap_key e)))"
  "str_successor_occurrence (written_row L e t k ev b p n) = occurrence_to_string L (key_occurrence (snap_key t))"
  "str_evidence_digest (written_row L e t k ev b p n) = hash_domain L EVENT_DOMAIN_V1 b"
  by (simp_all add: written_row_def Let_def)

lemma written_row_event:
  "str_event (written_row L e t k ev b p n) = store_event_digest L (key_campaign (snap_key e))
     (Some (occurrence_to_string L (key_occurrence (snap_key e)))) (occurrence_to_string L (key_occurrence (snap_key t)))
     k (snap_state_digest e) (snap_state_digest t) (hash_domain L EVENT_DOMAIN_V1 b) p n"
  by (simp add: written_row_def Let_def)

lemma write_transition_elim:
  assumes laws: "store_laws L"
    and ok: "write_transition L e t kind evidence now db = Ok (db', receipt)"
    and campaigns: "db_campaigns db = [row]"
  obtains head jcs evidence_jcs previous db1 db2 db3 raw where
    "accepted L e t" "campaign_head db = Ok head"
    "cr_campaign_id row = campaign_text (key_campaign (snap_key e))"
    "cr_current_occurrence_id row = occurrence_to_string L (key_occurrence (snap_key e))"
    "parse_digest L (cr_current_state_digest row) = Ok (snap_state_digest e)"
    "kind_describes e t kind"
    "decode L (codec_from_slice (snapshot_codec L)) jcs = Ok t"
    "encode L (codec_to_vec (evidence_codec L)) evidence = Ok evidence_jcs"
    "parse_digest L (cr_event_head_digest row) = Ok previous"
    "write_occurrence L e t jcs (snap_state_digest e) db = Ok db1"
    "account_new_facts L e t db1 = Ok db2"
    "db3 = db2\<lparr>db_transitions := db_transitions db2 @ [(next_sequence db2, raw)]\<rparr>"
    "tr_campaign_id raw = campaign_text (key_campaign (snap_key e))"
    "read_transition L raw = Ok (written_row L e t kind evidence evidence_jcs previous now)"
    "advance_head L head e t (str_event (written_row L e t kind evidence evidence_jcs previous now))
       (snap_state_digest e) db3 = Ok db'"
proof -
  obtain head jcs evidence_jcs previous db1 db2 recorded db3 raw where parts:
    "accepted L e t" "campaign_head db = Ok head"
    "chr_campaign head = campaign_text (key_campaign (snap_key e))"
    "chr_occurrence head = occurrence_to_string L (key_occurrence (snap_key e))"
    "parse_digest L (chr_state_digest head) = Ok (snap_state_digest e)"
    "kind_describes e t kind"
    "encode L (codec_to_vec (snapshot_codec L)) t = Ok jcs"
    "encode L (codec_to_vec (evidence_codec L)) evidence = Ok evidence_jcs"
    "parse_digest L (chr_event_head head) = Ok previous"
    "write_occurrence L e t jcs (snap_state_digest e) db = Ok db1"
    "account_new_facts L e t db1 = Ok db2"
    "to_i64 now = Ok recorded"
    "raw = \<lparr>tr_campaign_id = campaign_text (key_campaign (snap_key e)),
        tr_source_occurrence_id = Some (occurrence_to_string L (key_occurrence (snap_key e))),
        tr_successor_occurrence_id = occurrence_to_string L (key_occurrence (snap_key t)),
        tr_transition_kind = kind_as_str kind,
        tr_predecessor_state_digest = as_str (snap_state_digest e),
        tr_successor_state_digest = as_str (snap_state_digest t),
        tr_successor_snapshot_jcs = jcs, tr_evidence_jcs = evidence_jcs,
        tr_evidence_digest = as_str (hash_domain L EVENT_DOMAIN_V1 evidence_jcs),
        tr_previous_event_digest = as_str previous,
        tr_event_digest = as_str (str_event (written_row L e t kind evidence evidence_jcs previous now)),
        tr_recorded_at_unix_ms = recorded\<rparr>"
    "insert_transition_row raw db2 = Ok db3"
    "advance_head L head e t (str_event (written_row L e t kind evidence evidence_jcs previous now))
       (snap_state_digest e) db3 = Ok db'"
    using ok unfolding write_transition_def written_row_event
    by (auto simp: Let_def validate_transition_kind_def simp del: encode_Ok)
  have intact: "intact L e" "intact L t" using parts(1) by (auto simp: validate_successor_iff)
  have dec: "decode L (codec_from_slice (snapshot_codec L)) jcs = Ok t"
      "decode L (codec_from_slice (evidence_codec L)) evidence_jcs = Ok evidence"
    using laws parts(7,8) unfolding store_laws_def codec_law_def by blast+
  have "read_transition L raw = Ok (written_row L e t kind evidence evidence_jcs previous now)"
    using parts(9,12) intact [THEN parse_state_digest [OF laws]] dec laws
    by (auto simp: parts(13) read_transition_def kind_parse_as_str parse_store_event [OF laws] written_row_def Let_def
        parse_hash_domain store_laws_def to_i64_Ok parse_digest_Ok)
  then show ?thesis
    using that [of head jcs evidence_jcs previous db1 db2 db3 raw] parts dec
      campaign_head_fields [OF parts(2) campaigns]
    by (auto simp: insert_transition_row_def)
qed

lemma account_new_facts_walk:
  assumes ok: "account_new_facts L e t db = Ok db'" and move: "legal_move L e t"
    and a: "str_snapshot a = e" "str_successor a = snap_state_digest e"
    and b: "str_snapshot b = t" "str_successor b = snap_state_digest t"
    and walks: "replay_spend L a m1 = Ok (btree_collect (db_spends db))"
      "replay_attempt L a m2 = Ok (btree_collect (db_attempts db))"
      "replay_settlement L a m3 = Ok (btree_collect (db_settlements db))"
  shows "replay_spend L b (btree_collect (db_spends db)) = Ok (btree_collect (db_spends db'))"
    and "replay_attempt L b (btree_collect (db_attempts db)) = Ok (btree_collect (db_attempts db'))"
    and "replay_settlement L b (btree_collect (db_settlements db)) = Ok (btree_collect (db_settlements db'))"
    and "\<exists>x y z. db' = db\<lparr>db_spends := x, db_attempts := y, db_settlements := z\<rparr>"
proof -
  obtain db1 db2 where steps: "account_spend L e t db = Ok db1" "account_attempt L e t db1 = Ok db2"
      "account_settlement L e t db2 = Ok db'"
    using ok by (auto simp: account_new_facts_def)
  obtain x y z where frames: "db1 = db\<lparr>db_spends := x\<rparr>" "db2 = db1\<lparr>db_attempts := y\<rparr>"
      "db' = db2\<lparr>db_settlements := z\<rparr>"
    using account_frames(1) [OF steps(1)] account_frames(2) [OF steps(2)] account_frames(3) [OF steps(3)] by blast
  show "\<exists>x y z. db' = db\<lparr>db_spends := x, db_attempts := y, db_settlements := z\<rparr>"
    using frames by auto
  show "replay_spend L b (btree_collect (db_spends db)) = Ok (btree_collect (db_spends db'))"
    using spends.account_extends_walk [of L a b m1 db db1] move a b walks(1) steps(1) frames by simp
  show "replay_attempt L b (btree_collect (db_attempts db)) = Ok (btree_collect (db_attempts db'))"
    using attempts.account_extends_walk [of L a b m2 db1 db2] move a b walks(2) steps(2) frames by simp
  show "replay_settlement L b (btree_collect (db_settlements db)) = Ok (btree_collect (db_settlements db'))"
    using settlements.account_extends_walk [of L a b m3 db2 db'] move a b walks(3) steps(3) frames by simp
qed

lemma replay_row_written:
  assumes "accepted L e t" "kind_describes e t kind" "key_campaign (snap_key e) = c" "key_campaign (snap_key t) = c"
    and "encode L (codec_to_vec (evidence_codec L)) ev = Ok evidence_jcs"
    and "rs_index s \<noteq> 0" "rs_previous_snapshot s = Some e" "rs_previous_event s = previous"
    and "validate_replayed_evidence L e t kind ev = Ok ()"
    and "try_fold record_decision (rs_human_decisions s) (new_decisions e t) = Ok D"
    and "r = written_row L e t kind ev evidence_jcs previous now"
    and "replay_spend L r (rs_spends s) = Ok x" "replay_attempt L r (rs_attempts s) = Ok y"
    and "replay_settlement L r (rs_settlements s) = Ok z" "replay_human L r (rs_human_artifacts s) = Ok A"
  shows "replay_row L c p s r = Ok \<lparr>rs_index = rs_index s + 1, rs_previous_snapshot = Some t,
      rs_previous_event = str_event r,
      rs_latest_occurrences =
        btree_insert (occurrence_to_string L (key_occurrence (snap_key t))) t (rs_latest_occurrences s),
      rs_spends = x, rs_attempts = y, rs_settlements = z, rs_human_decisions = D, rs_human_artifacts = A\<rparr>"
proof -
  have "intact L t" "snap_prior_state_digest t = snap_state_digest e"
    using assms(1) by (auto simp: validate_successor_iff)
  then have "replay_binding L c (rs_index s) previous r = Ok ()"
    using assms(3,4,5) by (simp add: assms(11) replay_binding_def written_row_event)
  moreover have "replay_link L (rs_index s) (Some e) r (rs_human_decisions s) = Ok D"
    using assms(1,2,9,10) by (simp add: assms(11) replay_link_def validate_transition_kind_def)
  moreover have "str_snapshot r = t" "str_successor_occurrence r = occurrence_to_string L (key_occurrence (snap_key t))"
    by (simp_all add: assms(11))
  ultimately show ?thesis
    using assms(6-8) assms(12-15) by (simp add: replay_row_iff)
qed

lemma verify_head_written:
  assumes "verify_head L row digest head n s = Ok ()"
    and "campaign_head db = Ok h" "db_campaigns db = [row]"
    and "rs_previous_snapshot s' = Some t" "rs_previous_event s' = event"
    and "cr_current_occurrence_id row' = occurrence_to_string L (key_occurrence (snap_key t))"
    and "to_u64 (cr_revision row') = Ok (chr_revision h + 1)"
    and "to_u64 (cr_event_count row') = Ok (chr_event_count h + 1)"
  shows "verify_head L row' (snap_state_digest t) event (Suc n) s' = Ok ()"
  using assms campaign_head_fields(5,6) [OF assms(2,3)]
  by (auto simp: verify_head_def Let_def add.commute)

text \<open>The parts of the database that no transition writes.\<close>

definition side_tables_kept :: "campaign_db \<Rightarrow> campaign_db \<Rightarrow> bool" where
  "side_tables_kept db db' \<longleftrightarrow>
     db_application_id db' = db_application_id db \<and> db_user_version db' = db_user_version db
     \<and> db_identity db' = db_identity db \<and> db_runtime_profile db' = db_runtime_profile db
     \<and> db_humans db' = db_humans db \<and> db_discharges db' = db_discharges db \<and> db_refusals db' = db_refusals db"

lemma write_transition_extends:
  assumes laws: "store_laws L" and replayed: "replayed L db row c p ts s"
    and ok: "write_transition L e t kind ev now db = Ok (db', receipt)"
    and last: "rs_previous_snapshot s = Some e"
    and evidence: "validate_replayed_evidence L e t kind ev = Ok ()"
    and decisions: "try_fold record_decision (rs_human_decisions s) (new_decisions e t) = Ok D"
    and human: "\<And>r. str_evidence r = ev \<Longrightarrow> str_recorded_at_unix_ms r = now
      \<Longrightarrow> replay_human L r (rs_human_artifacts s) = Ok A"
  obtains row' r s' where "replayed L db' row' c p (ts @ [r]) s'" "rs_previous_snapshot s' = Some t"
    "rs_human_decisions s' = D" "rs_human_artifacts s' = A" "side_tables_kept db db'"
proof -
  note rep = replayed [unfolded replayed_def]
  have campaigns: "db_campaigns db = [row]" using rep by simp
  obtain head jcs evidence_jcs previous db1 db2 db3 raw where w:
    "accepted L e t" "campaign_head db = Ok head"
    "cr_campaign_id row = campaign_text (key_campaign (snap_key e))"
    "cr_current_occurrence_id row = occurrence_to_string L (key_occurrence (snap_key e))"
    "parse_digest L (cr_current_state_digest row) = Ok (snap_state_digest e)"
    "kind_describes e t kind"
    "decode L (codec_from_slice (snapshot_codec L)) jcs = Ok t"
    "encode L (codec_to_vec (evidence_codec L)) ev = Ok evidence_jcs"
    "parse_digest L (cr_event_head_digest row) = Ok previous"
    "write_occurrence L e t jcs (snap_state_digest e) db = Ok db1"
    "account_new_facts L e t db1 = Ok db2"
    "db3 = db2\<lparr>db_transitions := db_transitions db2 @ [(next_sequence db2, raw)]\<rparr>"
    "tr_campaign_id raw = campaign_text (key_campaign (snap_key e))"
    "read_transition L raw = Ok (written_row L e t kind ev evidence_jcs previous now)"
    "advance_head L head e t (str_event (written_row L e t kind ev evidence_jcs previous now))
       (snap_state_digest e) db3 = Ok db'"
    by (rule write_transition_elim [OF laws ok campaigns])
  define r where "r = written_row L e t kind ev evidence_jcs previous now"
  obtain before s0 a where a: "ts = before @ [a]" "replay_row L c p s0 a = Ok s" "str_snapshot a = e"
    "rs_previous_event s = str_event a" "str_successor a = snap_state_digest e"
    "key_campaign (snap_key e) = c" "str_successor_occurrence a = occurrence_to_string L (key_occurrence (snap_key e))"
    using replayed_last [OF replayed] last by (metis option.inject)
  have move: "legal_move L e t" using w(1) by (auto simp: validate_successor_iff)
  have ct: "key_campaign (snap_key t) = c" using legal_move_campaign [OF move] a(6) by simp
  have "map_of (rs_latest_occurrences s) (occurrence_to_string L (key_occurrence (snap_key e))) = Some e"
    using a by (simp add: replay_row_iff map_of_btree_insert)
  then obtain rows where occ: "verify_occurrence_materialization L db1 c
      (btree_insert (occurrence_to_string L (key_occurrence (snap_key t))) t (rs_latest_occurrences s)) = Ok ()"
    and db1: "db1 = db\<lparr>db_occurrences := rows\<rparr>"
    using write_occurrence_ok [OF w(10) _ _ w(7)] rep ct by auto
  have walks: "replay_spend L a (rs_spends s0) = Ok (btree_collect (db_spends db1))"
      "replay_attempt L a (rs_attempts s0) = Ok (btree_collect (db_attempts db1))"
      "replay_settlement L a (rs_settlements s0) = Ok (btree_collect (db_settlements db1))"
    using a(2) rep by (simp_all add: replay_row_iff db1)
  have r: "str_snapshot r = t" "str_successor r = snap_state_digest t" "str_evidence r = ev"
      "str_recorded_at_unix_ms r = now" by (simp_all add: r_def)
  note facts = account_new_facts_walk [OF w(11) move a(3,5) r(1,2) walks]
  obtain x y z where db2: "db2 = db1\<lparr>db_spends := x, db_attempts := y, db_settlements := z\<rparr>"
    using facts(4) by blast
  have "db_campaigns db3 = [row]" using campaigns by (simp add: w(12) db2 db1)
  then obtain row' where row': "db' = db3\<lparr>db_campaigns := [row']\<rparr>" "cr_campaign_id row' = cr_campaign_id row"
    "cr_current_occurrence_id row' = occurrence_to_string L (key_occurrence (snap_key t))"
    "cr_current_state_digest row' = as_str (snap_state_digest t)" "cr_event_head_digest row' = as_str (str_event r)"
    "to_u64 (cr_revision row') = Ok (chr_revision head + 1)"
    "to_u64 (cr_event_count row') = Ok (chr_event_count head + 1)"
    using advance_head_ok [OF w(15) _ w(2) campaigns] unfolding r_def by blast
  have db': "db' = db\<lparr>db_campaigns := [row'], db_occurrences := rows,
      db_transitions := db_transitions db @ [(next_sequence db2, raw)], db_spends := x, db_attempts := y,
      db_settlements := z\<rparr>"
    by (cases db) (simp add: row'(1) w(12) db2 db1)
  obtain digest where head: "verify_head L row digest previous (length ts) s = Ok ()"
    using rep w(9) by auto
  have index: "rs_index s = length ts" "ts \<noteq> []" using rep replay_index by blast+
  define s' where "s' = \<lparr>rs_index = rs_index s + 1, rs_previous_snapshot = Some t, rs_previous_event = str_event r,
    rs_latest_occurrences = btree_insert (occurrence_to_string L (key_occurrence (snap_key t))) t (rs_latest_occurrences s),
    rs_spends = btree_collect (db_spends db2), rs_attempts = btree_collect (db_attempts db2),
    rs_settlements = btree_collect (db_settlements db2), rs_human_decisions = D, rs_human_artifacts = A\<rparr>"
  have "replay_row L c p s r = Ok s'"
    unfolding s'_def using index head facts(1-3) rep human [OF r(3,4)]
    by (intro replay_row_written [OF w(1,6) a(6) ct w(8) _ last _ evidence decisions r_def])
      (auto simp: db1 verify_head_def Let_def)
  then have "try_fold (replay_row L c p) (replay_start L c) (ts @ [r]) = Ok s'"
    using rep by (simp add: try_fold_append)
  moreover have "journal_rows db' c = journal_rows db c @ [raw]"
    using w(13) a(6) by (simp add: journal_rows_def db')
  moreover have "verify_head L row' (snap_state_digest t) (str_event r) (Suc (length ts)) s' = Ok ()"
    by (rule verify_head_written [OF head w(2) campaigns _ _ row'(3,6,7)]) (simp_all add: s'_def)
  moreover have "verify_occurrence_materialization L db' c (rs_latest_occurrences s') = Ok ()"
    using occ by (simp add: verify_occurrence_materialization_def db' db1 s'_def)
  moreover have "parse_digest L (cr_current_state_digest row') = Ok (snap_state_digest t)"
      "parse_digest L (cr_event_head_digest row') = Ok (str_event r)"
    using w(1) by (simp_all add: row' parse_state_digest [OF laws] validate_successor_iff r_def written_row_event
        parse_store_event [OF laws])
  moreover have "stored_profile_digest L db' = Ok p" "db_quick_check db' = ''ok''" "db_campaigns db' = [row']"
      "try_map (read_transition L) (journal_rows db c @ [raw]) = Ok (ts @ [r])"
      "parse_digest L (cr_campaign_id row') = Ok (campaign_as_digest c)"
      "btree_collect (db_spends db') = rs_spends s'" "btree_collect (db_attempts db') = rs_attempts s'"
      "btree_collect (db_settlements db') = rs_settlements s'"
    using rep row'(2) w(14) by (simp_all add: db' stored_profile_digest_def try_map_snoc r_def s'_def db2)
  ultimately have "replayed L db' row' c p (ts @ [r]) s'"
    unfolding replayed_def by auto
  then show thesis by (rule that) (simp_all add: s'_def side_tables_kept_def db')
qed

end
