(* ===== verification/Store_Chain.thy ===== *)
theory Store_Chain
  imports Store_Extend
begin

text \<open>
  What a store that replays is: a chain of snapshots of one campaign that the membrane accepts link by
  link, with tables that hold exactly the facts of the chain.
\<close>

section \<open>The journal as a chain\<close>

abbreviation used_decisions :: "OccurrenceSnapshotV1 \<Rightarrow> HumanDecisionIdV1 set" where
  "used_decisions s \<equiv> set (meta_used_human_decisions (meta (snap_state s)))"

definition genesis_snapshot :: "'l governed_lib_scheme \<Rightarrow> OccurrenceSnapshotV1 \<Rightarrow> bool" where
  "genesis_snapshot H s \<longleftrightarrow> intact H s \<and> snap_pc s = PC_ObservationRequired \<and> state_prior_occurrence (snap_state s) = None"

text \<open>
  The rows an accounting table should have for a chain: one for every snapshot that carries a fact, of which the
  first under a key counts.
\<close>

definition chain_rows ::
  "(OccurrenceStateV1 \<Rightarrow> 'f option) \<Rightarrow> ('f \<Rightarrow> string) \<Rightarrow> (OccurrenceSnapshotV1 \<Rightarrow> 'f \<Rightarrow> 'e + 'r)
     \<Rightarrow> OccurrenceSnapshotV1 list \<Rightarrow> (string \<times> 'r) list" where
  "chain_rows carried key carried_row ss = List.map_filter (\<lambda>s.
     case carried (snap_state s) of
       None \<Rightarrow> None
     | Some f \<Rightarrow> (case carried_row s f of Inl _ \<Rightarrow> None | Inr r \<Rightarrow> Some (key f, r))) ss"

lemma chain_rows_append: "chain_rows carried key carried_row (ss @ ts) = chain_rows carried key carried_row ss @ chain_rows carried key carried_row ts"
  by (simp add: chain_rows_def map_filter_def)

lemma chain_rows_Nil [simp]: "chain_rows carried key carried_row [] = []"
  by (simp add: chain_rows_def map_filter_simps)

lemma map_of_or_insert: "map_of (or_insert k r m) = map_of (m @ [(k, r)])"
proof (cases "k \<in> fst ` set m")
  case True
  then obtain r' where "map_of m k = Some r'" by (metis domIff dom_map_of_conv_image_fst not_None_eq)
  with True show ?thesis by (simp add: or_insert_known map_add_def fun_eq_iff split: option.splits)
next
  case False
  then have "map_of m k = None" by (simp add: map_of_eq_None_iff)
  with False show ?thesis
    by (simp add: or_insert_fresh map_of_btree_insert map_add_def fun_eq_iff split: option.splits)
qed

context fact_table
begin

lemma walk_adds:
  assumes "walk t m = Ok m'" and "str_successor t = snap_state_digest (str_snapshot t)"
    and "map_of m = map_of (chain_rows fact key fact_row ss)"
  shows "map_of m' = map_of (chain_rows fact key fact_row (ss @ [str_snapshot t]))"
proof (cases "fact (snap_state (str_snapshot t))")
  case None
  then show ?thesis using assms by (simp add: walk_row chain_rows_def map_filter_def)
next
  case (Some f)
  then obtain r where "fact_row (str_snapshot t) f = Ok r" "m' = or_insert (key f) r m"
    using assms(1,2) by (auto simp: walk_row)
  then show ?thesis
    using Some assms(3) by (simp add: map_of_or_insert chain_rows_append) (simp add: chain_rows_def map_filter_simps)
qed

end

abbreviation spend_rows :: "'l store_lib_scheme \<Rightarrow> OccurrenceSnapshotV1 list \<Rightarrow> (string \<times> ExpectedSpendRow) list" where
  "spend_rows L \<equiv> chain_rows spend_fact (\<lambda>f. spend_text (sp_spend (fst f))) (spend_fact_row L)"

abbreviation attempt_rows :: "'l store_lib_scheme \<Rightarrow> OccurrenceSnapshotV1 list \<Rightarrow> (string \<times> ExpectedAttemptRow) list" where
  "attempt_rows L \<equiv> chain_rows state_docket_custody (\<lambda>f. attempt_text (cu_attempt f)) (attempt_fact_row L)"

abbreviation settlement_rows ::
  "'l store_lib_scheme \<Rightarrow> OccurrenceSnapshotV1 list \<Rightarrow> (string \<times> ExpectedSettlementRow) list" where
  "settlement_rows L \<equiv> chain_rows state_settlement (\<lambda>f. settlement_text (se_settlement f)) (settlement_fact_row L)"

lemma record_decisions:
  "try_fold record_decision seen ds = Ok seen' \<Longrightarrow> seen' = seen \<union> decision_text ` set ds"
  by (induction ds arbitrary: seen) (auto simp: record_decision_def)

lemma decision_text_inject [simp]: "decision_text a = decision_text b \<longleftrightarrow> a = b"
  by (cases a; cases b) (auto intro: Digest.expand)

lemma replay_row_first:
  assumes "replay_row L c p s0 t = Ok s" and "rs_index s0 = 0"
  shows "genesis_snapshot L (str_snapshot t)" and "rs_human_decisions s = rs_human_decisions s0"
proof -
  have r: "replay_binding L c (rs_index s0) (rs_previous_event s0) t = Ok ()" "replay_genesis p t = Ok ()"
      "rs_human_decisions s = rs_human_decisions s0"
    using assms unfolding replay_row_iff by auto
  show "genesis_snapshot L (str_snapshot t)"
    using r(1,2) by (auto simp: genesis_snapshot_def replay_genesis_def replay_binding_def
        split: CampaignTransitionEvidenceV1.splits if_splits)
  show "rs_human_decisions s = rs_human_decisions s0" by (rule r(3))
qed

lemma replay_row_next:
  assumes "replay_row L c p s0 t = Ok s" and "rs_index s0 \<noteq> 0" and "rs_previous_snapshot s0 = Some e"
  shows "accepted L e (str_snapshot t)"
    and "try_fold record_decision (rs_human_decisions s0) (new_decisions e (str_snapshot t)) = Ok (rs_human_decisions s)"
proof -
  have "replay_link L (rs_index s0) (Some e) t (rs_human_decisions s0) = Ok (rs_human_decisions s)"
    using assms unfolding replay_row_iff by simp
  then show "accepted L e (str_snapshot t)"
    and "try_fold record_decision (rs_human_decisions s0) (new_decisions e (str_snapshot t)) = Ok (rs_human_decisions s)"
    by (auto simp: replay_link_def split: if_splits)
qed

lemma replay_row_facts:
  assumes "replay_row L c p s0 t = Ok s"
    and "map_of (rs_spends s0) = map_of (spend_rows L ss)"
    and "map_of (rs_attempts s0) = map_of (attempt_rows L ss)"
    and "map_of (rs_settlements s0) = map_of (settlement_rows L ss)"
  shows "rs_previous_snapshot s = Some (str_snapshot t)"
    and "map_of (rs_spends s) = map_of (spend_rows L (ss @ [str_snapshot t]))"
    and "map_of (rs_attempts s) = map_of (attempt_rows L (ss @ [str_snapshot t]))"
    and "map_of (rs_settlements s) = map_of (settlement_rows L (ss @ [str_snapshot t]))"
proof -
  have bound: "str_successor t = snap_state_digest (str_snapshot t)"
    using assms(1) unfolding replay_row_iff by (auto simp: replay_binding_def split: if_splits)
  have walk: "replay_spend L t (rs_spends s0) = Ok (rs_spends s)"
      "replay_attempt L t (rs_attempts s0) = Ok (rs_attempts s)"
      "replay_settlement L t (rs_settlements s0) = Ok (rs_settlements s)"
    using assms(1) unfolding replay_row_iff by simp_all
  show "rs_previous_snapshot s = Some (str_snapshot t)"
    using assms(1) unfolding replay_row_iff by simp
  show "map_of (rs_spends s) = map_of (spend_rows L (ss @ [str_snapshot t]))"
    by (rule spends.walk_adds [OF walk(1) bound assms(2)])
  show "map_of (rs_attempts s) = map_of (attempt_rows L (ss @ [str_snapshot t]))"
    by (rule attempts.walk_adds [OF walk(2) bound assms(3)])
  show "map_of (rs_settlements s) = map_of (settlement_rows L (ss @ [str_snapshot t]))"
    by (rule settlements.walk_adds [OF walk(3) bound assms(4)])
qed

text \<open>What the loop of \<open>replay_store\<close> has established after the rows of \<open>ss\<close>.\<close>

definition chain_replayed :: "'l store_lib_scheme \<Rightarrow> OccurrenceSnapshotV1 list \<Rightarrow> replay_state \<Rightarrow> bool" where
  "chain_replayed L ss s \<longleftrightarrow>
     is_run (accepted L) ss \<and> genesis_snapshot L (hd ss) \<and> rs_previous_snapshot s = Some (last ss)
     \<and> map_of (rs_spends s) = map_of (spend_rows L ss)
     \<and> map_of (rs_attempts s) = map_of (attempt_rows L ss)
     \<and> map_of (rs_settlements s) = map_of (settlement_rows L ss)
     \<and> rs_human_decisions s = decision_text ` (used_decisions (last ss) - used_decisions (hd ss))"

lemma accepted_decisions: "accepted L s t \<Longrightarrow> used_decisions s \<subseteq> used_decisions t"
  using membrane_ledger.step_le [of L s t] by (simp add: ledger_le_def set_mono_prefix)

lemma run_decisions:
  assumes "is_run (accepted L) ss" and "ss \<noteq> []"
  shows "used_decisions (hd ss) \<subseteq> used_decisions (last ss)"
proof -
  have "ledger_le (hd ss) (last ss)"
    by (rule membrane_ledger.run_le [of L _ "tl ss"]) (use assms in simp_all)
  then show ?thesis by (simp add: ledger_le_def set_mono_prefix)
qed

lemma chain_replayed_snoc:
  assumes chain: "chain_replayed L ss s0" and "ss \<noteq> []" and "rs_index s0 \<noteq> 0" and row: "replay_row L c p s0 t = Ok s"
  shows "chain_replayed L (ss @ [str_snapshot t]) s"
proof -
  have run: "is_run (accepted L) ss" and prior: "rs_previous_snapshot s0 = Some (last ss)"
    and decisions: "rs_human_decisions s0 = decision_text ` (used_decisions (last ss) - used_decisions (hd ss))"
    and rest: "genesis_snapshot L (hd ss)" "map_of (rs_spends s0) = map_of (spend_rows L ss)"
      "map_of (rs_attempts s0) = map_of (attempt_rows L ss)" "map_of (rs_settlements s0) = map_of (settlement_rows L ss)"
    using chain unfolding chain_replayed_def by simp_all
  note link = replay_row_next [OF row assms(3) prior]
  let ?h = "used_decisions (hd ss)" and ?l = "used_decisions (last ss)" and ?t = "used_decisions (str_snapshot t)"
  have "?t - ?h = (?l - ?h) \<union> (?t - ?l)"
    using run_decisions [OF run assms(2)] accepted_decisions [OF link(1)] by blast
  moreover have "set (new_decisions (last ss) (str_snapshot t)) = ?t - ?l"
    by (auto simp: new_decisions_def)
  ultimately have "rs_human_decisions s = decision_text ` (?t - ?h)"
    using record_decisions [OF link(2)] decisions by (simp only: image_Un)
  moreover have "is_run (accepted L) (ss @ [str_snapshot t])"
    using run link(1) assms(2) by (cases ss rule: rev_cases) (simp_all add: is_run_snoc)
  ultimately show ?thesis
    using rest assms(2) replay_row_facts [OF row rest(2-4)] unfolding chain_replayed_def
    by (simp only: hd_append2 last_snoc simp_thms)
qed

lemma replay_chain:
  assumes "try_fold (replay_row L c p) (replay_start L c) ts = Ok s" and "ts \<noteq> []"
  shows "chain_replayed L (map str_snapshot ts) s"
  using assms
proof (induction ts arbitrary: s rule: rev_induct)
  case (snoc t ts)
  obtain s0 where s0: "try_fold (replay_row L c p) (replay_start L c) ts = Ok s0"
    and row: "replay_row L c p s0 t = Ok s"
    using snoc.prems(1) by (auto simp: try_fold_append)
  show ?case
  proof (cases "ts = []")
    case True
    then have "s0 = replay_start L c" using s0 by simp
    then show ?thesis
      using replay_row_first [OF row] replay_row_facts [OF row, of "[]"] True
      by (simp add: replay_start_def chain_replayed_def)
  next
    case False
    then show ?thesis
      using chain_replayed_snoc [OF snoc.IH [OF s0] _ _ row] replay_index [OF s0] by simp
  qed
qed simp

lemma replayed_decisions:
  assumes rep: "replayed L db row c p ts s" and last: "rs_previous_snapshot s = Some e"
  shows "rs_human_decisions s \<subseteq> decision_text ` used_decisions e"
proof -
  have "chain_replayed L (map str_snapshot ts) s"
    by (rule replay_chain) (use rep in \<open>auto simp: replayed_def\<close>)
  then show ?thesis using last by (auto simp: chain_replayed_def)
qed

end
