(* ===== verification/Store_Runs.thy ===== *)
theory Store_Runs
  imports Store_Chain
begin

text \<open>
  Runs of the campaign store: every way to commit keeps a store that replays, and the snapshot that
  \<open>current\<close> loads is the last one of the journal.
\<close>

section \<open>Residual discharges\<close>

text \<open>What one human disposition contributes to the expected discharges.\<close>

definition discharge_entry ::
  "'l store_lib_scheme \<Rightarrow> string \<times> ExpectedHumanRow \<Rightarrow> CampaignStoreErrorV1 + (string \<times> discharge_row) list" where
  "discharge_entry L entry =
     try_then (decode L (codec_from_slice (human_codec L)) (eh_artifact_jcs (snd entry))) (\<lambda>artifact.
     case hd_disposition artifact of
       ExactResidualDisposition discharge \<Rightarrow>
         try_then (encode L (residual_ids_to_vec L) (dis_before discharge)) (\<lambda>before_jcs.
         try_then (encode L (residual_ids_to_vec L) (dis_closed discharge)) (\<lambda>closed_jcs.
         try_then (encode L (residual_ids_to_vec L) (dis_after discharge)) (\<lambda>after_jcs.
         Ok [(fst entry, authority_text (dis_authority discharge), before_jcs, closed_jcs, after_jcs)])))
     | _ \<Rightarrow> Ok [])"

lemma expected_discharge_entry:
  "expected_discharge L (btree_collect acc) entry =
     try_then (discharge_entry L entry) (\<lambda>ds. Ok (btree_collect (acc @ ds)))"
  by (auto simp: expected_discharge_def discharge_entry_def btree_collect_def try_then_def simp del: encode_Ok
      split: sum.splits HumanDispositionKindV1.splits)

lemma expected_discharge_fold:
  "try_fold (expected_discharge L) (btree_collect acc) m =
     try_then (try_map (discharge_entry L) m) (\<lambda>ds. Ok (btree_collect (acc @ concat ds)))"
proof (induction m arbitrary: acc)
  case (Cons entry m)
  show ?case
  proof (cases "discharge_entry L entry")
    case (Inr ds)
    then show ?thesis
      using Cons.IH [of "acc @ ds"]
      by (cases "try_map (discharge_entry L) m") (simp_all add: expected_discharge_entry)
  qed (simp add: expected_discharge_entry)
qed simp

lemma expected_discharges:
  "try_fold (expected_discharge L) [] m =
     try_then (try_map (discharge_entry L) m) (\<lambda>ds. Ok (btree_collect (concat ds)))"
  using expected_discharge_fold [of L "[]" m] by (simp add: btree_collect_def)

lemma btree_insert_split:
  "k \<notin> fst ` set m \<Longrightarrow> \<exists>m1 m2. m = m1 @ m2 \<and> btree_insert k v m = m1 @ (k, v) # m2"
proof (induction k v m rule: btree_insert.induct)
  case (2 k v k' v' m)
  then show ?case by (auto intro: exI [of _ "[]"]) (metis append_Cons)
qed simp

lemma try_map_append:
  "try_map f (xs @ ys) = Ok zs \<longleftrightarrow> (\<exists>us vs. try_map f xs = Ok us \<and> try_map f ys = Ok vs \<and> zs = us @ vs)"
  by (induction xs arbitrary: zs) (auto simp: Cons_eq_append_conv)

lemma discharge_entry_shape:
  assumes "discharge_entry L entry = Ok d"
  shows "d = [] \<or> (\<exists>x. d = [(fst entry, x)])"
proof -
  obtain artifact where "decode L (codec_from_slice (human_codec L)) (eh_artifact_jcs (snd entry)) = Ok artifact"
    using assms by (auto simp: discharge_entry_def)
  then show ?thesis
    using assms by (cases "hd_disposition artifact") (auto simp: discharge_entry_def)
qed

lemma discharge_keys:
  "try_map (discharge_entry L) m = Ok ds \<Longrightarrow> distinct (map fst m)
   \<Longrightarrow> distinct (map fst (concat ds)) \<and> fst ` set (concat ds) \<subseteq> fst ` set m"
proof (induction m arbitrary: ds)
  case (Cons entry m)
  from Cons.prems obtain d ds' where d: "discharge_entry L entry = Ok d" "try_map (discharge_entry L) m = Ok ds'"
      "ds = d # ds'" by auto
  have "d = [] \<or> (\<exists>x. d = [(fst entry, x)])"
    by (rule discharge_entry_shape [OF d(1)])
  moreover have "fst entry \<notin> fst ` set m" using Cons.prems(2) by auto
  moreover have "distinct (map fst (concat ds')) \<and> fst ` set (concat ds') \<subseteq> fst ` set m"
    using Cons.IH [OF d(2)] Cons.prems(2) by simp
  moreover have "fst entry \<notin> fst ` set (concat ds')" using calculation by blast
  ultimately show ?case using d(3) by (elim disjE exE conjE) (auto simp del: set_concat)
qed simp

lemma expected_discharges_insert:
  assumes "try_fold (expected_discharge L) [] m = Ok (btree_collect rows)"
    and "sorted_wrt (<) (map fst m)" and fresh: "k \<notin> fst ` set m" and "discharge_entry L (k, e) = Ok d"
  shows "try_fold (expected_discharge L) [] (btree_insert k e m) = Ok (btree_collect (rows @ d))"
proof -
  obtain m1 m2 where m: "m = m1 @ m2" "btree_insert k e m = m1 @ (k, e) # m2"
    using btree_insert_split [OF fresh] by blast
  obtain d1 d2 where ds: "try_map (discharge_entry L) m1 = Ok d1" "try_map (discharge_entry L) m2 = Ok d2"
      "btree_collect (concat (d1 @ d2)) = btree_collect rows"
    using assms(1) by (auto simp: expected_discharges m(1) try_map_append)
  have new: "try_map (discharge_entry L) (m1 @ (k, e) # m2) = Ok (d1 @ d # d2)"
    using ds(1,2) assms(4) by (simp add: try_map_append)
  have "distinct (map fst (btree_insert k e m))"
    using sorted_btree_insert [OF assms(2), of k e] by (simp add: strict_sorted_iff)
  then have "distinct (map fst (concat (d1 @ d # d2)))"
    using discharge_keys [OF new] m(2) by simp
  then have "btree_collect (concat (d1 @ d # d2)) = btree_collect (concat (d1 @ d2) @ d)"
    by (intro btree_collect_mset) simp_all
  also have "\<dots> = btree_collect (rows @ d)"
    using ds(3) by (simp add: btree_collect_def fold_append)
  finally show ?thesis using new m(2) by (simp add: expected_discharges)
qed

section \<open>Consuming a human disposition\<close>

definition expected_human ::
  "'l store_lib_scheme \<Rightarrow> HumanDispositionV1 \<Rightarrow> HumanVerificationRefV1 \<Rightarrow> bytes \<Rightarrow> u64 \<Rightarrow> ExpectedHumanRow" where
  "expected_human L artifact verification artifact_jcs now =
     \<lparr>eh_nonce = nonce_text (hd_nonce artifact), eh_campaign = campaign_text (hd_campaign artifact),
      eh_occurrence = occurrence_to_string L (hd_occurrence artifact),
      eh_halted_state_digest = as_str (hd_halted_state_digest artifact),
      eh_verification = verification_text verification, eh_artifact_jcs = artifact_jcs,
      eh_consumed_at_unix_ms = now\<rparr>"

lemma humans_accounted_iff:
  "humans_accounted L db s \<longleftrightarrow>
     (\<exists>rows. try_map read_human (db_humans db) = Ok rows \<and> rs_human_artifacts s = btree_collect rows
       \<and> rs_human_decisions s = fst ` set rows
       \<and> try_fold (expected_discharge L) [] (btree_collect rows) = Ok (btree_collect (db_discharges db)))"
proof -
  have "humans_accounted L db s \<longleftrightarrow> (\<exists>rows. try_map read_human (db_humans db) = Ok rows
      \<and> btree_collect rows = rs_human_artifacts s \<and> rs_human_decisions s = fst ` set (rs_human_artifacts s)
      \<and> try_fold (expected_discharge L) [] (rs_human_artifacts s) = Ok (btree_collect (db_discharges db)))"
    unfolding humans_accounted_def verify_human_artifacts_def verify_residual_discharge_accounting_def
    by simp blast
  then show ?thesis using keys_btree_collect by metis
qed

lemma read_human_keys: "try_map read_human hs = Ok rows \<Longrightarrow> map fst rows = map fst hs"
  by (induction hs arbitrary: rows) (auto simp: read_human_def)

lemma btree_insert_twice: "btree_insert k v (btree_insert k v m) = btree_insert k v m"
  by (induction k v m rule: btree_insert.induct) auto

lemma insert_human_elim:
  assumes laws: "store_laws L" and ok: "insert_human_disposition L artifact verification now db = Ok db'"
    and k: "k = decision_text (hd_decision artifact)"
  obtains jcs consumed hrow d where "encode L (codec_to_vec (human_codec L)) artifact = Ok jcs"
    "to_i64 now = Ok consumed" "k \<notin> fst ` set (db_humans db)"
    "read_human (k, hrow) = Ok (k, expected_human L artifact verification jcs now)"
    "discharge_entry L (k, expected_human L artifact verification jcs now) = Ok d"
    "db' = db\<lparr>db_humans := db_humans db @ [(k, hrow)], db_discharges := db_discharges db @ d\<rparr>"
proof -
  obtain jcs consumed where enc: "encode L (codec_to_vec (human_codec L)) artifact = Ok jcs" "to_i64 now = Ok consumed"
    and fresh: "\<not> list_ex (\<lambda>(k', r). k' = k \<or> hr_nonce r = nonce_text (hd_nonce artifact)) (db_humans db)"
    using ok by (auto simp: insert_human_disposition_def Let_def k simp del: encode_Ok)
  define hrow where "hrow = \<lparr>hr_nonce = nonce_text (hd_nonce artifact),
    hr_campaign_id = campaign_text (hd_campaign artifact),
    hr_occurrence_id = occurrence_to_string L (hd_occurrence artifact),
    hr_halted_state_digest = as_str (hd_halted_state_digest artifact),
    hr_verification_ref = verification_text verification, hr_artifact_jcs = jcs, hr_consumed_at_unix_ms = consumed\<rparr>"
  let ?e = "expected_human L artifact verification jcs now"
  have dec: "decode L (codec_from_slice (human_codec L)) (eh_artifact_jcs (snd (k, ?e))) = Ok artifact"
    using laws enc(1) by (auto simp: store_laws_def codec_law_def expected_human_def)
  have read: "read_human (k, hrow) = Ok (k, ?e)"
    using enc(2) by (auto simp: read_human_def hrow_def expected_human_def to_i64_Ok)
  obtain d where "discharge_entry L (k, ?e) = Ok d"
    "db' = db\<lparr>db_humans := db_humans db @ [(k, hrow)], db_discharges := db_discharges db @ d\<rparr>"
    using ok enc dec
    by (cases "hd_disposition artifact")
      (auto simp: insert_human_disposition_def insert_human_row_def insert_discharge_row_def Let_def k hrow_def
        discharge_entry_def)
  then show thesis by (rule that [OF enc fresh_key [OF fresh] read])
qed

lemma insert_human_ok:
  assumes laws: "store_laws L" and acc: "humans_accounted L db s"
    and ok: "insert_human_disposition L artifact verification now db = Ok db'"
  obtains A x y where "db' = db\<lparr>db_humans := x, db_discharges := y\<rparr>"
    "decision_text (hd_decision artifact) \<notin> rs_human_decisions s"
    "\<And>r. str_evidence r = Ev_HumanDisposition artifact verification \<Longrightarrow> str_recorded_at_unix_ms r = now
       \<Longrightarrow> replay_human L r (rs_human_artifacts s) = Ok A \<and> replay_human L r A = Ok A"
    "\<And>s'. rs_human_decisions s' = insert (decision_text (hd_decision artifact)) (rs_human_decisions s)
       \<Longrightarrow> rs_human_artifacts s' = A \<Longrightarrow> humans_accounted L db' s'"
proof -
  define k where "k = decision_text (hd_decision artifact)"
  obtain rows where rows: "try_map read_human (db_humans db) = Ok rows" "rs_human_artifacts s = btree_collect rows"
      "rs_human_decisions s = fst ` set rows"
      "try_fold (expected_discharge L) [] (btree_collect rows) = Ok (btree_collect (db_discharges db))"
    using acc unfolding humans_accounted_iff by blast
  obtain jcs consumed hrow d where ins: "encode L (codec_to_vec (human_codec L)) artifact = Ok jcs"
      "to_i64 now = Ok consumed" "k \<notin> fst ` set (db_humans db)"
      "read_human (k, hrow) = Ok (k, expected_human L artifact verification jcs now)"
      "discharge_entry L (k, expected_human L artifact verification jcs now) = Ok d"
      "db' = db\<lparr>db_humans := db_humans db @ [(k, hrow)], db_discharges := db_discharges db @ d\<rparr>"
    by (rule insert_human_elim [OF laws ok k_def])
  define A where "A = btree_insert k (expected_human L artifact verification jcs now) (rs_human_artifacts s)"
  have keys: "fst ` set rows = fst ` set (db_humans db)"
    using read_human_keys [OF rows(1)] by (metis set_map)
  then have fresh: "k \<notin> rs_human_decisions s" "k \<notin> fst ` set (btree_collect rows)"
    using ins(3) rows(3) by simp_all
  show thesis
  proof (rule that [OF ins(6), of A])
    show "decision_text (hd_decision artifact) \<notin> rs_human_decisions s" using fresh(1) by (simp add: k_def)
    show "replay_human L r (rs_human_artifacts s) = Ok A \<and> replay_human L r A = Ok A"
      if "str_evidence r = Ev_HumanDisposition artifact verification" "str_recorded_at_unix_ms r = now" for r
    proof -
      have "map_of (rs_human_artifacts s) k = None" using fresh(2) rows(2) by (simp add: map_of_eq_None_iff)
      then show ?thesis
        using that ins(1) unfolding A_def replay_human_def expected_human_def k_def
        by (simp add: Let_def map_of_btree_insert btree_insert_twice)
    qed
    show "humans_accounted L db' s'"
      if "rs_human_decisions s' = insert (decision_text (hd_decision artifact)) (rs_human_decisions s)"
        "rs_human_artifacts s' = A" for s'
    proof -
      let ?rows = "rows @ [(k, expected_human L artifact verification jcs now)]"
      have "btree_collect ?rows = A" by (simp add: btree_collect_snoc A_def rows(2))
      moreover have "try_map read_human (db_humans db') = Ok ?rows"
        using rows(1) ins(4) by (simp add: ins(6) try_map_snoc)
      moreover have "try_fold (expected_discharge L) [] A = Ok (btree_collect (db_discharges db'))"
        using expected_discharges_insert [OF rows(4) sorted_btree_collect fresh(2) ins(5)]
        by (simp add: A_def rows(2) ins(6))
      moreover have "rs_human_decisions s' = fst ` set ?rows" using that(1) rows(3) by (simp add: k_def)
      ultimately show ?thesis unfolding humans_accounted_iff using that(2) by metis
    qed
  qed
qed

section \<open>The current snapshot\<close>

lemma current_of_replayed:
  assumes "hex_law L" and rep: "replayed L db row c p ts s"
  shows "store_current L db = Ok (str_snapshot (last ts))"
proof -
  obtain before s0 a where a: "ts = before @ [a]" "replay_row L c p s0 a = Ok s"
      "rs_previous_snapshot s = Some (str_snapshot a)" "intact L (str_snapshot a)"
      "str_successor_occurrence a = occurrence_to_string L (key_occurrence (snap_key (str_snapshot a)))"
    by (rule replayed_last [OF rep])
  note r = rep [unfolded replayed_def]
  have row: "cr_current_occurrence_id row = str_successor_occurrence a"
    using r a(3,5) by (auto simp: verify_head_def Let_def)
  have id: "cr_campaign_id row = campaign_text c"
    using r assms(1) by (cases c) (auto simp: parse_digest_Ok campaign_text_def)
  have found: "str_successor_occurrence a \<in> or_occurrence_id ` {o' \<in> set (db_occurrences db). or_campaign_id o' = campaign_text c}"
    using r a(2) by (simp add: occurrences_match_iff replay_row_iff)
  let ?rows = "filter (\<lambda>r. or_campaign_id r = cr_campaign_id row
    \<and> or_occurrence_id r = cr_current_occurrence_id row) (db_occurrences db)"
  have "?rows \<noteq> []"
    using found row id by (auto simp: filter_empty_conv)
  then obtain o' rest where first: "?rows = o' # rest"
    by (meson neq_Nil_conv)
  have "o' \<in> set ?rows" by (simp only: first list.set_intros)
  then have o': "o' \<in> set (db_occurrences db)" "or_campaign_id o' = campaign_text c"
      "or_occurrence_id o' = str_successor_occurrence a"
    using row id by simp_all
  have "verify_occurrence_row L (rs_latest_occurrences s) o' = Ok ()"
    using r o'(1,2) by (auto simp: occurrences_match_iff)
  moreover have "map_of (rs_latest_occurrences s) (or_occurrence_id o') = Some (str_snapshot a)"
    using a(2) o'(3) by (simp add: replay_row_iff map_of_btree_insert)
  ultimately have "decode L (codec_from_slice (snapshot_codec L)) (or_snapshot_jcs o') = Ok (str_snapshot a)"
    by (simp add: verify_occurrence_row_def)
  then show ?thesis
    using first r a(1,4) by (simp add: store_current_def load_snapshot_def)
qed

lemma current_replayed:
  assumes "hex_law L" and "replayed L db row c p ts s" and "store_current L db = Ok e"
  shows "rs_previous_snapshot s = Some e"
  using current_of_replayed [OF assms(1,2)] assms(3) replayed_last [OF assms(2)] by (metis last_snoc sum.inject(2))

lemma replayed_current:
  assumes "hex_law L" and "replayed L db row c p ts s" and "rs_previous_snapshot s = Some e"
  shows "store_current L db = Ok e"
  using current_of_replayed [OF assms(1,2)] assms(3) replayed_last [OF assms(2)] by (metis last_snoc option.inject)

section \<open>Commits keep the store replayable\<close>

abbreviation replays :: "'l store_lib_scheme \<Rightarrow> campaign_db \<Rightarrow> bool" where
  "replays L db \<equiv> is_ok (store_replay L db)"

lemma replays_iff:
  "replays L db \<longleftrightarrow> verify_identity L db = Ok () \<and>
     (\<exists>row c p ts s. replayed L db row c p ts s \<and> humans_accounted L db s \<and> verify_refusals L db c ts = Ok ())"
  unfolding store_replay_def replay_store_iff [symmetric] by (auto simp: is_ok_iff)

lemma humans_accounted_frame:
  "db_humans db' = db_humans db \<Longrightarrow> db_discharges db' = db_discharges db
   \<Longrightarrow> rs_human_decisions s' = rs_human_decisions s \<Longrightarrow> rs_human_artifacts s' = rs_human_artifacts s
   \<Longrightarrow> humans_accounted L db' s' = humans_accounted L db s"
  by (simp add: humans_accounted_iff)

lemma verify_refusal_row_mono:
  "verify_refusal_row L c valid entry = Ok () \<Longrightarrow> valid \<subseteq> valid' \<Longrightarrow> verify_refusal_row L c valid' entry = Ok ()"
  by (cases entry) (auto simp: verify_refusal_row_def)

lemma verify_refusals_mono:
  assumes "db_refusals db' = db_refusals db" and "verify_refusals L db c ts = Ok ()"
  shows "verify_refusals L db' c (ts @ us) = Ok ()"
proof -
  have "(\<lambda>t. as_str (str_successor t)) ` set ts \<subseteq> (\<lambda>t. as_str (str_successor t)) ` set (ts @ us)"
    by (rule image_mono) simp
  then show ?thesis
    using assms(2) verify_refusal_row_mono unfolding verify_refusals_def try_fold_unit_Ok assms(1) by blast
qed

lemma verify_identity_frame:
  assumes "db_application_id db' = db_application_id db" "db_user_version db' = db_user_version db"
    "db_identity db' = db_identity db" "db_runtime_profile db' = db_runtime_profile db"
  shows "verify_identity L db' = verify_identity L db"
  unfolding verify_identity_def runtime_profile_def assms ..

lemma new_decisions_at_most_one:
  assumes "accepted L e t"
  shows "used_decisions t = used_decisions e \<and> new_decisions e t = []
    \<or> (\<exists>d. new_decisions e t = [d] \<and> d \<notin> used_decisions e \<and> used_decisions t \<noteq> used_decisions e)"
proof -
  have "legal_move L e t" using assms by (simp add: validate_successor_iff)
  then consider "meta_used_human_decisions (meta (snap_state t)) = meta_used_human_decisions (meta (snap_state e))"
    | d where "meta_used_human_decisions (meta (snap_state t)) = meta_used_human_decisions (meta (snap_state e)) @ [d]"
    using legal_move_appends by blast
  then show ?thesis by cases (auto simp: new_decisions_def)
qed

lemma replayed_unique:
  assumes "replayed L db row c p ts s" and "replayed L db row' c' p' ts' s'"
  shows "s' = s"
proof -
  have "c' = c" using assms by (cases c; cases c') (auto simp: replayed_def)
  then show ?thesis using assms by (auto simp: replayed_def)
qed

text \<open>
  A transition whose evidence is not a human artifact keeps the store replayable exactly when it consumes
  no new decision.
\<close>

lemma plain_transition_replays:
  assumes laws: "store_laws L" and rep: "replays L db" and cur: "store_current L db = Ok e"
    and ok: "write_transition L e t kind ev now db = Ok (db', receipt)"
    and ev: "validate_replayed_evidence L e t kind ev = Ok ()" "\<nexists>a v. ev = Ev_HumanDisposition a v"
  shows "replays L db' \<longleftrightarrow> used_decisions t = used_decisions e" and "store_current L db' = Ok t"
proof -
  obtain row c p ts s where r: "verify_identity L db = Ok ()" "replayed L db row c p ts s" "humans_accounted L db s"
      "verify_refusals L db c ts = Ok ()"
    using rep unfolding replays_iff by blast
  have last: "rs_previous_snapshot s = Some e"
    using current_replayed [OF _ r(2) cur] laws by (simp add: store_laws_def)
  have chain: "rs_human_decisions s \<subseteq> decision_text ` used_decisions e"
    using replayed_decisions [OF r(2) last] .
  have "accepted L e t" using ok by (auto simp: write_transition_def)
  note new = new_decisions_at_most_one [OF this]
  let ?D = "rs_human_decisions s \<union> decision_text ` set (new_decisions e t)"
  have D: "try_fold record_decision (rs_human_decisions s) (new_decisions e t) = Ok ?D"
    using new chain by (auto simp: record_decision_def)
  have A: "replay_human L r (rs_human_artifacts s) = Ok (rs_human_artifacts s)" if "str_evidence r = ev" for r
    using that ev(2) by (auto simp: replay_human_def split: CampaignTransitionEvidenceV1.splits)
  obtain row' r' s' where w: "replayed L db' row' c p (ts @ [r']) s'"
      "rs_human_decisions s' = ?D" "rs_human_artifacts s' = rs_human_artifacts s" "side_tables_kept db db'"
      "rs_previous_snapshot s' = Some t"
    using write_transition_extends [OF laws r(2) ok last ev(1) D A] by metis
  show "store_current L db' = Ok t"
    using replayed_current [OF _ w(1,5)] laws by (simp add: store_laws_def)
  have rest: "verify_refusals L db' c (ts @ [r']) = Ok ()" "verify_identity L db' = Ok ()"
    using r w(4) verify_refusals_mono [of db' db L c ts] verify_identity_frame [of db' db L]
    by (simp_all add: side_tables_kept_def)
  have "humans_accounted L db' s' \<longleftrightarrow> ?D = rs_human_decisions s"
  proof
    assume "humans_accounted L db' s'"
    then show "?D = rs_human_decisions s"
      using r(3) w(2,3) by (simp add: humans_accounted_def)
  next
    assume "?D = rs_human_decisions s"
    then show "humans_accounted L db' s'"
      using r(3) w(2-4) humans_accounted_frame [of db' db s' s L] by (simp only: side_tables_kept_def)
  qed
  moreover have "decision_text d \<notin> rs_human_decisions s" if "d \<notin> used_decisions e" for d
    using that chain by auto
  then have "?D = rs_human_decisions s \<longleftrightarrow> used_decisions t = used_decisions e"
    using new by (elim disjE conjE exE) (simp_all add: insert_absorb insert_ident, metis insertI1)
  moreover have "replays L db' \<longleftrightarrow> humans_accounted L db' s'"
    using w(1) rest replayed_unique [OF w(1)] unfolding replays_iff by blast
  ultimately show "replays L db' \<longleftrightarrow> used_decisions t = used_decisions e" by simp
qed

lemma plain_evidence:
  "kind \<noteq> K_HumanDisposition \<Longrightarrow> validate_replayed_evidence L e t kind Ev_None = Ok ()"
  "kind \<noteq> K_HumanDisposition \<Longrightarrow> validate_replayed_evidence L e t kind (Ev_GovernedIntervention v)
     = validate_governed_intervention_evidence L e t kind v"
  by (cases kind; simp add: validate_replayed_evidence_def)+

lemma commit_replays:
  assumes "store_laws L" "replays L db" "store_current L db = Ok e"
    and ok: "store_commit L e t kind now db = Ok (db', receipt)"
  shows "replays L db' \<longleftrightarrow> used_decisions t = used_decisions e" and "store_current L db' = Ok t"
proof -
  have k: "kind \<noteq> K_HumanDisposition" and w: "write_transition L e t kind Ev_None now db = Ok (db', receipt)"
    using ok by (auto simp: store_commit_def)
  show "replays L db' \<longleftrightarrow> used_decisions t = used_decisions e" and "store_current L db' = Ok t"
    by (rule plain_transition_replays [OF assms(1-3) w plain_evidence(1) [OF k]]; simp)+
qed

lemma intervention_replays:
  assumes "store_laws L" "replays L db" "store_current L db = Ok e"
    and ok: "commit_governed_intervention L e t kind v now db = Ok (db', receipt)"
  shows "replays L db' \<longleftrightarrow> used_decisions t = used_decisions e" and "store_current L db' = Ok t"
proof -
  have ev: "validate_governed_intervention_evidence L e t kind v = Ok ()"
    and w: "write_transition L e t kind (Ev_GovernedIntervention v) now db = Ok (db', receipt)"
    using ok by (auto simp: commit_governed_intervention_def)
  have k: "kind \<noteq> K_HumanDisposition"
    using ev by (cases "gi_intervention (vgi_request v)")
      (auto simp: validate_governed_intervention_evidence_def Let_def)
  show "replays L db' \<longleftrightarrow> used_decisions t = used_decisions e" and "store_current L db' = Ok t"
    by (rule plain_transition_replays [OF assms(1-3) w]; use ev plain_evidence(2) [OF k, of L e t v] in simp)+
qed

section \<open>Human dispositions\<close>

lemma replayed_frame:
  "replayed L (db\<lparr>db_humans := x, db_discharges := y\<rparr>) row c p ts s = replayed L db row c p ts s"
  by (simp add: replayed_def stored_profile_digest_def journal_rows_def verify_occurrence_materialization_def)

lemma human_binding_first:
  assumes "validate_human_store_binding L e first second artifact = Ok ()"
  shows "accepted L e first" "hd_campaign artifact = key_campaign (snap_key e)"
    "hd_halted_state_digest artifact = snap_state_digest e"
    "new_decisions e first = [hd_decision artifact]"
    "validate_human_transition_evidence e first artifact = Ok ()"
proof -
  show acc: "accepted L e first" "hd_campaign artifact = key_campaign (snap_key e)"
    "hd_halted_state_digest artifact = snap_state_digest e"
    "validate_human_transition_evidence e first artifact = Ok ()"
    using assms by (auto simp: validate_human_store_binding_def Let_def)
  have "length (meta_used_human_decisions (meta (snap_state first)))
        = length (meta_used_human_decisions (meta (snap_state e))) + 1"
      "prefix (meta_used_human_decisions (meta (snap_state e))) (meta_used_human_decisions (meta (snap_state first)))"
      "last (meta_used_human_decisions (meta (snap_state first))) = hd_decision artifact"
    using assms by (auto simp: validate_human_store_binding_def Let_def)
  then have used: "meta_used_human_decisions (meta (snap_state first))
      = meta_used_human_decisions (meta (snap_state e)) @ [hd_decision artifact]"
    using exactly_one_appended_iff [of "meta_used_human_decisions (meta (snap_state e))"
        "meta_used_human_decisions (meta (snap_state first))"]
    by (auto simp: exactly_one_appended_def)
  moreover have "distinct (meta_used_human_decisions (meta (snap_state first)))"
    using acc(1) by (auto simp: validate_successor_iff intact_iff validate_state_ok)
  ultimately show "new_decisions e first = [hd_decision artifact]"
    by (auto simp: new_decisions_def filter_empty_conv)
qed

lemma human_binding_second:
  assumes "validate_human_store_binding L e first (Some second) artifact = Ok ()"
  shows "snap_pc first = PC_Halted" "snap_pc second = PC_ObservationRequired" "accepted L first second"
    "validate_human_transition_evidence first second artifact = Ok ()"
  using assms
  by (cases "hd_disposition artifact"; auto simp: validate_human_store_binding_def Let_def)+

lemma human_evidence_first:
  assumes "validate_human_store_binding L e first second artifact = Ok ()"
  shows "validate_replayed_evidence L e first K_HumanDisposition (Ev_HumanDisposition artifact v) = Ok ()"
  using human_binding_first [OF assms] by (simp add: validate_replayed_evidence_def)

lemma human_evidence_second:
  assumes "validate_human_store_binding L e first (Some second) artifact = Ok ()"
  shows "validate_replayed_evidence L first second K_HumanDisposition (Ev_HumanDisposition artifact v) = Ok ()"
    and "new_decisions first second = []"
proof -
  note b = human_binding_first [OF assms] human_binding_second [OF assms]
  have "legal_move L e first" "legal_move L first second" "snap_prior_state_digest first = snap_state_digest e"
    using b(1,8) by (auto simp: validate_successor_iff)
  then show "validate_replayed_evidence L first second K_HumanDisposition (Ev_HumanDisposition artifact v) = Ok ()"
    using b legal_move_campaign [of L e first] by (simp add: validate_replayed_evidence_def)
  show "new_decisions first second = []"
    using legal_move_decisions [OF \<open>legal_move L first second\<close>] b(7) by (simp add: new_decisions_def)
qed

lemma human_replays:
  assumes laws: "store_laws L" and rep: "replays L db" and cur: "store_current L db = Ok e"
    and ok: "commit_human_disposition L e eff artifact now db = Ok (db', receipts)"
  shows "replays L db'"
    and "store_current L db' = Ok (case effect_parts eff of (_, first, second) \<Rightarrow> case second of None \<Rightarrow> first | Some t \<Rightarrow> t)"
proof -
  obtain v first second where parts: "effect_parts eff = (v, first, second)" by (cases "effect_parts eff")
  let ?ev = "Ev_HumanDisposition artifact v"
  obtain db0 db1 receipt where bind: "validate_human_store_binding L e first second artifact = Ok ()"
    and ins: "insert_human_disposition L artifact v now db = Ok db0"
    and w1: "write_transition L e first K_HumanDisposition ?ev now db0 = Ok (db1, receipt)"
    and w2: "(case second of None \<Rightarrow> Ok (db1, [receipt]) | Some second \<Rightarrow>
        try_then (write_transition L first second K_HumanDisposition ?ev now db1)
          (\<lambda>(db, receipt2). Ok (db, [receipt, receipt2]))) = Ok (db', receipts)"
    using ok by (auto simp: commit_human_disposition_def parts Let_def)
  obtain row c p ts s where r: "verify_identity L db = Ok ()" "replayed L db row c p ts s" "humans_accounted L db s"
      "verify_refusals L db c ts = Ok ()"
    using rep unfolding replays_iff by blast
  obtain A x y where h: "db0 = db\<lparr>db_humans := x, db_discharges := y\<rparr>"
    "decision_text (hd_decision artifact) \<notin> rs_human_decisions s"
    "\<And>r. str_evidence r = ?ev \<Longrightarrow> str_recorded_at_unix_ms r = now
       \<Longrightarrow> replay_human L r (rs_human_artifacts s) = Ok A \<and> replay_human L r A = Ok A"
    "\<And>s'. rs_human_decisions s' = insert (decision_text (hd_decision artifact)) (rs_human_decisions s)
       \<Longrightarrow> rs_human_artifacts s' = A \<Longrightarrow> humans_accounted L db0 s'"
    by (rule insert_human_ok [OF laws r(3) ins]) blast
  let ?D = "insert (decision_text (hd_decision artifact)) (rs_human_decisions s)"
  have last: "rs_previous_snapshot s = Some e"
    using current_replayed [OF _ r(2) cur] laws by (simp add: store_laws_def)
  have r0: "replayed L db0 row c p ts s" using r(2) by (simp add: h(1) replayed_frame)
  have D: "try_fold record_decision (rs_human_decisions s) (new_decisions e first) = Ok ?D"
    using h(2) by (simp add: human_binding_first(4) [OF bind] record_decision_def)
  obtain row1 r1 s1 where one: "replayed L db1 row1 c p (ts @ [r1]) s1" "rs_previous_snapshot s1 = Some first"
      "rs_human_decisions s1 = ?D" "rs_human_artifacts s1 = A" "side_tables_kept db0 db1"
    using write_transition_extends [OF laws r0 w1 last human_evidence_first [OF bind] D] h(3) by metis
  have "\<exists>row2 us s2. replayed L db' row2 c p (ts @ us) s2 \<and> rs_human_decisions s2 = ?D \<and> rs_human_artifacts s2 = A
      \<and> side_tables_kept db0 db' \<and> rs_previous_snapshot s2 = Some (case second of None \<Rightarrow> first | Some t \<Rightarrow> t)"
  proof (cases second)
    case None
    then show ?thesis using one w2 by auto
  next
    case (Some t)
    then obtain receipt2 where w: "write_transition L first t K_HumanDisposition ?ev now db1 = Ok (db', receipt2)"
      using w2 by auto
    have D2: "try_fold record_decision (rs_human_decisions s1) (new_decisions first t) = Ok ?D"
      using one(3) human_evidence_second(2) [OF bind [unfolded Some]] by simp
    obtain row2 r2 s2 where "replayed L db' row2 c p ((ts @ [r1]) @ [r2]) s2" "rs_human_decisions s2 = ?D"
        "rs_human_artifacts s2 = A" "side_tables_kept db1 db'" "rs_previous_snapshot s2 = Some t"
      using write_transition_extends [OF laws one(1) w one(2) human_evidence_second(1) [OF bind [unfolded Some]] D2]
        h(3) one(4) by metis
    then show ?thesis using one(5) unfolding append_assoc side_tables_kept_def Some option.case by metis
  qed
  then obtain row2 us s2 where two: "replayed L db' row2 c p (ts @ us) s2" "rs_human_decisions s2 = ?D"
      "rs_human_artifacts s2 = A" "side_tables_kept db0 db'"
      "rs_previous_snapshot s2 = Some (case second of None \<Rightarrow> first | Some t \<Rightarrow> t)" by blast
  show "store_current L db' = Ok (case effect_parts eff of (_, first, second) \<Rightarrow> case second of None \<Rightarrow> first | Some t \<Rightarrow> t)"
    using replayed_current [OF _ two(1,5)] laws by (simp add: parts store_laws_def)
  have "humans_accounted L db' s2"
    using h(4) [OF two(2,3)] two(4) humans_accounted_frame [of db' db0 s2 s2 L] by (simp add: side_tables_kept_def)
  moreover have "verify_refusals L db' c (ts @ us) = Ok ()" "verify_identity L db' = Ok ()"
    using two(4) r(1,4) verify_refusals_mono [of db' db L c ts] verify_identity_frame [of db' db L]
    by (simp_all add: h(1) side_tables_kept_def)
  ultimately show "replays L db'" unfolding replays_iff using two(1) by blast
qed

section \<open>Refusals\<close>

lemma refusal_replays:
  assumes laws: "store_laws L" and rep: "replays L db"
    and ok: "record_refusal L refusal now db = Ok (db', identity)"
  shows "replays L db'"
proof -
  obtain row c p ts s where r: "verify_identity L db = Ok ()" "replayed L db row c p ts s" "humans_accounted L db s"
      "verify_refusals L db c ts = Ok ()"
    using rep unfolding replays_iff by blast
  obtain e jcs recorded where e: "store_current L db = Ok e" "ro_key refusal = snap_key e"
      "ro_at_state_digest refusal = snap_state_digest e" "encode L (codec_to_vec (refusal_codec L)) refusal = Ok jcs"
    and ins: "insert_refusal_row (as_str (hash_domain L REFUSAL_DOMAIN_V1 jcs))
       \<lparr>rr_campaign_id = campaign_text (key_campaign (ro_key refusal)),
        rr_occurrence_id = occurrence_to_string L (key_occurrence (ro_key refusal)),
        rr_state_digest = as_str (ro_at_state_digest refusal),
        rr_refusal_jcs = jcs, rr_recorded_at_unix_ms = recorded\<rparr> db = Ok db'"
      (is "insert_refusal_row ?id ?row db = _")
    using ok by (auto simp: record_refusal_def Let_def simp del: encode_Ok)
  have last: "rs_previous_snapshot s = Some e"
    using current_replayed [OF _ r(2) e(1)] laws by (simp add: store_laws_def)
  obtain before s0 a where a: "ts = before @ [a]" "rs_previous_snapshot s = Some (str_snapshot a)"
      "str_successor a = snap_state_digest (str_snapshot a)" "key_campaign (snap_key (str_snapshot a)) = c"
    by (rule replayed_last [OF r(2)])
  have "decode L (codec_from_slice (refusal_codec L)) jcs = Ok refusal"
    using laws e(4) by (auto simp: store_laws_def codec_law_def)
  then have new: "verify_refusal_row L c ((\<lambda>t. as_str (str_successor t)) ` set ts) (?id, ?row) = Ok ()"
    using e(2,3) a last by (simp add: verify_refusal_row_def)
  have "db' = db \<or> db' = db\<lparr>db_refusals := db_refusals db @ [(?id, ?row)]\<rparr>"
    using ins by (auto simp: insert_refusal_row_def split: if_splits)
  then show ?thesis
  proof
    assume db': "db' = db\<lparr>db_refusals := db_refusals db @ [(?id, ?row)]\<rparr>"
    have "verify_refusals L db' c ts = Ok ()"
      using r(4) new by (auto simp: verify_refusals_def try_fold_unit_Ok db')
    moreover have "replayed L db' row c p ts s"
      using r(2) by (simp add: db' replayed_def stored_profile_digest_def journal_rows_def
          verify_occurrence_materialization_def)
    moreover have "humans_accounted L db' s" "verify_identity L db' = Ok ()"
      using r(1,3) humans_accounted_frame [of db' db s s L] verify_identity_frame [of db' db L] by (simp_all add: db')
    ultimately show ?thesis unfolding replays_iff by blast
  qed (use rep in simp)
qed

lemma refusal_current:
  "record_refusal L refusal now db = Ok (db', identity) \<Longrightarrow> store_current L db' = store_current L db"
  by (auto simp: record_refusal_def Let_def insert_refusal_row_def store_current_def simp del: encode_Ok
      split: if_splits)

section \<open>What a replay establishes\<close>

lemma opens_iff_replays: "open_store L db = (if replays L db then Ok db else open_store L db)"
    "is_ok (open_store L db) \<longleftrightarrow> replays L db"
  by (auto simp: open_store_def store_replay_def is_ok_iff)

lemma replay_report:
  assumes "store_replay L db = Ok report"
  obtains row p ts s where "replayed L db row (rep_campaign report) p ts s" "humans_accounted L db s"
    "verify_refusals L db (rep_campaign report) ts = Ok ()"
proof -
  have ok: "replay_store L db = Ok report" using assms by (auto simp: store_replay_def)
  then obtain row c p ts s where r: "replayed L db row c p ts s" "humans_accounted L db s"
      "verify_refusals L db c ts = Ok ()"
    using replay_store_iff [of L db] by (auto simp: is_ok_iff)
  have "db_campaigns db = [row]" "parse_digest L (cr_campaign_id row) = Ok (campaign_as_digest c)"
    using r(1) by (simp_all add: replayed_def)
  then have "rep_campaign report = CampaignId (campaign_as_digest c)"
    using ok by (auto simp: replay_store_def Let_def split: if_splits)
  then have "rep_campaign report = c" by (cases c) simp
  then show ?thesis using that r by blast
qed

lemma replayed_chain: "replayed L db row c p ts s \<Longrightarrow> chain_replayed L (map str_snapshot ts) s"
  by (rule replay_chain) (auto simp: replayed_def)

lemma accounted_decisions: "humans_accounted L db s \<Longrightarrow> fst ` set (db_humans db) = rs_human_decisions s"
  using read_human_keys by (metis humans_accounted_iff image_set)

lemma try_map_all2: "try_map f xs = Ok ys \<Longrightarrow> list_all2 (\<lambda>x y. f x = Ok y) xs ys"
  by (induction xs arbitrary: ys) auto

lemma journal_decodes:
  assumes "replayed L db row c p ts s"
  shows "list_all2 (\<lambda>row s. decode L (codec_from_slice (snapshot_codec L)) (tr_successor_snapshot_jcs row) = Ok s)
    (journal_rows db c) (map str_snapshot ts)"
proof -
  have "try_map (read_transition L) (journal_rows db c) = Ok ts" using assms by (simp add: replayed_def)
  then show ?thesis
    unfolding list.rel_map by (rule list.rel_mono_strong [OF try_map_all2]) (auto simp: read_transition_def)
qed

lemma table_rows:
  assumes "replayed L db row c p ts s"
  shows "map_of (btree_collect (db_spends db)) = map_of (spend_rows L (map str_snapshot ts))"
    and "map_of (btree_collect (db_attempts db)) = map_of (attempt_rows L (map str_snapshot ts))"
    and "map_of (btree_collect (db_settlements db)) = map_of (settlement_rows L (map str_snapshot ts))"
  using assms replayed_chain [OF assms] by (simp_all add: replayed_def chain_replayed_def)

section \<open>Stores the operations reach\<close>

text \<open>
  A store is created once. Its callers load the current snapshot and commit a successor of it; the
  successors they hand to \<open>commit\<close> and \<open>commit_governed_intervention\<close> consume no human decision, which the
  store does not check.
\<close>

inductive store_created :: "'l store_lib_scheme \<Rightarrow> campaign_db \<Rightarrow> bool" for L where
  "create_with_runtime_profile L initial profile now = Ok db \<Longrightarrow> store_created L db"

inductive store_step :: "'l store_lib_scheme \<Rightarrow> campaign_db \<Rightarrow> campaign_db \<Rightarrow> bool" for L db where
  commit_step: "store_current L db = Ok e \<Longrightarrow> used_decisions t = used_decisions e
    \<Longrightarrow> store_commit L e t kind now db = Ok (db', receipt) \<Longrightarrow> store_step L db db'"
| human_step: "store_current L db = Ok e
    \<Longrightarrow> commit_human_disposition L e eff artifact now db = Ok (db', receipts) \<Longrightarrow> store_step L db db'"
| intervention_step: "store_current L db = Ok e \<Longrightarrow> used_decisions t = used_decisions e
    \<Longrightarrow> commit_governed_intervention L e t kind v now db = Ok (db', receipt) \<Longrightarrow> store_step L db db'"
| refusal_step: "record_refusal L refusal now db = Ok (db', identity) \<Longrightarrow> store_step L db db'"

lemma created_replays: "store_created L db \<Longrightarrow> replays L db"
  by (auto elim!: store_created.cases simp: create_with_runtime_profile_def Let_def is_ok_iff simp del: encode_Ok)

lemma bind_profile_tables:
  "bind_runtime_profile L profile db = Ok (db', d)
   \<Longrightarrow> db_campaigns db' = db_campaigns db \<and> db_occurrences db' = db_occurrences db"
  by (auto simp: bind_runtime_profile_def Let_def split: option.splits if_splits)

lemmas table_insertions =
  insert_campaign_row_def insert_occurrence_def insert_occurrence_row_def insert_transition_row_def

lemma created_current:
  assumes laws: "store_laws L" and ok: "create_with_runtime_profile L initial profile now = Ok db"
  shows "store_current L db = Ok initial"
proof -
  obtain jcs crow revision where jcs: "encode L (codec_to_vec (snapshot_codec L)) initial = Ok jcs"
    and tables: "db_campaigns db = [crow]" "db_occurrences db = [occurrence_columns L initial revision jcs]"
    and crow: "cr_campaign_id crow = campaign_text (key_campaign (snap_key initial))"
      "cr_current_occurrence_id crow = occurrence_to_string L (key_occurrence (snap_key initial))"
    using ok
    by (auto simp: create_with_runtime_profile_def Let_def table_insertions empty_db_def simp del: encode_Ok
        dest!: bind_profile_tables split: if_splits)
  have "decode L (codec_from_slice (snapshot_codec L)) jcs = Ok initial"
    using laws jcs by (simp add: store_laws_def codec_law_def)
  moreover have "intact L initial" using ok by (auto simp: create_with_runtime_profile_def)
  ultimately show ?thesis
    using crow by (simp add: store_current_def tables occurrence_columns_def load_snapshot_def)
qed

lemma step_replays: "store_laws L \<Longrightarrow> replays L db \<Longrightarrow> store_step L db db' \<Longrightarrow> replays L db'"
  by (erule store_step.cases) (blast intro: human_replays(1) refusal_replays dest: commit_replays(1) intervention_replays(1))+

interpretation store_invariant:
  invariant_law "store_created L" "store_step L" "\<lambda>db. store_laws L \<longrightarrow> replays L db" for L
  by unfold_locales (use created_replays step_replays in blast)+

end
