(* ===== verification/Engine_Catalog.thy ===== *)
theory Engine_Catalog
  imports Store_Runs
begin

text \<open>
  The exact-work catalogs of \<open>crates/ag-app/src/governed_loop.rs\<close>: what an owner enrolls, the checks of a
  catalog and of a presented executor plan, and the two admissibility deciders. Ordered maps are
  association lists in key order, ordered sets are sets.
\<close>

section \<open>Data\<close>

definition EXACT_WORK_CATALOG_SCHEMA_V1 :: string where
  "EXACT_WORK_CATALOG_SCHEMA_V1 = ''ag.governed-loop.exact-work-catalog/v1''"

definition EXACT_WORK_CATALOG_SCHEMA_V2 :: string where
  "EXACT_WORK_CATALOG_SCHEMA_V2 = ''ag.governed-loop.exact-work-catalog/v2''"

definition EFFECT_EXECUTOR_SYSTEMD_WORK_SCHEMA_V2 :: string where
  "EFFECT_EXECUTOR_SYSTEMD_WORK_SCHEMA_V2 = ''ag-effectd.docket-executor-systemd-work/v2''"

record WorkPreconditionV1 =
  wp_required :: "string set"
  wp_forbidden :: "string set"

datatype ExactObservationBasisRequirementV1 =
    NightshiftAtoms WorkPreconditionV1
  | TypedBasis TypedOpaqueObservationBasisV1

record ExactWorkCatalogEntryV1 =
  en1_work_schema :: string
  en1_subject :: Digest
  en1_scope :: Digest
  en1_precondition :: WorkPreconditionV1

record ExactWorkCatalogEntryV2 =
  en2_work_schema :: string
  en2_subject :: Digest
  en2_scope :: Digest
  en2_observation_basis :: ExactObservationBasisRequirementV1
  en2_admitted_plans :: "Digest set option"
  en2_postcondition_basis :: "ExactObservationBasisRequirementV1 option"

record ExactPlanWitnessV1 =
  pw_work :: Digest
  pw_enrolled_plan :: Digest
  pw_runtime_profile :: Digest

record ExactWorkCatalogV1 =
  cat1_schema :: string
  cat1_entries :: "(string \<times> ExactWorkCatalogEntryV1) list"

record ExactWorkCatalogV2 =
  cat2_schema :: string
  cat2_entries :: "(string \<times> ExactWorkCatalogEntryV2) list"

datatype VersionedExactWorkCatalogV1 =
    CatalogNightshiftV1 ExactWorkCatalogV1
  | CatalogExactBasisV2 ExactWorkCatalogV2

datatype CampaignEngineErrorV1 =
    Eng_Store CampaignStoreErrorV1
  | Eng_Kernel KernelErrorV1
  | Eng_External ExternalBoundaryErrorV1
  | InvalidCatalog
  | Eng_Canonical string
  | DocketResponse
  | PlanWitnessRequired
  | PlanWitnessMismatch
  | WorkNotAdmitted
  | PostconditionNotEstablished

text \<open>The record \<open>DecisionBasis\<close> that both deciders hash.\<close>

record CatalogDecisionBasis =
  cdb_key :: OccurrenceKeyV1
  cdb_observation :: ObservationRefV1
  cdb_proposal :: ProposalRefV1
  cdb_standing :: StandingResolutionRefV1
  cdb_policy :: Digest
  cdb_admitted :: bool

text \<open>The serializers of these types, and the text of a canonicalization error.\<close>

record engine_lib = store_lib +
  catalog_v1_to_vec :: "ExactWorkCatalogV1 \<Rightarrow> bytes option"
  catalog_v2_to_vec :: "ExactWorkCatalogV2 \<Rightarrow> bytes option"
  catalog_decision_to_vec :: "CatalogDecisionBasis \<Rightarrow> bytes option"
  exhausted_to_vec :: "string \<times> OccurrenceKeyV1 \<times> Digest \<times> string \<Rightarrow> bytes option"
  jcs_error_text :: "JcsError \<Rightarrow> string"

section \<open>Observation requirements\<close>

definition precondition_validate :: "WorkPreconditionV1 \<Rightarrow> CampaignEngineErrorV1 + unit" where
  "precondition_validate p =
     (if wp_required p \<inter> wp_forbidden p \<noteq> {} then Err InvalidCatalog
      else if \<exists>atom \<in> wp_required p \<union> wp_forbidden p. atom \<notin> set DECISION_BASIS_ATOM_VOCABULARY_V1
      then Err InvalidCatalog
      else Ok ())"

definition precondition_holds_over :: "WorkPreconditionV1 \<Rightarrow> VersionedObservationResolutionV1 \<Rightarrow> bool" where
  "precondition_holds_over p observation =
     (case nightshift_basis observation of
        Some basis \<Rightarrow> wp_required p \<subseteq> basis_atoms basis \<and> wp_forbidden p \<inter> basis_atoms basis = {}
      | None \<Rightarrow> False)"

fun requirement_validate :: "ExactObservationBasisRequirementV1 \<Rightarrow> CampaignEngineErrorV1 + unit" where
  "requirement_validate (NightshiftAtoms p) = precondition_validate p"
| "requirement_validate (TypedBasis basis) = map_err (\<lambda>_. InvalidCatalog) (typed_validate basis)"

fun requirement_holds_over :: "ExactObservationBasisRequirementV1 \<Rightarrow> VersionedObservationResolutionV1 \<Rightarrow> bool" where
  "requirement_holds_over (NightshiftAtoms p) observation = precondition_holds_over p observation"
| "requirement_holds_over (TypedBasis expected) observation = (typed_basis observation = Some expected)"

section \<open>Catalogs\<close>

definition entry_validate :: "ExactWorkCatalogEntryV2 \<Rightarrow> string \<Rightarrow> CampaignEngineErrorV1 + unit" where
  "entry_validate e key =
     (if key \<noteq> en2_work_schema e \<or> key = [] then Err InvalidCatalog
      else
        try_then (requirement_validate (en2_observation_basis e)) (\<lambda>_.
        if (case en2_admitted_plans e of
              Some admitted \<Rightarrow> admitted = {} \<or> en2_work_schema e \<noteq> EFFECT_EXECUTOR_SYSTEMD_WORK_SCHEMA_V2
            | None \<Rightarrow> False)
        then Err InvalidCatalog
        else
          (case en2_postcondition_basis e of
             Some postcondition \<Rightarrow>
               if en2_admitted_plans e = None \<or> postcondition = en2_observation_basis e then Err InvalidCatalog
               else requirement_validate postcondition
           | None \<Rightarrow> Ok ())))"

definition admits_plan ::
  "ExactWorkCatalogEntryV2 \<Rightarrow> Digest \<Rightarrow> ExactPlanWitnessV1 option \<Rightarrow> CampaignEngineErrorV1 + unit" where
  "admits_plan e work plan =
     (case en2_admitted_plans e of
        None \<Rightarrow> Ok ()
      | Some admitted \<Rightarrow>
          try_then (ok_or plan PlanWitnessRequired) (\<lambda>plan.
          if pw_work plan \<noteq> work then Err PlanWitnessMismatch
          else if pw_enrolled_plan plan \<in> admitted then Ok ()
          else Err WorkNotAdmitted))"

definition catalog_v1_validate :: "ExactWorkCatalogV1 \<Rightarrow> CampaignEngineErrorV1 + unit" where
  "catalog_v1_validate c =
     (if cat1_schema c \<noteq> EXACT_WORK_CATALOG_SCHEMA_V1 \<or> cat1_entries c = [] then Err InvalidCatalog
      else if list_ex (\<lambda>(key, entry). key \<noteq> en1_work_schema entry \<or> key = []) (cat1_entries c)
      then Err InvalidCatalog
      else if list_ex (\<lambda>(_, entry). \<not> is_ok (precondition_validate (en1_precondition entry))) (cat1_entries c)
      then Err InvalidCatalog
      else Ok ())"

definition catalog_v2_validate :: "ExactWorkCatalogV2 \<Rightarrow> CampaignEngineErrorV1 + unit" where
  "catalog_v2_validate c =
     (if cat2_schema c \<noteq> EXACT_WORK_CATALOG_SCHEMA_V2 \<or> cat2_entries c = [] then Err InvalidCatalog
      else try_fold (\<lambda>_ (key, entry). entry_validate entry key) () (cat2_entries c))"

fun catalog_validate :: "VersionedExactWorkCatalogV1 \<Rightarrow> CampaignEngineErrorV1 + unit" where
  "catalog_validate (CatalogNightshiftV1 c) = catalog_v1_validate c"
| "catalog_validate (CatalogExactBasisV2 c) = catalog_v2_validate c"

definition enrolls :: "ExactPlanWitnessV1 \<Rightarrow> ExactWorkCatalogEntryV2 \<Rightarrow> bool" where
  "enrolls plan e = (case en2_admitted_plans e of Some admitted \<Rightarrow> pw_enrolled_plan plan \<in> admitted | None \<Rightarrow> False)"

definition check_expected_work ::
  "ExactWorkCatalogV2 \<Rightarrow> Digest \<Rightarrow> ExactPlanWitnessV1 option \<Rightarrow> CampaignEngineErrorV1 + unit" where
  "check_expected_work c expected_work plan =
     try_then (catalog_v2_validate c) (\<lambda>_.
     case plan of
       Some plan \<Rightarrow>
         if pw_work plan \<noteq> expected_work then Err PlanWitnessMismatch
         else if list_ex (enrolls plan) (map snd (cat2_entries c)) then Ok ()
         else Err WorkNotAdmitted
     | None \<Rightarrow>
         if list_all (\<lambda>e. en2_admitted_plans e \<noteq> None) (map snd (cat2_entries c)) then Err PlanWitnessRequired
         else Ok ())"

definition completion_entry ::
  "ExactWorkCatalogV2 \<Rightarrow> Digest \<Rightarrow> ExactPlanWitnessV1 option
     \<Rightarrow> CampaignEngineErrorV1 + ExactWorkCatalogEntryV2 option" where
  "completion_entry c expected_work plan =
     try_then (catalog_v2_validate c) (\<lambda>_.
     case plan of
       Some plan \<Rightarrow>
         if pw_work plan \<noteq> expected_work then Err PlanWitnessMismatch
         else ok_or (map_option Some (find (enrolls plan) (map snd (cat2_entries c)))) WorkNotAdmitted
     | None \<Rightarrow>
         if list_ex (\<lambda>e. en2_postcondition_basis e \<noteq> None) (map snd (cat2_entries c)) then Err PlanWitnessRequired
         else Ok None)"

fun completion_requires_postcondition ::
  "VersionedExactWorkCatalogV1 \<Rightarrow> Digest \<Rightarrow> ExactPlanWitnessV1 option \<Rightarrow> CampaignEngineErrorV1 + bool" where
  "completion_requires_postcondition (CatalogNightshiftV1 _) expected_work plan = Ok False"
| "completion_requires_postcondition (CatalogExactBasisV2 c) expected_work plan =
     try_then (completion_entry c expected_work plan) (\<lambda>entry.
     Ok (case entry of Some e \<Rightarrow> en2_postcondition_basis e \<noteq> None | None \<Rightarrow> False))"

definition policy_basis_v1 :: "'l engine_lib_scheme \<Rightarrow> ExactWorkCatalogV1 \<Rightarrow> CampaignEngineErrorV1 + Digest" where
  "policy_basis_v1 L c =
     try_then (catalog_v1_validate c) (\<lambda>_.
     try_then (map_err (\<lambda>e. Eng_Canonical (jcs_error_text L e)) (jcs_canonicalize L (catalog_v1_to_vec L) c)) (\<lambda>document.
     Ok (hash_domain L ''ag.governed-loop.exact-work-catalog/v1'' document)))"

definition policy_basis_v2 :: "'l engine_lib_scheme \<Rightarrow> ExactWorkCatalogV2 \<Rightarrow> CampaignEngineErrorV1 + Digest" where
  "policy_basis_v2 L c =
     try_then (catalog_v2_validate c) (\<lambda>_.
     try_then (map_err (\<lambda>e. Eng_Canonical (jcs_error_text L e)) (jcs_canonicalize L (catalog_v2_to_vec L) c)) (\<lambda>document.
     Ok (hash_domain L EXACT_WORK_CATALOG_SCHEMA_V2 document)))"

section \<open>Deciders\<close>

text \<open>The common ending of both deciders: hash the basis and answer.\<close>

definition catalog_decision ::
  "'l engine_lib_scheme \<Rightarrow> string \<Rightarrow> Digest \<Rightarrow> bool \<Rightarrow> AdmissibilityRequestV1
     \<Rightarrow> ExternalBoundaryErrorV1 + AdmissionDecisionV1" where
  "catalog_decision L domain policy admitted request =
     (let standing = areq_standing request;
          basis = \<lparr>cdb_key = st_key standing, cdb_observation = obs_observation (areq_observation request),
            cdb_proposal = st_proposal standing, cdb_standing = st_resolution standing, cdb_policy = policy,
            cdb_admitted = admitted\<rparr> in
      try_then (map_err (\<lambda>e. Ext_Unavailable (''admission-canonicalization:'' @ jcs_error_text L e))
        (jcs_canonicalize L (catalog_decision_to_vec L) basis)) (\<lambda>document.
      Ok \<lparr>ad_decision = AdmissionDecisionRefV1 (hash_domain L domain document), ad_key = st_key standing,
          ad_observation = obs_observation (areq_observation request), ad_proposal = st_proposal standing,
          ad_standing_resolution = st_resolution standing,
          ad_disposition = (if admitted then Admitted else Adm_Refused), ad_policy_basis = policy\<rparr>))"

definition decide_admissibility_v1 ::
  "'l engine_lib_scheme \<Rightarrow> ExactWorkCatalogV1 \<Rightarrow> Digest \<Rightarrow> admissibility_decider" where
  "decide_admissibility_v1 L c policy request =
     (let proposal = areq_proposal request;
          admitted = (case map_of (cat1_entries c) (prop_work_schema proposal) of
            Some e \<Rightarrow> en1_subject e = prop_subject proposal \<and> en1_scope e = prop_scope proposal
              \<and> precondition_holds_over (en1_precondition e) (areq_observation request)
          | None \<Rightarrow> False) in
      catalog_decision L ''ag.governed-loop.catalog-admission/v1'' policy admitted request)"

definition decide_admissibility_v2 ::
  "'l engine_lib_scheme \<Rightarrow> ExactWorkCatalogV2 \<Rightarrow> Digest \<Rightarrow> ExactPlanWitnessV1 option \<Rightarrow> admissibility_decider" where
  "decide_admissibility_v2 L c policy plan request =
     (let proposal = areq_proposal request;
          admitted = (case map_of (cat2_entries c) (prop_work_schema proposal) of
            Some e \<Rightarrow> en2_subject e = prop_subject proposal \<and> en2_scope e = prop_scope proposal
              \<and> requirement_holds_over (en2_observation_basis e) (areq_observation request)
              \<and> is_ok (admits_plan e (prop_work proposal) plan)
          | None \<Rightarrow> False) in
      catalog_decision L ''ag.governed-loop.catalog-admission/v2'' policy admitted request)"

end
