(* ===== verification/Engine_Loop.thy ===== *)
theory Engine_Loop
  imports Engine_Catalog
begin

text \<open>
  The campaign engine of \<open>crates/ag-app/src/governed_loop.rs\<close>: every operation loads the current snapshot,
  calls the kernel or an external port and commits the successor. An operation that fails may have
  changed the store before, so it returns the store together with its result.
\<close>

section \<open>Engine programs\<close>

type_synonym 'a engine = "campaign_db \<Rightarrow> campaign_db \<times> (CampaignEngineErrorV1 + 'a)"

definition engine_result :: "CampaignEngineErrorV1 + 'a \<Rightarrow> 'a engine" where
  "engine_result r db = (db, r)"

definition engine_then :: "'a engine \<Rightarrow> ('a \<Rightarrow> 'b engine) \<Rightarrow> 'b engine" where
  "engine_then m f db = (case m db of (db', Inl e) \<Rightarrow> (db', Err e) | (db', Inr a) \<Rightarrow> f a db')"

definition store_read :: "(campaign_db \<Rightarrow> CampaignStoreErrorV1 + 'a) \<Rightarrow> 'a engine" where
  "store_read f db = (db, map_err Eng_Store (f db))"

definition store_write :: "(campaign_db \<Rightarrow> CampaignStoreErrorV1 + campaign_db \<times> 'a) \<Rightarrow> 'a engine" where
  "store_write f db = (case f db of Inl e \<Rightarrow> (db, Err (Eng_Store e)) | Inr (db', a) \<Rightarrow> (db', Ok a))"

abbreviation kernel_result :: "KernelErrorV1 + 'a \<Rightarrow> 'a engine" where
  "kernel_result r \<equiv> engine_result (map_err Eng_Kernel r)"

abbreviation port_result :: "ExternalBoundaryErrorV1 + 'a \<Rightarrow> 'a engine" where
  "port_result r \<equiv> engine_result (map_err Eng_External r)"

text \<open>The ending that the operations share: commit the successor and return it.\<close>

definition commit_successor ::
  "'l engine_lib_scheme \<Rightarrow> OccurrenceSnapshotV1 \<Rightarrow> CampaignTransitionKindV1 \<Rightarrow> u64 \<Rightarrow> OccurrenceSnapshotV1
     \<Rightarrow> OccurrenceSnapshotV1 engine" where
  "commit_successor L current kind now successor =
     engine_then (store_write (store_commit L current successor kind now)) (\<lambda>_. engine_result (Ok successor))"

abbreviation current_snapshot :: "'l engine_lib_scheme \<Rightarrow> OccurrenceSnapshotV1 engine" where
  "current_snapshot L \<equiv> store_read (store_current L)"

section \<open>Ports and results\<close>

record DocketCustodyPortV1 =
  accept_issuance :: "AgIssuanceV1 \<Rightarrow> ExternalBoundaryErrorV1 + DocketCustodyV1"
  reconcile_issuance :: "AgIssuanceV1 \<Rightarrow> ExternalBoundaryErrorV1 + DocketIssuanceReconciliationV1"
  reconcile_attempt :: "DocketCustodyV1 \<Rightarrow> ExternalBoundaryErrorV1 + DocketIssuanceReconciliationV1"

datatype DocketProgressV1 =
    Prog_Pending
  | Prog_Settled OccurrenceSnapshotV1
  | Prog_ReconciliationRequired OccurrenceSnapshotV1

datatype CampaignRecoveryV1 =
    ExternalRevalidation RecoveryRequirementV1
  | IssuanceNotAccepted AgIssuanceV1
  | Advanced OccurrenceSnapshotV1

text \<open>The arguments that \<open>decide\<close> and \<open>authorize\<close> pass on to the kernel.\<close>

record decision_inputs =
  dec_observation_resolver :: observation_resolver
  dec_standing_resolver :: standing_resolver
  dec_controlling_review :: "C1RejectedReviewBasisV1 option"
  dec_observation_resolver_id :: string
  dec_standing_resolver_id :: string
  dec_max_standing_ttl_ms :: u64
  dec_now_unix_ms :: u64

section \<open>Creation\<close>

definition engine_create_with_runtime_profile ::
  "'l engine_lib_scheme \<Rightarrow> CampaignId \<Rightarrow> OccurrenceId \<Rightarrow> ProgramBasisRefV1 \<Rightarrow> Digest \<Rightarrow> ResidualSetV1
     \<Rightarrow> LoopBudgetV1 \<Rightarrow> string \<Rightarrow> bytes \<Rightarrow> u64 \<Rightarrow> CampaignEngineErrorV1 + campaign_db" where
  "engine_create_with_runtime_profile L campaign occurrence program expected_work residuals budget
       profile_schema profile_jcs now =
     try_then (map_err Eng_Kernel (create_initial L campaign occurrence program expected_work residuals budget))
       (\<lambda>initial.
     map_err Eng_Store (create_with_runtime_profile L initial (Some (profile_schema, profile_jcs)) now))"

definition engine_create ::
  "'l engine_lib_scheme \<Rightarrow> CampaignId \<Rightarrow> OccurrenceId \<Rightarrow> ProgramBasisRefV1 \<Rightarrow> Digest \<Rightarrow> ResidualSetV1
     \<Rightarrow> LoopBudgetV1 \<Rightarrow> u64 \<Rightarrow> CampaignEngineErrorV1 + campaign_db" where
  "engine_create L campaign occurrence program expected_work residuals budget now =
     try_then (map_err Eng_Kernel (create_initial L campaign occurrence program expected_work residuals budget))
       (\<lambda>initial. map_err Eng_Store (create_with_runtime_profile L initial None now))"

section \<open>Proposals, decisions and the spend\<close>

definition halt_for_exhausted_budget ::
  "'l engine_lib_scheme \<Rightarrow> OccurrenceSnapshotV1 \<Rightarrow> string \<Rightarrow> u64 \<Rightarrow> OccurrenceSnapshotV1 engine" where
  "halt_for_exhausted_budget L current budget now =
     engine_then (engine_result (map_err (\<lambda>e. Eng_Canonical (jcs_error_text L e))
       (jcs_canonicalize L (exhausted_to_vec L)
         (''ag.governed-loop.budget-exhausted/v1'', snap_key current, snap_state_digest current, budget)))) (\<lambda>body.
     let reason = HaltReasonRefV1 (hash_domain L ''ag.governed-loop.budget-exhausted/v1'' body) in
     engine_then (kernel_result (halt L current reason)) (commit_successor L current K_Halted now))"

text \<open>A kernel call whose exhausted budget halts the campaign.\<close>

definition halt_if_exhausted ::
  "'l engine_lib_scheme \<Rightarrow> OccurrenceSnapshotV1 \<Rightarrow> string \<Rightarrow> CampaignTransitionKindV1 \<Rightarrow> u64
     \<Rightarrow> KernelErrorV1 + OccurrenceSnapshotV1 \<Rightarrow> OccurrenceSnapshotV1 engine" where
  "halt_if_exhausted L current budget kind now r =
     (case r of
        Inr successor \<Rightarrow> commit_successor L current kind now successor
      | Inl error \<Rightarrow>
          if error = BudgetExhausted budget then halt_for_exhausted_budget L current budget now
          else engine_result (Err (Eng_Kernel error)))"

definition engine_record_proposal ::
  "'l engine_lib_scheme \<Rightarrow> ObservationRefV1 \<Rightarrow> ExactWorkProposalV1 \<Rightarrow> ProposalClassV1 \<Rightarrow> observation_resolver
     \<Rightarrow> string \<Rightarrow> u64 \<Rightarrow> OccurrenceSnapshotV1 engine" where
  "engine_record_proposal L observation proposal class resolver expected_observation_resolver now =
     engine_then (current_snapshot L) (\<lambda>current.
     halt_if_exhausted L current ''retry'' K_ProposalRecorded now
       (record_proposal L current observation proposal class resolver expected_observation_resolver now))"

definition engine_require_standing :: "'l engine_lib_scheme \<Rightarrow> u64 \<Rightarrow> OccurrenceSnapshotV1 engine" where
  "engine_require_standing L now =
     engine_then (current_snapshot L) (\<lambda>current.
     engine_then (kernel_result (require_standing L current))
       (commit_successor L current K_StandingRequired now))"

definition check_plan_binding ::
  "'l engine_lib_scheme \<Rightarrow> ExactPlanWitnessV1 \<Rightarrow> Digest \<Rightarrow> unit engine" where
  "check_plan_binding L plan work =
     engine_then (store_read (runtime_profile L)) (\<lambda>profile.
     engine_then (engine_result (ok_or profile PlanWitnessMismatch)) (\<lambda>profile.
     engine_result
       (if srp_digest profile \<noteq> pw_runtime_profile plan \<or> pw_work plan \<noteq> work then Err PlanWitnessMismatch
        else Ok ())))"

definition check_proposal_plan ::
  "'l engine_lib_scheme \<Rightarrow> OccurrenceSnapshotV1 \<Rightarrow> ExactWorkCatalogV2 \<Rightarrow> ExactPlanWitnessV1 option
     \<Rightarrow> unit engine" where
  "check_proposal_plan L current catalog plan =
     (case map_option pb_proposal (proposal_basis (snap_state current)) of
        None \<Rightarrow> engine_result (Ok ())
      | Some proposal \<Rightarrow>
          engine_then
            (case plan of
               Some plan \<Rightarrow> check_plan_binding L plan (prop_work proposal)
             | None \<Rightarrow> engine_result (Ok ())) (\<lambda>_.
          engine_result
            (case map_of (cat2_entries catalog) (prop_work_schema proposal) of
               Some entry \<Rightarrow> admits_plan entry (prop_work proposal) plan
             | None \<Rightarrow> Ok ())))"

definition engine_decide ::
  "'l engine_lib_scheme \<Rightarrow> ExactWorkCatalogV1 \<Rightarrow> decision_inputs \<Rightarrow> OccurrenceSnapshotV1 engine" where
  "engine_decide L catalog i =
     engine_then (current_snapshot L) (\<lambda>current.
     engine_then (engine_result (policy_basis_v1 L catalog)) (\<lambda>policy.
     engine_then (kernel_result (record_admissible L current (dec_observation_resolver i) (dec_standing_resolver i)
       (decide_admissibility_v1 L catalog policy) (dec_controlling_review i) (dec_observation_resolver_id i)
       (dec_standing_resolver_id i) (dec_max_standing_ttl_ms i) (dec_now_unix_ms i)))
       (commit_successor L current K_Admissible (dec_now_unix_ms i))))"

definition decide_with_catalog_v2_and_plan ::
  "'l engine_lib_scheme \<Rightarrow> ExactWorkCatalogV2 \<Rightarrow> ExactPlanWitnessV1 option \<Rightarrow> decision_inputs
     \<Rightarrow> OccurrenceSnapshotV1 engine" where
  "decide_with_catalog_v2_and_plan L catalog plan i =
     engine_then (current_snapshot L) (\<lambda>current.
     engine_then (check_proposal_plan L current catalog plan) (\<lambda>_.
     engine_then (engine_result (policy_basis_v2 L catalog)) (\<lambda>policy.
     engine_then (kernel_result (record_admissible L current (dec_observation_resolver i) (dec_standing_resolver i)
       (decide_admissibility_v2 L catalog policy plan) (dec_controlling_review i) (dec_observation_resolver_id i)
       (dec_standing_resolver_id i) (dec_max_standing_ttl_ms i) (dec_now_unix_ms i)))
       (commit_successor L current K_Admissible (dec_now_unix_ms i)))))"

definition decide_with_catalog_v2 ::
  "'l engine_lib_scheme \<Rightarrow> ExactWorkCatalogV2 \<Rightarrow> decision_inputs \<Rightarrow> OccurrenceSnapshotV1 engine" where
  "decide_with_catalog_v2 L catalog = decide_with_catalog_v2_and_plan L catalog None"

fun decide_versioned ::
  "'l engine_lib_scheme \<Rightarrow> VersionedExactWorkCatalogV1 \<Rightarrow> decision_inputs \<Rightarrow> OccurrenceSnapshotV1 engine" where
  "decide_versioned L (CatalogNightshiftV1 catalog) i = engine_decide L catalog i"
| "decide_versioned L (CatalogExactBasisV2 catalog) i = decide_with_catalog_v2 L catalog i"

fun decide_versioned_with_plan ::
  "'l engine_lib_scheme \<Rightarrow> VersionedExactWorkCatalogV1 \<Rightarrow> ExactPlanWitnessV1 option \<Rightarrow> decision_inputs
     \<Rightarrow> OccurrenceSnapshotV1 engine" where
  "decide_versioned_with_plan L (CatalogNightshiftV1 catalog) plan i =
     decide_versioned L (CatalogNightshiftV1 catalog) i"
| "decide_versioned_with_plan L (CatalogExactBasisV2 catalog) plan i =
     decide_with_catalog_v2_and_plan L catalog plan i"

definition engine_authorize ::
  "'l engine_lib_scheme \<Rightarrow> ExactWorkCatalogV1 \<Rightarrow> decision_inputs \<Rightarrow> OccurrenceSnapshotV1 engine" where
  "engine_authorize L catalog i =
     engine_then (current_snapshot L) (\<lambda>current.
     engine_then (engine_result (policy_basis_v1 L catalog)) (\<lambda>policy.
     engine_then (kernel_result (consume_authorization L current (dec_observation_resolver i) (dec_standing_resolver i)
       (decide_admissibility_v1 L catalog policy) (dec_controlling_review i) (dec_observation_resolver_id i)
       (dec_standing_resolver_id i) (dec_max_standing_ttl_ms i) (dec_now_unix_ms i)))
       (commit_successor L current K_AuthorizationConsumed (dec_now_unix_ms i))))"

definition authorize_with_catalog_v2_and_plan ::
  "'l engine_lib_scheme \<Rightarrow> ExactWorkCatalogV2 \<Rightarrow> ExactPlanWitnessV1 option \<Rightarrow> decision_inputs
     \<Rightarrow> OccurrenceSnapshotV1 engine" where
  "authorize_with_catalog_v2_and_plan L catalog plan i =
     engine_then (current_snapshot L) (\<lambda>current.
     engine_then (check_proposal_plan L current catalog plan) (\<lambda>_.
     engine_then (engine_result (policy_basis_v2 L catalog)) (\<lambda>policy.
     engine_then (kernel_result (consume_authorization L current (dec_observation_resolver i) (dec_standing_resolver i)
       (decide_admissibility_v2 L catalog policy plan) (dec_controlling_review i) (dec_observation_resolver_id i)
       (dec_standing_resolver_id i) (dec_max_standing_ttl_ms i) (dec_now_unix_ms i)))
       (commit_successor L current K_AuthorizationConsumed (dec_now_unix_ms i)))))"

definition authorize_with_catalog_v2 ::
  "'l engine_lib_scheme \<Rightarrow> ExactWorkCatalogV2 \<Rightarrow> decision_inputs \<Rightarrow> OccurrenceSnapshotV1 engine" where
  "authorize_with_catalog_v2 L catalog = authorize_with_catalog_v2_and_plan L catalog None"

fun authorize_versioned ::
  "'l engine_lib_scheme \<Rightarrow> VersionedExactWorkCatalogV1 \<Rightarrow> decision_inputs \<Rightarrow> OccurrenceSnapshotV1 engine" where
  "authorize_versioned L (CatalogNightshiftV1 catalog) i = engine_authorize L catalog i"
| "authorize_versioned L (CatalogExactBasisV2 catalog) i = authorize_with_catalog_v2 L catalog i"

fun authorize_versioned_with_plan ::
  "'l engine_lib_scheme \<Rightarrow> VersionedExactWorkCatalogV1 \<Rightarrow> ExactPlanWitnessV1 option \<Rightarrow> decision_inputs
     \<Rightarrow> OccurrenceSnapshotV1 engine" where
  "authorize_versioned_with_plan L (CatalogNightshiftV1 catalog) plan i =
     authorize_versioned L (CatalogNightshiftV1 catalog) i"
| "authorize_versioned_with_plan L (CatalogExactBasisV2 catalog) plan i =
     authorize_with_catalog_v2_and_plan L catalog plan i"

section \<open>Docket\<close>

definition dispatch :: "'l engine_lib_scheme \<Rightarrow> DocketCustodyPortV1 \<Rightarrow> u64 \<Rightarrow> OccurrenceSnapshotV1 engine" where
  "dispatch L docket now =
     engine_then (current_snapshot L) (\<lambda>current.
     if snap_pc current \<noteq> PC_AuthorizationConsumed
     then engine_result (Err (Eng_Kernel (IllegalTransition (snap_pc current) ''dispatch'')))
     else
       engine_then (engine_result (ok_or (state_issuance (snap_state current)) DocketResponse)) (\<lambda>issuance.
       engine_then (port_result (accept_issuance docket issuance)) (\<lambda>custody.
       engine_then (kernel_result (accept_docket_custody L current custody))
         (commit_successor L current K_DocketCustodyAccepted now))))"

definition apply_docket_progress ::
  "'l engine_lib_scheme \<Rightarrow> OccurrenceSnapshotV1 \<Rightarrow> DocketIssuanceReconciliationV1 \<Rightarrow> u64
     \<Rightarrow> DocketProgressV1 engine" where
  "apply_docket_progress L current response now =
     (case response of
        NotAccepted \<Rightarrow> engine_result (Err DocketResponse)
      | Accepted custody \<Rightarrow>
          engine_result
            (if state_docket_custody (snap_state current) \<noteq> Some custody then Err DocketResponse
             else if snap_pc current = PC_Dispatched then Ok Prog_Pending
             else if snap_pc current = PC_ReconciliationRequired then Ok (Prog_ReconciliationRequired current)
             else Err DocketResponse)
      | Settled custody settlement \<Rightarrow>
          if state_docket_custody (snap_state current) \<noteq> Some custody then engine_result (Err DocketResponse)
          else if snap_pc current = PC_SettledObservationRequired
          then engine_result
            (if state_settlement (snap_state current) = Some settlement then Ok (Prog_Settled current)
             else Err DocketResponse)
          else
            engine_then (kernel_result
              (if snap_pc current = PC_ReconciliationRequired then record_reconciled_settlement L current settlement
               else record_settlement L current settlement)) (\<lambda>successor.
            engine_then (commit_successor L current
              (if snap_pc current = PC_ReconciliationRequired then K_ReconciledSettlement else K_SettlementRecorded)
              now successor) (\<lambda>successor.
            engine_result (Ok (Prog_Settled successor))))
      | Indeterminate custody indeterminate \<Rightarrow>
          if state_docket_custody (snap_state current) \<noteq> Some custody then engine_result (Err DocketResponse)
          else if snap_pc current = PC_ReconciliationRequired
          then engine_result
            (if state_indeterminate (snap_state current) = Some indeterminate
             then Ok (Prog_ReconciliationRequired current)
             else Err DocketResponse)
          else
            engine_then (kernel_result (require_reconciliation L current indeterminate)) (\<lambda>successor.
            engine_then (commit_successor L current K_ReconciliationRequired now successor) (\<lambda>successor.
            engine_result (Ok (Prog_ReconciliationRequired successor)))))"

definition poll_docket :: "'l engine_lib_scheme \<Rightarrow> DocketCustodyPortV1 \<Rightarrow> u64 \<Rightarrow> DocketProgressV1 engine" where
  "poll_docket L docket now =
     engine_then (current_snapshot L) (\<lambda>current.
     engine_then (engine_result (ok_or (state_docket_custody (snap_state current)) DocketResponse)) (\<lambda>custody.
     engine_then (port_result (reconcile_attempt docket custody)) (\<lambda>response.
     apply_docket_progress L current response now)))"

section \<open>Continuations, budgets and halts\<close>

definition engine_open_continuation ::
  "'l engine_lib_scheme \<Rightarrow> OccurrenceId \<Rightarrow> Digest \<Rightarrow> u64 \<Rightarrow> OccurrenceSnapshotV1 engine" where
  "engine_open_continuation L occurrence expected_work now =
     engine_then (current_snapshot L) (\<lambda>current.
     engine_then (kernel_result (open_continuation L current occurrence expected_work))
       (commit_successor L current K_ContinuationOpened now))"

definition engine_note_probe :: "'l engine_lib_scheme \<Rightarrow> u64 \<Rightarrow> OccurrenceSnapshotV1 engine" where
  "engine_note_probe L now =
     engine_then (current_snapshot L) (\<lambda>current.
     halt_if_exhausted L current ''probe'' K_ProbeNoted now (note_probe L current))"

definition engine_halt :: "'l engine_lib_scheme \<Rightarrow> HaltReasonRefV1 \<Rightarrow> u64 \<Rightarrow> OccurrenceSnapshotV1 engine" where
  "engine_halt L reason now =
     engine_then (current_snapshot L) (\<lambda>current.
     engine_then (kernel_result (halt L current reason)) (commit_successor L current K_Halted now))"

definition engine_escalate :: "'l engine_lib_scheme \<Rightarrow> HaltReasonRefV1 \<Rightarrow> u64 \<Rightarrow> OccurrenceSnapshotV1 engine" where
  "engine_escalate L reason now =
     engine_then (current_snapshot L) (\<lambda>current.
     halt_if_exhausted L current ''escalation'' K_Escalated now (escalate L current reason))"

section \<open>Human authority\<close>

definition engine_apply_human_disposition ::
  "'l engine_lib_scheme \<Rightarrow> HumanDispositionV1 \<Rightarrow> HumanAuthorityScopeV1 \<Rightarrow> OccurrenceId option
     \<Rightarrow> observation_resolver \<Rightarrow> string \<Rightarrow> disposition_verifier \<Rightarrow> u64 \<Rightarrow> HumanDispositionEffectV1 engine" where
  "engine_apply_human_disposition L artifact expected_scope new_occurrence resolver
       expected_observation_resolver verifier now =
     engine_then (current_snapshot L) (\<lambda>current.
     engine_then (kernel_result (apply_human_disposition L current artifact expected_scope new_occurrence resolver
       expected_observation_resolver verifier now)) (\<lambda>effect.
     engine_then (store_write (commit_human_disposition L current effect artifact now)) (\<lambda>_.
     engine_result (Ok effect))))"

definition intervention_refusal_code :: "KernelErrorV1 \<Rightarrow> RefusalCodeV1" where
  "intervention_refusal_code error =
     (case error of
        BudgetExhausted _ \<Rightarrow> Ref_BudgetExhausted
      | Intervention reason \<Rightarrow>
          if reason \<in> {''wrong campaign'', ''wrong occurrence'', ''stale target state'', ''wrong issuance'',
            ''wrong attempt''}
          then InterventionBindingMismatch else InterventionNotApplicable
      | OccurrenceMismatch \<Rightarrow> InterventionBindingMismatch
      | BindingMismatch _ \<Rightarrow> InterventionBindingMismatch
      | _ \<Rightarrow> InterventionNotApplicable)"

definition engine_record_refusal ::
  "'l engine_lib_scheme \<Rightarrow> RefusalCodeV1 \<Rightarrow> Digest option \<Rightarrow> u64 \<Rightarrow> Digest engine" where
  "engine_record_refusal L code evidence now =
     engine_then (current_snapshot L) (\<lambda>current.
     store_write (record_refusal L
       \<lparr>ro_key = snap_key current, ro_at_state_digest = snap_state_digest current, ro_code = code,
        ro_evidence = evidence, ro_governed_intervention = None\<rparr> now))"

definition record_verified_intervention_refusal ::
  "'l engine_lib_scheme \<Rightarrow> OccurrenceSnapshotV1 \<Rightarrow> VerifiedGovernedInterventionV1 \<Rightarrow> RefusalCodeV1 \<Rightarrow> u64
     \<Rightarrow> Digest engine" where
  "record_verified_intervention_refusal L current verified code now =
     store_write (record_refusal L
       \<lparr>ro_key = snap_key current, ro_at_state_digest = snap_state_digest current, ro_code = code,
        ro_evidence = Some (intervention_request_digest (gi_request (vgi_request verified))),
        ro_governed_intervention = Some verified\<rparr> now)"

text \<open>The kernel call of both intervention operations: a kernel refusal is recorded, then returned.\<close>

definition effect_or_refusal ::
  "'l engine_lib_scheme \<Rightarrow> OccurrenceSnapshotV1 \<Rightarrow> VerifiedGovernedInterventionV1 \<Rightarrow> u64
     \<Rightarrow> GovernedInterventionEffectV1 engine" where
  "effect_or_refusal L current authenticated now =
     (case apply_verified_governed_intervention L current authenticated of
        Inr effect \<Rightarrow> engine_result (Ok effect)
      | Inl error \<Rightarrow>
          engine_then (record_verified_intervention_refusal L current authenticated
            (intervention_refusal_code error) now) (\<lambda>_.
          engine_result (Err (Eng_Kernel error))))"

fun intervention_kind :: "GovernedInterventionClassV1 \<Rightarrow> KernelErrorV1 + CampaignTransitionKindV1" where
  "intervention_kind (RequestProbe _ _) = Ok K_ProbeNoted"
| "intervention_kind (OpenSuccessor _ _) = Ok K_ContinuationOpened"
| "intervention_kind (HaltContinuation _) = Ok K_Halted"
| "intervention_kind (ReconcileAttempt _ _ _) =
     Err (Intervention ''reconciliation requires the read-only Docket path'')"

definition apply_governed_intervention ::
  "'l engine_lib_scheme \<Rightarrow> GovernedInterventionRequestV1 \<Rightarrow> HumanAuthorityScopeV1 \<Rightarrow> intervention_verifier
     \<Rightarrow> u64 \<Rightarrow> OccurrenceSnapshotV1 engine" where
  "apply_governed_intervention L request expected_scope verifier now =
     engine_then (current_snapshot L) (\<lambda>current.
     engine_then (kernel_result (verify_governed_intervention L request expected_scope verifier now)) (\<lambda>authenticated.
     engine_then (kernel_result (intervention_kind (gi_intervention (vgi_request authenticated)))) (\<lambda>kind.
     engine_then (effect_or_refusal L current authenticated now) (\<lambda>effect.
     case effect of
       Transition successor evidence \<Rightarrow>
         engine_then (store_write (commit_governed_intervention L current successor kind evidence now)) (\<lambda>_.
         engine_result (Ok successor))
     | _ \<Rightarrow> engine_result (Err (Eng_Kernel (Intervention ''wrong intervention path'')))))))"

text \<open>The final \<open>match\<close> of \<open>request_reconciliation\<close>.\<close>

definition settle_reconciliation ::
  "'l engine_lib_scheme \<Rightarrow> OccurrenceSnapshotV1 \<Rightarrow> VerifiedGovernedInterventionV1 \<Rightarrow> DocketCustodyV1
     \<Rightarrow> DocketIssuanceReconciliationV1 \<Rightarrow> u64 \<Rightarrow> DocketProgressV1 engine" where
  "settle_reconciliation L current authenticated custody response now =
     (let outcome_unknown =
        engine_then (record_verified_intervention_refusal L current authenticated InterventionOutcomeUnknown now)
          (\<lambda>_. engine_result (Ok (Prog_ReconciliationRequired current))) in
      case response of
        Accepted returned \<Rightarrow>
          if returned \<noteq> custody then engine_result (Err DocketResponse) else outcome_unknown
      | Indeterminate returned indeterminate \<Rightarrow>
          if returned \<noteq> custody \<or> state_indeterminate (snap_state current) \<noteq> Some indeterminate
          then engine_result (Err DocketResponse)
          else outcome_unknown
      | Settled returned settlement \<Rightarrow>
          if returned \<noteq> custody then engine_result (Err DocketResponse)
          else
            engine_then (kernel_result (record_reconciled_settlement L current settlement)) (\<lambda>successor.
            engine_then (store_write (commit_governed_intervention L current successor K_ReconciledSettlement
              authenticated now)) (\<lambda>_.
            engine_result (Ok (Prog_Settled successor))))
      | NotAccepted \<Rightarrow> engine_result (Err DocketResponse))"

definition request_reconciliation ::
  "'l engine_lib_scheme \<Rightarrow> GovernedInterventionRequestV1 \<Rightarrow> HumanAuthorityScopeV1 \<Rightarrow> intervention_verifier
     \<Rightarrow> DocketCustodyPortV1 \<Rightarrow> u64 \<Rightarrow> DocketProgressV1 engine" where
  "request_reconciliation L request expected_scope verifier docket now =
     engine_then (current_snapshot L) (\<lambda>current.
     engine_then (kernel_result (verify_governed_intervention L request expected_scope verifier now)) (\<lambda>authenticated.
     engine_then (effect_or_refusal L current authenticated now) (\<lambda>effect.
     case effect of
       Reconcile authenticated \<Rightarrow>
         engine_then (engine_result (ok_or (state_docket_custody (snap_state current)) DocketResponse)) (\<lambda>custody.
         engine_then (port_result (reconcile_attempt docket custody)) (\<lambda>response.
         settle_reconciliation L current authenticated custody response now))
     | _ \<Rightarrow> engine_result (Err (Eng_Kernel
         (Intervention ''non-reconciliation request used on reconciliation path''))))))"

section \<open>Completion\<close>

definition engine_complete ::
  "'l engine_lib_scheme \<Rightarrow> ObservationRefV1 \<Rightarrow> Digest \<Rightarrow> TerminalWitnessRefV1 \<Rightarrow> observation_resolver \<Rightarrow> string
     \<Rightarrow> u64 \<Rightarrow> OccurrenceSnapshotV1 engine" where
  "engine_complete L observation_ref subject terminal_witness resolver expected_observation_resolver now =
     engine_then (current_snapshot L) (\<lambda>current.
     engine_then (kernel_result (complete_from_observation L current observation_ref subject terminal_witness
       resolver expected_observation_resolver now))
       (commit_successor L current K_Completed now))"

fun state_completed :: "OccurrenceStateV1 \<Rightarrow> CompletedV1 option" where
  "state_completed (Completed value) = Some value"
| "state_completed _ = None"

text \<open>The \<open>postcondition\<close> that \<open>complete_with_catalog\<close> looks up first.\<close>

definition completion_postcondition ::
  "'l engine_lib_scheme \<Rightarrow> VersionedExactWorkCatalogV1 \<Rightarrow> ExactPlanWitnessV1 option \<Rightarrow> Digest
     \<Rightarrow> ExactObservationBasisRequirementV1 option engine" where
  "completion_postcondition L catalog plan expected_work =
     (case catalog of
        CatalogNightshiftV1 _ \<Rightarrow> engine_result (Ok None)
      | CatalogExactBasisV2 catalog \<Rightarrow>
          engine_then
            (case plan of
               Some plan \<Rightarrow> check_plan_binding L plan expected_work
             | None \<Rightarrow> engine_result (Ok ())) (\<lambda>_.
          engine_then (engine_result (completion_entry catalog expected_work plan)) (\<lambda>entry.
          engine_result (Ok (Option.bind entry en2_postcondition_basis)))))"

definition complete_with_catalog ::
  "'l engine_lib_scheme \<Rightarrow> ObservationRefV1 \<Rightarrow> Digest \<Rightarrow> TerminalWitnessRefV1 \<Rightarrow> observation_resolver \<Rightarrow> string
     \<Rightarrow> VersionedExactWorkCatalogV1 \<Rightarrow> ExactPlanWitnessV1 option \<Rightarrow> u64 \<Rightarrow> OccurrenceSnapshotV1 engine" where
  "complete_with_catalog L observation_ref subject terminal_witness resolver expected_observation_resolver
       catalog plan now =
     engine_then (current_snapshot L) (\<lambda>current.
     engine_then (completion_postcondition L catalog plan (meta_expected_work (meta (snap_state current))))
       (\<lambda>postcondition.
     engine_then (kernel_result (complete_from_observation L current observation_ref subject terminal_witness
       resolver expected_observation_resolver now)) (\<lambda>successor.
     engine_then
       (case postcondition of
          Some postcondition \<Rightarrow>
            engine_then (engine_result (ok_or (state_completed (snap_state successor)) PostconditionNotEstablished))
              (\<lambda>completed.
            engine_result
              (if requirement_holds_over postcondition (co_terminal_observation completed) then Ok ()
               else Err PostconditionNotEstablished))
        | None \<Rightarrow> engine_result (Ok ())) (\<lambda>_.
     commit_successor L current K_Completed now successor))))"

section \<open>Recovery\<close>

fun recovered_custody ::
  "DocketIssuanceReconciliationV1
     \<Rightarrow> (DocketCustodyV1 \<times> (IndeterminateOutcomeV1 + DocketSettlementV1) option) option" where
  "recovered_custody (Accepted custody) = Some (custody, None)"
| "recovered_custody (Settled custody settlement) = Some (custody, Some (Ok settlement))"
| "recovered_custody (Indeterminate custody indeterminate) = Some (custody, Some (Err indeterminate))"
| "recovered_custody NotAccepted = None"

definition apply_recovered_issuance ::
  "'l engine_lib_scheme \<Rightarrow> OccurrenceSnapshotV1 \<Rightarrow> DocketIssuanceReconciliationV1 \<Rightarrow> u64
     \<Rightarrow> OccurrenceSnapshotV1 engine" where
  "apply_recovered_issuance L current response now =
     engine_then (engine_result (ok_or (recovered_custody response) DocketResponse)) (\<lambda>(custody, after).
     engine_then (kernel_result (accept_docket_custody L current custody)) (\<lambda>dispatched.
     engine_then (commit_successor L current K_DocketCustodyAccepted now dispatched) (\<lambda>dispatched.
     case after of
       None \<Rightarrow>
         engine_then (kernel_result (recover_dispatched L dispatched))
           (commit_successor L dispatched K_RecoveryReconciliation now)
     | Some (Inr settlement) \<Rightarrow>
         engine_then (kernel_result (record_settlement L dispatched settlement))
           (commit_successor L dispatched K_SettlementRecorded now)
     | Some (Inl indeterminate) \<Rightarrow>
         engine_then (kernel_result (require_reconciliation L dispatched indeterminate))
           (commit_successor L dispatched K_ReconciliationRequired now))))"

text \<open>The reconciliation of an attempt that \<open>recover\<close> makes on the snapshot it holds.\<close>

definition recover_attempt ::
  "'l engine_lib_scheme \<Rightarrow> OccurrenceSnapshotV1 \<Rightarrow> DocketCustodyPortV1 \<Rightarrow> u64 \<Rightarrow> CampaignRecoveryV1 engine" where
  "recover_attempt L current docket now =
     engine_then (engine_result (ok_or (state_docket_custody (snap_state current)) DocketResponse)) (\<lambda>custody.
     engine_then (port_result (reconcile_attempt docket custody)) (\<lambda>response.
     engine_then (apply_docket_progress L current response now) (\<lambda>progress.
     case progress of
       Prog_Settled snapshot \<Rightarrow> engine_result (Ok (Advanced snapshot))
     | _ \<Rightarrow> engine_then (current_snapshot L) (\<lambda>snapshot. engine_result (Ok (Advanced snapshot))))))"

definition recover :: "'l engine_lib_scheme \<Rightarrow> DocketCustodyPortV1 \<Rightarrow> u64 \<Rightarrow> CampaignRecoveryV1 engine" where
  "recover L docket now =
     engine_then (current_snapshot L) (\<lambda>current.
     case snap_pc current of
       PC_AuthorizationConsumed \<Rightarrow>
         engine_then (engine_result (ok_or (state_issuance (snap_state current)) DocketResponse)) (\<lambda>issuance.
         engine_then (port_result (reconcile_issuance docket issuance)) (\<lambda>response.
         if response = NotAccepted then engine_result (Ok (IssuanceNotAccepted issuance))
         else
           engine_then (apply_recovered_issuance L current response now) (\<lambda>advanced.
           engine_result (Ok (Advanced advanced)))))
     | PC_Dispatched \<Rightarrow>
         engine_then (kernel_result (recover_dispatched L current)) (\<lambda>reconciling.
         engine_then (commit_successor L current K_RecoveryReconciliation now reconciling) (\<lambda>reconciling.
         recover_attempt L reconciling docket now))
     | PC_ReconciliationRequired \<Rightarrow> recover_attempt L current docket now
     | _ \<Rightarrow> engine_result (Ok (ExternalRevalidation (recovery_requirement current))))"

end
