(* ===== verification/Engine_Runs.thy ===== *)
theory Engine_Runs
  imports Engine_Loop Governed_Reach
begin

text \<open>
  A Hoare logic for engine programs. \<open>engine_law L e m Q\<close> says that \<open>m\<close>, run on a store that replays and
  has the current snapshot \<open>e\<close>, ends in a store that replays, whose current snapshot comes from \<open>e\<close> by
  kernel steps, whether it succeeds or fails; a success gives a value and a snapshot related by \<open>Q\<close>.
\<close>

section \<open>The logic\<close>

named_theorems engine_rules
named_theorems plain_steps

definition at_snapshot :: "'l store_lib_scheme \<Rightarrow> OccurrenceSnapshotV1 \<Rightarrow> campaign_db \<Rightarrow> bool" where
  "at_snapshot L e db \<longleftrightarrow> replays L db \<and> store_current L db = Ok e"

definition engine_law ::
  "'l engine_lib_scheme \<Rightarrow> OccurrenceSnapshotV1 \<Rightarrow> 'a engine \<Rightarrow> ('a \<Rightarrow> OccurrenceSnapshotV1 \<Rightarrow> bool) \<Rightarrow> bool" where
  "engine_law L e m Q \<longleftrightarrow> (\<forall>db db' r. at_snapshot L e db \<longrightarrow> m db = (db', r) \<longrightarrow>
     (\<exists>e'. at_snapshot L e' db' \<and> (kernel_step L)\<^sup>*\<^sup>* e e' \<and> (\<forall>a. r = Ok a \<longrightarrow> Q a e')))"

lemma engine_lawI:
  assumes "\<And>db db' r. at_snapshot L e db \<Longrightarrow> m db = (db', r)
    \<Longrightarrow> \<exists>e'. at_snapshot L e' db' \<and> (kernel_step L)\<^sup>*\<^sup>* e e' \<and> (\<forall>a. r = Ok a \<longrightarrow> Q a e')"
  shows "engine_law L e m Q"
  using assms by (simp add: engine_law_def)

lemma engine_lawE:
  assumes "engine_law L e m Q" "at_snapshot L e db" "m db = (db', r)"
  obtains e' where "at_snapshot L e' db'" "(kernel_step L)\<^sup>*\<^sup>* e e'" "\<And>a. r = Ok a \<Longrightarrow> Q a e'"
  using assms(1) [unfolded engine_law_def, rule_format, OF assms(2,3)] by auto

lemma engine_then_law:
  assumes "engine_law L e m Q" and "\<And>a e'. Q a e' \<Longrightarrow> engine_law L e' (f a) R"
  shows "engine_law L e (engine_then m f) R"
proof (rule engine_lawI)
  fix db db' r
  assume at: "at_snapshot L e db" and run: "engine_then m f db = (db', r)"
  obtain db1 r1 where m: "m db = (db1, r1)" by fastforce
  obtain e1 where e1: "at_snapshot L e1 db1" "(kernel_step L)\<^sup>*\<^sup>* e e1" "\<And>a. r1 = Ok a \<Longrightarrow> Q a e1"
    by (rule engine_lawE [OF assms(1) at m]) blast
  show "\<exists>e'. at_snapshot L e' db' \<and> (kernel_step L)\<^sup>*\<^sup>* e e' \<and> (\<forall>a. r = Ok a \<longrightarrow> R a e')"
  proof (cases r1)
    case (Inl x)
    then show ?thesis using run m e1 by (auto simp: engine_then_def)
  next
    case (Inr a)
    then have "engine_law L e1 (f a) R" and "f a db1 = (db', r)"
      using assms(2) e1(3) run m by (auto simp: engine_then_def)
    then obtain e' where "at_snapshot L e' db'" "(kernel_step L)\<^sup>*\<^sup>* e1 e'" "\<And>a. r = Ok a \<Longrightarrow> R a e'"
      using engine_lawE [OF _ e1(1)] by metis
    then show ?thesis using rtranclp_trans [OF e1(2)] by metis
  qed
qed

lemma result_law [engine_rules]: "(\<And>a. r = Ok a \<Longrightarrow> Q a e) \<Longrightarrow> engine_law L e (engine_result r) Q"
  by (auto simp: engine_law_def engine_result_def)

lemma then_then_law [engine_rules]:
  "engine_law L e (engine_then m (\<lambda>a. engine_then (f a) g)) R \<Longrightarrow> engine_law L e (engine_then (engine_then m f) g) R"
proof -
  have "engine_then (engine_then m f) g = engine_then m (\<lambda>a. engine_then (f a) g)"
    by (rule ext) (simp add: engine_then_def split: prod.split sum.split)
  then show "engine_law L e (engine_then m (\<lambda>a. engine_then (f a) g)) R
    \<Longrightarrow> engine_law L e (engine_then (engine_then m f) g) R" by simp
qed

lemma result_then_law [engine_rules]:
  "(\<And>a. r = Ok a \<Longrightarrow> engine_law L e (f a) R) \<Longrightarrow> engine_law L e (engine_then (engine_result r) f) R"
  by (rule engine_then_law [where Q = "\<lambda>a e'. r = Ok a \<and> e' = e"]) (auto intro: result_law)

lemma current_then_law [engine_rules]:
  "engine_law L e (f e) R \<Longrightarrow> engine_law L e (engine_then (current_snapshot L) f) R"
  by (rule engine_then_law [where Q = "\<lambda>a e'. a = e \<and> e' = e"])
    (auto simp: engine_law_def store_read_def at_snapshot_def)

lemma profile_then_law [engine_rules]:
  "(\<And>p. engine_law L e (f p) R) \<Longrightarrow> engine_law L e (engine_then (store_read (runtime_profile L)) f) R"
  by (rule engine_then_law [where Q = "\<lambda>a e'. e' = e"]) (auto simp: engine_law_def store_read_def)

section \<open>Commits\<close>

text \<open>The kernel steps that are committed without a human artifact.\<close>

definition plain_step :: "'l governed_lib_scheme \<Rightarrow> OccurrenceSnapshotV1 \<Rightarrow> OccurrenceSnapshotV1 \<Rightarrow> bool" where
  "plain_step H c n \<longleftrightarrow> kernel_step H c n \<and> snap_pc c \<noteq> PC_Halted"

lemma plain_step_decisions:
  assumes "plain_step L e n" and "write_transition L e n kind ev now db = Ok (db', receipt)"
  shows "used_decisions n = used_decisions e"
proof -
  have "accepted L e n" using assms(2) by (auto simp: write_transition_def)
  then have "legal_move L e n" by (simp add: validate_successor_iff)
  from legal_move_decisions [OF this] show ?thesis using assms(1) by (simp add: plain_step_def)
qed

lemma store_write_law:
  assumes "\<And>db db' x. at_snapshot L e db \<Longrightarrow> f db = Ok (db', x) \<Longrightarrow> at_snapshot L n db'"
    and "(kernel_step L)\<^sup>*\<^sup>* e n" and "\<And>a. engine_law L n (g a) R"
  shows "engine_law L e (engine_then (store_write f) g) R"
proof (rule engine_then_law)
  show "engine_law L e (store_write f) (\<lambda>_ e'. e' = n)"
    using assms(1,2) by (intro engine_lawI) (force simp: store_write_def split: sum.splits)
qed (use assms(3) in blast)

lemma commit_then_law:
  assumes "store_laws L" "plain_step L e n" "\<And>a. engine_law L n (g a) R"
  shows "engine_law L e (engine_then (store_write (store_commit L e n kind now)) g) R"
proof (rule store_write_law [where n = n])
  show "at_snapshot L n db'" if "at_snapshot L e db" "store_commit L e n kind now db = Ok (db', x)" for db db' x
  proof -
    have "write_transition L e n kind Ev_None now db = Ok (db', x)" using that(2) by (auto simp: store_commit_def)
    then show ?thesis
      using that commit_replays [OF assms(1), of db e n kind now db' x] plain_step_decisions [OF assms(2)]
      by (simp add: at_snapshot_def)
  qed
qed (use assms in \<open>auto simp: plain_step_def\<close>)

lemma commit_successor_law [engine_rules]:
  "store_laws L \<Longrightarrow> plain_step L e n \<Longrightarrow> Q n n \<Longrightarrow> engine_law L e (commit_successor L e kind now n) Q"
  unfolding commit_successor_def by (rule commit_then_law) (auto intro: result_law)

lemma commit_successor_then_law [engine_rules]:
  assumes "store_laws L" "plain_step L e n" "engine_law L n (f n) R"
  shows "engine_law L e (engine_then (commit_successor L e kind now n) f) R"
  by (rule engine_then_law, rule commit_successor_law [where Q = "\<lambda>a e'. a = n \<and> e' = n"]) (use assms in auto)

lemma intervention_then_law [engine_rules]:
  assumes "store_laws L" "plain_step L e n" "\<And>a. engine_law L n (g a) R"
  shows "engine_law L e (engine_then (store_write (commit_governed_intervention L e n kind v now)) g) R"
proof (rule store_write_law [where n = n])
  show "at_snapshot L n db'"
    if "at_snapshot L e db" "commit_governed_intervention L e n kind v now db = Ok (db', x)" for db db' x
  proof -
    have "write_transition L e n kind (Ev_GovernedIntervention v) now db = Ok (db', x)"
      using that(2) by (auto simp: commit_governed_intervention_def)
    then show ?thesis
      using that intervention_replays [OF assms(1), of db e n kind v now db' x] plain_step_decisions [OF assms(2)]
      by (simp add: at_snapshot_def)
  qed
qed (use assms in \<open>auto simp: plain_step_def\<close>)

lemma refusal_at_snapshot:
  "store_laws L \<Longrightarrow> at_snapshot L e db \<Longrightarrow> record_refusal L refusal now db = Ok (db', x) \<Longrightarrow> at_snapshot L e db'"
  using refusal_replays [of L db refusal now db' x] refusal_current [of L refusal now db db' x]
  by (simp add: at_snapshot_def)

lemma refusal_then_law [engine_rules]:
  "store_laws L \<Longrightarrow> (\<And>a. engine_law L e (g a) R)
   \<Longrightarrow> engine_law L e (engine_then (store_write (record_refusal L refusal now)) g) R"
  by (rule store_write_law [where n = e]) (blast intro: refusal_at_snapshot)+

lemma refusal_law [engine_rules]:
  "store_laws L \<Longrightarrow> (\<And>a. Q a e) \<Longrightarrow> engine_law L e (store_write (record_refusal L refusal now)) Q"
  using refusal_at_snapshot [of L e]
  by (intro engine_lawI) (force simp: store_write_def split: sum.splits)

lemma human_then_law:
  assumes laws: "store_laws L"
    and ok: "apply_human_disposition L e artifact scope new_occurrence resolver resolver_id verifier now = Ok eff"
    and g: "\<And>a n. engine_law L n (g a) R"
  shows "engine_law L e (engine_then (store_write (commit_human_disposition L e eff artifact now)) g) R"
proof -
  let ?n = "case effect_parts eff of (_, first, second) \<Rightarrow> case second of None \<Rightarrow> first | Some t \<Rightarrow> t"
  show ?thesis
  proof (rule store_write_law [where n = ?n])
    show "at_snapshot L ?n db'"
      if "at_snapshot L e db" "commit_human_disposition L e eff artifact now db = Ok (db', x)" for db db' x
      using that human_replays [OF laws, of db e eff artifact now db' x] by (simp add: at_snapshot_def)
    show "(kernel_step L)\<^sup>*\<^sup>* e ?n"
    proof (cases eff)
      case (Updated n v)
      then show ?thesis using step_disposition [OF ok [unfolded Updated]] by auto
    next
      case (OpenedOccurrence h n v)
      show ?thesis
        using step_decision_consumed [OF ok [unfolded OpenedOccurrence]]
          step_occurrence_opened [OF ok [unfolded OpenedOccurrence]] by (simp add: OpenedOccurrence)
    qed
  qed (use g in blast)
qed

section \<open>Every operation obeys the kernel\<close>

lemmas kernel_sources =
  record_proposal_ok require_standing_ok record_admissible_ok consume_authorization_ok accept_docket_custody_ok
  record_settlement_ok require_reconciliation_ok record_reconciled_settlement_ok open_continuation_ok note_probe_ok
  halt_ok escalate_ok complete_from_observation_ok is_safe_halt_source_def

lemma plain_kernel_operations [plain_steps]:
  "record_proposal H c observation proposal cls resolver resolver_id now = Ok n \<Longrightarrow> plain_step H c n"
  "require_standing H c = Ok n \<Longrightarrow> plain_step H c n"
  "record_admissible H c obs_resolver standing_resolver decider controlling obs_id standing_id ttl now = Ok n
   \<Longrightarrow> plain_step H c n"
  "consume_authorization H c obs_resolver standing_resolver decider controlling obs_id standing_id ttl now = Ok n
   \<Longrightarrow> plain_step H c n"
  "accept_docket_custody H c custody = Ok n \<Longrightarrow> plain_step H c n"
  "record_settlement H c settlement = Ok n \<Longrightarrow> plain_step H c n"
  "require_reconciliation H c indeterminate = Ok n \<Longrightarrow> plain_step H c n"
  "recover_dispatched H c = Ok n \<Longrightarrow> plain_step H c n"
  "record_reconciled_settlement H c settlement = Ok n \<Longrightarrow> plain_step H c n"
  "open_continuation H c occurrence work = Ok n \<Longrightarrow> plain_step H c n"
  "note_probe H c = Ok n \<Longrightarrow> plain_step H c n"
  "halt H c reason = Ok n \<Longrightarrow> plain_step H c n"
  "escalate H c reason = Ok n \<Longrightarrow> plain_step H c n"
  "complete_from_observation H c observation subject terminal_witness resolver resolver_id now = Ok n
   \<Longrightarrow> plain_step H c n"
  unfolding plain_step_def
  by (rule conjI, erule kernel_step.intros, (auto simp: kernel_sources elim!: recover_dispatched_ok)[1])+

lemma plain_intervention [plain_steps]:
  "apply_verified_governed_intervention H c verified = Ok (Transition n verified') \<Longrightarrow> plain_step H c n"
  by (auto elim!: apply_verified_governed_intervention_ok intro: plain_kernel_operations)

abbreviation obeys_kernel :: "'l engine_lib_scheme \<Rightarrow> 'a engine \<Rightarrow> bool" where
  "obeys_kernel L m \<equiv> \<forall>e. engine_law L e m (\<lambda>_ _. True)"

lemma halt_for_exhausted_budget_law [engine_rules]:
  "store_laws L \<Longrightarrow> engine_law L e (halt_for_exhausted_budget L e budget now) (\<lambda>_ _. True)"
  unfolding halt_for_exhausted_budget_def Let_def by (auto intro: plain_steps intro!: engine_rules)

lemma halt_if_exhausted_law [engine_rules]:
  "store_laws L \<Longrightarrow> (\<And>n. r = Ok n \<Longrightarrow> plain_step L e n)
   \<Longrightarrow> engine_law L e (halt_if_exhausted L e budget kind now r) (\<lambda>_ _. True)"
  unfolding halt_if_exhausted_def by (auto intro: plain_steps intro!: engine_rules split: sum.splits)

lemma check_plan_binding_law: "engine_law L e (check_plan_binding L plan work) (\<lambda>_ e'. e' = e)"
  unfolding check_plan_binding_def by (auto intro: plain_steps intro!: engine_rules)

lemma check_proposal_plan_law: "engine_law L e (check_proposal_plan L current catalog plan) (\<lambda>_ e'. e' = e)"
  unfolding check_proposal_plan_def
  by (auto intro: plain_steps intro!: engine_rules engine_then_law [OF check_plan_binding_law] split: option.splits)

lemma completion_postcondition_law:
  "engine_law L e (completion_postcondition L catalog plan work) (\<lambda>_ e'. e' = e)"
  unfolding completion_postcondition_def
  by (auto intro: plain_steps intro!: engine_rules engine_then_law [OF check_plan_binding_law]
      split: option.splits VersionedExactWorkCatalogV1.splits)

lemma proposal_operations:
  assumes "store_laws L"
  shows "obeys_kernel L (engine_record_proposal L observation proposal cls resolver resolver_id now)"
    and "obeys_kernel L (engine_require_standing L now)"
    and "obeys_kernel L (engine_open_continuation L occurrence work now)"
    and "obeys_kernel L (engine_note_probe L now)"
    and "obeys_kernel L (engine_halt L reason now)"
    and "obeys_kernel L (engine_escalate L reason now)"
    and "obeys_kernel L (engine_complete L observation_ref subject terminal_witness resolver resolver_id now)"
  unfolding engine_record_proposal_def engine_require_standing_def engine_open_continuation_def
    engine_note_probe_def engine_halt_def engine_escalate_def engine_complete_def
  by (auto intro: plain_steps intro!: engine_rules assms)

lemma decision_operations:
  assumes "store_laws L"
  shows "obeys_kernel L (engine_decide L catalog1 i)"
    and "obeys_kernel L (decide_with_catalog_v2_and_plan L catalog2 plan i)"
    and "obeys_kernel L (engine_authorize L catalog1 i)"
    and "obeys_kernel L (authorize_with_catalog_v2_and_plan L catalog2 plan i)"
  unfolding engine_decide_def decide_with_catalog_v2_and_plan_def engine_authorize_def authorize_with_catalog_v2_and_plan_def
  by (auto intro: plain_steps intro!: engine_rules assms engine_then_law [OF check_proposal_plan_law])

lemma versioned_operations:
  assumes "store_laws L"
  shows "obeys_kernel L (decide_versioned L catalog i)"
    and "obeys_kernel L (decide_versioned_with_plan L catalog plan i)"
    and "obeys_kernel L (authorize_versioned L catalog i)"
    and "obeys_kernel L (authorize_versioned_with_plan L catalog plan i)"
  using decision_operations [OF assms]
  by (cases catalog; simp add: decide_with_catalog_v2_def authorize_with_catalog_v2_def)+

lemma docket_progress_law:
  "store_laws L \<Longrightarrow> engine_law L e (apply_docket_progress L e response now) (\<lambda>_ _. True)"
  unfolding apply_docket_progress_def
  by (cases response) (auto intro: plain_steps intro!: engine_rules split: if_splits)

lemma docket_operations:
  assumes "store_laws L"
  shows "obeys_kernel L (dispatch L docket now)" and "obeys_kernel L (poll_docket L docket now)"
  unfolding dispatch_def poll_docket_def
  by (auto intro!: engine_rules docket_progress_law assms) (erule plain_steps)+

lemma human_operation:
  assumes "store_laws L"
  shows "obeys_kernel L (engine_apply_human_disposition L artifact scope new_occurrence resolver resolver_id verifier now)"
  unfolding engine_apply_human_disposition_def
  by (auto intro: plain_steps intro!: engine_rules human_then_law assms)

lemma effect_or_refusal_law:
  assumes "store_laws L"
  shows "engine_law L e (effect_or_refusal L e authenticated now)
    (\<lambda>eff e'. e' = e \<and> apply_verified_governed_intervention L e authenticated = Ok eff)"
  unfolding effect_or_refusal_def record_verified_intervention_refusal_def
  by (auto intro: plain_steps intro!: engine_rules assms split: sum.splits)

lemma settle_reconciliation_law:
  assumes "store_laws L"
  shows "engine_law L e (settle_reconciliation L e authenticated custody response now) (\<lambda>_ _. True)"
  unfolding settle_reconciliation_def record_verified_intervention_refusal_def Let_def
  by (cases response) (auto intro: plain_steps intro!: engine_rules assms)

lemma intervention_operations:
  assumes "store_laws L"
  shows "obeys_kernel L (apply_governed_intervention L request scope verifier now)"
    and "obeys_kernel L (request_reconciliation L request scope verifier docket now)"
    and "obeys_kernel L (engine_record_refusal L code evidence now)"
  unfolding apply_governed_intervention_def request_reconciliation_def engine_record_refusal_def
  by (auto intro: plain_steps intro!: engine_rules assms engine_then_law [OF effect_or_refusal_law [OF assms]]
      settle_reconciliation_law split: GovernedInterventionEffectV1.splits)

lemma complete_with_catalog_operation:
  assumes "store_laws L"
  shows "obeys_kernel L
    (complete_with_catalog L observation_ref subject terminal_witness resolver resolver_id catalog plan now)"
  unfolding complete_with_catalog_def
  by (auto dest: plain_steps intro!: engine_rules assms engine_then_law [OF completion_postcondition_law] split: option.splits)

lemma recover_attempt_law:
  assumes "store_laws L"
  shows "engine_law L e (recover_attempt L e docket now) (\<lambda>_ _. True)"
  unfolding recover_attempt_def
  by (auto intro: plain_steps intro!: engine_rules engine_then_law [OF docket_progress_law] assms split: DocketProgressV1.splits)

lemma apply_recovered_issuance_law:
  assumes "store_laws L"
  shows "engine_law L e (apply_recovered_issuance L e response now) (\<lambda>_ _. True)"
  unfolding apply_recovered_issuance_def
  by (auto intro!: engine_rules assms split: option.splits sum.splits) (erule plain_steps)+

lemma recovery_operation:
  assumes "store_laws L"
  shows "obeys_kernel L (recover L docket now)"
  unfolding recover_def
  by (auto intro!: engine_rules recover_attempt_law engine_then_law [OF apply_recovered_issuance_law] assms
      split: ProgramCounterV1.splits) (erule plain_steps)+

section \<open>Runs of the engine\<close>

inductive engine_created :: "'l engine_lib_scheme \<Rightarrow> campaign_db \<Rightarrow> bool" for L where
  "canonical_residuals residuals \<Longrightarrow> engine_create L campaign occurrence program work residuals budget now = Ok db
   \<Longrightarrow> engine_created L db"
| "canonical_residuals residuals
   \<Longrightarrow> engine_create_with_runtime_profile L campaign occurrence program work residuals budget schema jcs now = Ok db
   \<Longrightarrow> engine_created L db"

text \<open>One call of an operation, successful or not.\<close>

inductive engine_step :: "'l engine_lib_scheme \<Rightarrow> campaign_db \<Rightarrow> campaign_db \<Rightarrow> bool" for L db where
  "engine_record_proposal L observation proposal cls resolver resolver_id now db = (db', r) \<Longrightarrow> engine_step L db db'"
| "engine_require_standing L now db = (db', r) \<Longrightarrow> engine_step L db db'"
| "decide_versioned_with_plan L catalog plan i db = (db', r) \<Longrightarrow> engine_step L db db'"
| "authorize_versioned_with_plan L catalog plan i db = (db', r) \<Longrightarrow> engine_step L db db'"
| "dispatch L docket now db = (db', r') \<Longrightarrow> engine_step L db db'"
| "poll_docket L docket now db = (db', p) \<Longrightarrow> engine_step L db db'"
| "engine_open_continuation L occurrence work now db = (db', r) \<Longrightarrow> engine_step L db db'"
| "engine_note_probe L now db = (db', r) \<Longrightarrow> engine_step L db db'"
| "engine_halt L reason now db = (db', r) \<Longrightarrow> engine_step L db db'"
| "engine_escalate L reason now db = (db', r) \<Longrightarrow> engine_step L db db'"
| "engine_apply_human_disposition L artifact scope new_occurrence resolver resolver_id hverifier now db = (db', h)
   \<Longrightarrow> engine_step L db db'"
| "apply_governed_intervention L request scope verifier now db = (db', r) \<Longrightarrow> engine_step L db db'"
| "request_reconciliation L request scope verifier docket now db = (db', p) \<Longrightarrow> engine_step L db db'"
| "engine_record_refusal L code evidence now db = (db', d) \<Longrightarrow> engine_step L db db'"
| "engine_complete L observation_ref subject terminal_witness resolver resolver_id now db = (db', r) \<Longrightarrow> engine_step L db db'"
| "complete_with_catalog L observation_ref subject terminal_witness resolver resolver_id catalog plan now db = (db', r)
   \<Longrightarrow> engine_step L db db'"
| "recover L docket now db = (db', v) \<Longrightarrow> engine_step L db db'"

text \<open>The store replays and its current snapshot is one the kernel can reach.\<close>

definition engine_sound :: "'l engine_lib_scheme \<Rightarrow> campaign_db \<Rightarrow> bool" where
  "engine_sound L db \<longleftrightarrow> (\<exists>e. at_snapshot L e db \<and> reachable L e)"

lemma reach_steps: "step\<^sup>*\<^sup>* s t \<Longrightarrow> reach init step s \<Longrightarrow> reach init step t"
  by (induction rule: rtranclp_induct) (auto intro: reach.intros)

lemma obeys_kernel_sound:
  assumes "m db = (db', r)" and "engine_sound L db" and "obeys_kernel L m"
  shows "engine_sound L db'"
proof -
  obtain e where e: "at_snapshot L e db" "reachable L e" using assms(2) by (auto simp: engine_sound_def)
  obtain e' where "at_snapshot L e' db'" "(kernel_step L)\<^sup>*\<^sup>* e e'"
    by (rule engine_lawE [OF assms(3) [rule_format] e(1) assms(1)])
  then show ?thesis using reach_steps [OF _ e(2)] by (auto simp: engine_sound_def)
qed

lemmas engine_operations =
  proposal_operations versioned_operations docket_operations human_operation intervention_operations
  complete_with_catalog_operation recovery_operation

lemma engine_step_sound: "store_laws L \<Longrightarrow> engine_sound L db \<Longrightarrow> engine_step L db db' \<Longrightarrow> engine_sound L db'"
  by (erule engine_step.cases; hypsubst; erule obeys_kernel_sound, assumption, erule engine_operations)

lemma created_sound:
  assumes "store_laws L" "canonical_residuals residuals"
    and "create_initial L campaign occurrence program work residuals budget = Ok initial"
    and "create_with_runtime_profile L initial profile now = Ok db"
  shows "engine_sound L db"
proof -
  have "kernel_init L initial" unfolding kernel_init_def using assms(2,3) by blast
  moreover have "replays L db" using assms(4) by (blast intro: created_replays store_created.intros)
  moreover have "store_current L db = Ok initial" by (rule created_current [OF assms(1,4)])
  ultimately show ?thesis by (auto simp: engine_sound_def at_snapshot_def intro: reach.intros)
qed

lemma engine_created_sound: "store_laws L \<Longrightarrow> engine_created L db \<Longrightarrow> engine_sound L db"
  by (erule engine_created.cases)
    (auto simp: engine_create_def engine_create_with_runtime_profile_def intro: created_sound)

interpretation engine_invariant:
  invariant_law "engine_created L" "engine_step L" "\<lambda>db. store_laws L \<longrightarrow> engine_sound L db" for L
  by unfold_locales (use engine_created_sound engine_step_sound in blast)+

end
