(* ===== verification/Store_Accounts.thy ===== *)
theory Store_Accounts
  imports Store_Runs
begin

text \<open>
  What the tables of a store that replays hold, row by row, as functions of its journal: the occurrences, the
  human dispositions and their residual discharges, and the refusals. The rows of the spends, attempts and
  settlements are in \<open>Store_Chain\<close>.
\<close>

section \<open>Human dispositions\<close>

text \<open>The row of the disposition a transition consumed, and of the discharge it made, from its evidence alone.\<close>

definition canonical_bytes :: "'l jcs_lib_scheme \<Rightarrow> ('v \<Rightarrow> bytes option) \<Rightarrow> 'v \<Rightarrow> bytes" where
  "canonical_bytes L to_vec v = projr (encode L to_vec v)"

fun disposition_row :: "'l store_lib_scheme \<Rightarrow> u64 \<Rightarrow> CampaignTransitionEvidenceV1 \<Rightarrow> (string \<times> ExpectedHumanRow) option" where
  "disposition_row L at (Ev_HumanDisposition a verification) = Some (decision_text (hd_decision a),
     \<lparr>eh_nonce = nonce_text (hd_nonce a), eh_campaign = campaign_text (hd_campaign a),
      eh_occurrence = occurrence_to_string L (hd_occurrence a),
      eh_halted_state_digest = as_str (hd_halted_state_digest a),
      eh_verification = verification_text verification,
      eh_artifact_jcs = canonical_bytes L (codec_to_vec (human_codec L)) a,
      eh_consumed_at_unix_ms = at\<rparr>)"
| "disposition_row L at _ = None"

fun discharged_row :: "'l store_lib_scheme \<Rightarrow> CampaignTransitionEvidenceV1 \<Rightarrow> (string \<times> discharge_row) option" where
  "discharged_row L (Ev_HumanDisposition a verification) =
     (case hd_disposition a of
        ExactResidualDisposition d \<Rightarrow> Some (decision_text (hd_decision a), authority_text (dis_authority d),
          canonical_bytes L (residual_ids_to_vec L) (dis_before d),
          canonical_bytes L (residual_ids_to_vec L) (dis_closed d),
          canonical_bytes L (residual_ids_to_vec L) (dis_after d))
      | _ \<Rightarrow> None)"
| "discharged_row L _ = None"

abbreviation human_rows :: "'l store_lib_scheme \<Rightarrow> StoredTransitionRow list \<Rightarrow> (string \<times> ExpectedHumanRow) set" where
  "human_rows L ts \<equiv> {r. \<exists>t \<in> set ts. disposition_row L (str_recorded_at_unix_ms t) (str_evidence t) = Some r}"

abbreviation discharge_rows :: "'l store_lib_scheme \<Rightarrow> StoredTransitionRow list \<Rightarrow> (string \<times> discharge_row) set" where
  "discharge_rows L ts \<equiv> {r. \<exists>t \<in> set ts. discharged_row L (str_evidence t) = Some r}"

lemma set_btree_insert_same: "sorted_wrt (<) (map fst m) \<Longrightarrow> (k, v) \<in> set m \<Longrightarrow> btree_insert k v m = m"
proof (induction k v m rule: btree_insert.induct)
  case (2 k v k' v' m)
  then show ?case by (auto simp: image_iff)
qed simp

lemma replay_human_rows:
  assumes "replay_human L t m = Ok m'" and "sorted_wrt (<) (map fst m)"
  shows "set m' = set m \<union> human_rows L [t]"
    and "\<And>a v. str_evidence t = Ev_HumanDisposition a v \<Longrightarrow> is_ok (encode L (codec_to_vec (human_codec L)) a)"
proof -
  show "set m' = set m \<union> human_rows L [t]"
  proof (cases "str_evidence t")
    case (Ev_HumanDisposition a v)
    then obtain k e where r: "disposition_row L (str_recorded_at_unix_ms t) (str_evidence t) = Some (k, e)"
      and m': "m' = btree_insert k e m" "\<forall>e'. map_of m k = Some e' \<longrightarrow> e' = e"
      using assms(1) by (auto simp: replay_human_def Let_def canonical_bytes_def simp del: encode_Ok split: option.splits if_splits)
    show ?thesis
    proof (cases "map_of m k")
      case None
      then show ?thesis using r m'(1) by (simp add: set_btree_insert_new map_of_eq_None_iff)
    next
      case (Some e')
      then have "(k, e) \<in> set m" using m'(2) map_of_SomeD by fastforce
      then show ?thesis using r m'(1) assms(2) by (auto simp: set_btree_insert_same)
    qed
  qed (use assms(1) in \<open>simp_all add: replay_human_def\<close>)
  show "is_ok (encode L (codec_to_vec (human_codec L)) a)" if "str_evidence t = Ev_HumanDisposition a v" for a v
    using assms(1) that by (auto simp: replay_human_def is_ok_iff simp del: encode_Ok)
qed

lemma replay_human_sorted:
  "replay_human L t m = Ok m' \<Longrightarrow> sorted_wrt (<) (map fst m) \<Longrightarrow> sorted_wrt (<) (map fst m')"
  by (auto simp: replay_human_def Let_def sorted_btree_insert
      split: CampaignTransitionEvidenceV1.splits option.splits if_splits)

lemma replayed_humans:
  assumes "try_fold (replay_row L c p) (replay_start L c) ts = Ok s"
  shows "set (rs_human_artifacts s) = human_rows L ts" and "sorted_wrt (<) (map fst (rs_human_artifacts s))"
    and "\<And>t a v. t \<in> set ts \<Longrightarrow> str_evidence t = Ev_HumanDisposition a v
      \<Longrightarrow> is_ok (encode L (codec_to_vec (human_codec L)) a)"
  using assms
proof (induction ts arbitrary: s rule: rev_induct)
  case (snoc t ts)
  { fix s assume "try_fold (replay_row L c p) (replay_start L c) (ts @ [t]) = Ok s"
    then obtain s0 where s0: "try_fold (replay_row L c p) (replay_start L c) ts = Ok s0"
      and row: "replay_human L t (rs_human_artifacts s0) = Ok (rs_human_artifacts s)"
      by (auto simp: try_fold_append replay_row_iff)
    note here = replay_human_rows [OF row snoc.IH(2) [OF s0]]
    have "set (rs_human_artifacts s) = human_rows L (ts @ [t])"
      using here(1) snoc.IH(1) [OF s0] by auto
    moreover have "sorted_wrt (<) (map fst (rs_human_artifacts s))"
      using replay_human_sorted [OF row snoc.IH(2) [OF s0]] .
    moreover have "is_ok (encode L (codec_to_vec (human_codec L)) a)"
      if "u \<in> set (ts @ [t])" "str_evidence u = Ev_HumanDisposition a v" for u a v
      using that here(2) snoc.IH(3) [OF _ _ s0] by auto
    ultimately have "set (rs_human_artifacts s) = human_rows L (ts @ [t])
      \<and> sorted_wrt (<) (map fst (rs_human_artifacts s))
      \<and> (\<forall>u a v. u \<in> set (ts @ [t]) \<longrightarrow> str_evidence u = Ev_HumanDisposition a v
           \<longrightarrow> is_ok (encode L (codec_to_vec (human_codec L)) a))" by blast }
  note step = this
  { case 1 then show ?case using step by blast
  next case 2 then show ?case using step by blast
  next case 3 then show ?case using step by blast }
qed (simp_all add: replay_start_def)

section \<open>Residual discharges\<close>

lemma try_map_concat:
  "try_map f xs = Ok ys \<Longrightarrow> set (concat ys) = {r. \<exists>x \<in> set xs. \<exists>d. f x = Ok d \<and> r \<in> set d} \<and> (\<forall>x \<in> set xs. is_ok (f x))"
proof (induction xs arbitrary: ys)
  case (Cons x xs)
  then obtain d ds where "f x = Ok d" "try_map f xs = Ok ds" "ys = d # ds" by auto
  with Cons.IH [of ds] show ?case by (auto simp: is_ok_iff simp del: set_concat)
qed simp

lemma discharge_entry_row:
  assumes "codec_law L (human_codec L)" and "is_ok (encode L (codec_to_vec (human_codec L)) a)"
    and "disposition_row L at (Ev_HumanDisposition a v) = Some entry" and "discharge_entry L entry = Ok d"
  shows "set d = {r. discharged_row L (Ev_HumanDisposition a v) = Some r}"
proof -
  have "decode L (codec_from_slice (human_codec L)) (eh_artifact_jcs (snd entry)) = Ok a"
    using assms(1-3) by (auto simp: codec_law_def is_ok_iff canonical_bytes_def simp del: encode_Ok)
  then show ?thesis
    using assms(3,4)
    by (auto simp: discharge_entry_def canonical_bytes_def simp del: encode_Ok split: HumanDispositionKindV1.splits)
qed

lemma replayed_discharges:
  assumes law: "codec_law L (human_codec L)" and fold: "try_fold (replay_row L c p) (replay_start L c) ts = Ok s"
    and "try_fold (expected_discharge L) [] (rs_human_artifacts s) = Ok (btree_collect rows)"
  shows "set (btree_collect rows) = discharge_rows L ts"
proof -
  note humans = replayed_humans [OF fold]
  obtain ds where ds: "try_map (discharge_entry L) (rs_human_artifacts s) = Ok ds"
    and rows: "btree_collect rows = btree_collect (concat ds)"
    using assms(3) by (auto simp: expected_discharges)
  have "distinct (map fst (concat ds))"
    using discharge_keys [OF ds] humans(2) by (simp add: strict_sorted_iff)
  then have "set (btree_collect rows) = set (concat ds)"
    using rows set_btree_collect by (simp del: set_concat)
  also have "\<dots> = {r. \<exists>entry \<in> human_rows L ts. \<exists>d. discharge_entry L entry = Ok d \<and> r \<in> set d}"
    using try_map_concat [OF ds] humans(1) by (simp del: set_concat)
  also have "\<dots> = discharge_rows L ts"
  proof -
    have entry: "\<exists>d. discharge_entry L e = Ok d \<and> set d = {r. discharged_row L (str_evidence t) = Some r}"
      if t: "t \<in> set ts" "disposition_row L (str_recorded_at_unix_ms t) (str_evidence t) = Some e" for t e
    proof -
      obtain a v where ev: "str_evidence t = Ev_HumanDisposition a v"
        using t(2) by (cases "str_evidence t") simp_all
      have "e \<in> set (rs_human_artifacts s)" using humans(1) t by blast
      then obtain d where d: "discharge_entry L e = Ok d"
        using try_map_concat [OF ds] by (auto simp: is_ok_iff)
      then show ?thesis
        using discharge_entry_row [OF law humans(3) [OF t(1) ev] _ d] t(2) ev by simp
    qed
    have known: "\<exists>e. disposition_row L (str_recorded_at_unix_ms t) (str_evidence t) = Some e"
      if "discharged_row L (str_evidence t) = Some r" for t r
      using that by (cases "str_evidence t") simp_all
    show ?thesis using entry known by fastforce
  qed
  finally show ?thesis .
qed

section \<open>Occurrences and refusals\<close>

lemma replayed_bindings:
  "try_fold (replay_row L c p) (replay_start L c) ts = Ok s \<Longrightarrow> t \<in> set ts
   \<Longrightarrow> str_successor t = snap_state_digest (str_snapshot t)
     \<and> str_successor_occurrence t = occurrence_to_string L (key_occurrence (snap_key (str_snapshot t)))"
proof (induction ts arbitrary: s rule: rev_induct)
  case (snoc u ts)
  then show ?case
    by (auto simp: try_fold_append replay_row_iff replay_binding_def split: if_splits)
qed simp

text \<open>The last snapshot of the chain in an occurrence.\<close>

definition latest_snapshot :: "'l store_lib_scheme \<Rightarrow> OccurrenceSnapshotV1 list \<Rightarrow> string \<Rightarrow> OccurrenceSnapshotV1 option" where
  "latest_snapshot L ss = map_of (rev (map (\<lambda>s. (occurrence_to_string L (key_occurrence (snap_key s)), s)) ss))"

lemma replayed_latest:
  "try_fold (replay_row L c p) (replay_start L c) ts = Ok s
   \<Longrightarrow> map_of (rs_latest_occurrences s) = latest_snapshot L (map str_snapshot ts)"
proof (induction ts arbitrary: s rule: rev_induct)
  case (snoc t ts)
  have "str_successor_occurrence t = occurrence_to_string L (key_occurrence (snap_key (str_snapshot t)))"
    using replayed_bindings [OF snoc.prems, of t] by simp
  then show ?case
    using snoc by (auto simp: try_fold_append replay_row_iff map_of_btree_insert latest_snapshot_def)
qed (simp add: replay_start_def latest_snapshot_def)

definition materializes :: "'l store_lib_scheme \<Rightarrow> OccurrenceSnapshotV1 list \<Rightarrow> occurrence_row \<Rightarrow> bool" where
  "materializes L ss row \<longleftrightarrow> (\<exists>s. latest_snapshot L ss (or_occurrence_id row) = Some s
     \<and> decode L (codec_from_slice (snapshot_codec L)) (or_snapshot_jcs row) = Ok s
     \<and> or_program_basis row = program_text (meta_program (meta (snap_state s)))
     \<and> or_program_counter row = pc_tag (snap_pc s)
     \<and> or_prior_state_digest row = as_str (snap_prior_state_digest s)
     \<and> or_state_digest row = as_str (snap_state_digest s))"

lemma replayed_occurrences:
  assumes "replayed L db row c p ts s"
  shows "{or_occurrence_id r | r. r \<in> set (db_occurrences db) \<and> or_campaign_id r = campaign_text c}
      = dom (latest_snapshot L (map str_snapshot ts))"
    and "\<And>r. r \<in> set (db_occurrences db) \<Longrightarrow> or_campaign_id r = campaign_text c \<Longrightarrow> materializes L (map str_snapshot ts) r"
proof -
  have latest: "map_of (rs_latest_occurrences s) = latest_snapshot L (map str_snapshot ts)"
    by (rule replayed_latest [of L c p]) (use assms in \<open>simp add: replayed_def\<close>)
  have v: "verify_occurrence_materialization L db c (rs_latest_occurrences s) = Ok ()"
    using assms by (simp add: replayed_def)
  have "or_occurrence_id ` {r \<in> set (db_occurrences db). or_campaign_id r = campaign_text c}
      = fst ` set (rs_latest_occurrences s)"
    using v by (auto simp: verify_occurrence_materialization_def Let_def split: if_splits)
  then show "{or_occurrence_id r | r. r \<in> set (db_occurrences db) \<and> or_campaign_id r = campaign_text c}
      = dom (latest_snapshot L (map str_snapshot ts))"
    unfolding latest [symmetric] dom_map_of_conv_image_fst by blast
  show "materializes L (map str_snapshot ts) r"
    if "r \<in> set (db_occurrences db)" "or_campaign_id r = campaign_text c" for r
  proof -
    have "verify_occurrence_row L (rs_latest_occurrences s) r = Ok ()"
      using v that by (auto simp: verify_occurrence_materialization_def Let_def try_fold_unit_Ok)
    then show ?thesis
      unfolding materializes_def latest [symmetric] by (auto simp: verify_occurrence_row_def split: if_splits)
  qed
qed

definition refused_at :: "'l store_lib_scheme \<Rightarrow> CampaignId \<Rightarrow> OccurrenceSnapshotV1 \<Rightarrow> string \<times> refusal_row \<Rightarrow> bool" where
  "refused_at L c s entry \<longleftrightarrow> (\<exists>refusal. decode L (codec_from_slice (refusal_codec L)) (rr_refusal_jcs (snd entry)) = Ok refusal
     \<and> key_campaign (ro_key refusal) = c \<and> ro_at_state_digest refusal = snap_state_digest s
     \<and> fst entry = as_str (hash_domain L REFUSAL_DOMAIN_V1 (rr_refusal_jcs (snd entry)))
     \<and> rr_campaign_id (snd entry) = campaign_text c
     \<and> rr_occurrence_id (snd entry) = occurrence_to_string L (key_occurrence (ro_key refusal))
     \<and> rr_state_digest (snd entry) = as_str (snap_state_digest s))"

lemma verified_refusal:
  assumes "verify_refusal_row L c states entry = Ok ()"
  obtains refusal where "decode L (codec_from_slice (refusal_codec L)) (rr_refusal_jcs (snd entry)) = Ok refusal"
    "fst entry = as_str (hash_domain L REFUSAL_DOMAIN_V1 (rr_refusal_jcs (snd entry)))"
    "rr_campaign_id (snd entry) = campaign_text c" "key_campaign (ro_key refusal) = c"
    "rr_occurrence_id (snd entry) = occurrence_to_string L (key_occurrence (ro_key refusal))"
    "rr_state_digest (snd entry) = as_str (ro_at_state_digest refusal)" "rr_state_digest (snd entry) \<in> states"
  using assms by (cases entry) (auto simp: verify_refusal_row_def split: if_splits)

lemma replayed_refusals:
  assumes "try_fold (replay_row L c p) (replay_start L c) ts = Ok s" and "verify_refusals L db c ts = Ok ()"
    and "entry \<in> set (db_refusals db)"
  shows "\<exists>x \<in> set (map str_snapshot ts). refused_at L c x entry"
proof -
  have "verify_refusal_row L c ((\<lambda>t. as_str (str_successor t)) ` set ts) entry = Ok ()"
    using assms(2,3) by (simp add: verify_refusals_def try_fold_unit_Ok)
  then obtain refusal where r: "decode L (codec_from_slice (refusal_codec L)) (rr_refusal_jcs (snd entry)) = Ok refusal"
      "fst entry = as_str (hash_domain L REFUSAL_DOMAIN_V1 (rr_refusal_jcs (snd entry)))"
      "rr_campaign_id (snd entry) = campaign_text c" "key_campaign (ro_key refusal) = c"
      "rr_occurrence_id (snd entry) = occurrence_to_string L (key_occurrence (ro_key refusal))"
      "rr_state_digest (snd entry) = as_str (ro_at_state_digest refusal)"
      "rr_state_digest (snd entry) \<in> (\<lambda>t. as_str (str_successor t)) ` set ts"
    by (rule verified_refusal)
  from r(7) obtain t where t: "t \<in> set ts" "rr_state_digest (snd entry) = as_str (str_successor t)" by blast
  have "str_successor t = snap_state_digest (str_snapshot t)"
    using replayed_bindings [OF assms(1) t(1)] by simp
  moreover have "ro_at_state_digest refusal = str_successor t"
    using r(6) t(2) by (intro Digest.expand) simp
  ultimately have "refused_at L c (str_snapshot t) entry"
    unfolding refused_at_def using r(1-5) t(2) by (intro exI [of _ refusal]) simp
  then show ?thesis using t(1) by auto
qed

end
