(* ===== verification/Store_Scenario.thy ===== *)
theory Store_Scenario
  imports Engine_Catalog Governed_Scenario Store_Accounts
begin

text \<open>
  A concrete store: an instance of the library record that keeps the laws of the store, a campaign that is
  created and halted, the snapshots of its spend, dispatch and recovery, and the theorems about the store
  with their instances on it.
\<close>

section \<open>The library\<close>

text \<open>
  A JSON text is a string of arbitrary bytes, so every document is canonical. The digest of a document
  repeats its last byte; the texts below end in different letters where digests must differ.
\<close>

definition demo_text :: "bytes \<Rightarrow> string" where
  "demo_text b = map (\<lambda>w. char_of (unat w)) b"

lemma of_char_unat: "(of_char (char_of (unat w)) :: u8) = w"
proof -
  have "unat w < 256" using unsigned_less [of w, where ?'a = nat] by simp
  then have "of_nat (of_char (char_of (unat w))) = w" by simp
  then show ?thesis by (simp only: of_nat_of_char)
qed

lemma as_bytes_demo_text [simp]: "as_bytes (demo_text b) = b"
  by (simp add: demo_text_def as_bytes_def comp_def of_char_unat)

definition demo_store_sha256 :: "bytes \<Rightarrow> bytes" where
  "demo_store_sha256 b = replicate 32 (last b)"

fun demo_store_jcs :: "json_value \<Rightarrow> bytes option" where
  "demo_store_jcs (String s) = Some (as_bytes s)"
| "demo_store_jcs _ = None"

fun demo_store_input :: "digest_input \<Rightarrow> string" where
  "demo_store_input (StateInput prior state) =
     (case state of Halted h \<Rightarrow> if meta_used_human_decisions (ha_meta h) = [] then ''h'' else ''u''
      | AdmissiblePendingAuthorization _ \<Rightarrow> ''p'' | AuthorizationConsumed _ \<Rightarrow> ''s'' | Dispatched _ \<Rightarrow> ''d''
      | ReconciliationRequired _ \<Rightarrow> ''r'' | _ \<Rightarrow> ''g'')"
| "demo_store_input _ = ''x''"

definition demo_store_base :: governed_lib where
  "demo_store_base = \<lparr>sha256 = demo_store_sha256, hex_encode = demo_hex_encode, hex_decode_32 = demo_hex_decode,
     json_parse = (\<lambda>b. Some (EvStr (demo_text b))), jcs_to_vec = demo_store_jcs,
     input_to_vec = (\<lambda>i. Some (as_bytes (demo_store_input i))), basis_to_vec = (\<lambda>_. Some (as_bytes ''b''))\<rparr>"

definition letter_digest :: "char \<Rightarrow> Digest" where
  "letter_digest c = Digest (SHA256_PREFIX @ demo_hex_encode (replicate 32 (of_char c)))"

section \<open>The campaign\<close>

definition store_genesis :: OccurrenceSnapshotV1 where
  "store_genesis =
     (let state = ObservationRequired \<lparr>obr_meta = demo_meta, obr_prior = None\<rparr>; prior = letter_digest CHR ''x'' in
      \<lparr>snap_prior_state_digest = prior, snap_state_digest = state_digest demo_store_base prior state, snap_state = state\<rparr>)"

definition store_halted :: OccurrenceSnapshotV1 where
  "store_halted = successor_snapshot demo_store_base store_genesis (halted_state store_genesis demo_meta demo_reason)"

definition store_updated :: OccurrenceSnapshotV1 where
  "store_updated = successor_snapshot demo_store_base store_halted (halted_state store_genesis
     (demo_meta\<lparr>meta_used_human_decisions := [HumanDecisionIdV1 (demo_ref CHR ''d'')]\<rparr>) demo_reason)"

text \<open>The spend of a systemd work item and its dispatch.\<close>

definition engine_proposal :: ExactWorkProposalV1 where
  "engine_proposal = demo_proposal\<lparr>prop_work_schema := EFFECT_EXECUTOR_SYSTEMD_WORK_SCHEMA_V2\<rparr>"

definition engine_observation :: "OccurrenceKeyV1 \<Rightarrow> ObservationRefV1 \<Rightarrow> Digest \<Rightarrow> u64 \<Rightarrow> VersionedObservationResolutionV1" where
  "engine_observation key observation subject now = TypedV3 \<lparr>or3_schema = OBSERVATION_RESOLUTION_SCHEMA_V3,
     or3_key = key, or3_observation = observation,
     or3_currentness = ObservationCurrentnessRefV1 (demo_ref CHR ''0''),
     or3_normalized_preconditions = PreconditionBasisRefV1 (letter_digest CHR ''x''),
     or3_basis = demo_basis, or3_resolver_id = ''nightshift'', or3_subject = subject,
     or3_status = Typed_Current, or3_resolved_at_unix_ms = now, or3_fresh_until_unix_ms = now + 10\<rparr>"

definition engine_recorded :: "u64 \<Rightarrow> ProposalBasisV1" where
  "engine_recorded now = \<lparr>pb_meta = demo_meta,
     pb_observation = engine_observation (demo_key 1) demo_obs_ref (demo_ref CHR ''d'') now,
     pb_proposal = engine_proposal, pb_proposal_ref = ProposalRefV1 (letter_digest CHR ''x''), pb_link = LinkInitial\<rparr>"

definition engine_admitted :: "u64 \<Rightarrow> AdmissibleBasisV1" where
  "engine_admitted now = \<lparr>ab_proposal = engine_recorded now,
     ab_standing = demo_standing \<lparr>sreq_key = demo_key 1, sreq_observation = demo_obs_ref,
       sreq_proposal = ProposalRefV1 (letter_digest CHR ''x''), sreq_subject = demo_ref CHR ''d'',
       sreq_scope = demo_ref CHR ''e'', sreq_now_unix_ms = now\<rparr>,
     ab_decision = \<lparr>ad_decision = AdmissionDecisionRefV1 (letter_digest CHR ''y''), ad_key = demo_key 1,
       ad_observation = demo_obs_ref, ad_proposal = ProposalRefV1 (letter_digest CHR ''x''),
       ad_standing_resolution = StandingResolutionRefV1 (demo_ref CHR ''1''), ad_disposition = Admitted,
       ad_policy_basis = letter_digest CHR ''z''\<rparr>\<rparr>"

definition engine_authorized :: AuthorizationConsumedV1 where
  "engine_authorized = (let spend = build_spend demo_store_base (engine_admitted 102) 102
     in \<lparr>ac_admitted = engine_admitted 102, ac_spend = spend,
         ac_issuance = build_issuance demo_store_base (engine_admitted 102) (sp_spend spend)\<rparr>)"

definition engine_dispatch :: DispatchBasisV1 where
  "engine_dispatch = \<lparr>di_authorized = engine_authorized, di_custody =
     \<lparr>cu_schema = DOCKET_CUSTODY_SCHEMA_V1, cu_issuance = iss_issuance (ac_issuance engine_authorized),
      cu_ag_spend = sp_spend (ac_spend engine_authorized),
      cu_execution_standing = DocketExecutionStandingRefV1 (demo_ref CHR ''7''),
      cu_standing_currentness = StandingCurrentnessRefV1 (demo_ref CHR ''2''),
      cu_attempt = attempt_for_issuance demo_store_base (iss_issuance (ac_issuance engine_authorized)),
      cu_executor_marker = ExecutorAttemptMarkerRefV1 (demo_ref CHR ''9''), cu_accepted_at_unix_ms = 103\<rparr>\<rparr>"

definition engine_indeterminate :: "Digest \<Rightarrow> IndeterminateOutcomeV1" where
  "engine_indeterminate evidence = \<lparr>ind_issuance = iss_issuance (ac_issuance engine_authorized),
     ind_attempt = cu_attempt (di_custody engine_dispatch),
     ind_reconciliation = ReconciliationRefV1 (letter_digest CHR ''x''), ind_evidence = evidence\<rparr>"

definition store_pending :: OccurrenceSnapshotV1 where
  "store_pending = successor_snapshot demo_store_base store_genesis
     (AdmissiblePendingAuthorization (engine_admitted 101))"

definition store_spent :: OccurrenceSnapshotV1 where
  "store_spent = successor_snapshot demo_store_base store_pending (AuthorizationConsumed engine_authorized)"

definition store_dispatched :: OccurrenceSnapshotV1 where
  "store_dispatched = successor_snapshot demo_store_base store_spent (Dispatched engine_dispatch)"

definition store_reconciling :: OccurrenceSnapshotV1 where
  "store_reconciling = successor_snapshot demo_store_base store_dispatched (ReconciliationRequired
     \<lparr>rr_dispatch = engine_dispatch, rr_indeterminate = engine_indeterminate (letter_digest CHR ''x'')\<rparr>)"

definition demo_snapshots :: "(string \<times> OccurrenceSnapshotV1) list" where
  "demo_snapshots = [(''G'', store_genesis), (''H'', store_halted), (''U'', store_updated), (''P'', store_pending),
     (''S'', store_spent), (''D'', store_dispatched), (''R'', store_reconciling)]"

definition demo_snapshot_codec :: "OccurrenceSnapshotV1 codec" where
  "demo_snapshot_codec = Codec
     (\<lambda>s. map_option (\<lambda>(t, _). as_bytes t)
       (find (\<lambda>(_, x). snap_state_digest x = snap_state_digest s \<and> x = s) demo_snapshots))
     (\<lambda>b. map_option snd (find (\<lambda>(t, _). as_bytes t = b) demo_snapshots))"

definition demo_evidence_codec :: "CampaignTransitionEvidenceV1 codec" where
  "demo_evidence_codec = Codec
     (\<lambda>e. case e of Ev_None \<Rightarrow> Some (as_bytes ''N'') | Ev_Genesis None \<Rightarrow> Some (as_bytes ''E'') | _ \<Rightarrow> None)
     (\<lambda>b. if b = as_bytes ''N'' then Some Ev_None else if b = as_bytes ''E'' then Some (Ev_Genesis None) else None)"

definition demo_issuance_codec :: "AgIssuanceV1 codec" where
  "demo_issuance_codec = Codec
     (\<lambda>i. if i = ac_issuance engine_authorized then Some (as_bytes ''I'') else None)
     (\<lambda>b. if b = as_bytes ''I'' then Some (ac_issuance engine_authorized) else None)"

definition demo_store_lib :: engine_lib where
  "demo_store_lib = \<lparr>sha256 = demo_store_sha256, hex_encode = demo_hex_encode, hex_decode_32 = demo_hex_decode,
     json_parse = (\<lambda>b. Some (EvStr (demo_text b))), jcs_to_vec = demo_store_jcs,
     input_to_vec = (\<lambda>i. Some (as_bytes (demo_store_input i))), basis_to_vec = (\<lambda>_. Some (as_bytes ''b'')),
     occurrence_to_string = (\<lambda>_. ''00000000-0000-0000-0000-000000000001''), schema_sql = ''schema'',
     snapshot_codec = demo_snapshot_codec, evidence_codec = demo_evidence_codec,
     issuance_codec = demo_issuance_codec, human_codec = Codec (\<lambda>_. None) (\<lambda>_. None),
     refusal_codec = Codec (\<lambda>_. None) (\<lambda>_. None),
     store_event_to_vec = (\<lambda>i. Some (as_bytes [last (as_str (sed_successor_state_digest i))])),
     spend_to_vec = (\<lambda>_. Some (as_bytes ''T'')), custody_to_vec = (\<lambda>_. None), settlement_to_vec = (\<lambda>_. None),
     residual_ids_to_vec = (\<lambda>_. None), catalog_v1_to_vec = (\<lambda>_. None),
     catalog_v2_to_vec = (\<lambda>_. Some (as_bytes ''z'')), catalog_decision_to_vec = (\<lambda>_. Some (as_bytes ''y'')),
     exhausted_to_vec = (\<lambda>_. None), jcs_error_text = (\<lambda>_. [])\<rparr>"

section \<open>Evaluation\<close>

lemma letter_digest_text [simp]: "as_str (letter_digest c) = as_str (letter_digest d) \<longleftrightarrow> c = d"
proof
  assume "as_str (letter_digest c) = as_str (letter_digest d)"
  then have "demo_hex_pairs (demo_hex_encode (replicate 32 (of_char c)))
      = demo_hex_pairs (demo_hex_encode (replicate 32 (of_char d)))"
    by (simp add: letter_digest_def)
  then show "c = d" by (simp add: demo_hex_roundtrip)
qed simp

lemma letter_digest_inject [simp]: "letter_digest c = letter_digest d \<longleftrightarrow> c = d"
  using letter_digest_text by metis

lemma hex_encode_empty [simp]: "demo_hex_encode b = [] \<longleftrightarrow> b = []"
  by (cases b) auto

lemma last_hex_encode: "b \<noteq> [] \<Longrightarrow> last (demo_hex_encode b) = hex_digit (unat (last b) mod 16)"
  by (induction b rule: demo_hex_encode.induct) auto

lemma letter_digest_last [simp]:
  "last (as_str (letter_digest CHR ''g'')) = CHR ''7''" "last (as_str (letter_digest CHR ''h'')) = CHR ''8''"
  "last (as_str (letter_digest CHR ''u'')) = CHR ''5''"
proof -
  have "hex_digit 7 = CHR ''7''" "hex_digit 8 = CHR ''8''" "hex_digit 5 = CHR ''5''" by code_simp+
  then show "last (as_str (letter_digest CHR ''g'')) = CHR ''7''" "last (as_str (letter_digest CHR ''h'')) = CHR ''8''"
      "last (as_str (letter_digest CHR ''u'')) = CHR ''5''"
    by (simp_all add: letter_digest_def last_hex_encode)
qed

lemma as_bytes_empty [simp]: "as_bytes s = [] \<longleftrightarrow> s = []"
  by (simp add: as_bytes_def)

lemma demo_store_sha: "s \<noteq> [] \<Longrightarrow> demo_store_sha256 (hash_domain_preimage d (as_bytes s)) = replicate 32 (of_char (last s))"
  by (simp add: demo_store_sha256_def hash_domain_preimage_def) (simp add: as_bytes_def last_map)

lemma demo_store_hash [simp]:
  "s \<noteq> [] \<Longrightarrow> hash_domain demo_store_lib d (as_bytes s) = letter_digest (last s)"
  "s \<noteq> [] \<Longrightarrow> hash_domain demo_store_base d (as_bytes s) = letter_digest (last s)"
  by (simp_all add: hash_domain_def demo_store_lib_def demo_store_base_def demo_store_sha letter_digest_def)

lemma demo_store_canonicalize [simp]:
  "jcs_canonicalize demo_store_lib f v = ok_or (f v) Serialization"
  "jcs_canonicalize demo_store_base f v = ok_or (f v) Serialization"
  by (cases "f v"; simp add: jcs_canonicalize_def parse_strict_value_def demo_store_lib_def demo_store_base_def)+

lemma demo_store_document [simp]: "from_canonical_bytes demo_store_lib b = Ok b"
  by (simp add: from_canonical_bytes_def jcs_parse_def parse_strict_value_def demo_store_lib_def)

lemma demo_store_hex: "hex_law demo_store_lib" and demo_store_sha_law: "sha256_law demo_store_lib"
  by (auto simp: hex_law_def sha256_law_def demo_store_lib_def demo_store_sha256_def demo_hex_decode_def
      demo_hex_roundtrip)

lemma letter_digest_canonical: "canonical_digest_text (as_str (letter_digest c))"
  by (simp add: canonical_digest_text_def letter_digest_def demo_hex_roundtrip)

lemma demo_store_parse [simp]: "parse_digest demo_store_lib (as_str (letter_digest c)) = Ok (letter_digest c)"
  using letter_digest_canonical by (simp add: parse_digest_Ok demo_store_hex)

lemma demo_store_parse_ref [simp]:
  "is_lower_hex c \<Longrightarrow> parse_digest demo_store_lib (as_str (demo_ref c)) = Ok (demo_ref c)"
  by (simp add: parse_digest_Ok demo_store_hex canonical_digest_text_def demo_ref_def list_all_iff)

lemma demo_store_fields [simp]:
  "input_to_vec demo_store_lib i = Some (as_bytes (demo_store_input i))" "input_to_vec demo_store_base i = Some (as_bytes (demo_store_input i))"
  "occurrence_to_string demo_store_lib x = ''00000000-0000-0000-0000-000000000001''"
  "schema_sql demo_store_lib = ''schema''"
  "snapshot_codec demo_store_lib = demo_snapshot_codec" "evidence_codec demo_store_lib = demo_evidence_codec"
  "issuance_codec demo_store_lib = demo_issuance_codec"
  "human_codec demo_store_lib = Codec (\<lambda>_. None) (\<lambda>_. None)"
  "refusal_codec demo_store_lib = Codec (\<lambda>_. None) (\<lambda>_. None)"
  "store_event_to_vec demo_store_lib e = Some (as_bytes [last (as_str (sed_successor_state_digest e))])"
  by (simp_all add: demo_store_lib_def demo_store_base_def)

lemma demo_store_input_filled [simp]: "demo_store_input i \<noteq> []"
  by (cases i) (auto split: OccurrenceStateV1.split)

lemma demo_store_digest_value [simp]:
  "digest_value demo_store_lib d i = letter_digest (last (demo_store_input i))"
  "digest_value demo_store_base d i = letter_digest (last (demo_store_input i))"
  by (simp_all add: digest_value_def)

lemma demo_store_event [simp]:
  "store_event_digest demo_store_lib c so to k p n e q r = letter_digest (last (as_str n))"
  by (simp add: store_event_digest_def)

lemma demo_store_encode [simp]:
  "encode demo_store_lib f v = map_err (\<lambda>e. Canonical (Jcs e)) (ok_or (f v) Serialization)"
  "decode demo_store_lib g b = map_err (\<lambda>e. Canonical (Jcs e)) (ok_or (g b) Deserialization)"
  by (simp_all add: encode_def decode_def)

lemma store_genesis_simps [simp]:
  "snap_state store_genesis = ObservationRequired \<lparr>obr_meta = demo_meta, obr_prior = None\<rparr>"
  "snap_state_digest store_genesis = letter_digest CHR ''g''"
  "snap_prior_state_digest store_genesis = letter_digest CHR ''x''"
  by (simp_all add: store_genesis_def Let_def state_digest_def)

lemma store_halted_simps [simp]:
  "snap_state store_halted = halted_state store_genesis demo_meta demo_reason"
  "snap_state_digest store_halted = letter_digest CHR ''h''"
  "snap_prior_state_digest store_halted = letter_digest CHR ''g''"
  by (simp_all add: store_halted_def halted_state_def state_digest_def)

lemma store_updated_simps [simp]:
  "snap_state store_updated = halted_state store_genesis
     (demo_meta\<lparr>meta_used_human_decisions := [HumanDecisionIdV1 (demo_ref CHR ''d'')]\<rparr>) demo_reason"
  "snap_state_digest store_updated = letter_digest CHR ''u''"
  "snap_prior_state_digest store_updated = letter_digest CHR ''h''"
  by (simp_all add: store_updated_def halted_state_def state_digest_def)

lemma store_snapshots_intact [simp]:
  "intact demo_store_lib store_genesis" "intact demo_store_lib store_halted" "intact demo_store_lib store_updated"
  by (simp_all add: intact_iff validate_state_ok halted_state_def current_prior_basis_def state_digest_def)

lemma demo_snapshots_read:
  "(t, s) \<in> set demo_snapshots \<Longrightarrow> codec_from_slice demo_snapshot_codec (as_bytes t) = Some s"
  by (auto simp: demo_snapshots_def) (simp_all add: demo_snapshot_codec_def demo_snapshots_def)

lemma demo_snapshot_law: "codec_law demo_store_lib demo_snapshot_codec"
proof -
  have "codec_from_slice demo_snapshot_codec b = Some s" if b: "codec_to_vec demo_snapshot_codec s = Some b" for s b
  proof -
    obtain t x where "find (\<lambda>(_, x). snap_state_digest x = snap_state_digest s \<and> x = s) demo_snapshots = Some (t, x)"
        "b = as_bytes t"
      using b by (auto simp: demo_snapshot_codec_def)
    then have "(t, s) \<in> set demo_snapshots" "b = as_bytes t" by (auto simp: find_Some_iff in_set_conv_nth)
    then show ?thesis by (simp add: demo_snapshots_read)
  qed
  then show ?thesis by (simp add: codec_law_def ok_or_def split: option.splits)
qed

lemma demo_codec_laws:
  "codec_law demo_store_lib demo_evidence_codec" "codec_law demo_store_lib demo_issuance_codec"
  "codec_law demo_store_lib (Codec (\<lambda>_. None) f)"
  by (auto simp: codec_law_def demo_evidence_codec_def demo_issuance_codec_def
      split: if_splits CampaignTransitionEvidenceV1.splits option.splits)

lemma store_laws_demo: "store_laws demo_store_lib"
  by (simp add: store_laws_def demo_store_hex demo_store_sha_law input_serializes_def demo_snapshot_law demo_codec_laws is_ok_iff)

section \<open>The store\<close>

definition demo_occurrence :: string where
  "demo_occurrence = ''00000000-0000-0000-0000-000000000001''"

definition store_row :: "OccurrenceSnapshotV1 \<Rightarrow> string option \<Rightarrow> CampaignTransitionKindV1 \<Rightarrow> string \<Rightarrow> string \<Rightarrow> Digest
    \<Rightarrow> Digest \<Rightarrow> int \<Rightarrow> transition_row" where
  "store_row s source kind jcs evidence previous event now =
     \<lparr>tr_campaign_id = as_str (demo_ref CHR ''a''), tr_source_occurrence_id = source,
      tr_successor_occurrence_id = demo_occurrence, tr_transition_kind = kind_as_str kind,
      tr_predecessor_state_digest = as_str (snap_prior_state_digest s),
      tr_successor_state_digest = as_str (snap_state_digest s), tr_successor_snapshot_jcs = as_bytes jcs,
      tr_evidence_jcs = as_bytes evidence, tr_evidence_digest = as_str (letter_digest (last evidence)),
      tr_previous_event_digest = as_str previous, tr_event_digest = as_str event, tr_recorded_at_unix_ms = now\<rparr>"

definition created_store :: campaign_db where
  "created_store = \<lparr>db_application_id = uint CAMPAIGN_STORE_APPLICATION_ID,
     db_user_version = uint CAMPAIGN_STORE_SCHEMA_VERSION, db_quick_check = ''ok'',
     db_identity = Some (uint CAMPAIGN_STORE_APPLICATION_ID, CAMPAIGN_STORE_SCHEMA_NAME,
       uint CAMPAIGN_STORE_SCHEMA_VERSION, as_str (letter_digest CHR ''a'')),
     db_runtime_profile = None,
     db_campaigns = [\<lparr>cr_campaign_id = as_str (demo_ref CHR ''a''), cr_current_occurrence_id = demo_occurrence,
       cr_current_state_digest = as_str (letter_digest CHR ''g''), cr_revision = 1, cr_event_count = 1,
       cr_event_head_digest = as_str (letter_digest CHR ''7'')\<rparr>],
     db_occurrences = [occurrence_columns demo_store_lib store_genesis 1 (as_bytes ''G'')],
     db_transitions = [(1, store_row store_genesis None K_CampaignCreated ''G'' ''E''
       (letter_digest CHR ''a'') (letter_digest CHR ''7'') 1)],
     db_spends = [], db_attempts = [], db_settlements = [], db_humans = [], db_discharges = [], db_refusals = []\<rparr>"

definition created_transition :: StoredTransitionRow where
  "created_transition = \<lparr>str_source_occurrence = None, str_successor_occurrence = demo_occurrence,
     str_kind = K_CampaignCreated, str_predecessor = letter_digest CHR ''x'',
     str_successor = letter_digest CHR ''g'', str_snapshot = store_genesis, str_evidence = Ev_Genesis None,
     str_evidence_digest = letter_digest CHR ''E'', str_previous_event = letter_digest CHR ''a'',
     str_event = letter_digest CHR ''7'', str_recorded_at_unix_ms = 1\<rparr>"

lemma demo_texts [simp]:
  "is_lower_hex CHR ''0''" "is_lower_hex CHR ''a''" "is_lower_hex CHR ''d''"
  "campaign_text (CampaignId (demo_ref c)) = as_str (demo_ref c)"
  "last (as_str (demo_ref c)) = c" "as_str (demo_ref c) \<noteq> []"
  by (simp_all add: is_lower_hex_def less_eq_char_def campaign_text_def demo_ref_def)

lemma demo_event_genesis [simp]: "event_genesis demo_store_lib (CampaignId (demo_ref c)) = letter_digest c"
  by (simp add: event_genesis_def)

lemma demo_codec_simps [simp]:
  "codec_to_vec demo_snapshot_codec store_genesis = Some (as_bytes ''G'')"
  "codec_to_vec demo_snapshot_codec store_halted = Some (as_bytes ''H'')"
  "codec_to_vec demo_snapshot_codec store_updated = Some (as_bytes ''U'')"
  "codec_from_slice demo_snapshot_codec (as_bytes ''G'') = Some store_genesis"
  "codec_from_slice demo_snapshot_codec (as_bytes ''H'') = Some store_halted"
  "codec_to_vec demo_evidence_codec (Ev_Genesis None) = Some (as_bytes ''E'')"
  "codec_to_vec demo_evidence_codec Ev_None = Some (as_bytes ''N'')"
  "codec_from_slice demo_evidence_codec (as_bytes ''E'') = Some (Ev_Genesis None)"
  by (simp_all add: demo_snapshot_codec_def demo_snapshots_def demo_evidence_codec_def)

lemma created_row_read:
  "read_transition demo_store_lib (store_row store_genesis None K_CampaignCreated ''G'' ''E''
     (letter_digest CHR ''a'') (letter_digest CHR ''7'') 1) = Ok created_transition"
  by (simp add: read_transition_def store_row_def created_transition_def to_u64_def kind_parse_as_str
      del: kind_as_str.simps)

lemma created_journal: "journal_rows created_store (CampaignId (demo_ref CHR ''a'')) =
    [store_row store_genesis None K_CampaignCreated ''G'' ''E''
     (letter_digest CHR ''a'') (letter_digest CHR ''7'') 1]"
  by (simp add: journal_rows_def created_store_def store_row_def)

definition created_state :: replay_state where
  "created_state = \<lparr>rs_index = 1, rs_previous_snapshot = Some store_genesis,
     rs_previous_event = letter_digest CHR ''7'', rs_latest_occurrences = [(demo_occurrence, store_genesis)],
     rs_spends = [], rs_attempts = [], rs_settlements = [], rs_human_decisions = {}, rs_human_artifacts = []\<rparr>"

lemma created_walk:
  "replay_row demo_store_lib (CampaignId (demo_ref CHR ''a'')) None (replay_start demo_store_lib (CampaignId (demo_ref CHR ''a'')))
     created_transition = Ok created_state"
  unfolding replay_row_iff
  by (simp add: created_state_def created_transition_def replay_start_def replay_binding_def replay_genesis_def
      replay_spend_def replay_attempt_def replay_settlement_def replay_human_def demo_occurrence_def)

lemma created_store_replays: "replays demo_store_lib created_store"
proof -
  have "replayed demo_store_lib created_store (hd (db_campaigns created_store)) (CampaignId (demo_ref CHR ''a'')) None
      [created_transition] created_state"
    unfolding replayed_def
    by (simp add: created_journal created_row_read created_walk)
      (simp add: created_store_def created_state_def verify_head_def to_u64_def stored_profile_digest_def btree_collect_def
        verify_occurrence_materialization_def verify_occurrence_row_def occurrence_columns_def demo_occurrence_def)
  moreover have "humans_accounted demo_store_lib created_store created_state"
    by (simp add: humans_accounted_iff created_store_def created_state_def btree_collect_def)
  moreover have "verify_refusals demo_store_lib created_store (CampaignId (demo_ref CHR ''a'')) [created_transition] = Ok ()"
    by (simp add: verify_refusals_def created_store_def)
  moreover have "verify_identity demo_store_lib created_store = Ok ()"
    by (simp add: verify_identity_def created_store_def get_u32_def runtime_profile_def schema_digest_def
        CAMPAIGN_STORE_APPLICATION_ID_def CAMPAIGN_STORE_SCHEMA_VERSION_def)
  ultimately show ?thesis unfolding replays_iff by blast
qed

lemma demo_store_created: "create_with_runtime_profile demo_store_lib store_genesis None 1 = Ok created_store"
proof -
  have id: "verify_identity demo_store_lib created_store = Ok ()"
    using created_store_replays unfolding replays_iff by blast
  obtain report where rep: "store_replay demo_store_lib created_store = Ok report"
    using created_store_replays by (auto simp: is_ok_iff)
  have db: "empty_db\<lparr>db_identity := Some (uint CAMPAIGN_STORE_APPLICATION_ID, CAMPAIGN_STORE_SCHEMA_NAME,
          uint CAMPAIGN_STORE_SCHEMA_VERSION, as_str (letter_digest CHR ''a'')),
        db_application_id := uint CAMPAIGN_STORE_APPLICATION_ID, db_user_version := uint CAMPAIGN_STORE_SCHEMA_VERSION,
        db_campaigns := db_campaigns created_store, db_occurrences := db_occurrences created_store,
        db_transitions := db_transitions created_store\<rparr> = created_store"
    by (simp add: empty_db_def created_store_def)
  show ?thesis
    unfolding create_with_runtime_profile_def
    using id rep db
    by (simp add: bind_runtime_profile_def schema_digest_def Let_def insert_occurrence_def to_i64_def
        statement_defs campaign_exists_def occurrence_exists_def positive_i64_def next_sequence_def
        empty_db_def created_store_def store_row_def demo_occurrence_def occurrence_columns_def)
qed

definition halted_store :: campaign_db where
  "halted_store = created_store\<lparr>
     db_campaigns := [\<lparr>cr_campaign_id = as_str (demo_ref CHR ''a''), cr_current_occurrence_id = demo_occurrence,
       cr_current_state_digest = as_str (letter_digest CHR ''h''), cr_revision = 2, cr_event_count = 2,
       cr_event_head_digest = as_str (letter_digest CHR ''8'')\<rparr>],
     db_occurrences := [occurrence_columns demo_store_lib store_halted 2 (as_bytes ''H'')],
     db_transitions := db_transitions created_store @ [(2, store_row store_halted (Some demo_occurrence) K_Halted
       ''H'' ''N'' (letter_digest CHR ''7'') (letter_digest CHR ''8'') 2)]\<rparr>"

lemma demo_store_accepts:
  "accepted demo_store_lib store_genesis store_halted" "accepted demo_store_lib store_halted store_updated"
proof -
  have "legal_move demo_store_lib store_genesis store_halted"
    by (rule legal_move.stop [OF store_halted_simps(1) [unfolded halted_state_def]])
      (simp_all add: is_safe_halt_source_def validate_halt_successor_ok current_prior_basis_def
        budget_same_or_one_escalation_def)
  moreover have "legal_move demo_store_lib store_halted store_updated"
    by (rule legal_move.halt_update [OF store_halted_simps(1) [unfolded halted_state_def]
          store_updated_simps(1) [unfolded halted_state_def]]) (simp add: validate_human_halt_update_ok)
  ultimately show "accepted demo_store_lib store_genesis store_halted" "accepted demo_store_lib store_halted store_updated"
    by (simp_all add: validate_successor_iff)
qed

lemma demo_store_halts:
  "\<exists>receipt. store_commit demo_store_lib store_genesis store_halted K_Halted 2 created_store = Ok (halted_store, receipt)"
  by (simp add: store_commit_def validate_transition_kind_def write_transition_def demo_store_accepts Let_def
      campaign_head_def created_store_def to_u64_def to_i64_def write_occurrence_def account_new_facts_def
      account_spend_def account_attempt_def account_settlement_def advance_head_def statement_defs
      campaign_exists_def positive_i64_def next_sequence_def saturating_add_def store_row_def demo_occurrence_def occurrence_columns_def
      halted_store_def halted_state_def)

lemma demo_store_updates:
  "is_ok (store_commit demo_store_lib store_halted store_updated K_Halted 3 halted_store)"
  by (simp add: store_commit_def validate_transition_kind_def write_transition_def demo_store_accepts Let_def is_ok_iff
      campaign_head_def created_store_def to_u64_def to_i64_def write_occurrence_def account_new_facts_def
      account_spend_def account_attempt_def account_settlement_def advance_head_def statement_defs
      campaign_exists_def positive_i64_def next_sequence_def saturating_add_def store_row_def demo_occurrence_def occurrence_columns_def
      halted_store_def halted_state_def)

lemma demo_halted_reached: "reach (store_created demo_store_lib) (store_step demo_store_lib) halted_store"
proof -
  have "store_created demo_store_lib created_store"
    using demo_store_created by (rule store_created.intros)
  moreover have "store_current demo_store_lib created_store = Ok store_genesis"
    by (simp add: store_current_def created_store_def load_snapshot_def occurrence_columns_def demo_occurrence_def)
  then have "store_step demo_store_lib created_store halted_store"
    using demo_store_halts store_step.commit_step [of demo_store_lib created_store store_genesis store_halted]
    by (auto simp: halted_state_def)
  ultimately show ?thesis by (blast intro: reach.intros)
qed

lemma demo_halted_replays: "replays demo_store_lib halted_store"
  using store_invariant.reach_inv [OF demo_halted_reached] store_laws_demo by blast

lemma demo_halted_current: "store_current demo_store_lib halted_store = Ok store_halted"
  by (simp add: store_current_def halted_store_def created_store_def load_snapshot_def occurrence_columns_def
      demo_occurrence_def halted_state_def)

section \<open>Properties\<close>

text \<open>C5. A store that was created and then changed by refusals, human dispositions and commits and interventions on
  top of the current snapshot opens, provided that the successors given to \<open>commit\<close> and
  \<open>commit_governed_intervention\<close> consume no human decision. The proviso is exact: on such a store the next
  refusal or human disposition leaves a store that opens, and the next commit or intervention does so if
  and only if its successor consumes no human decision.\<close>

theorem reachable_store_opens:
  assumes "store_laws L" and "reach (store_created L) (store_step L) db"
  shows "open_store L db = Ok db
    \<and> (\<forall>refusal now db' identity. record_refusal L refusal now db = Ok (db', identity) \<longrightarrow> open_store L db' = Ok db')
    \<and> (\<forall>e eff artifact now db' receipts. store_current L db = Ok e
         \<and> commit_human_disposition L e eff artifact now db = Ok (db', receipts) \<longrightarrow> open_store L db' = Ok db')
    \<and> (\<forall>e t kind now db' receipt. store_current L db = Ok e \<and> store_commit L e t kind now db = Ok (db', receipt) \<longrightarrow>
         is_ok (open_store L db') = (used_decisions t = used_decisions e))
    \<and> (\<forall>e t kind v now db' receipt. store_current L db = Ok e
         \<and> commit_governed_intervention L e t kind v now db = Ok (db', receipt) \<longrightarrow>
         is_ok (open_store L db') = (used_decisions t = used_decisions e))"
proof -
  have db: "replays L db" using store_invariant.reach_inv [OF assms(2)] assms(1) by blast
  have opens: "open_store L db' = Ok db'" if "replays L db'" for db'
    using that opens_iff_replays(1) [of L db'] by simp
  show ?thesis
    unfolding opens_iff_replays(2)
    by (intro conjI allI impI; (elim conjE)?)
      (rule opens [OF db], rule opens, erule refusal_replays [OF assms(1) db],
        rule opens, erule (1) human_replays(1) [OF assms(1) db],
        erule (1) commit_replays(1) [OF assms(1) db], erule (1) intervention_replays(1) [OF assms(1) db])
qed

theorem reachable_store_opens_witness:
  "open_store demo_store_lib halted_store = Ok halted_store
   \<and> (\<exists>db' receipt. store_commit demo_store_lib store_halted store_updated K_Halted 3 halted_store = Ok (db', receipt)
        \<and> \<not> is_ok (open_store demo_store_lib db'))"
proof -
  note opens = reachable_store_opens [OF store_laws_demo demo_halted_reached]
  obtain db' receipt where c: "store_commit demo_store_lib store_halted store_updated K_Halted 3 halted_store = Ok (db', receipt)"
    using demo_store_updates by (auto simp: is_ok_iff)
  have "is_ok (open_store demo_store_lib db') = (used_decisions store_updated = used_decisions store_halted)"
    by (rule opens [THEN conjunct2, THEN conjunct2, THEN conjunct2, THEN conjunct1, rule_format,
          OF conjI [OF demo_halted_current c]])
  then have "\<not> is_ok (open_store demo_store_lib db')" by (simp add: halted_state_def)
  with opens [THEN conjunct1] c show ?thesis by blast
qed

text \<open>C6. A store that replays is one campaign, table by table. The snapshots of its decoded journal start at a
  genesis and follow each other through the membrane, and \<open>current\<close> loads the last of them. Every column of the
  spend, attempt and settlement tables is that of the first snapshot of the chain that carries the fact;
  the occurrence rows are the last snapshots of the occurrences; the human dispositions and the
  residual discharges are exactly those of the evidence in the journal, and the dispositions are the
  decisions the campaign used since its genesis; every refusal was made at a snapshot of the chain.\<close>

theorem replayed_store_is_a_membrane_chain:
  assumes "store_laws L" and "store_replay L db = Ok report" and "c = rep_campaign report"
  shows "\<exists>ts ss. ss = map str_snapshot ts \<and> ss \<noteq> []
    \<and> list_all2 (\<lambda>row t. read_transition L row = Ok t) (journal_rows db c) ts
    \<and> is_run (\<lambda>s t. validate_successor L s t = Ok ()) ss \<and> genesis_snapshot L (hd ss)
    \<and> store_current L db = Ok (last ss)
    \<and> map_of (btree_collect (db_spends db)) = map_of (spend_rows L ss)
    \<and> map_of (btree_collect (db_attempts db)) = map_of (attempt_rows L ss)
    \<and> map_of (btree_collect (db_settlements db)) = map_of (settlement_rows L ss)
    \<and> {or_occurrence_id r | r. r \<in> set (db_occurrences db) \<and> or_campaign_id r = campaign_text c} = dom (latest_snapshot L ss)
    \<and> (\<forall>r \<in> set (db_occurrences db). or_campaign_id r = campaign_text c \<longrightarrow> materializes L ss r)
    \<and> (\<exists>humans. list_all2 (\<lambda>row h. read_human row = Ok h) (db_humans db) humans
         \<and> set (btree_collect humans) = human_rows L ts)
    \<and> fst ` set (db_humans db) = decision_text ` (used_decisions (last ss) - used_decisions (hd ss))
    \<and> set (btree_collect (db_discharges db)) = discharge_rows L ts
    \<and> (\<forall>entry \<in> set (db_refusals db). \<exists>s \<in> set ss. refused_at L c s entry)"
proof -
  obtain row p ts s where r: "replayed L db row c p ts s" "humans_accounted L db s" "verify_refusals L db c ts = Ok ()"
    using replay_report [OF assms(2)] unfolding assms(3) by metis
  have fold: "try_fold (replay_row L c p) (replay_start L c) ts = Ok s" and ts: "ts \<noteq> []"
    and rows: "try_map (read_transition L) (journal_rows db c) = Ok ts"
    using r(1) by (simp_all add: replayed_def)
  obtain humans where h: "try_map read_human (db_humans db) = Ok humans" "rs_human_artifacts s = btree_collect humans"
      "try_fold (expected_discharge L) [] (rs_human_artifacts s) = Ok (btree_collect (db_discharges db))"
    using r(2) unfolding humans_accounted_iff by metis
  have "store_current L db = Ok (last (map str_snapshot ts))"
    using current_of_replayed [OF _ r(1)] assms(1) ts by (simp add: store_laws_def last_map)
  moreover have "fst ` set (db_humans db) = rs_human_decisions s" by (rule accounted_decisions [OF r(2)])
  moreover have "set (btree_collect (db_discharges db)) = discharge_rows L ts"
    using replayed_discharges [OF _ fold h(3)] assms(1) by (simp add: store_laws_def)
  ultimately show ?thesis
    using replayed_chain [OF r(1)] table_rows [OF r(1)] replayed_occurrences [OF r(1)] ts try_map_all2 [OF rows]
      try_map_all2 [OF h(1)] replayed_humans(1) [OF fold] h(2) replayed_refusals [OF fold r(3)]
    unfolding chain_replayed_def
    by (intro exI [of _ ts] exI [of _ "map str_snapshot ts"] conjI exI [of _ humans] ballI impI) (simp_all only: map_is_Nil_conv not_False_eq_True)
qed

theorem replayed_store_is_a_membrane_chain_witness:
  "\<exists>ss. is_run (\<lambda>s t. validate_successor demo_store_lib s t = Ok ()) ss \<and> genesis_snapshot demo_store_lib (hd ss)
    \<and> last ss = store_halted \<and> map_of (btree_collect (db_spends halted_store)) = map_of (spend_rows demo_store_lib ss)"
proof -
  obtain report where "store_replay demo_store_lib halted_store = Ok report"
    using demo_halted_replays by (auto simp: is_ok_iff)
  from replayed_store_is_a_membrane_chain [OF store_laws_demo this refl] demo_halted_current show ?thesis by auto
qed

text \<open>C36. \<open>commit\<close> keeps a store readable exactly when its successor consumes no human decision: a successor
  that consumes a new one is accepted without its artifact, and the store does not replay afterwards.\<close>

theorem commit_keeps_the_store_readable_iff_plain:
  assumes "store_laws L" and "is_ok (store_replay L db)" and "store_current L db = Ok e"
    and "store_commit L e t kind now db = Ok (db', receipt)"
  shows "is_ok (store_replay L db') \<longleftrightarrow>
    set (meta_used_human_decisions (meta (snap_state t))) = set (meta_used_human_decisions (meta (snap_state e)))"
  using commit_replays(1) [OF assms] .

theorem commit_keeps_the_store_readable_iff_plain_witness:
  "\<exists>db' receipt. store_commit demo_store_lib store_halted store_updated K_Halted 3 halted_store = Ok (db', receipt)
    \<and> \<not> is_ok (store_replay demo_store_lib db')"
proof -
  obtain db' receipt where c: "store_commit demo_store_lib store_halted store_updated K_Halted 3 halted_store = Ok (db', receipt)"
    using demo_store_updates by (auto simp: is_ok_iff)
  have "\<not> is_ok (store_replay demo_store_lib db')"
    using commit_keeps_the_store_readable_iff_plain [OF store_laws_demo demo_halted_replays demo_halted_current c]
    by (simp add: halted_state_def)
  with c show ?thesis by blast
qed

end
