(* ===== verification/Engine_Scenario.thy ===== *)
theory Engine_Scenario
  imports Engine_Runs Store_Scenario
begin

text \<open>
  What a successful engine call establishes, the theorems about the engine, and their instances on the
  concrete campaign of the store.
\<close>

section \<open>Successful calls\<close>

lemma engine_simps [simp]:
  "engine_result r db = (db', x) \<longleftrightarrow> db' = db \<and> r = x"
  "store_read g db = (db', x) \<longleftrightarrow> db' = db \<and> map_err Eng_Store (g db) = x"
  by (auto simp: engine_result_def store_read_def)

lemma engine_then_Ok [simp]:
  "engine_then m f db = (db', Ok b) \<longleftrightarrow> (\<exists>db1 a. m db = (db1, Ok a) \<and> f a db1 = (db', Ok b))"
  by (auto simp: engine_then_def split: prod.splits sum.splits)

lemma engine_then_run:
  "m db = (db1, Ok a) \<Longrightarrow> engine_then m f db = f a db1"
  "m db = (db1, Err e) \<Longrightarrow> engine_then m f db = (db1, Err e)"
  by (simp_all add: engine_then_def)

lemma commit_successor_Ok [simp]:
  "commit_successor L c kind now n db = (db', Ok a) \<longleftrightarrow>
     a = n \<and> (\<exists>receipt. store_commit L c n kind now db = Ok (db', receipt))"
  by (auto simp: commit_successor_def store_write_def split: sum.splits)

lemma check_plan_binding_Ok [simp]:
  "check_plan_binding L plan work db = (db', Ok x) \<longleftrightarrow> db' = db \<and>
     (\<exists>profile. runtime_profile L db = Ok (Some profile) \<and> srp_digest profile = pw_runtime_profile plan
       \<and> pw_work plan = work)"
  by (auto simp: check_plan_binding_def)

lemma admits_plan_Ok [simp]:
  "admits_plan e work plan = Ok x \<longleftrightarrow>
     (\<forall>admitted. en2_admitted_plans e = Some admitted \<longrightarrow>
       (\<exists>w. plan = Some w \<and> pw_work w = work \<and> pw_enrolled_plan w \<in> admitted))"
  by (auto simp: admits_plan_def split: option.splits)

lemma check_proposal_plan_same: "check_proposal_plan L c catalog plan db = (db', Ok x) \<Longrightarrow> db' = db"
  by (auto simp: check_proposal_plan_def split: option.splits)

lemma check_proposal_plan_bound:
  assumes "check_proposal_plan L c catalog plan db = (db', Ok x)"
    and "proposal_basis (snap_state c) = Some basis" and "plan = Some w"
  shows "\<exists>profile. runtime_profile L db = Ok (Some profile) \<and> srp_digest profile = pw_runtime_profile w"
  using assms by (auto simp: check_proposal_plan_def)

lemma catalog_decision_Ok:
  assumes "catalog_decision L domain policy admitted request = Ok d"
  shows "ad_policy_basis d = policy \<and> (ad_disposition d = Admitted \<longleftrightarrow> admitted)"
  using assms by (auto simp: catalog_decision_def Let_def split: if_splits)

lemma admitted_v2_entry:
  assumes "decide_admissibility_v2 L catalog policy plan r = Ok d" and "ad_disposition d = Admitted"
  obtains entry where "map_of (cat2_entries catalog) (prop_work_schema (areq_proposal r)) = Some entry"
    "en2_subject entry = prop_subject (areq_proposal r)" "en2_scope entry = prop_scope (areq_proposal r)"
    "requirement_holds_over (en2_observation_basis entry) (areq_observation r)"
    "is_ok (admits_plan entry (prop_work (areq_proposal r)) plan)" "ad_policy_basis d = policy"
  using assms
  by (auto simp: decide_admissibility_v2_def Let_def dest!: catalog_decision_Ok split: option.splits)

section \<open>The campaign under the engine\<close>

lemma demo_engine_created:
  "engine_create demo_store_lib (CampaignId (demo_ref CHR ''a'')) (OccurrenceId 1) (ProgramBasisRefV1 (demo_ref CHR ''b''))
     (demo_ref CHR ''c'') (ResidualSetV1 []) demo_budget 1 = Ok created_store"
proof -
  have "create_initial demo_store_lib (CampaignId (demo_ref CHR ''a'')) (OccurrenceId 1)
      (ProgramBasisRefV1 (demo_ref CHR ''b'')) (demo_ref CHR ''c'') (ResidualSetV1 []) demo_budget = Ok store_genesis"
    using store_snapshots_intact(1)
    by (simp add: create_initial_def store_genesis_def Let_def demo_meta_def demo_key_def [of 1] state_digest_def)
  then show ?thesis by (simp add: engine_create_def demo_store_created)
qed

lemma demo_created_current: "store_current demo_store_lib created_store = Ok store_genesis"
  by (simp add: store_current_def created_store_def load_snapshot_def occurrence_columns_def demo_occurrence_def)

lemma demo_engine_halts: "engine_halt demo_store_lib demo_reason 2 created_store = (halted_store, Ok store_halted)"
proof -
  have "halt demo_store_lib store_genesis demo_reason = Ok store_halted"
    using store_snapshots_intact(2)
    by (simp add: halt_ok seal_ok is_safe_halt_source_def)
      (simp add: store_halted_def halted_state_def state_digest_def)
  then show ?thesis using demo_store_halts by (simp add: engine_halt_def demo_created_current)
qed

lemma demo_engine_reached: "reach (engine_created demo_store_lib) (engine_step demo_store_lib) halted_store"
proof -
  have "engine_created demo_store_lib created_store"
    by (rule engine_created.intros(1) [OF _ demo_engine_created]) (simp add: canonical_residuals_iff)
  moreover have "engine_step demo_store_lib created_store halted_store"
    using demo_engine_halts by (rule engine_step.intros)
  ultimately show ?thesis by (blast intro: reach.intros)
qed

definition engine_catalog :: ExactWorkCatalogV2 where
  "engine_catalog = \<lparr>cat2_schema = EXACT_WORK_CATALOG_SCHEMA_V2, cat2_entries =
     [(EFFECT_EXECUTOR_SYSTEMD_WORK_SCHEMA_V2, \<lparr>en2_work_schema = EFFECT_EXECUTOR_SYSTEMD_WORK_SCHEMA_V2,
       en2_subject = demo_ref CHR ''d'', en2_scope = demo_ref CHR ''e'', en2_observation_basis = TypedBasis demo_basis,
       en2_admitted_plans = Some {demo_ref CHR ''E''}, en2_postcondition_basis = None\<rparr>)]\<rparr>"

definition engine_plan :: ExactPlanWitnessV1 where
  "engine_plan = \<lparr>pw_work = demo_ref CHR ''c'', pw_enrolled_plan = demo_ref CHR ''E'',
     pw_runtime_profile = letter_digest CHR ''q''\<rparr>"

definition engine_inputs :: decision_inputs where
  "engine_inputs = \<lparr>dec_observation_resolver = (\<lambda>r. Ok (engine_observation (oreq_key r) (oreq_observation r)
       (oreq_subject r) (oreq_now_unix_ms r))),
     dec_standing_resolver = demo_stand, dec_controlling_review = None, dec_observation_resolver_id = ''nightshift'',
     dec_standing_resolver_id = ''standing'', dec_max_standing_ttl_ms = 60, dec_now_unix_ms = 102\<rparr>"

text \<open>A store at a given snapshot, with an empty journal.\<close>

definition store_at :: "OccurrenceSnapshotV1 \<Rightarrow> string \<Rightarrow> campaign_db" where
  "store_at s text = created_store\<lparr>
     db_runtime_profile := Some (''profile/v1'', as_str (letter_digest CHR ''q''), as_bytes ''q''),
     db_campaigns := [\<lparr>cr_campaign_id = as_str (demo_ref CHR ''a''), cr_current_occurrence_id = demo_occurrence,
       cr_current_state_digest = as_str (snap_state_digest s), cr_revision = 1, cr_event_count = 1,
       cr_event_head_digest = as_str (letter_digest CHR ''7'')\<rparr>],
     db_occurrences := [occurrence_columns demo_store_lib s 1 (as_bytes text)], db_transitions := []\<rparr>"

lemma engine_fields [simp]:
  "catalog_v2_to_vec demo_store_lib c = Some (as_bytes ''z'')"
  "catalog_decision_to_vec demo_store_lib d = Some (as_bytes ''y'')"
  "spend_to_vec demo_store_lib v = Some (as_bytes ''T'')"
  by (simp_all add: demo_store_lib_def)

lemma engine_letters [simp]:
  "last (as_str (letter_digest CHR ''p'')) = CHR ''0''" "last (as_str (letter_digest CHR ''s'')) = CHR ''3''"
  "last (as_str (letter_digest CHR ''d'')) = CHR ''4''" "last (as_str (letter_digest CHR ''r'')) = CHR ''2''"
  "last (as_str (letter_digest CHR ''x'')) = CHR ''8''"
proof -
  have "hex_digit 0 = CHR ''0''" "hex_digit 3 = CHR ''3''" "hex_digit 4 = CHR ''4''" "hex_digit 2 = CHR ''2''"
    "hex_digit 8 = CHR ''8''" by code_simp+
  then show "last (as_str (letter_digest CHR ''p'')) = CHR ''0''" "last (as_str (letter_digest CHR ''s'')) = CHR ''3''"
      "last (as_str (letter_digest CHR ''d'')) = CHR ''4''" "last (as_str (letter_digest CHR ''r'')) = CHR ''2''"
      "last (as_str (letter_digest CHR ''x'')) = CHR ''8''"
    by (simp_all add: letter_digest_def last_hex_encode)
qed

lemma engine_refs_differ [simp]: "c \<noteq> CHR ''8'' \<Longrightarrow> demo_ref c \<noteq> letter_digest CHR ''x''"
  by (metis engine_letters(5) demo_texts(5))

lemma engine_snapshot_simps [simp]:
  "snap_state store_pending = AdmissiblePendingAuthorization (engine_admitted 101)"
  "snap_state store_spent = AuthorizationConsumed engine_authorized"
  "snap_state store_dispatched = Dispatched engine_dispatch"
  "snap_state store_reconciling = ReconciliationRequired \<lparr>rr_dispatch = engine_dispatch,
     rr_indeterminate = engine_indeterminate (letter_digest CHR ''x'')\<rparr>"
  "snap_state_digest store_pending = letter_digest CHR ''p''" "snap_state_digest store_spent = letter_digest CHR ''s''"
  "snap_state_digest store_dispatched = letter_digest CHR ''d''"
  "snap_state_digest store_reconciling = letter_digest CHR ''r''"
  "snap_prior_state_digest store_pending = letter_digest CHR ''g''"
  "snap_prior_state_digest store_spent = letter_digest CHR ''p''"
  "snap_prior_state_digest store_dispatched = letter_digest CHR ''s''"
  "snap_prior_state_digest store_reconciling = letter_digest CHR ''d''"
  by (simp_all add: store_pending_def store_spent_def store_dispatched_def store_reconciling_def state_digest_def)

lemma engine_basis_simps [simp]:
  "ab_proposal (engine_admitted now) = engine_recorded now" "pb_meta (engine_recorded now) = demo_meta"
  "pb_observation (engine_recorded now) = engine_observation (demo_key 1) demo_obs_ref (demo_ref CHR ''d'') now"
  "pb_proposal (engine_recorded now) = engine_proposal" "pb_link (engine_recorded now) = LinkInitial"
  "pb_proposal_ref (engine_recorded now) = ProposalRefV1 (letter_digest CHR ''x'')"
  "ac_admitted engine_authorized = engine_admitted 102" "di_authorized engine_dispatch = engine_authorized"
  by (simp_all add: engine_admitted_def engine_recorded_def engine_authorized_def engine_dispatch_def Let_def)

lemma engine_proposal_simps [simp]:
  "proposal_validate engine_proposal = Ok ()" "prop_campaign engine_proposal = CampaignId (demo_ref CHR ''a'')"
  "prop_subject engine_proposal = demo_ref CHR ''d''" "prop_scope engine_proposal = demo_ref CHR ''e''"
  "prop_work engine_proposal = demo_ref CHR ''c''" "prop_repair engine_proposal = None"
  "prop_work_schema engine_proposal = EFFECT_EXECUTOR_SYSTEMD_WORK_SCHEMA_V2"
  "proposal_reference demo_store_lib engine_proposal = ProposalRefV1 (letter_digest CHR ''x'')"
  by (auto simp: engine_proposal_def demo_proposal_def proposal_validate_def validate_label_ok is_ascii_control_def
      MAX_LABEL_BYTES_def EFFECT_EXECUTOR_SYSTEMD_WORK_SCHEMA_V2_def proposal_reference_def)

lemma engine_observation_simps [simp]:
  "obs_observation (engine_observation key observation subject now) = observation"
  "obs_key (engine_observation key observation subject now) = key"
  "obs_subject (engine_observation key observation subject now) = subject"
  "obs_normalized_preconditions (engine_observation key observation subject now)
     = PreconditionBasisRefV1 (letter_digest CHR ''x'')"
  "is_current (engine_observation key observation subject now)"
  "typed_basis (engine_observation key observation subject now) = Some demo_basis"
  by (simp_all add: engine_observation_def)

lemma engine_observation_fresh [simp]:
  "now < now + 10 \<Longrightarrow> fresh_observation demo_store_lib key observation subject ''nightshift'' now
    (engine_observation key observation subject now)"
  by (simp add: fresh_observation_def engine_observation_def binding_digest_def demo_basis_valid)

lemma engine_observation_integrity [simp]:
  "now < now + 10 \<Longrightarrow> validate_observation_resolution_integrity demo_store_lib
     (engine_observation key observation subject now) = Ok ()"
  by (rule fresh_observation_integrity, rule engine_observation_fresh)

lemma engine_admitted_valid [simp]: "validate_admissible_basis (engine_admitted now) = Ok ()"
  by (simp add: validate_admissible_basis_ok) (simp add: engine_admitted_def demo_standing_def)

lemma engine_authorized_valid [simp]: "validate_authorized demo_store_lib engine_authorized = Ok ()"
  by (simp add: validate_authorized_ok)
    (simp add: engine_authorized_def build_spend_def build_issuance_def spend_for_authorization_def
      authorization_for_basis_def Let_def)

lemma engine_dispatch_valid [simp]:
  "validate_custody demo_store_lib (di_custody engine_dispatch) engine_authorized = Ok ()"
  "validate_indeterminate (engine_indeterminate evidence) engine_dispatch = Ok ()"
  unfolding validate_custody_ok validate_indeterminate_ok
  by (simp_all add: engine_dispatch_def engine_indeterminate_def)
    (simp add: engine_authorized_def engine_admitted_def build_spend_def attempt_for_issuance_def
      spend_for_authorization_def authorization_for_basis_def demo_standing_def Let_def)

lemma engine_snapshots_intact [simp]:
  "intact demo_store_lib store_pending" "intact demo_store_lib store_spent" "intact demo_store_lib store_dispatched"
  "intact demo_store_lib store_reconciling"
  by (simp_all add: intact_iff validate_state_ok validate_proposal_basis_ok state_digest_def)

lemma engine_current:
  assumes "(text, s) \<in> set demo_snapshots" and "intact demo_store_lib s"
    and "key_campaign (snap_key s) = CampaignId (demo_ref CHR ''a'')"
  shows "store_current demo_store_lib (store_at s text) = Ok s"
  using assms
  by (simp add: store_current_def store_at_def load_snapshot_def occurrence_columns_def demo_occurrence_def
      demo_snapshots_read)

lemma engine_profile:
  "runtime_profile demo_store_lib (store_at s text) = Ok (Some \<lparr>srp_schema = ''profile/v1'',
     srp_digest = letter_digest CHR ''q'', srp_canonical_bytes = as_bytes ''q''\<rparr>)"
  by (simp add: runtime_profile_def store_at_def schema_token_def)

lemma engine_policy: "policy_basis_v2 demo_store_lib engine_catalog = Ok (letter_digest CHR ''z'')"
  by (simp add: policy_basis_v2_def catalog_v2_validate_def engine_catalog_def entry_validate_def demo_basis_valid
      EFFECT_EXECUTOR_SYSTEMD_WORK_SCHEMA_V2_def)

lemma engine_digests [simp]:
  "build_spend demo_store_lib = build_spend demo_store_base"
  "build_issuance demo_store_lib = build_issuance demo_store_base"
  "successor_snapshot demo_store_lib = successor_snapshot demo_store_base"
  by (auto simp: fun_eq_iff build_spend_def build_issuance_def spend_for_authorization_def authorization_for_basis_def
      successor_snapshot_def state_digest_def Let_def)

lemma engine_readmits:
  "\<lparr>ab_proposal = (engine_recorded before)\<lparr>pb_observation :=
       engine_observation (demo_key 1) demo_obs_ref (demo_ref CHR ''d'') now\<rparr>,
     ab_standing = ab_standing (engine_admitted now), ab_decision = ab_decision (engine_admitted now)\<rparr>
   = engine_admitted now"
  by (simp add: engine_admitted_def engine_recorded_def)

lemma engine_spends:
  "consume_authorization demo_store_lib store_pending (dec_observation_resolver engine_inputs)
     (dec_standing_resolver engine_inputs)
     (decide_admissibility_v2 demo_store_lib engine_catalog (letter_digest CHR ''z'') (Some engine_plan))
     (dec_controlling_review engine_inputs) (dec_observation_resolver_id engine_inputs)
     (dec_standing_resolver_id engine_inputs) (dec_max_standing_ttl_ms engine_inputs) (dec_now_unix_ms engine_inputs)
   = Ok store_spent"
proof -
  have "resolve_admissibility demo_store_lib (engine_recorded 101) (dec_observation_resolver engine_inputs)
     (dec_standing_resolver engine_inputs)
     (decide_admissibility_v2 demo_store_lib engine_catalog (letter_digest CHR ''z'') (Some engine_plan))
     None ''nightshift'' ''standing'' 60 102
   = Ok (pb_observation (engine_recorded 102), ab_standing (engine_admitted 102), ab_decision (engine_admitted 102))"
    unfolding resolve_admissibility_ok resolve_observation_ok resolve_standing_ok
    by (simp add: engine_inputs_def demo_stand_def live_standing_def)
      (simp add: engine_admitted_def demo_standing_def decide_admissibility_v2_def catalog_decision_def engine_catalog_def
        engine_plan_def is_ok_iff Let_def)
  then show ?thesis
    using engine_snapshots_intact(2)
    by (simp add: consume_authorization_ok engine_inputs_def seal_ok engine_readmits)
      (simp add: store_spent_def engine_authorized_def Let_def)
qed

lemma engine_recovers: "recover_dispatched demo_store_lib store_dispatched = Ok store_reconciling"
  using engine_snapshots_intact(4) engine_dispatch_valid(2) [of "letter_digest CHR ''x''"]
  by (simp add: recover_dispatched_def require_reconciliation_ok seal_ok engine_indeterminate_def Let_def)
    (simp add: store_reconciling_def engine_indeterminate_def)

lemma engine_accepts:
  "accepted demo_store_lib store_pending store_spent" "accepted demo_store_lib store_dispatched store_reconciling"
proof -
  have "bases_distinct demo_store_lib store_pending store_spent"
    by (simp add: bases_distinct_def state_observation_def no_collision_def)
      (simp add: engine_observation_def)
  then show "accepted demo_store_lib store_pending store_spent"
    using store_laws_demo by (intro consume_authorization_membrane [OF _ _ _ engine_spends]) (simp_all add: store_laws_def)
qed (rule recover_dispatched_membrane [OF engine_recovers])

lemmas commit_defs = store_commit_def validate_transition_kind_def write_transition_def Let_def is_ok_iff
  campaign_head_def created_store_def to_u64_def to_i64_def write_occurrence_def account_new_facts_def
  account_spend_def account_attempt_def account_settlement_def advance_head_def statement_defs
  campaign_exists_def occurrence_exists_def positive_i64_def next_sequence_def saturating_add_def
  demo_occurrence_def occurrence_columns_def

lemma engine_codecs [simp]:
  "codec_to_vec demo_snapshot_codec store_spent = Some (as_bytes ''S'')"
  "codec_to_vec demo_snapshot_codec store_reconciling = Some (as_bytes ''R'')"
  "codec_to_vec demo_issuance_codec (ac_issuance engine_authorized) = Some (as_bytes ''I'')"
  by (simp_all add: demo_snapshot_codec_def demo_snapshots_def demo_issuance_codec_def)

lemma engine_spend_key: "sp_key (ac_spend engine_authorized) = demo_key 1"
  by (simp add: engine_authorized_def build_spend_def Let_def)

lemma engine_commits:
  "is_ok (store_commit demo_store_lib store_dispatched store_reconciling K_RecoveryReconciliation 200
     (store_at store_dispatched ''D''))"
  "is_ok (store_commit demo_store_lib store_pending store_spent K_AuthorizationConsumed 102
     (store_at store_pending ''P''))"
  by (simp_all add: engine_accepts engine_spend_key store_at_def commit_defs)

lemma engine_authorizes:
  "\<exists>db'. authorize_with_catalog_v2_and_plan demo_store_lib engine_catalog (Some engine_plan) engine_inputs
     (store_at store_pending ''P'') = (db', Ok store_spent)"
proof -
  have "store_current demo_store_lib (store_at store_pending ''P'') = Ok store_pending"
    by (rule engine_current) (simp_all add: demo_snapshots_def)
  moreover have "check_proposal_plan demo_store_lib store_pending engine_catalog (Some engine_plan)
      (store_at store_pending ''P'') = (store_at store_pending ''P'', Ok ())"
    by (simp add: check_proposal_plan_def engine_profile) (simp add: engine_plan_def engine_catalog_def)
  moreover have "dec_now_unix_ms engine_inputs = 102" by (simp add: engine_inputs_def)
  ultimately show ?thesis
    using engine_policy engine_spends engine_commits(2)
    by (auto simp: authorize_with_catalog_v2_and_plan_def is_ok_iff)
qed

definition engine_docket :: DocketCustodyPortV1 where
  "engine_docket = \<lparr>accept_issuance = (\<lambda>_. Err (Ext_Unavailable ''docket'')),
     reconcile_issuance = (\<lambda>_. Ok NotAccepted),
     reconcile_attempt = (\<lambda>custody. Ok (Indeterminate custody (engine_indeterminate (demo_ref CHR ''F''))))\<rparr>"

section \<open>Properties\<close>

text \<open>C4. The engine, the store and the kernel together: after any sequence of engine calls, successful or
  failed, the store opens, and its current snapshot is one that the kernel reaches from a created occurrence.
  No call, and no error path after a commit, leaves a store that cannot be read or a state that the kernel
  does not allow.\<close>

theorem engine_store_follows_the_kernel:
  assumes "store_laws L" and "reach (engine_created L) (engine_step L) db"
  shows "open_store L db = Ok db \<and> (\<exists>e. store_current L db = Ok e \<and> reachable L e)"
proof -
  obtain e where e: "replays L db" "store_current L db = Ok e" "reachable L e"
    using engine_invariant.reach_inv [OF assms(2)] assms(1) by (auto simp: engine_sound_def at_snapshot_def)
  then obtain report where "store_replay L db = Ok report" "verify_identity L db = Ok ()"
    by (auto simp: is_ok_iff store_replay_def)
  with e show ?thesis by (simp add: open_store_def)
qed

theorem engine_store_follows_the_kernel_witness:
  "open_store demo_store_lib halted_store = Ok halted_store
   \<and> (\<exists>e. store_current demo_store_lib halted_store = Ok e \<and> reachable demo_store_lib e)"
  by (rule engine_store_follows_the_kernel [OF store_laws_demo demo_engine_reached])

text \<open>C9. A spend under an exact-basis catalog is enrolled: the catalog has an entry for the work schema with the
  subject and scope of the proposal, its basis holds over the observation resolved for the spend, which is fresh
  at that time, and an entry that pins plans was shown a plan that is the governed work, is enrolled, and names
  the runtime profile bound at genesis. The recorded policy is the digest of that catalog.\<close>

theorem spend_is_enrolled_by_the_catalog:
  assumes "authorize_with_catalog_v2_and_plan L catalog plan i db = (db', Ok n)"
  shows "\<exists>authorized entry. snap_state n = AuthorizationConsumed authorized
    \<and> (let admitted = ac_admitted authorized; proposal = pb_proposal (ab_proposal admitted);
          observation = pb_observation (ab_proposal admitted) in
       map_of (cat2_entries catalog) (prop_work_schema proposal) = Some entry
       \<and> en2_subject entry = prop_subject proposal \<and> en2_scope entry = prop_scope proposal
       \<and> requirement_holds_over (en2_observation_basis entry) observation
       \<and> obs_resolved_at_unix_ms observation \<le> dec_now_unix_ms i
       \<and> dec_now_unix_ms i < obs_fresh_until_unix_ms observation
       \<and> (\<forall>enrolled. en2_admitted_plans entry = Some enrolled \<longrightarrow>
            (\<exists>w profile. plan = Some w \<and> pw_work w = prop_work proposal \<and> pw_enrolled_plan w \<in> enrolled
              \<and> runtime_profile L db = Ok (Some profile) \<and> srp_digest profile = pw_runtime_profile w))
       \<and> policy_basis_v2 L catalog = Ok (ad_policy_basis (ab_decision admitted)))"
proof -
  obtain c policy where check: "check_proposal_plan L c catalog plan db = (db, Ok ())"
    and policy: "policy_basis_v2 L catalog = Ok policy"
    and run: "consume_authorization L c (dec_observation_resolver i) (dec_standing_resolver i)
       (decide_admissibility_v2 L catalog policy plan) (dec_controlling_review i) (dec_observation_resolver_id i)
       (dec_standing_resolver_id i) (dec_max_standing_ttl_ms i) (dec_now_unix_ms i) = Ok n"
    using assms by (auto simp: authorize_with_catalog_v2_and_plan_def dest: check_proposal_plan_same)
  obtain pending observation standing decision where c: "snap_state c = AdmissiblePendingAuthorization pending"
    and res: "resolve_admissibility L (ab_proposal pending) (dec_observation_resolver i) (dec_standing_resolver i)
       (decide_admissibility_v2 L catalog policy plan) (dec_controlling_review i) (dec_observation_resolver_id i)
       (dec_standing_resolver_id i) (dec_max_standing_ttl_ms i) (dec_now_unix_ms i) = Ok (observation, standing, decision)"
    and n: "\<exists>spend issuance. snap_state n = AuthorizationConsumed \<lparr>ac_admitted =
       \<lparr>ab_proposal = (ab_proposal pending)\<lparr>pb_observation := observation\<rparr>, ab_standing = standing,
        ab_decision = decision\<rparr>, ac_spend = spend, ac_issuance = issuance\<rparr>"
    using run by (auto simp: consume_authorization_ok seal_ok)
  let ?proposal = "pb_proposal (ab_proposal pending)"
  have fresh: "obs_resolved_at_unix_ms observation \<le> dec_now_unix_ms i"
      "dec_now_unix_ms i < obs_fresh_until_unix_ms observation"
    using res by (auto simp: resolve_admissibility_ok resolve_observation_ok fresh_observation_def)
  obtain entry where entry: "map_of (cat2_entries catalog) (prop_work_schema ?proposal) = Some entry"
      "en2_subject entry = prop_subject ?proposal" "en2_scope entry = prop_scope ?proposal"
      "requirement_holds_over (en2_observation_basis entry) observation"
      "is_ok (admits_plan entry (prop_work ?proposal) plan)" "ad_policy_basis decision = policy"
    using res by (auto simp: resolve_admissibility_ok elim!: admitted_v2_entry)
  have "\<exists>w profile. plan = Some w \<and> pw_work w = prop_work ?proposal \<and> pw_enrolled_plan w \<in> enrolled
      \<and> runtime_profile L db = Ok (Some profile) \<and> srp_digest profile = pw_runtime_profile w"
    if "en2_admitted_plans entry = Some enrolled" for enrolled
    using that entry(5) check_proposal_plan_bound [OF check] c by (auto simp: is_ok_iff)
  with n fresh entry policy show ?thesis by (auto simp: Let_def)
qed

theorem spend_is_enrolled_by_the_catalog_witness:
  "\<exists>db' entry. authorize_with_catalog_v2_and_plan demo_store_lib engine_catalog (Some engine_plan) engine_inputs
     (store_at store_pending ''P'') = (db', Ok store_spent)
   \<and> map_of (cat2_entries engine_catalog) EFFECT_EXECUTOR_SYSTEMD_WORK_SCHEMA_V2 = Some entry
   \<and> requirement_holds_over (en2_observation_basis entry)
       (engine_observation (demo_key 1) demo_obs_ref (demo_ref CHR ''d'') 102)"
proof -
  obtain db' where run: "authorize_with_catalog_v2_and_plan demo_store_lib engine_catalog (Some engine_plan) engine_inputs
      (store_at store_pending ''P'') = (db', Ok store_spent)"
    using engine_authorizes by blast
  from spend_is_enrolled_by_the_catalog [OF this] run show ?thesis by (auto simp: Let_def)
qed

text \<open>C35. Recovery of a dispatched attempt records an outcome that AG derives itself. When Docket then reports
  the attempt as indeterminate with any other outcome, \<open>recover\<close> fails although it has committed the
  reconciliation state, and from that state every later \<open>recover\<close> and \<open>poll_docket\<close> fails
  on the same answer and leaves the store as it is.\<close>

theorem recovered_dispatch_rejects_docket_indeterminate:
  assumes "store_current L db = Ok c" and "snap_state c = Dispatched d"
    and "recover_dispatched L c = Ok n"
    and "store_commit L c n K_RecoveryReconciliation now db = Ok (db', receipt)"
    and "reconcile_attempt docket (di_custody d) = Ok (Indeterminate (di_custody d) outcome)"
    and "state_indeterminate (snap_state n) \<noteq> Some outcome"
  shows "recover L docket now db = (db', Err DocketResponse)
    \<and> (\<forall>store later. store_current L store = Ok n \<longrightarrow>
         recover L docket later store = (store, Err DocketResponse)
         \<and> poll_docket L docket later store = (store, Err DocketResponse))"
proof -
  have pc: "snap_pc c = PC_Dispatched" using assms(2) by simp
  obtain o' where n: "snap_state n = ReconciliationRequired \<lparr>rr_dispatch = d, rr_indeterminate = o'\<rparr>"
    using assms(2,3) by (auto elim!: recover_dispatched_ok simp: require_reconciliation_ok seal_ok)
  then have attempt: "recover_attempt L n docket t store = (store, Err DocketResponse)" for t store
    using assms(5,6) by (simp add: recover_attempt_def engine_then_def engine_result_def apply_docket_progress_def)
  have "recover L docket now db = recover_attempt L n docket now db'"
    using assms(1,3,4) pc
    by (simp add: recover_def engine_then_def engine_result_def store_read_def commit_successor_def store_write_def)
  moreover have "recover L docket later store = (store, Err DocketResponse)
      \<and> poll_docket L docket later store = (store, Err DocketResponse)" if "store_current L store = Ok n" for store later
    using that n attempt assms(5,6)
    by (simp add: recover_def poll_docket_def engine_then_def engine_result_def store_read_def apply_docket_progress_def)
  ultimately show ?thesis using attempt by simp
qed

theorem recovered_dispatch_rejects_docket_indeterminate_witness:
  "\<exists>db'. recover demo_store_lib engine_docket 200 (store_at store_dispatched ''D'') = (db', Err DocketResponse)"
proof -
  obtain db' receipt where c: "store_commit demo_store_lib store_dispatched store_reconciling K_RecoveryReconciliation 200
      (store_at store_dispatched ''D'') = Ok (db', receipt)"
    using engine_commits(1) by (auto simp: is_ok_iff)
  have "store_current demo_store_lib (store_at store_dispatched ''D'') = Ok store_dispatched"
    by (rule engine_current) (simp_all add: demo_snapshots_def)
  moreover have "reconcile_attempt engine_docket (di_custody engine_dispatch)
      = Ok (Indeterminate (di_custody engine_dispatch) (engine_indeterminate (demo_ref CHR ''F'')))"
    by (simp add: engine_docket_def)
  moreover have "state_indeterminate (snap_state store_reconciling) \<noteq> Some (engine_indeterminate (demo_ref CHR ''F''))"
    using engine_refs_differ [of "CHR ''F''"] by (simp add: engine_indeterminate_def eq_commute)
  ultimately show ?thesis
    using recovered_dispatch_rejects_docket_indeterminate [OF _ engine_snapshot_simps(3) engine_recovers c] by blast
qed

end
