(* ===== verification/Spec2Isabelle.thy ===== *)
theory Spec2Isabelle
  imports Governed_Scenario Governed_Progress Governed_Termination Governed_Moves Governed_Recovery Judgment_Kernel Engine_Scenario
begin

text \<open>
  A verification library for the governed-loop system (the \<open>ag-\<close> crates under \<open>src/crates\<close>).

  \<^bold>\<open>The program.\<close> A campaign runs as a sequence of occurrences. The kernel
  \<open>GovernedLoopKernelV1\<close> (\<open>ag-campaign/src/governed.rs\<close>) takes one occurrence from a fresh
  observation over a recorded proposal, a standing, an admission and a consumed authorization
  to a dispatched and settled attempt; it halts, escalates, reconciles, continues into the
  next occurrence and applies human dispositions and interventions. Every operation returns a
  new snapshot that is chained to the old one by digest. \<open>validate_successor\<close> is the membrane
  that decoded snapshots must pass before they are persisted. Identities are digests of
  canonical JSON (\<open>ag-primitives/src/digest.rs\<close>). Beside the loop stands the judgment kernel
  (\<open>ag-kernel\<close>): append-only books of entries whose heads are digests, four families of judgments
  that look a claim up in a replayed book, crossings that conjoin them, authority that is issued
  from a crossing and reconstructed by replay, recomposition of authority over slices, and a
  ledger that projects each decision once. Its lifecycle origins and epochs are
  \<open>ag-primitives/src/origin.rs\<close>. The campaign store (\<open>ag-store/src/campaign.rs\<close>) keeps the snapshots of
  one campaign in SQLite: a journal of transitions chained by event digests, the current head, and
  tables of spends, attempts, settlements, human dispositions and refusals, which it replays in full
  before it trusts a file. The engine \<open>CampaignEngineV1\<close> (\<open>ag-app/src/governed_loop.rs\<close>) joins them: each of
  its calls loads the current snapshot, asks the ports it needs, runs one kernel operation and commits
  the successor; what it decides and spends is bounded by a catalog of exact work.

  \<^bold>\<open>Theories and code.\<close>
  \<^item> \<open>Prelude\<close>: machine integers, results, list windows; no code of the repository.
  \<^item> \<open>Content_Digest\<close>: \<open>digest.rs\<close>, digests, domain framing, the strict JSON visitor and the
    JCS document constructors.
  \<^item> \<open>Campaign_Identity\<close>: \<open>identity.rs\<close> and \<open>transcript.rs\<close>.
  \<^item> \<open>Governed_Types\<close>: one datatype or record per reference, struct and enum of \<open>governed.rs\<close>;
    fields carry a prefix of their struct.
  \<^item> \<open>Governed_Canonical\<close>: residual and finding sets, exact discharge, budgets.
  \<^item> \<open>Governed_Digests\<close>: \<open>digest_value\<close> and the identities derived with it.
  \<^item> \<open>Governed_Observation\<close>: observation bases and the three resolutions at consequence time.
  \<^item> \<open>Governed_State\<close>: accessors, validators and \<open>validate_integrity\<close>.
  \<^item> \<open>Governed_Kernel\<close>: every operation of \<open>GovernedLoopKernelV1\<close>, as a function from a snapshot
    to an error or the successor.
  \<^item> \<open>Governed_Successor\<close>: the membrane, its arms as the relation \<open>legal_move\<close>, and what each validator accepts.
  \<^item> \<open>Governed_Moves\<close>: the law of the membrane without the validators of the code, as the relation
    \<open>declared_move\<close>, and the proof that the membrane decides it.
  \<^item> \<open>Governed_Run\<close>: \<open>kernel_step\<close>, one successful operation, and its passage through the
    membrane.
  \<^item> \<open>Transition_Law\<close>: the contracts of a transition system (a preorder, a bounded counter, an
    invariant) with their consequences for runs, as locales.
  \<^item> \<open>Governed_Laws\<close> and \<open>Governed_Reach\<close>: the instances of these contracts for the membrane and
    the kernel, the invariants of reachable snapshots and the refinement of the abstract
    authority ledger.
  \<^item> \<open>Governed_Progress\<close>: where its guards hold, an operation succeeds.
  \<^item> \<open>Governed_Scenario\<close>: a concrete library and a complete run, on which the theorems with
    hypotheses are applied.
  \<^item> \<open>Governed_Termination\<close>: a rank that bounds the work inside one occurrence.
  \<^item> \<open>Governed_Recovery\<close>: recovery against the authority history of a reachable snapshot.
  \<^item> \<open>Store_Types\<close>, \<open>Store_Evidence\<close>, \<open>Store_Tables\<close>, \<open>Store_Commit\<close>, \<open>Store_Replay\<close>, \<open>Store_Operations\<close>:
    \<open>campaign.rs\<close> in the order of its parts. The database is a record of tables; a statement checks the
    constraints of the schema and fails where SQLite would; an operation is one transaction.
  \<^item> \<open>Store_Laws\<close>, \<open>Store_Extend\<close>, \<open>Store_Chain\<close>, \<open>Store_Runs\<close>, \<open>Store_Accounts\<close>: the accounting tables as
    instances of the locale \<open>fact_table\<close>, what one written transition adds to a replay, the journal as a membrane
    chain, the stores the operations reach, and the rows of every table as functions of the journal.
  \<^item> \<open>Store_Scenario\<close>: the properties of the store and a concrete one.
  \<^item> \<open>Engine_Catalog\<close>, \<open>Engine_Loop\<close>: \<open>governed_loop.rs\<close>, the catalogs with their deciders and every engine
    operation, as a function from the database to the database and an error or a value; an error may
    follow a commit.
  \<^item> \<open>Engine_Runs\<close>: a Hoare logic for these functions, in which every operation is shown to change the
    store only by kernel steps, and the stores that sequences of calls reach.
  \<^item> \<open>Engine_Scenario\<close>: the properties of the engine and their instances.
  \<^item> \<open>Lifecycle_Origin\<close>: \<open>origin.rs\<close>, epochs and typed and erased references to lifecycle objects.
  \<^item> \<open>Judgment_Calculus\<close>: \<open>judgment.rs\<close> and \<open>path.rs\<close>, native and operational judgments and the
    obstruction log.
  \<^item> \<open>Judgment_Books\<close>: \<open>family.rs\<close>, the books, the four families and the crossings; the contract of a
    family is the locale \<open>judgment_family\<close>, interpreted on each of them.
  \<^item> \<open>Judgment_Authority\<close>, \<open>Judgment_Recompose\<close>, \<open>Calculus_Ledger\<close>: \<open>authority.rs\<close>,
    \<open>recomposition.rs\<close> and \<open>correspondence.rs\<close>.
  \<^item> \<open>Judgment_Kernel\<close>: what the judgment kernel promises its caller, and a concrete instance of its
    library.

  \<^bold>\<open>Modelling.\<close> Structs are records, enums datatypes, \<open>u32\<close>, \<open>u64\<close> and \<open>u128\<close> words of their width;
  strings are byte lists (the code compares their bytes), ordered sets are sets. A \<open>Result\<close> is a sum
  with the error on the left, so every error path is a value. SHA-256, hexadecimal coding, the JSON
  tokenizer, the JCS printer and the derived serializers are fields of a library record; what
  the code relies on is stated as the laws \<open>sha256_law\<close>, \<open>hex_law\<close>, \<open>jcs_law\<close>, \<open>input_serializes\<close>,
  \<open>store_laws\<close> and \<open>codec_law\<close>, and freedom of collision is a hypothesis on the inputs of SHA-256 at hand. \<open>jcs_law\<close> says
  that the text printed for a parsed value with integers below 2^53 writes that value, its members in any
  order; that the visitor reads the same value back is proved. The resolvers, deciders and
  verifiers behind traits are functions from the request to the answer: an operation calls each at
  most once. A store error message that quotes a library error keeps that error as a value. No definition has fuel: every loop of the modelled code is a structural recursion.

  \<^bold>\<open>What is shown.\<close> The kernel never leaves the membrane, the membrane decides exactly the declared
  moves, reachable snapshots are well formed, the kernel refines an authority ledger with one
  spend, custody and settlement per occurrence, spends rest on current evidence and exact work,
  unreconciled attempts and consumed human decisions are never lost, budget counters count their calls and
  bound runs, the digest chain is tamper evident up to collisions of SHA-256, recovery accounts for every unsettled spend, work inside an occurrence ends, operations make progress, and each component meets its contract on every
  branch. A replayed book decides exactly its entries and its head commits to its history, a crossing
  reports every refusal, authority is exactly replayable, recomposition accounts for every slice and
  a calculus decision is projected once. Every store the operations reach with successors that, outside human
  dispositions, consume no human decision opens again, a store that replays is one membrane chain whose
  tables hold row by row what the journal says, and \<open>commit\<close> is safe exactly for successors that
  consume no human decision. Whatever sequence of engine calls succeeds or fails, the store opens and
  its current snapshot is one the kernel reaches; a spend under an exact-basis catalog is for an
  enrolled plan; and a recovered dispatch refuses what Docket reports about an indeterminate attempt.

  \<^bold>\<open>Not modelled.\<close> Identity of occurrences across a whole campaign (an identity could return after two
  continuations) is not a check of the kernel. Of the campaign store, opening, locking and
  syncing the file are left out (a transaction happens or fails as a whole), and of the engine the hashing
  of a systemd plan into its witness, which belongs to the executor. The implementations of the
  engine's ports, the store of the daemons, the
  daemons, the executors, the provider, the migration and the user interface are processes, sockets,
  files and SQL, listed in the manifest.
\<close>

section \<open>Membrane and kernel\<close>

text \<open>C1. Every successful kernel operation produces a successor that the persistence membrane
  \<open>validate_successor\<close> accepts, where the two observation bases the step compares by digest do
  not collide.\<close>

theorem kernel_step_passes_membrane:
  assumes "sha256_law H" and "hex_law H" and "input_serializes H"
    and "kernel_step H c n" and "bases_distinct H c n"
  shows "validate_successor H c n = Ok ()"
  using assms by (rule kernel_step_accepted)

theorem kernel_step_passes_membrane_witness:
  "validate_successor demo_lib snap_standing snap_admitted = Ok ()"
proof -
  have "bases_distinct demo_lib snap_standing snap_admitted"
    by (simp add: bases_distinct_def state_observation_def no_collision_def snap_standing_def snap_admitted_def
        demo_observation_def)
  with demo_lib_laws demo_input_serializes demo_admits [THEN step_record_admissible]
  show ?thesis by (rule kernel_step_passes_membrane)
qed

text \<open>C7. The executable membrane decides exactly the declared law of moves: it accepts a snapshot after another
  if and only if both are intact, the second names the digest of the first, and \<open>declared_move\<close> holds, which
  spells out for each of the seventeen kinds of move what changes, what is kept and what the new facts are
  bound to, without the validators of the code.\<close>

theorem membrane_decides_legal_moves:
  "(validate_successor H s t = Ok ()) =
     (validate_integrity H s = Ok () \<and> validate_integrity H t = Ok ()
      \<and> snap_prior_state_digest t = snap_state_digest s \<and> declared_move H s t)"
  unfolding validate_successor_iff declared_move_iff ..

text \<open>C3. Every snapshot the kernel reaches from a newly created occurrence is intact, its
  residual set is in canonical form, and no human decision is consumed twice.\<close>

theorem reachable_snapshot_wellformed:
  assumes "reachable H s"
  shows "validate_integrity H s = Ok ()
    \<and> canonical_residuals (meta_residuals (meta (snap_state s)))
    \<and> distinct (meta_used_human_decisions (meta (snap_state s)))"
  using integrity.reach_inv [OF assms] residual_form.reach_inv [OF assms]
  by (simp add: intact_iff validate_state_ok)

theorem reachable_snapshot_wellformed_witness:
  "validate_integrity demo_lib snap_continued = Ok ()"
  using reachable_snapshot_wellformed [OF demo_reachable(5)] by simp

section \<open>Authority\<close>

text \<open>C2. The kernel refines the abstract authority ledger: every step from a reachable snapshot
  is a step of the ledger, which spends once, gives custody once and settles once per
  occurrence, and which opens another occurrence only where nothing is in flight.\<close>

theorem kernel_refines_authority_ledger:
  assumes "reachable H c" and "kernel_step H c n"
  shows "ledger_step (ledger_of c) (ledger_of n)"
  using kernel_effect_ledger [OF kernel_step_effect [OF assms(2)] accounting.reach_inv [OF assms(1)]] .

theorem kernel_refines_authority_ledger_witness:
  "ledger_step (ledger_of snap_settled) (ledger_of snap_continued)"
  using kernel_refines_authority_ledger [OF demo_reachable(3) demo_continues [THEN step_open_continuation]] .

text \<open>C11. Within one occurrence, along any chain of snapshots that the membrane accepts, the
  program is fixed and an authority instrument that was recorded is never replaced or lost:
  there is at most one spend, one attempt, one settlement and one receipt.\<close>

theorem occurrence_instruments_are_fixed:
  assumes "is_run (\<lambda>s t. validate_successor H s t = Ok () \<and> snap_key s = snap_key t) (s # run)"
    and "t \<in> set (s # run)"
  shows "meta_program (meta (snap_state t)) = meta_program (meta (snap_state s))
    \<and> hist_ag_spend (authority_history (snap_state s)) \<in> {None, hist_ag_spend (authority_history (snap_state t))}
    \<and> hist_docket_attempt (authority_history (snap_state s))
        \<in> {None, hist_docket_attempt (authority_history (snap_state t))}
    \<and> hist_settlement (authority_history (snap_state s)) \<in> {None, hist_settlement (authority_history (snap_state t))}
    \<and> hist_receipt (authority_history (snap_state s)) \<in> {None, hist_receipt (authority_history (snap_state t))}"
  using occurrence_authority.run_le [OF assms]
  by (auto simp: authority_le_def history_le_def opt_le_def)

theorem occurrence_instruments_are_fixed_witness:
  "hist_ag_spend (authority_history (snap_state snap_spent))
     = hist_ag_spend (authority_history (snap_state snap_settled))"
proof -
  have "is_run (\<lambda>s t. validate_successor demo_lib s t = Ok () \<and> snap_key s = snap_key t)
      [snap_spent, snap_dispatched, snap_settled]"
    using demo_dispatches demo_settles
    by (simp add: custody_membrane snap_spent_def snap_dispatched_def snap_settled_def)
  from occurrence_instruments_are_fixed [OF this, of snap_settled] show ?thesis
    by (simp add: snap_spent_def)
qed

text \<open>C12. An attempt that is halted without a settlement is never abandoned: along every chain
  that the membrane accepts the campaign stays halted on this attempt, in the same occurrence
  and with the same authority history.\<close>

theorem unresolved_attempt_never_abandoned:
  assumes "snap_state s = Halted h" and "ha_unresolved_attempt h = Some attempt"
    and "(\<lambda>s t. validate_successor H s t = Ok ())\<^sup>*\<^sup>* s t"
  shows "\<exists>h'. snap_state t = Halted h' \<and> ha_unresolved_attempt h' = Some attempt
    \<and> meta_key (ha_meta h') = meta_key (ha_meta h) \<and> ha_history h' = ha_history h"
  using unresolved.steps_inv [OF assms(3), of "meta_key (ha_meta h)" attempt "ha_history h"] assms(1,2)
  by (auto simp: halted_on_def)

theorem unresolved_attempt_never_abandoned_witness:
  "\<exists>h. snap_state snap_disposed = Halted h \<and> ha_unresolved_attempt h = Some (cu_attempt demo_custody)"
proof -
  have "(\<lambda>s t. validate_successor demo_lib s t = Ok ())\<^sup>*\<^sup>* snap_escalated snap_disposed"
    using disposition_updated_membrane [OF demo_disposes] by (rule r_into_rtranclp)
  from unresolved_attempt_never_abandoned [OF demo_escalated_state _ this] show ?thesis
    by (auto simp: demo_escalated_halt_def)
qed

text \<open>C10. An issuance in a reachable snapshot is for the occurrence, the program and the exact
  work that the occurrence was opened for, and it is the one derived from its spend.\<close>

theorem issuance_is_for_the_opened_work:
  assumes "reachable H s" and "state_issuance (snap_state s) = Some i" and "state_ag_spend (snap_state s) = Some sp"
  shows "iss_work i = meta_expected_work (meta (snap_state s))
    \<and> iss_key i = snap_key s \<and> iss_program i = meta_program (meta (snap_state s)) \<and> iss_spend i = sp_spend sp
    \<and> sp_key sp = snap_key s"
proof -
  have "intact H s" and work: "work_bound (snap_state s)"
    using integrity.reach_inv [OF assms(1)] exact_work.reach_inv [OF assms(1)] by simp_all
  then have variant: "validate_variant H (snap_state s) = Ok ()" by (simp add: intact_iff validate_state_ok)
  show ?thesis
    using assms(2,3) variant work
    by (cases "snap_state s")
      (auto simp: validate_authorized_ok build_issuance_def issuance_body_def work_bound_def Let_def)
qed

theorem issuance_is_for_the_opened_work_witness:
  "iss_work (ac_issuance demo_authorized) = demo_ref CHR ''c''"
  using issuance_is_for_the_opened_work [OF demo_reachable(2), of "ac_issuance demo_authorized" "ac_spend demo_authorized"]
  by (simp add: snap_spent_def)

text \<open>C8. Whatever was spent was spent on current evidence: in a reachable snapshot the moment of
  the spend lies in the freshness window of the recorded observation and in the validity
  window of the recorded standing, both were current, and the decision admitted.\<close>

theorem spend_rests_on_current_evidence:
  assumes "reachable H s" and "state_authorized (snap_state s) = Some a"
    and "observation = pb_observation (ab_proposal (ac_admitted a))" and "standing = ab_standing (ac_admitted a)"
    and "now = sp_consumed_at_unix_ms (ac_spend a)"
  shows "obs_resolved_at_unix_ms observation \<le> now \<and> now < obs_fresh_until_unix_ms observation
    \<and> is_current observation
    \<and> st_resolved_at_unix_ms standing \<le> now \<and> now < st_expires_at_unix_ms standing
    \<and> st_status standing = Standing_Current \<and> ad_disposition (ab_decision (ac_admitted a)) = Admitted"
  using freshness.reach_inv [OF assms(1)] assms(2-) by (simp add: spend_fresh_def fresh_at_spend_def Let_def)

theorem spend_rests_on_current_evidence_witness:
  "102 < st_expires_at_unix_ms (ab_standing (demo_admitted 102))"
  using spend_rests_on_current_evidence [OF demo_reachable(2), of demo_authorized, OF _ refl refl refl]
  by (simp add: snap_spent_def) (simp add: demo_authorized_def build_spend_def Let_def)

text \<open>C13. A human decision is used once: a disposition that succeeds had an unused decision and
  appends it, and no disposition with the same decision succeeds on any later snapshot.\<close>

theorem human_decision_is_used_once:
  assumes "apply_human_disposition H c artifact scope occurrence resolver resolver_id verifier now = Ok effect"
    and "effect = Updated n v \<or> effect = OpenedOccurrence n m v"
    and "(kernel_step H)\<^sup>*\<^sup>* n t" and "hd_decision artifact' = hd_decision artifact"
  shows "hd_decision artifact \<notin> set (meta_used_human_decisions (meta (snap_state c)))
    \<and> meta_used_human_decisions (meta (snap_state n)) = meta_used_human_decisions (meta (snap_state c)) @ [hd_decision artifact]
    \<and> \<not> is_ok (apply_human_disposition H t artifact' scope' occurrence' resolver' resolver_id' verifier' now')"
proof -
  have used: "hd_decision artifact \<notin> set (meta_used_human_decisions (meta (snap_state c)))
      \<and> meta_used_human_decisions (meta (snap_state n)) = meta_used_human_decisions (meta (snap_state c)) @ [hd_decision artifact]"
    using assms(1,2) by (rule disposition_appends_decision)
  moreover have "prefix (meta_used_human_decisions (meta (snap_state n))) (meta_used_human_decisions (meta (snap_state t)))"
    using kernel_ledger.steps_le [OF assms(3)] by (simp add: ledger_le_def)
  ultimately have "hd_decision artifact' \<in> set (meta_used_human_decisions (meta (snap_state t)))"
    using assms(4) by (auto dest: set_mono_prefix)
  then have "\<not> is_ok (apply_human_disposition H t artifact' scope' occurrence' resolver' resolver_id' verifier' now')"
    by (auto simp: is_ok_iff validate_human_artifact_ok elim!: apply_human_disposition_ok)
  with used show ?thesis by blast
qed

theorem human_decision_is_used_once_witness:
  "demo_decision \<in> set (meta_used_human_decisions (meta (snap_state snap_disposed)))
   \<and> \<not> is_ok (apply_human_disposition demo_lib snap_disposed
       (demo_disposition (snap_state_digest snap_disposed) (ExactResidualDisposition demo_discharge))
       demo_scope None demo_observe ''nightshift'' demo_verify 200)"
  using human_decision_is_used_once [OF demo_disposes disjI1 [OF refl] rtranclp.rtrancl_refl,
      of "demo_disposition (snap_state_digest snap_disposed) (ExactResidualDisposition demo_discharge)"
        demo_scope None demo_observe "''nightshift''" demo_verify 200]
  by (simp add: demo_disposition_def)

text \<open>C18. An intervention is bound to its target and mints no authority: it applies only to the
  campaign, the occurrence and the state it names; its effect is a reconciliation request, or
  a successor whose authority history is the old one or that of an empty new occurrence.\<close>

theorem intervention_mints_no_authority:
  assumes "apply_verified_governed_intervention H c verified = Ok effect"
  shows "gi_campaign (vgi_request verified) = key_campaign (snap_key c)
    \<and> gi_occurrence (vgi_request verified) = key_occurrence (snap_key c)
    \<and> gi_target_state_digest (vgi_request verified) = snap_state_digest c
    \<and> (effect = Reconcile verified \<and> snap_pc c = PC_ReconciliationRequired
       \<or> (\<exists>n. effect = Transition n verified
            \<and> (snap_key n = snap_key c \<and> authority_history (snap_state n) = authority_history (snap_state c)
               \<or> snap_key n \<noteq> snap_key c \<and> authority_history (snap_state n) = empty_history)
            \<and> snap_pc n \<in> {PC_ObservationRequired, PC_SettledObservationRequired, PC_Halted}))"
  using apply_verified_governed_intervention_target [OF assms] intervention_effects [OF assms] by blast

theorem intervention_mints_no_authority_witness:
  "snap_key snap_halted = snap_key snap_opened"
proof -
  let ?v = "\<lparr>vgi_request = \<lparr>gi_schema = GOVERNED_INTERVENTION_SCHEMA_V1,
      gi_request = GovernedInterventionRequestIdV1 (demo_ref CHR ''I''), gi_principal = scope_principal demo_scope,
      gi_mandate = scope_mandate demo_scope, gi_nonce = GovernedInterventionNonceRefV1 (demo_ref CHR ''J''),
      gi_campaign = CampaignId (demo_ref CHR ''a''), gi_occurrence = OccurrenceId 1,
      gi_target_state_digest = snap_state_digest snap_opened, gi_intervention = HaltContinuation demo_reason,
      gi_created_at_unix_ms = 100, gi_expires_at_unix_ms = 200\<rparr>,
      vgi_verification = GovernedInterventionVerificationRefV1 (demo_ref CHR ''K'')\<rparr>"
  have "apply_verified_governed_intervention demo_lib snap_opened ?v = Ok (Transition snap_halted ?v)"
    by (simp add: apply_verified_governed_intervention_def demo_halts)
  from intervention_mints_no_authority [OF this] show ?thesis
    by (simp add: snap_halted_def halted_state_def)
qed

text \<open>A completed occurrence is terminal: no kernel operation applies to it.\<close>

lemma completed_is_terminal:
  assumes "snap_pc c = PC_Completed"
  shows "\<not> kernel_step H c n"
  using assms completed_terminal [OF kernel_step_effect] by blast

lemma completed_is_terminal_witness: "\<not> kernel_step demo_lib snap_completed snap_opened"
  by (rule completed_is_terminal) (simp add: snap_completed_def)

section \<open>Accounting over runs\<close>

text \<open>C16. Along every chain of snapshots that the membrane accepts, the campaign and the budget
  limits are fixed, the used counters never decrease, residual obligations are never added,
  and consumed human decisions are only appended to.\<close>

theorem campaign_accounting_is_monotone:
  assumes "is_run (\<lambda>s t. validate_successor H s t = Ok ()) (s # run)" and "t \<in> set (s # run)"
    and "b = meta_budget (meta (snap_state s))" and "b' = meta_budget (meta (snap_state t))"
  shows "key_campaign (snap_key t) = key_campaign (snap_key s)
    \<and> retry_limit b' = retry_limit b \<and> probe_limit b' = probe_limit b \<and> escalation_limit b' = escalation_limit b
    \<and> retries_used b \<le> retries_used b' \<and> probes_used b \<le> probes_used b' \<and> escalations_used b \<le> escalations_used b'
    \<and> set (residual_slice (meta_residuals (meta (snap_state t))))
        \<subseteq> set (residual_slice (meta_residuals (meta (snap_state s))))
    \<and> prefix (meta_used_human_decisions (meta (snap_state s))) (meta_used_human_decisions (meta (snap_state t)))"
  using membrane_ledger.run_le [OF assms(1,2)] assms(3,4) by (simp add: ledger_le_def budget_le_def)

theorem campaign_accounting_is_monotone_witness:
  "escalations_used (meta_budget (meta (snap_state snap_escalated)))
     \<le> escalations_used (meta_budget (meta (snap_state snap_disposed)))"
proof -
  have "is_run (\<lambda>s t. validate_successor demo_lib s t = Ok ()) [snap_escalated, snap_disposed]"
    using disposition_updated_membrane [OF demo_disposes] by simp
  from campaign_accounting_is_monotone [OF this, of snap_disposed, OF _ refl refl] show ?thesis by simp
qed

text \<open>C14. Budgets bound runs: in any run of the kernel, each counter grows by exactly the number of its calls
  (proposals recorded as retries, probes, escalations) and never passes the limit set at the start.\<close>

theorem budgets_bound_every_run:
  assumes "is_run (kernel_step H) (s # run)" and "run \<noteq> []"
    and "b = meta_budget (meta (snap_state s))" and "b' = meta_budget (meta (snap_state (last run)))"
  shows "unat (retries_used b') = unat (retries_used b) + count_steps (retry_call H) (s # run)
    \<and> unat (probes_used b') = unat (probes_used b) + count_steps (probe_call H) (s # run)
    \<and> unat (escalations_used b') = unat (escalations_used b) + count_steps (escalation_call H) (s # run)
    \<and> unat (retries_used b') \<le> unat (retry_limit b) \<and> unat (probes_used b') \<le> unat (probe_limit b)
    \<and> unat (escalations_used b') \<le> unat (escalation_limit b)"
  using retries.run_count [OF assms(1,2)] probes.run_count [OF assms(1,2)] escalations.run_count [OF assms(1,2)]
    retries.run_total [OF assms(1)] probes.run_total [OF assms(1)] escalations.run_total [OF assms(1)] assms(2-4)
  by simp

theorem budgets_bound_every_run_witness:
  "count_steps (escalation_call demo_lib) [snap_dispatched, snap_ambiguous, snap_escalated] = 1
   \<and> count_steps (probe_call demo_lib) [snap_dispatched, snap_ambiguous, snap_escalated] = 0"
proof -
  have "is_run (kernel_step demo_lib) [snap_dispatched, snap_ambiguous, snap_escalated]"
    using demo_steps by simp
  moreover have "meta_budget (meta (snap_state snap_dispatched)) = demo_budget"
      "meta_budget (meta (snap_state snap_escalated)) = demo_budget\<lparr>escalations_used := 1\<rparr>"
    by (simp_all add: snap_dispatched_def snap_escalated_def halted_state_def demo_budget_def saturating_add_def)
  ultimately show ?thesis
    using budgets_bound_every_run [of demo_lib snap_dispatched "[snap_ambiguous, snap_escalated]", OF _ _ refl refl]
    by (simp add: demo_budget_def del: count_steps.simps)
qed

text \<open>C15. Work inside one occurrence ends: a run of the kernel that opens no other occurrence and consumes no
  human decision has at most eight steps and the probes that are left.\<close>

theorem occurrence_run_terminates:
  assumes "is_run (kernel_step H) (s # run)" and "b = meta_budget (meta (snap_state s))"
    and "\<And>t. t \<in> set run \<Longrightarrow> snap_key t = snap_key s
      \<and> meta_used_human_decisions (meta (snap_state t)) = meta_used_human_decisions (meta (snap_state s))"
  shows "length run \<le> 8 + (unat (probe_limit b) - unat (probes_used b))"
proof -
  have "length run \<le> occurrence_rank s"
    by (rule occurrence_ends.run_length [OF occurrence_run [OF assms(1,3)]])
  also have "\<dots> \<le> 8 + (unat (probe_limit b) - unat (probes_used b))"
    unfolding occurrence_rank_def probes_left_def assms(2) by (cases "snap_pc s") simp_all
  finally show ?thesis .
qed

theorem occurrence_run_terminates_witness:
  "length [snap_ambiguous, snap_escalated] \<le> 8 + (unat (probe_limit demo_budget) - unat (probes_used demo_budget))"
proof -
  have "is_run (kernel_step demo_lib) [snap_dispatched, snap_ambiguous, snap_escalated]"
    using demo_steps by simp
  from occurrence_run_terminates [OF this refl] show ?thesis
    by (simp add: snap_dispatched_def snap_ambiguous_def snap_escalated_def halted_state_def)
qed

lemma distinct_digests:
  assumes "input_serializes H" and "\<And>s. s \<in> set ss \<Longrightarrow> intact H s" and "inj_on snap_state_digest (set ss)"
  shows "inj_on (sha256 H) (state_preimage H ` set ss)" and "inj_on (input_bytes H) (state_inputs ss)"
proof -
  let ?in = "\<lambda>s. StateInput (snap_prior_state_digest s) (snap_state s)"
  have digest: "snap_state_digest s = hash_domain H STATE_DIGEST_DOMAIN_V1 (input_bytes H (?in s))" if "s \<in> set ss" for s
    using assms(1,2) that by (simp add: intact_iff state_digest_def digest_value_hash)
  show "inj_on (sha256 H) (state_preimage H ` set ss)"
  proof (rule inj_on_imageI, rule inj_onI)
    fix x y assume "x \<in> set ss" "y \<in> set ss" "(sha256 H \<circ> state_preimage H) x = (sha256 H \<circ> state_preimage H) y"
    then show "x = y"
      using inj_onD [OF assms(3), of x y] digest by (simp add: hash_domain_def state_preimage_def)
  qed
  have "state_inputs ss = ?in ` set ss" by (auto simp: state_inputs_def)
  moreover have "inj_on (input_bytes H) (?in ` set ss)"
  proof (rule inj_on_imageI, rule inj_onI)
    fix x y assume "x \<in> set ss" "y \<in> set ss" "(input_bytes H \<circ> ?in) x = (input_bytes H \<circ> ?in) y"
    then show "x = y" using inj_onD [OF assms(3), of x y] digest by simp
  qed
  ultimately show "inj_on (input_bytes H) (state_inputs ss)" by simp
qed

text \<open>C17. The digest chain is tamper evident: two intact, linked chains that end in the same state digest agree
  on their common length, snapshot by snapshot, where SHA-256 does not collide on the framed inputs of their
  state digests and the serializer maps different inputs, each a prior digest with a state, to
  different bytes.\<close>

theorem digest_chain_is_tamper_evident:
  assumes "sha256_law H" and "hex_law H" and "input_serializes H"
    and "linked_chain H xs" and "linked_chain H ys" and "xs \<noteq> []" and "ys \<noteq> []"
    and "snap_state_digest (last xs) = snap_state_digest (last ys)"
    and "inj_on (sha256 H) (state_preimage H ` set (xs @ ys))"
    and "inj_on (input_bytes H) (state_inputs (xs @ ys))"
  shows "suffix xs ys \<or> suffix ys xs"
  by (rule linked_chains_agree [OF assms])

theorem digest_chain_is_tamper_evident_witness:
  "suffix [snap_proposed] [snap_opened, snap_proposed]"
proof -
  let ?all = "[snap_proposed] @ [snap_opened, snap_proposed]"
  have chain: "linked_chain demo_lib [snap_opened, snap_proposed]" "linked_chain demo_lib [snap_proposed]"
    by (simp_all add: linked_chain_def) (simp add: snap_proposed_def)
  have "snap_state_digest snap_proposed \<noteq> snap_state_digest snap_opened"
    by (simp add: snap_proposed_def demo_digests_alternate)
  then have "inj_on snap_state_digest (set ?all)" by (simp add: inj_on_def)
  then have "inj_on (sha256 demo_lib) (state_preimage demo_lib ` set ?all)"
      "inj_on (input_bytes demo_lib) (state_inputs ?all)"
    by (rule distinct_digests [OF demo_input_serializes, rotated]; use chain in \<open>auto simp: linked_chain_def\<close>)+
  from digest_chain_is_tamper_evident [OF demo_lib_laws demo_input_serializes chain(2,1) _ _ _ this]
  show ?thesis by (auto simp: suffix_def append_eq_Cons_conv)
qed

section \<open>Progress, recovery and refusals\<close>

text \<open>C19. Admission and spending are decided by the consequence-time resolution alone: on an
  intact snapshot in the right state they succeed exactly when \<open>resolve_admissibility\<close> does,
  and they then reach the next program counter; the final integrity check never refuses.\<close>

theorem admission_and_spend_progress:
  assumes "intact H c"
  shows "(\<forall>basis. snap_state c = StandingRequired basis \<longrightarrow>
       is_ok (record_admissible H c obs_resolver standing_resolver decider controlling obs_id standing_id ttl now)
       = is_ok (resolve_admissibility H basis obs_resolver standing_resolver decider controlling obs_id standing_id ttl now))
    \<and> (\<forall>pending. snap_state c = AdmissiblePendingAuthorization pending \<longrightarrow>
       is_ok (consume_authorization H c obs_resolver standing_resolver decider controlling obs_id standing_id ttl now)
       = is_ok (resolve_admissibility H (ab_proposal pending) obs_resolver standing_resolver decider controlling
           obs_id standing_id ttl now))"
  using record_admissible_total [OF assms] consume_authorization_total [OF assms]
  by (fastforce simp: is_ok_iff record_admissible_ok consume_authorization_ok)

theorem admission_and_spend_progress_witness:
  "is_ok (record_admissible demo_lib snap_standing demo_observe demo_stand demo_decide None ''nightshift'' ''standing'' 60 150)"
proof -
  have "snap_state snap_standing = StandingRequired (demo_recorded 100)" by (simp add: snap_standing_def)
  moreover have "is_ok (resolve_admissibility demo_lib (demo_recorded 100) demo_observe demo_stand demo_decide None
      ''nightshift'' ''standing'' 60 150)"
    by (simp add: is_ok_iff)
  ultimately show ?thesis
    using admission_and_spend_progress [OF demo_intact(2), of demo_observe demo_stand demo_decide None
        "''nightshift''" "''standing''" 60 150] by simp
qed

text \<open>C20. A proposal that is valid, bound to the campaign and to the prepared work, correctly
  classified, and whose observation the resolver confirms as fresh, is always recorded.\<close>

theorem conforming_proposal_is_recorded:
  assumes "intact H c" and "snap_state c = ObservationRequired pending"
    and "proposal_validate p = Ok ()" and "prop_campaign p = key_campaign (snap_key c)"
    and "prop_work p = meta_expected_work (meta (snap_state c))"
    and "resolver \<lparr>oreq_key = snap_key c, oreq_observation = observation, oreq_subject = prop_subject p,
      oreq_now_unix_ms = now\<rparr> = Ok r"
    and "fresh_observation H (snap_key c) observation (prop_subject p) resolver_id now r"
    and "is_ok (classify_proposal H pending p cls r)"
  shows "\<exists>n basis. record_proposal H c observation p cls resolver resolver_id now = Ok n
    \<and> snap_state n = ProposalRecorded basis \<and> pb_proposal basis = p \<and> pb_observation basis = r"
proof -
  obtain link m where "classify_proposal H pending p cls r = Ok (link, m)"
    using assms(8) by (auto simp: is_ok_iff)
  with record_proposal_total [OF assms(1-5), of resolver observation now r resolver_id cls] assms(2,6,7)
  show ?thesis by (fastforce simp: record_proposal_ok seal_ok resolve_observation_ok)
qed

theorem conforming_proposal_is_recorded_witness:
  "\<exists>n. record_proposal demo_lib snap_opened demo_obs_ref demo_proposal ClassInitial demo_observe ''nightshift'' 120 = Ok n"
proof -
  have "is_ok (classify_proposal demo_lib \<lparr>obr_meta = demo_meta, obr_prior = None\<rparr> demo_proposal ClassInitial
      (demo_observation (demo_key 1) demo_obs_ref (demo_ref CHR ''d'') 120))"
    by (simp add: classify_proposal_def)
  from conforming_proposal_is_recorded [OF demo_opened(2,1) demo_proposal_simps(1) _ _ _ _ this,
      of demo_observe demo_obs_ref 120 "''nightshift''"] show ?thesis
    by (simp add: demo_observe_def) blast
qed

text \<open>C21. A safe state can always be stopped: \<open>halt\<close> succeeds on every intact snapshot whose state is
  a safe source, keeps the occurrence, its metadata and its authority history, and remembers
  the attempt exactly when it is unreconciled.\<close>

theorem safe_states_can_be_halted:
  assumes "intact H c" and "is_safe_halt_source (snap_pc c)"
  shows "\<exists>n h. halt H c reason = Ok n \<and> snap_state n = Halted h \<and> ha_meta h = meta (snap_state c)
    \<and> ha_source h = snap_pc c \<and> ha_history h = authority_history (snap_state c)
    \<and> (ha_unresolved_attempt h \<noteq> None) = (snap_pc c = PC_ReconciliationRequired)"
  using halt_total [OF assms, of reason]
  by (cases "snap_state c") (simp_all add: halted_state_def)

theorem safe_states_can_be_halted_witness: "\<exists>n. halt demo_lib snap_settled demo_reason = Ok n"
  using safe_states_can_be_halted [of demo_lib snap_settled demo_reason]
  using demo_intact(6) by (auto simp: snap_settled_def is_safe_halt_source_def)

text \<open>C22. Recovery of a dispatched attempt after a crash always succeeds and keeps the attempt: the
  successor requires reconciliation of the same dispatch; nothing is executed again.\<close>

theorem recovery_keeps_the_dispatch:
  assumes "intact H c" and "snap_state c = Dispatched d"
  shows "\<exists>n r. recover_dispatched H c = Ok n \<and> snap_state n = ReconciliationRequired r \<and> rr_dispatch r = d
    \<and> authority_history (snap_state n) = authority_history (snap_state c)
    \<and> recovery_requirement n = ReconcileAttemptRequirement"
  using recover_dispatched_total [OF assms] assms(2) by (auto simp: recovery_requirement_def)

theorem recovery_keeps_the_dispatch_witness: "\<exists>n. recover_dispatched demo_lib snap_dispatched = Ok n"
  using recovery_keeps_the_dispatch [OF demo_intact(5), of demo_dispatch] by (auto simp: snap_dispatched_def)

text \<open>C24. Recovery accounts for every unsettled spend of a reachable snapshot: it asks to reconcile the issuance
  exactly when something was spent and no attempt is known, and to reconcile the attempt exactly when an attempt
  is open and the occurrence is not halted; a halted occurrence with an unsettled spend needs an
  external disposition and keeps its attempt as unresolved, and a completed one has none.\<close>

theorem recovery_respects_unsettled_spend:
  assumes "reachable H s" and "h = authority_history (snap_state s)"
    and "unsettled = (hist_ag_spend h \<noteq> None \<and> hist_settlement h = None)"
  shows "(recovery_requirement s = ReconcileIssuance) = (unsettled \<and> hist_docket_attempt h = None)
    \<and> (recovery_requirement s = ReconcileAttemptRequirement)
        = (unsettled \<and> hist_docket_attempt h \<noteq> None \<and> snap_pc s \<noteq> PC_Halted)
    \<and> (unsettled \<and> snap_pc s = PC_Halted \<longrightarrow> recovery_requirement s = ExternalDisposition
        \<and> (\<exists>v. snap_state s = Halted v \<and> ha_unresolved_attempt v = hist_docket_attempt h \<and> hist_docket_attempt h \<noteq> None))
    \<and> (unsettled \<longrightarrow> snap_pc s \<noteq> PC_Completed)"
  using recovery_by_history [OF _ _ assms(2)] endings.reach_inv [OF assms(1)] unfolding assms(3) by blast

theorem recovery_respects_unsettled_spend_witness: "recovery_requirement snap_spent = ReconcileIssuance"
  using recovery_respects_unsettled_spend [OF demo_reachable(2) refl refl]
  by (simp add: snap_spent_def empty_history_def)



text \<open>C23. A settled occurrence always continues into another one, and only into another one:
  reusing its identity is refused; any other identity opens an occurrence of the same campaign
  for the given work that carries program, residuals, budget and consumed decisions along and
  names its predecessor by key and digest.\<close>

theorem continuation_carries_the_accounting:
  assumes "intact H c" and "snap_state c = SettledObservationRequired settled"
  shows "open_continuation H c (key_occurrence (snap_key c)) work = Err OccurrenceReused
    \<and> (occurrence = key_occurrence (snap_key c) \<or>
       (\<exists>n pending prior. open_continuation H c occurrence work = Ok n \<and> snap_state n = ObservationRequired pending
         \<and> obr_meta pending = (meta (snap_state c))\<lparr>meta_expected_work := work,
             meta_key := \<lparr>key_campaign = key_campaign (snap_key c), key_occurrence = occurrence\<rparr>\<rparr>
         \<and> obr_prior pending = Some prior \<and> pri_key prior = snap_key c
         \<and> pri_state_digest prior = snap_state_digest c))"
  using open_continuation_total [OF assms, of occurrence work] assms by (auto simp: open_continuation_def Let_def)

theorem continuation_carries_the_accounting_witness:
  "\<exists>n. open_continuation demo_lib snap_settled (OccurrenceId 3) (demo_ref CHR ''x'') = Ok n"
  using continuation_carries_the_accounting [OF demo_intact(6),
      of "\<lparr>sor_dispatch = demo_dispatch, sor_settlement = demo_settlement\<rparr>" "demo_ref CHR ''x''" "OccurrenceId 3"]
  by (auto simp: snap_settled_def)

section \<open>Component contracts\<close>

text \<open>Opening a campaign is decided by its budget and its residuals: a counter over its limit and
  a repeated residual identity are refused, everything else opens an intact occurrence without
  a predecessor, without authority and without consumed decisions.\<close>

lemma initial_occurrence_is_exact:
  "create_initial H campaign occurrence program work residuals budget =
     (if retry_limit budget < retries_used budget \<or> probe_limit budget < probes_used budget
         \<or> escalation_limit budget < escalations_used budget then Err InvalidBudget
      else if \<not> distinct (map res_residual (residual_slice residuals)) then Err DuplicateResidual
      else let state = ObservationRequired \<lparr>obr_meta = \<lparr>
               meta_key = \<lparr>key_campaign = campaign, key_occurrence = occurrence\<rparr>, meta_program = program,
               meta_expected_work = work, meta_residuals = residuals, meta_budget = budget,
               meta_used_human_decisions = []\<rparr>, obr_prior = None\<rparr>;
             genesis = digest_value H GENESIS_DIGEST_DOMAIN_V1
               (GenesisInput \<lparr>key_campaign = campaign, key_occurrence = occurrence\<rparr> program work)
        in Ok \<lparr>snap_prior_state_digest = genesis, snap_state_digest = state_digest H genesis state,
             snap_state = state\<rparr>)"
  by (simp add: create_initial_def budget_validate_def validate_integrity_def validate_state_def
      ResidualSetV1_new_cases Let_def)

text \<open>An observation is accepted exactly when the resolver returns it and it is of a known
  schema, from the expected resolver, for the same occurrence, observation and subject, with a
  valid basis whose digest is the pinned precondition, within its freshness window, and
  current.\<close>

lemma observation_resolution_is_exact:
  "(resolve_observation H resolver key observation subject resolver_id now = Ok r) =
     (resolver \<lparr>oreq_key = key, oreq_observation = observation, oreq_subject = subject, oreq_now_unix_ms = now\<rparr> = Ok r
      \<and> known_schema r \<and> resolver_id \<noteq> [] \<and> obs_resolver_id r = resolver_id
      \<and> obs_key r = key \<and> obs_observation r = observation \<and> obs_subject r = subject
      \<and> is_ok (validate_basis H r)
      \<and> basis_binding_digest H r = Ok (precondition_digest (obs_normalized_preconditions r))
      \<and> obs_resolved_at_unix_ms r \<le> now \<and> now < obs_fresh_until_unix_ms r \<and> is_current r)"
  by (simp add: resolve_observation_ok fresh_observation_def)

text \<open>C25. Consequence-time admission is exact: it returns an observation, a standing and a decision
  exactly when the observation resolves again under the pinned preconditions, the standing is
  live for this basis and its window is no longer than the allowed one, a cited repair is the
  controlling rejected review, and the decision is bound to all of them and admits.\<close>

theorem admission_resolution_is_exact:
  "(resolve_admissibility H basis obs_resolver standing_resolver decider controlling obs_id standing_id ttl now
      = Ok (observation, standing, decision)) =
     (resolve_observation H obs_resolver (meta_key (pb_meta basis)) (obs_observation (pb_observation basis))
        (prop_subject (pb_proposal basis)) obs_id now = Ok observation
      \<and> obs_normalized_preconditions observation = obs_normalized_preconditions (pb_observation basis)
      \<and> standing_resolver \<lparr>sreq_key = meta_key (pb_meta basis), sreq_observation = obs_observation observation,
          sreq_proposal = pb_proposal_ref basis, sreq_subject = prop_subject (pb_proposal basis),
          sreq_scope = prop_scope (pb_proposal basis), sreq_now_unix_ms = now\<rparr> = Ok standing
      \<and> st_schema standing = STANDING_RESOLUTION_SCHEMA_V2 \<and> standing_id \<noteq> [] \<and> st_resolver_id standing = standing_id
      \<and> st_key standing = meta_key (pb_meta basis) \<and> st_observation standing = obs_observation observation
      \<and> st_proposal standing = pb_proposal_ref basis \<and> st_subject standing = prop_subject (pb_proposal basis)
      \<and> st_scope standing = prop_scope (pb_proposal basis)
      \<and> st_resolved_at_unix_ms standing \<le> now \<and> now < st_expires_at_unix_ms standing
      \<and> unat (st_expires_at_unix_ms standing) - unat (st_resolved_at_unix_ms standing) \<le> unat ttl
      \<and> st_status standing = Standing_Current
      \<and> (prop_repair (pb_proposal basis) = None \<or> prop_repair (pb_proposal basis) = controlling)
      \<and> decider \<lparr>areq_proposal = pb_proposal basis, areq_observation = observation, areq_standing = standing,
          areq_controlling_rejected_review = controlling\<rparr> = Ok decision
      \<and> ad_key decision = meta_key (pb_meta basis) \<and> ad_observation decision = obs_observation observation
      \<and> ad_proposal decision = pb_proposal_ref basis \<and> ad_standing_resolution decision = st_resolution standing
      \<and> ad_disposition decision = Admitted)"
proof -
  have window: "(st_expires_at_unix_ms s - st_resolved_at_unix_ms s \<le> ttl)
      = (unat (st_expires_at_unix_ms s) - unat (st_resolved_at_unix_ms s) \<le> unat ttl)"
    if "st_resolved_at_unix_ms s \<le> now" "now < st_expires_at_unix_ms s" for s
    using order.strict_trans1 [OF that] by (simp add: word_le_nat_alt unat_sub [OF order.strict_implies_order])
  show ?thesis
    unfolding resolve_admissibility_ok resolve_standing_ok live_standing_def using window by blast
qed

text \<open>C26. A residual discharge is exact accounting: on canonical residuals it succeeds exactly when
  the disposition is bound to the halted occurrence and decision and splits the open
  identities into closed (all authorized) and remaining ones, and it then removes precisely
  the closed obligations.\<close>

theorem residual_discharge_is_exact:
  assumes "canonical_residuals (meta_residuals (ha_meta halted))"
  shows "(apply_exact_discharge halted d decision = Ok rs) =
    (dis_campaign d = key_campaign (meta_key (ha_meta halted))
     \<and> dis_occurrence d = key_occurrence (meta_key (ha_meta halted))
     \<and> dis_program d = meta_program (ha_meta halted) \<and> dis_disposition d = decision
     \<and> distinct (dis_before d) \<and> distinct (dis_authorized d) \<and> distinct (dis_closed d) \<and> distinct (dis_after d)
     \<and> set (dis_before d) = residual_ids (meta_residuals (ha_meta halted))
     \<and> set (dis_authorized d) = set (dis_closed d) \<and> set (dis_closed d) \<inter> set (dis_after d) = {}
     \<and> set (dis_before d) = set (dis_closed d) \<union> set (dis_after d)
     \<and> rs = ResidualSetV1 (filter (\<lambda>r. res_residual r \<notin> set (dis_closed d))
          (residual_slice (meta_residuals (ha_meta halted)))))"
  using assms by (rule apply_exact_discharge_iff)

theorem residual_discharge_is_exact_witness:
  "apply_exact_discharge
     (demo_escalated_halt\<lparr>ha_meta := demo_meta\<lparr>meta_residuals := ResidualSetV1 [demo_residual CHR ''1'', demo_residual CHR ''2'']\<rparr>\<rparr>)
     (demo_discharge\<lparr>dis_before := [ResidualIdV1 (demo_ref CHR ''1''), ResidualIdV1 (demo_ref CHR ''2'')],
        dis_authorized := [ResidualIdV1 (demo_ref CHR ''2'')], dis_closed := [ResidualIdV1 (demo_ref CHR ''2'')],
        dis_after := [ResidualIdV1 (demo_ref CHR ''1'')]\<rparr>) demo_decision
   = Ok (ResidualSetV1 [demo_residual CHR ''1''])"
proof (rule residual_discharge_is_exact [THEN iffD2])
  show "canonical_residuals (meta_residuals (ha_meta (demo_escalated_halt\<lparr>ha_meta := demo_meta\<lparr>meta_residuals :=
      ResidualSetV1 [demo_residual CHR ''1'', demo_residual CHR ''2'']\<rparr>\<rparr>)))"
    by (simp add: demo_residuals_canonical)
qed (auto simp: demo_discharge_def residual_ids_def demo_residual_def)

text \<open>A Nightshift decision basis validates exactly when its schema, rule identity, rule
  version and rule digest are the frozen ones and its atoms are one condition and one delivery
  of the closed vocabulary.\<close>

lemma decision_basis_is_exact:
  assumes "hex_law H"
  shows "(basis_validate H b = Ok ()) =
    (basis_schema b = DECISION_BASIS_SCHEMA_V1 \<and> rule_id (basis_rule b) = DECISION_BASIS_RULE_ID_V1
     \<and> rule_version (basis_rule b) = DECISION_BASIS_RULE_VERSION_V1
     \<and> canonical_digest_text (rule_digest (basis_rule b))
     \<and> Digest (rule_digest (basis_rule b)) = decision_basis_rule_digest_v1 H
     \<and> (\<exists>condition delivery. basis_atoms b = {condition, delivery}
          \<and> condition \<in> {''condition.clean'', ''condition.condition_present'', ''condition.unresolved''}
          \<and> delivery \<in> {''delivery.qualified'', ''delivery.partial_delivery'', ''delivery.failed'',
              ''delivery.not_configured'', ''delivery.not_required''}))"
  using basis_validate_ok [OF assms, of b] by (simp add: DECISION_BASIS_ATOM_VOCABULARY_V1_def)

lemma decision_basis_is_exact_witness:
  "basis_validate demo_lib \<lparr>basis_schema = DECISION_BASIS_SCHEMA_V1,
     basis_rule = \<lparr>rule_id = DECISION_BASIS_RULE_ID_V1, rule_version = DECISION_BASIS_RULE_VERSION_V1,
       rule_digest = as_str (decision_basis_rule_digest_v1 demo_lib)\<rparr>,
     basis_atoms = {''condition.clean'', ''delivery.qualified''}\<rparr> = Ok ()"
proof -
  let ?d = "decision_basis_rule_digest_v1 demo_lib"
  have "canonical_digest_text (as_str ?d) \<and> Digest (as_str ?d) = ?d"
    using hash_text_canonical [OF demo_lib_laws] by (simp add: decision_basis_rule_digest_v1_def hash_bytes_def)
  then show ?thesis using decision_basis_is_exact [OF demo_lib_laws(2)] by auto
qed

end
